(* ===== verification/Prelude.thy ===== *)
theory Prelude
  imports
    Main
    "HOL-Library.Finite_Map"
    "HOL-Library.Sublist"
begin

text \<open>
  Shared vocabulary of the development: Go's strings, integers, maps, clock and errors,
  as far as the operator uses them, with the lemmas every component needs.
  A Go \<open>string\<close> or \<open>[]byte\<close> is a list of bytes (\<open>string\<close> in HOL), a Go
  \<open>int\<close> is an \<open>int\<close> whose 64-bit wrap-around is written out where it can matter,
  a Go map is a finite map with \<open>None\<close> for the nil map, and an \<open>error\<close> is a value.
\<close>

named_theorems go_simps "equations that evaluate the operator's pure helpers"

section \<open>Optional values\<close>

definition is_none_or :: "('a \<Rightarrow> bool) \<Rightarrow> 'a option \<Rightarrow> bool" where
  "is_none_or P x = (case x of None \<Rightarrow> True | Some y \<Rightarrow> P y)"

lemma is_none_or_simps [simp]:
  "is_none_or P None"
  "is_none_or P (Some y) = P y"
  by (simp_all add: is_none_or_def)

section \<open>Strings\<close>

text \<open>\<open>strings.HasPrefix\<close> and \<open>strings.CutPrefix\<close>.\<close>

fun cut_prefix :: "string \<Rightarrow> string \<Rightarrow> string option" where
  "cut_prefix s [] = Some s"
| "cut_prefix [] (p # ps) = None"
| "cut_prefix (c # s) (p # ps) = (if c = p then cut_prefix s ps else None)"

definition has_prefix :: "string \<Rightarrow> string \<Rightarrow> bool" where
  "has_prefix s p = (cut_prefix s p \<noteq> None)"

lemma cut_prefix_append [simp]: "cut_prefix (p @ s) p = Some s"
  by (induction p) auto

lemma cut_prefix_Some: "cut_prefix s p = Some r \<longleftrightarrow> s = p @ r"
  by (induction s p rule: cut_prefix.induct) auto

lemma has_prefix_iff: "has_prefix s p \<longleftrightarrow> (\<exists>r. s = p @ r)"
  by (auto simp: has_prefix_def cut_prefix_Some)

text \<open>
  \<open>strconv.Quote\<close>, the \<open>%q\<close> verb: ASCII as Go prints it; the bytes of a multi-byte
  sequence are copied.
\<close>

definition hex_digit :: "nat \<Rightarrow> char" where
  "hex_digit n = (if n < 10 then char_of (48 + n) else char_of (87 + n))"

definition quote_char :: "char \<Rightarrow> string" where
  "quote_char c =
     (let n = of_char c :: nat in
      if n = 34 then [char_of (92::nat), c]
      else if n = 92 then [c, c]
      else if n = 7 then [char_of (92::nat), CHR ''a'']
      else if n = 8 then [char_of (92::nat), CHR ''b'']
      else if n = 9 then [char_of (92::nat), CHR ''t'']
      else if n = 10 then [char_of (92::nat), CHR ''n'']
      else if n = 11 then [char_of (92::nat), CHR ''v'']
      else if n = 12 then [char_of (92::nat), CHR ''f'']
      else if n = 13 then [char_of (92::nat), CHR ''r'']
      else if n < 32 \<or> n = 127
        then [char_of (92::nat), CHR ''x'', hex_digit (n div 16), hex_digit (n mod 16)]
      else [c])"

definition quote :: "string \<Rightarrow> string" where
  "quote s = [char_of (34::nat)] @ concat (map quote_char s) @ [char_of (34::nat)]"

section \<open>Integers\<close>

text \<open>Go's \<open>int\<close> has 64 bits: addition wraps around.\<close>

definition int64_min :: int where "int64_min = - (2 ^ 63)"
definition int64_max :: int where "int64_max = 2 ^ 63 - 1"

definition in_int64 :: "int \<Rightarrow> bool" where
  "in_int64 x = (int64_min \<le> x \<and> x \<le> int64_max)"

definition wrap64 :: "int \<Rightarrow> int" where
  "wrap64 x = (x + 2 ^ 63) mod 2 ^ 64 - 2 ^ 63"

lemma wrap64_id: "in_int64 x \<Longrightarrow> wrap64 x = x"
  by (simp add: wrap64_def in_int64_def int64_min_def int64_max_def)

lemma wrap64_in_int64: "in_int64 (wrap64 x)"
proof -
  have "(x + 2 ^ 63) mod 2 ^ 64 < (2 ^ 64 :: int)" by (rule pos_mod_bound) simp
  moreover have "0 \<le> (x + 2 ^ 63) mod (2 ^ 64 :: int)" by (rule pos_mod_sign) simp
  ultimately show ?thesis
    by (simp add: wrap64_def in_int64_def int64_min_def int64_max_def)
qed

text \<open>\<open>strconv.Itoa\<close> and \<open>strconv.Atoi\<close> (base 10, optional sign, range checked).\<close>

definition digit_char :: "int \<Rightarrow> char" where
  "digit_char d = char_of (48 + d)"

function show_digits :: "int \<Rightarrow> string" where
  "show_digits n = (if n < 10 then [digit_char n] else show_digits (n div 10) @ [digit_char (n mod 10)])"
  by pat_completeness auto
termination
  by (relation "measure nat") auto

declare show_digits.simps [simp del]

definition itoa :: "int \<Rightarrow> string" where
  "itoa n = (if n < 0 then CHR ''-'' # show_digits (- n) else show_digits n)"

definition digit_value :: "char \<Rightarrow> int option" where
  "digit_value c = (let n = of_char c :: int in if 48 \<le> n \<and> n \<le> 57 then Some (n - 48) else None)"

fun read_digits :: "int \<Rightarrow> string \<Rightarrow> int option" where
  "read_digits acc [] = Some acc"
| "read_digits acc (c # cs) =
     (case digit_value c of None \<Rightarrow> None | Some d \<Rightarrow> read_digits (10 * acc + d) cs)"

definition read_nat :: "string \<Rightarrow> int option" where
  "read_nat s = (if s = [] then None else read_digits 0 s)"

definition atoi :: "string \<Rightarrow> int option" where
  "atoi s =
     (let v = (case s of
                 [] \<Rightarrow> None
               | c # cs \<Rightarrow> (if c = CHR ''-'' then map_option uminus (read_nat cs)
                           else if c = CHR ''+'' then read_nat cs
                           else read_nat s))
      in case v of Some n \<Rightarrow> (if in_int64 n then Some n else None) | None \<Rightarrow> None)"

lemma of_char_digit: "0 \<le> d \<Longrightarrow> d < 10 \<Longrightarrow> of_char (digit_char d) = 48 + d"
  by (simp add: digit_char_def of_char_of)

lemma digit_value_char: "0 \<le> d \<Longrightarrow> d < 10 \<Longrightarrow> digit_value (digit_char d) = Some d"
  by (simp add: digit_value_def of_char_digit Let_def)

lemma digit_char_neq_sign:
  "0 \<le> d \<Longrightarrow> d < 10 \<Longrightarrow> digit_char d \<noteq> CHR ''-''"
  "0 \<le> d \<Longrightarrow> d < 10 \<Longrightarrow> digit_char d \<noteq> CHR ''+''"
  using of_char_digit [of d] by auto

lemma read_digits_append:
  "read_digits acc (xs @ ys) = Option.bind (read_digits acc xs) (\<lambda>a. read_digits a ys)"
  by (induction xs arbitrary: acc) (auto split: option.splits)

lemma read_digits_show:
  "0 \<le> n \<Longrightarrow> \<exists>k. \<forall>acc. read_digits acc (show_digits n) = Some (acc * 10 ^ k + n)"
proof (induction n rule: show_digits.induct)
  case (1 n)
  show ?case
  proof (cases "n < 10")
    case True
    with "1.prems" have "\<forall>acc. read_digits acc (show_digits n) = Some (acc * 10 ^ 1 + n)"
      by (subst show_digits.simps) (simp add: digit_value_char)
    then show ?thesis by blast
  next
    case False
    with "1" obtain k
      where "\<forall>acc. read_digits acc (show_digits (n div 10)) = Some (acc * 10 ^ k + n div 10)"
      by fastforce
    with False have "\<forall>acc. read_digits acc (show_digits n) = Some (acc * 10 ^ Suc k + n)"
      by (subst show_digits.simps) (simp add: read_digits_append digit_value_char)
    then show ?thesis by blast
  qed
qed

lemma hd_show_digits:
  "0 \<le> n \<Longrightarrow> \<exists>d cs. 0 \<le> d \<and> d < 10 \<and> show_digits n = digit_char d # cs"
proof (induction n rule: show_digits.induct)
  case (1 n)
  show ?case
  proof (cases "n < 10")
    case True
    with "1.prems" show ?thesis by (subst show_digits.simps) auto
  next
    case False
    with "1" obtain d cs where "0 \<le> d" "d < 10" "show_digits (n div 10) = digit_char d # cs"
      by fastforce
    with False show ?thesis by (subst show_digits.simps) auto
  qed
qed

lemma read_nat_show [simp]: "0 \<le> n \<Longrightarrow> read_nat (show_digits n) = Some n"
  using read_digits_show [of n] hd_show_digits [of n] by (auto simp: read_nat_def)

lemma atoi_itoa: "in_int64 n \<Longrightarrow> atoi (itoa n) = Some n"
proof (cases "n < 0")
  case True
  assume "in_int64 n"
  with True show ?thesis by (simp add: atoi_def itoa_def Let_def)
next
  case False
  assume r: "in_int64 n"
  from False have "0 \<le> n" by simp
  then obtain d cs where d: "0 \<le> d" "d < 10" "show_digits n = digit_char d # cs"
    using hd_show_digits by blast
  have "read_nat (digit_char d # cs) = Some n"
    using read_nat_show [of n] d(3) \<open>0 \<le> n\<close> by simp
  with d False r show ?thesis
    by (simp add: atoi_def itoa_def Let_def digit_char_neq_sign)
qed

text \<open>
  \<open>float64(x)\<close> for an integer: exact below \<open>2 ^ 53\<close>, otherwise rounded to 53
  significant bits, ties to even. The result is again an integer.
\<close>

function bit_len :: "int \<Rightarrow> nat" where
  "bit_len n = (if n \<le> 0 then 0 else Suc (bit_len (n div 2)))"
  by pat_completeness auto
termination
  by (relation "measure nat") auto

declare bit_len.simps [simp del]

definition float64_of_int :: "int \<Rightarrow> int" where
  "float64_of_int x =
     (let a = \<bar>x\<bar> in
      if a < 2 ^ 53 then x
      else let u = 2 ^ (bit_len a - 53); q = a div u; r = a mod u;
               q' = (if u < 2 * r \<or> (u = 2 * r \<and> odd q) then q + 1 else q)
           in sgn x * (q' * u))"

lemma float64_of_int_exact: "\<bar>x\<bar> < 2 ^ 53 \<Longrightarrow> float64_of_int x = x"
  by (simp add: float64_of_int_def Let_def)

section \<open>Go maps with string keys\<close>

type_synonym 'v gomap = "(string, 'v) fmap option"

definition map_get :: "'v gomap \<Rightarrow> string \<Rightarrow> 'v option" where
  "map_get m k = (case m of None \<Rightarrow> None | Some f \<Rightarrow> fmlookup f k)"

text \<open>Reading a missing key gives the zero value of the element type.\<close>

definition map_get_or :: "'v \<Rightarrow> 'v gomap \<Rightarrow> string \<Rightarrow> 'v" where
  "map_get_or z m k = (case map_get m k of None \<Rightarrow> z | Some v \<Rightarrow> v)"

definition non_nil :: "'v gomap \<Rightarrow> 'v gomap" where
  "non_nil m = (case m of None \<Rightarrow> Some fmempty | Some f \<Rightarrow> Some f)"

definition map_put :: "string \<Rightarrow> 'v \<Rightarrow> 'v gomap \<Rightarrow> 'v gomap" where
  "map_put k v m = map_option (fmupd k v) m"

definition map_delete :: "string \<Rightarrow> 'v gomap \<Rightarrow> 'v gomap" where
  "map_delete k m = map_option (fmdrop k) m"

lemma map_get_non_nil [simp]: "map_get (non_nil m) k = map_get m k"
  by (simp add: map_get_def non_nil_def split: option.splits)

lemma map_get_put [simp]:
  "map_get (map_put k v (non_nil m)) k' = (if k = k' then Some v else map_get m k')"
  by (simp add: map_get_def map_put_def non_nil_def split: option.splits)

lemma map_get_delete [simp]:
  "map_get (map_delete k (non_nil m)) k' = (if k = k' then None else map_get m k')"
  by (simp add: map_get_def map_delete_def non_nil_def split: option.splits)

lemma non_nil_Some: "\<exists>f. non_nil m = Some f"
  by (simp add: non_nil_def split: option.splits)

text \<open>A slice that is only passed on: \<open>None\<close> for the nil slice.\<close>

type_synonym 'a goslice = "'a list option"

section \<open>Time\<close>

text \<open>Instants and durations are nanoseconds; \<open>zero_time\<close> is Go's zero \<open>time.Time\<close>.\<close>

type_synonym time = int
type_synonym duration = int

definition second :: duration where "second = 1000000000"
definition minute :: duration where "minute = 60 * second"
definition hour :: duration where "hour = 60 * minute"

definition zero_time :: time where "zero_time = - (62135596800 * second)"

text \<open>\<open>Time.Sub\<close> saturates at the ends of the 64-bit duration range.\<close>

definition time_sub :: "time \<Rightarrow> time \<Rightarrow> duration" where
  "time_sub t u = max int64_min (min int64_max (t - u))"

text \<open>\<open>(*metav1.Time).IsZero\<close>: true of the nil pointer and of the zero instant.\<close>

definition is_zero :: "time option \<Rightarrow> bool" where
  "is_zero t = (case t of None \<Rightarrow> True | Some x \<Rightarrow> x = zero_time)"

lemmas duration_defs = second_def minute_def hour_def

section \<open>Errors\<close>

text \<open>
  An \<open>error\<close> value: an API status error with its reason and text, a GitLab client error
  with its text, a \<open>fmt.Errorf\<close> text with the error it wraps, or a run-time panic. A panic is
  kept as a value so that its absence can be stated.
\<close>

datatype api_reason = NotFound | AlreadyExists | Conflict | OtherReason string

datatype goerr =
    ApiStatus api_reason string
  | GitlabErr string
  | Errorf string "goerr option"
  | Panic string

primrec err_text :: "goerr \<Rightarrow> string" where
  "err_text (ApiStatus r m) = m"
| "err_text (GitlabErr m) = m"
| "err_text (Errorf m c) = m"
| "err_text (Panic m) = m"

text \<open>\<open>apierrors.ReasonForError\<close> looks through the wrapped errors.\<close>

fun err_reason :: "goerr \<Rightarrow> api_reason option" where
  "err_reason (ApiStatus r m) = Some r"
| "err_reason (Errorf m (Some c)) = err_reason c"
| "err_reason e = None"

definition IsNotFound :: "goerr \<Rightarrow> bool" where
  "IsNotFound e = (err_reason e = Some NotFound)"

definition IsAlreadyExists :: "goerr \<Rightarrow> bool" where
  "IsAlreadyExists e = (err_reason e = Some AlreadyExists)"

definition IsConflict :: "goerr \<Rightarrow> bool" where
  "IsConflict e = (err_reason e = Some Conflict)"

definition err_new :: "string \<Rightarrow> goerr" where
  "err_new m = Errorf m None"

definition err_wrap :: "string \<Rightarrow> goerr \<Rightarrow> goerr" where
  "err_wrap m c = Errorf (m @ '': '' @ err_text c) (Some c)"

text \<open>\<open>client.IgnoreNotFound\<close>.\<close>

definition IgnoreNotFound :: "goerr \<Rightarrow> goerr option" where
  "IgnoreNotFound e = (if IsNotFound e then None else Some e)"

lemma err_wrap_reason [simp]: "err_reason (err_wrap m c) = err_reason c"
  by (simp add: err_wrap_def)

lemma err_new_reason [simp]: "err_reason (err_new m) = None"
  by (simp add: err_new_def)

lemma err_not_panic [simp]:
  "err_new m \<noteq> Panic p"
  "err_wrap m c \<noteq> Panic p"
  by (simp_all add: err_new_def err_wrap_def)

end
