(* ===== verification/Hashes.thy ===== *)
theory Hashes
  imports Prelude "HOL-Library.Word"
begin

text \<open>
  The digests the operator computes: SHA-1 for the config version
  (\<open>internal/crypto/crypto.go\<close>) and the create-options hash, SHA-256 for the runner's system id
  (\<open>internal/generate/system_id.go\<close>), both printed in lower-case hex. \<open>crypto/sha1\<close>,
  \<open>crypto/sha256\<close> and \<open>encoding/hex\<close> are Go's standard library, modelled on 32-bit words.
\<close>

unbundle bit_operations_syntax

type_synonym u32 = "32 word"

section \<open>Bytes, words and blocks\<close>

definition byte_of :: "char \<Rightarrow> int" where
  "byte_of c = of_char c"

definition word_be :: "int list \<Rightarrow> u32" where
  "word_be bs = word_of_int (foldl (\<lambda>acc b. 256 * acc + b) 0 bs)"

definition bytes_be :: "u32 \<Rightarrow> int list" where
  "bytes_be w = map (\<lambda>d. uint w div d mod 256) [16777216, 65536, 256, 1]"

fun chunks :: "nat \<Rightarrow> 'a list \<Rightarrow> 'a list list" where
  "chunks k xs = (if k = 0 \<or> xs = [] then [] else take k xs # chunks k (drop k xs))"

declare chunks.simps [simp del]

text \<open>Merkle-Damgard padding to a multiple of 64 bytes, with the bit length in 8 bytes.\<close>

definition md_pad :: "int list \<Rightarrow> int list" where
  "md_pad m =
     (let n = length m; z = (119 - n mod 64) mod 64;
          len = map (\<lambda>k. (8 * int n) div 256 ^ k mod 256) [7, 6, 5, 4, 3, 2, 1, 0]
      in m @ [128] @ replicate z 0 @ len)"

lemma md_pad_length: "length (md_pad m) mod 64 = 0"
proof -
  have "length (md_pad m) = length m + 9 + (119 - length m mod 64) mod 64"
    by (simp add: md_pad_def Let_def)
  moreover have "(n + 9 + (119 - n mod 64) mod 64) mod 64 = 0" for n :: nat
  proof -
    define r q where "r = n mod 64" and "q = n div 64"
    have n: "n = 64 * q + r" and r: "r < 64" by (simp_all add: r_def q_def)
    show ?thesis
    proof (cases "r \<le> 55")
      case True
      then have "(119 - r) mod 64 = 55 - r" using mod_add_self1 [of 64 "55 - r"] by simp
      with True n have "n + 9 + (119 - r) mod 64 = 64 * (q + 1)" by simp
      then show ?thesis unfolding r_def [symmetric] by (metis mod_mult_self1_is_0)
    next
      case False
      with r have "(119 - r) mod 64 = 119 - r" by simp
      with False r n have "n + 9 + (119 - r) mod 64 = 64 * (q + 2)" by simp
      then show ?thesis unfolding r_def [symmetric] by (metis mod_mult_self1_is_0)
    qed
  qed
  ultimately show ?thesis by simp
qed

definition md_blocks :: "string \<Rightarrow> u32 list list" where
  "md_blocks s = map (\<lambda>b. map word_be (chunks 4 b)) (chunks 64 (md_pad (map byte_of s)))"

section \<open>SHA-1\<close>

record sha1_state =
  s1a :: u32
  s1b :: u32
  s1c :: u32
  s1d :: u32
  s1e :: u32

definition sha1_init :: sha1_state where
  "sha1_init = \<lparr>s1a = 0x67452301, s1b = 0xEFCDAB89, s1c = 0x98BADCFE,
     s1d = 0x10325476, s1e = 0xC3D2E1F0\<rparr>"

definition sha1_f :: "nat \<Rightarrow> u32 \<Rightarrow> u32 \<Rightarrow> u32 \<Rightarrow> u32" where
  "sha1_f t b c d =
     (if t < 20 then (b AND c) OR (NOT b AND d)
      else if t < 40 then b XOR c XOR d
      else if t < 60 then (b AND c) OR (b AND d) OR (c AND d)
      else b XOR c XOR d)"

definition sha1_k :: "nat \<Rightarrow> u32" where
  "sha1_k t = (if t < 20 then 0x5A827999 else if t < 40 then 0x6ED9EBA1
               else if t < 60 then 0x8F1BBCDC else 0xCA62C1D6)"

text \<open>The message schedule is a sliding window of the next 16 words.\<close>

fun sha1_rounds :: "nat \<Rightarrow> nat \<Rightarrow> u32 list \<Rightarrow> sha1_state \<Rightarrow> sha1_state" where
  "sha1_rounds 0 t ws s = s"
| "sha1_rounds (Suc n) t ws s =
     (let w = ws ! 0;
          x = word_rotl 1 (ws ! 13 XOR ws ! 8 XOR ws ! 2 XOR ws ! 0);
          temp = word_rotl 5 (s1a s) + sha1_f t (s1b s) (s1c s) (s1d s) + s1e s + sha1_k t + w
      in sha1_rounds n (t + 1) (tl ws @ [x])
           \<lparr>s1a = temp, s1b = s1a s, s1c = word_rotl 30 (s1b s), s1d = s1c s, s1e = s1d s\<rparr>)"

definition sha1_block :: "sha1_state \<Rightarrow> u32 list \<Rightarrow> sha1_state" where
  "sha1_block s ws =
     (let r = sha1_rounds 80 0 ws s
      in \<lparr>s1a = s1a s + s1a r, s1b = s1b s + s1b r, s1c = s1c s + s1c r,
          s1d = s1d s + s1d r, s1e = s1e s + s1e r\<rparr>)"

definition sha1 :: "string \<Rightarrow> int list" where
  "sha1 m = (let s = foldl sha1_block sha1_init (md_blocks m)
             in concat (map bytes_be [s1a s, s1b s, s1c s, s1d s, s1e s]))"

section \<open>SHA-256\<close>

definition sha256_k :: "u32 list" where
  "sha256_k =
   [0x428a2f98, 0x71374491, 0xb5c0fbcf, 0xe9b5dba5, 0x3956c25b, 0x59f111f1, 0x923f82a4, 0xab1c5ed5,
    0xd807aa98, 0x12835b01, 0x243185be, 0x550c7dc3, 0x72be5d74, 0x80deb1fe, 0x9bdc06a7, 0xc19bf174,
    0xe49b69c1, 0xefbe4786, 0x0fc19dc6, 0x240ca1cc, 0x2de92c6f, 0x4a7484aa, 0x5cb0a9dc, 0x76f988da,
    0x983e5152, 0xa831c66d, 0xb00327c8, 0xbf597fc7, 0xc6e00bf3, 0xd5a79147, 0x06ca6351, 0x14292967,
    0x27b70a85, 0x2e1b2138, 0x4d2c6dfc, 0x53380d13, 0x650a7354, 0x766a0abb, 0x81c2c92e, 0x92722c85,
    0xa2bfe8a1, 0xa81a664b, 0xc24b8b70, 0xc76c51a3, 0xd192e819, 0xd6990624, 0xf40e3585, 0x106aa070,
    0x19a4c116, 0x1e376c08, 0x2748774c, 0x34b0bcb5, 0x391c0cb3, 0x4ed8aa4a, 0x5b9cca4f, 0x682e6ff3,
    0x748f82ee, 0x78a5636f, 0x84c87814, 0x8cc70208, 0x90befffa, 0xa4506ceb, 0xbef9a3f7, 0xc67178f2]"

record sha256_state =
  s2a :: u32
  s2b :: u32
  s2c :: u32
  s2d :: u32
  s2e :: u32
  s2f :: u32
  s2g :: u32
  s2h :: u32

definition sha256_init :: sha256_state where
  "sha256_init = \<lparr>s2a = 0x6a09e667, s2b = 0xbb67ae85, s2c = 0x3c6ef372, s2d = 0xa54ff53a,
     s2e = 0x510e527f, s2f = 0x9b05688c, s2g = 0x1f83d9ab, s2h = 0x5be0cd19\<rparr>"

fun sha256_rounds :: "u32 list \<Rightarrow> u32 list \<Rightarrow> sha256_state \<Rightarrow> sha256_state" where
  "sha256_rounds [] ws s = s"
| "sha256_rounds (k # ks) ws s =
     (let w = ws ! 0; w1 = ws ! 1; w14 = ws ! 14;
          x = (word_rotr 17 w14 XOR word_rotr 19 w14 XOR drop_bit 10 w14) + ws ! 9
              + (word_rotr 7 w1 XOR word_rotr 18 w1 XOR drop_bit 3 w1) + w;
          e = s2e s; a = s2a s;
          t1 = s2h s + (word_rotr 6 e XOR word_rotr 11 e XOR word_rotr 25 e)
               + ((e AND s2f s) XOR (NOT e AND s2g s)) + k + w;
          t2 = (word_rotr 2 a XOR word_rotr 13 a XOR word_rotr 22 a)
               + ((a AND s2b s) XOR (a AND s2c s) XOR (s2b s AND s2c s))
      in sha256_rounds ks (tl ws @ [x])
           \<lparr>s2a = t1 + t2, s2b = a, s2c = s2b s, s2d = s2c s,
            s2e = s2d s + t1, s2f = e, s2g = s2f s, s2h = s2g s\<rparr>)"

definition sha256_block :: "sha256_state \<Rightarrow> u32 list \<Rightarrow> sha256_state" where
  "sha256_block s ws =
     (let r = sha256_rounds sha256_k ws s
      in \<lparr>s2a = s2a s + s2a r, s2b = s2b s + s2b r, s2c = s2c s + s2c r, s2d = s2d s + s2d r,
          s2e = s2e s + s2e r, s2f = s2f s + s2f r, s2g = s2g s + s2g r, s2h = s2h s + s2h r\<rparr>)"

definition sha256 :: "string \<Rightarrow> int list" where
  "sha256 m = (let s = foldl sha256_block sha256_init (md_blocks m)
               in concat (map bytes_be [s2a s, s2b s, s2c s, s2d s, s2e s, s2f s, s2g s, s2h s]))"

section \<open>Hex\<close>

definition hex_encode :: "int list \<Rightarrow> string" where
  "hex_encode bs = concat (map (\<lambda>b. [hex_digit (nat (b div 16)), hex_digit (nat (b mod 16))]) bs)"

section \<open>The operator's digests\<close>

text \<open>\<open>crypto.StringToSHA1\<close>.\<close>

definition StringToSHA1 :: "string \<Rightarrow> string" where
  "StringToSHA1 input = hex_encode (sha1 input)"

definition systemIDLength :: nat where
  "systemIDLength = 12"

text \<open>\<open>generate.SystemID\<close>.\<close>

definition SystemID :: "string \<Rightarrow> string" where
  "SystemID uid = ''r_'' @ take systemIDLength (hex_encode (sha256 uid))"

section \<open>The shape of a digest\<close>

text \<open>
  What the callers rely on: a digest function yields a fixed number of bytes, each below 256,
  and its hex text has two digits of \<open>[0-9a-f]\<close> per byte. The two digest functions are
  instances of one interface.
\<close>

definition hex_char :: "char \<Rightarrow> bool" where
  "hex_char c = (c \<in> set ''0123456789abcdef'')"

lemma hex_digit_char: "n < 16 \<Longrightarrow> hex_char (hex_digit n)"
proof -
  have "list_all (\<lambda>k. hex_char (hex_digit k)) [0..<16]" by code_simp
  then show "n < 16 \<Longrightarrow> hex_char (hex_digit n)" by (simp add: list_all_iff)
qed

lemma bytes_be_length [simp]: "length (bytes_be w) = 4"
  by (simp add: bytes_be_def)

lemma bytes_be_range: "b \<in> set (bytes_be w) \<Longrightarrow> 0 \<le> b \<and> b < 256"
  by (auto simp: bytes_be_def)

locale digest =
  fixes sum :: "string \<Rightarrow> int list"
    and size :: nat
  assumes sum_length: "length (sum m) = size"
    and sum_range: "b \<in> set (sum m) \<Longrightarrow> 0 \<le> b \<and> b < 256"
begin

lemma hex_length: "length (hex_encode (sum m)) = 2 * size"
proof -
  have "length (hex_encode bs) = 2 * length bs" for bs
    by (induction bs) (simp_all add: hex_encode_def)
  then show ?thesis by (simp add: sum_length)
qed

lemma hex_chars: "list_all hex_char (hex_encode (sum m))"
proof -
  have "(\<forall>b \<in> set bs. 0 \<le> b \<and> b < 256) \<Longrightarrow> list_all hex_char (hex_encode bs)" for bs
    by (induction bs) (auto simp: hex_encode_def hex_digit_char nat_less_iff)
  then show ?thesis using sum_range by blast
qed

lemma hex_prefix_length: "n \<le> 2 * size \<Longrightarrow> length (take n (hex_encode (sum m))) = n"
  by (simp add: hex_length)

lemma hex_prefix_chars: "list_all hex_char (take n (hex_encode (sum m)))"
  using hex_chars [of m] by (auto simp: list_all_iff dest: in_set_takeD)

end

interpretation sha1: digest sha1 20
  by unfold_locales (auto simp: sha1_def Let_def dest: bytes_be_range)

interpretation sha256: digest sha256 32
  by unfold_locales (auto simp: sha256_def Let_def dest: bytes_be_range)

text \<open>The format \<open>^[sr]_[0-9a-zA-Z]{12}$\<close> that gitlab-runner requires of a system id.\<close>

definition alnum :: "char \<Rightarrow> bool" where
  "alnum c = (c \<in> set ''0123456789abcdefghijklmnopqrstuvwxyzABCDEFGHIJKLMNOPQRSTUVWXYZ'')"

definition system_id_format :: "string \<Rightarrow> bool" where
  "system_id_format s =
     (length s = 14 \<and> s ! 0 \<in> {CHR ''s'', CHR ''r''} \<and> s ! 1 = CHR ''_'' \<and> list_all alnum (drop 2 s))"

lemma hex_char_alnum: "hex_char c \<Longrightarrow> alnum c"
  by (auto simp: hex_char_def alnum_def)

lemma SystemID_split: "\<exists>t. SystemID uid = ''r_'' @ t \<and> length t = 12 \<and> list_all hex_char t"
  using sha256.hex_prefix_length [of 12 uid] sha256.hex_prefix_chars [of 12 uid]
  by (auto simp: SystemID_def systemIDLength_def)

lemma StringToSHA1_length: "length (StringToSHA1 s) = 40"
  using sha1.hex_length [of s] by (simp add: StringToSHA1_def)

lemma StringToSHA1_nonempty [simp]: "StringToSHA1 s \<noteq> []"
  using StringToSHA1_length [of s] by force

end
