(* ===== verification/Auth_Types.thy ===== *)
theory Auth_Types
  imports Hashes
begin

text \<open>
  \<open>api/v1beta2/auth_types.go\<close>, \<open>ca_types.go\<close> and \<open>reg.go\<close>: where credentials and CA bundles
  come from, the two authentication modes, the options of a managed runner with their digest,
  and the registration record that the reconciler hands around. A Go pointer is an \<open>option\<close>.
  The CEL rules of the CRD (\<open>XValidation\<close> markers) are predicates \<open>..._admitted\<close>.
\<close>

section \<open>Token sources\<close>

record SecretKeySelector =
  sks_Name :: string
  sks_Key :: string
  sks_Optional :: "bool option"

record TokenSource =
  ts_Value :: string
  ts_SecretKeyRef :: "SecretKeySelector option"

definition TokenSource_IsSet :: "TokenSource option \<Rightarrow> bool" where
  "TokenSource_IsSet t =
     (case t of None \<Rightarrow> False | Some s \<Rightarrow> ts_Value s \<noteq> '''' \<or> ts_SecretKeyRef s \<noteq> None)"

definition TokenSource_admitted :: "TokenSource \<Rightarrow> bool" where
  "TokenSource_admitted s = ((ts_Value s \<noteq> '''') \<noteq> (ts_SecretKeyRef s \<noteq> None))"

section \<open>CA bundle sources\<close>

definition DefaultCAKey :: string where
  "DefaultCAKey = ''ca.crt''"

record CAKeyRef =
  car_Name :: string
  car_Key :: string

record CASource =
  ca_Value :: string
  ca_SecretKeyRef :: "CAKeyRef option"
  ca_ConfigMapKeyRef :: "CAKeyRef option"

definition CASource_IsSet :: "CASource option \<Rightarrow> bool" where
  "CASource_IsSet c =
     (case c of
        None \<Rightarrow> False
      | Some s \<Rightarrow> ca_Value s \<noteq> '''' \<or> ca_SecretKeyRef s \<noteq> None \<or> ca_ConfigMapKeyRef s \<noteq> None)"

definition CASource_admitted :: "CASource \<Rightarrow> bool" where
  "CASource_admitted s =
     (length (filter id [ca_Value s \<noteq> '''', ca_SecretKeyRef s \<noteq> None, ca_ConfigMapKeyRef s \<noteq> None]) \<le> 1)"

section \<open>Create options\<close>

record RunnerCreateOptions =
  rco_RunnerType :: string
  rco_GroupID :: "int option"
  rco_ProjectID :: "int option"
  rco_Description :: string
  rco_Paused :: "bool option"
  rco_Locked :: "bool option"
  rco_RunUntagged :: "bool option"
  rco_TagList :: "string list"
  rco_AccessLevel :: string
  rco_MaximumTimeout :: "int option"
  rco_MaintenanceNote :: string

definition RunnerCreateOptions_admitted :: "RunnerCreateOptions \<Rightarrow> bool" where
  "RunnerCreateOptions_admitted co =
     (rco_RunnerType co \<in> {''instance_type'', ''group_type'', ''project_type''} \<and>
      (rco_RunnerType co \<noteq> ''group_type'' \<or> rco_GroupID co \<noteq> None) \<and>
      (rco_RunnerType co \<noteq> ''project_type'' \<or> rco_ProjectID co \<noteq> None))"

section \<open>JSON text\<close>

text \<open>
  \<open>json.Marshal\<close> of the options: Go's \<open>encoding/json\<close> string escaping, byte by byte, with
  its handling of UTF-8. \<open>utf8_size\<close> is the length of the valid encoded rune at the front,
  0 when there is none.
\<close>

definition cont_byte :: "char \<Rightarrow> bool" where
  "cont_byte c = (128 \<le> byte_of c \<and> byte_of c < 192)"

definition byte_in :: "int \<Rightarrow> int \<Rightarrow> char \<Rightarrow> bool" where
  "byte_in lo hi c = (lo \<le> byte_of c \<and> byte_of c \<le> hi)"

fun utf8_size :: "string \<Rightarrow> nat" where
  "utf8_size [] = 0"
| "utf8_size (c # cs) =
     (let b = byte_of c in
      if b < 128 then 1
      else case cs of
        [] \<Rightarrow> 0
      | d # ds \<Rightarrow>
          (if 194 \<le> b \<and> b \<le> 223 then (if cont_byte d then 2 else 0)
           else case ds of
             [] \<Rightarrow> 0
           | e # es \<Rightarrow>
               (if b = 224 then (if byte_in 160 191 d \<and> cont_byte e then 3 else 0)
                else if b = 237 then (if byte_in 128 159 d \<and> cont_byte e then 3 else 0)
                else if 225 \<le> b \<and> b \<le> 239 then (if cont_byte d \<and> cont_byte e then 3 else 0)
                else case es of
                  [] \<Rightarrow> 0
                | f # fs \<Rightarrow>
                    (if b = 240 then (if byte_in 144 191 d \<and> cont_byte e \<and> cont_byte f then 4 else 0)
                     else if b = 244 then (if byte_in 128 143 d \<and> cont_byte e \<and> cont_byte f then 4 else 0)
                     else if 241 \<le> b \<and> b \<le> 243
                       then (if cont_byte d \<and> cont_byte e \<and> cont_byte f then 4 else 0)
                     else 0))))"

definition backslash :: char where
  "backslash = char_of (92 :: nat)"

definition json_ascii :: "char \<Rightarrow> string" where
  "json_ascii c =
     (let b = byte_of c in
      if b = 34 \<or> b = 92 then [backslash, c]
      else if b = 8 then [backslash, CHR ''b'']
      else if b = 12 then [backslash, CHR ''f'']
      else if b = 10 then [backslash, CHR ''n'']
      else if b = 13 then [backslash, CHR ''r'']
      else if b = 9 then [backslash, CHR ''t'']
      else if b < 32 \<or> b = 60 \<or> b = 62 \<or> b = 38
        then [backslash, CHR ''u'', CHR ''0'', CHR ''0'', hex_digit (nat (b div 16)), hex_digit (nat (b mod 16))]
      else [c])"

text \<open>U+2028 and U+2029 are escaped, an invalid byte becomes U+FFFD.\<close>

definition json_rune :: "string \<Rightarrow> string" where
  "json_rune r =
     (if map byte_of r = [226, 128, 168] then [backslash] @ ''u2028''
      else if map byte_of r = [226, 128, 169] then [backslash] @ ''u2029''
      else r)"

function json_chars :: "string \<Rightarrow> string" where
  "json_chars [] = []"
| "json_chars (c # cs) =
     (if byte_of c < 128 then json_ascii c @ json_chars cs
      else let k = utf8_size (c # cs) in
        if k = 0 then [backslash] @ ''ufffd'' @ json_chars cs
        else json_rune (c # take (k - 1) cs) @ json_chars (drop (k - 1) cs))"
  by pat_completeness auto
termination
  by (relation "measure length") auto

definition json_string :: "string \<Rightarrow> string" where
  "json_string s = [CHR 0x22] @ json_chars s @ [CHR 0x22]"

definition json_int :: "int \<Rightarrow> string" where
  "json_int n = itoa n"

definition json_bool :: "bool \<Rightarrow> string" where
  "json_bool b = (if b then ''true'' else ''false'')"

fun intercalate :: "string \<Rightarrow> string list \<Rightarrow> string" where
  "intercalate sep [] = []"
| "intercalate sep [x] = x"
| "intercalate sep (x # y # zs) = x @ sep @ intercalate sep (y # zs)"

definition json_array :: "string list \<Rightarrow> string" where
  "json_array xs = ''['' @ intercalate '','' (map json_string xs) @ '']''"

text \<open>A member, and an \<open>omitempty\<close> member of a pointer, a string or a slice.\<close>

definition json_member :: "string \<Rightarrow> string \<Rightarrow> string" where
  "json_member k v = json_string k @ '':'' @ v"

definition json_opt :: "string \<Rightarrow> ('a \<Rightarrow> string) \<Rightarrow> 'a option \<Rightarrow> string list" where
  "json_opt k enc v = (case v of None \<Rightarrow> [] | Some x \<Rightarrow> [json_member k (enc x)])"

definition json_nonempty :: "string \<Rightarrow> ('a list \<Rightarrow> string) \<Rightarrow> 'a list \<Rightarrow> string list" where
  "json_nonempty k enc v = (if v = [] then [] else [json_member k (enc v)])"

definition RunnerCreateOptions_json :: "RunnerCreateOptions \<Rightarrow> string" where
  "RunnerCreateOptions_json co =
     ''{'' @ intercalate '',''
       ([json_member ''runner_type'' (json_string (rco_RunnerType co))]
        @ json_opt ''group_id'' json_int (rco_GroupID co)
        @ json_opt ''project_id'' json_int (rco_ProjectID co)
        @ json_nonempty ''description'' json_string (rco_Description co)
        @ json_opt ''paused'' json_bool (rco_Paused co)
        @ json_opt ''locked'' json_bool (rco_Locked co)
        @ json_opt ''run_untagged'' json_bool (rco_RunUntagged co)
        @ json_nonempty ''tag_list'' json_array (rco_TagList co)
        @ json_nonempty ''access_level'' json_string (rco_AccessLevel co)
        @ json_opt ''maximum_timeout'' json_int (rco_MaximumTimeout co)
        @ json_nonempty ''maintenance_note'' json_string (rco_MaintenanceNote co))
     @ ''}''"

text \<open>\<open>(*RunnerCreateOptions).Hash\<close>; marshalling this struct cannot fail.\<close>

definition RunnerCreateOptions_Hash :: "RunnerCreateOptions option \<Rightarrow> string" where
  "RunnerCreateOptions_Hash c =
     (case c of None \<Rightarrow> '''' | Some co \<Rightarrow> hex_encode (sha1 (RunnerCreateOptions_json co)))"

lemma Hash_nonempty: "RunnerCreateOptions_Hash (Some co) \<noteq> ''''"
  using StringToSHA1_nonempty [of "RunnerCreateOptions_json co"]
  by (simp add: RunnerCreateOptions_Hash_def StringToSHA1_def)

section \<open>Authentication modes and registration records\<close>

record GitlabAuth =
  auth_Token :: "TokenSource option"
  auth_AccessToken :: "TokenSource option"
  auth_CreateOptions :: "RunnerCreateOptions option"

definition IsManaged :: "GitlabAuth option \<Rightarrow> bool" where
  "IsManaged a = (case a of None \<Rightarrow> False | Some x \<Rightarrow> auth_CreateOptions x \<noteq> None)"

lemma IsManaged_Some [simp]: "IsManaged (Some a) \<longleftrightarrow> (\<exists>co. auth_CreateOptions a = Some co)"
  by (auto simp: IsManaged_def)

definition GitlabAuth_admitted :: "GitlabAuth \<Rightarrow> bool" where
  "GitlabAuth_admitted a =
     ((auth_Token a \<noteq> None \<or> auth_CreateOptions a \<noteq> None) \<and>
      \<not> (auth_Token a \<noteq> None \<and> auth_CreateOptions a \<noteq> None) \<and>
      (auth_CreateOptions a = None \<or> auth_AccessToken a \<noteq> None) \<and>
      (auth_AccessToken a = None \<or> auth_CreateOptions a \<noteq> None) \<and>
      is_none_or TokenSource_admitted (auth_Token a) \<and>
      is_none_or TokenSource_admitted (auth_AccessToken a) \<and>
      is_none_or RunnerCreateOptions_admitted (auth_CreateOptions a))"

text \<open>The schema admits exactly one of the two modes.\<close>

lemma GitlabAuth_admitted_modes:
  "GitlabAuth_admitted a \<Longrightarrow>
     (IsManaged (Some a) \<and> auth_Token a = None \<and> TokenSource_IsSet (auth_AccessToken a))
     \<or> (\<not> IsManaged (Some a) \<and> auth_AccessToken a = None \<and> TokenSource_IsSet (auth_Token a))"
  by (auto simp: GitlabAuth_admitted_def TokenSource_IsSet_def TokenSource_admitted_def)

record GitlabRegInfo =
  reg_Name :: string
  reg_Auth :: GitlabAuth
  reg_GitlabUrl :: string
  reg_CACertificate :: "CASource option"
  reg_RunnerID :: int
  reg_AuthToken :: string
  reg_TokenExpiresAt :: "time option"
  reg_RegistrationHash :: string

end
