(* ===== verification/Kube_Types.thy ===== *)
theory Kube_Types
  imports Prelude
begin

text \<open>
  \<open>api/v1beta2/gitlab_types.go\<close>, the kubernetes executor configuration: one record per struct,
  one field per field, in the file's order (each field carries its struct's initials as a
  prefix, because HOL record fields share one name space), and
  \<open>api/v1beta2/executor.go\<close>, the namespace-defaulting rule and the build-namespace allow-list.
  The operator itself reads only \<open>Namespace\<close> and \<open>PodDisruptionBudget\<close>; everything else is
  handed to the TOML encoder as it is. A slice is an optional list, \<open>None\<close> for the nil
  slice, which an encoder may tell from an empty one.
\<close>

section \<open>The executor configuration\<close>

record KubernetesSeccompProfile =
  ksp_Type :: string
  ksp_LocalhostProfile :: string

record KubernetesAppArmorProfile =
  kaa_Type :: string
  kaa_LocalhostProfile :: string

record KubernetesPodSecurityContext =
  kpsc_FSGroup :: "int option"
  kpsc_RunAsGroup :: "int option"
  kpsc_RunAsNonRoot :: "bool option"
  kpsc_RunAsUser :: "int option"
  kpsc_SupplementalGroups :: "int goslice"
  kpsc_SELinuxType :: string
  kpsc_AppArmorProfile :: "KubernetesAppArmorProfile option"
  kpsc_SeccompProfile :: "KubernetesSeccompProfile option"

record KubernetesLifecycleExecAction =
  kea_Command :: "string goslice"

record KubernetesLifecycleTCPSocket =
  kts_Host :: string
  kts_Port :: int

record KubernetesLifecycleHTTPGetHeader =
  khh_Name :: string
  khh_Value :: string

record KubernetesLifecycleHTTPGet =
  khg_Host :: string
  khg_HTTPHeaders :: "KubernetesLifecycleHTTPGetHeader goslice"
  khg_Path :: string
  khg_Port :: int
  khg_Scheme :: string

record KubernetesLifecycleHandler =
  klh_Exec :: "KubernetesLifecycleExecAction option"
  klh_HTTPGet :: "KubernetesLifecycleHTTPGet option"
  klh_TCPSocket :: "KubernetesLifecycleTCPSocket option"

record KubernetesContainerLifecyle =
  kcl_PostStart :: "KubernetesLifecycleHandler option"
  kcl_PreStop :: "KubernetesLifecycleHandler option"

record KubernetesHostPath =
  khp_Name :: string
  khp_MountPath :: string
  khp_SubPath :: string
  khp_ReadOnly :: bool
  khp_HostPath :: string
  khp_MountPropagation :: "string option"

record KubernetesPVC =
  kpvc_Name :: string
  kpvc_MountPath :: string
  kpvc_SubPath :: string
  kpvc_ReadOnly :: bool
  kpvc_MountPropagation :: "string option"

record KubernetesEmptyDir =
  ked_Name :: string
  ked_MountPath :: string
  ked_SubPath :: string
  ked_Medium :: string
  ked_SizeLimit :: string
  ked_MountPropagation :: "string option"

record KubernetesNFS =
  knfs_Name :: string
  knfs_MountPath :: string
  knfs_SubPath :: string
  knfs_Server :: string
  knfs_Path :: string
  knfs_ReadOnly :: bool

record KubernetesCSI =
  kcsi_Name :: string
  kcsi_MountPath :: string
  kcsi_SubPath :: string
  kcsi_Driver :: string
  kcsi_FSType :: string
  kcsi_ReadOnly :: bool
  kcsi_VolumeAttributes :: "string gomap"

record KubernetesConfigMap =
  kcm_Name :: string
  kcm_MountPath :: string
  kcm_SubPath :: string
  kcm_ReadOnly :: bool
  kcm_Items :: "string gomap"

record KubernetesSecret =
  ksec_Name :: string
  ksec_MountPath :: string
  ksec_SubPath :: string
  ksec_ReadOnly :: bool
  ksec_Items :: "string gomap"

record KubernetesVolumes =
  kvol_HostPaths :: "KubernetesHostPath goslice"
  kvol_PVCs :: "KubernetesPVC goslice"
  kvol_ConfigMaps :: "KubernetesConfigMap goslice"
  kvol_Secrets :: "KubernetesSecret goslice"
  kvol_EmptyDirs :: "KubernetesEmptyDir goslice"
  kvol_CSIs :: "KubernetesCSI goslice"
  kvol_NFSVolumes :: "KubernetesNFS goslice"

record KubernetesPodSpec =
  kps_Name :: string
  kps_PatchPath :: string
  kps_Patch :: string
  kps_PatchType :: string

record NodeSelectorRequirement =
  nsr_Key :: string
  nsr_Operator :: string
  nsr_Values :: "string goslice"

record LabelSelector =
  lsel_MatchLabels :: "string gomap"
  lsel_MatchExpressions :: "NodeSelectorRequirement goslice"

record PodAffinityTerm =
  pat_LabelSelector :: "LabelSelector option"
  pat_Namespaces :: "string goslice"
  pat_TopologyKey :: string
  pat_NamespaceSelector :: "LabelSelector option"
  pat_MatchLabelKeys :: "string goslice"
  pat_MismatchLabelKeys :: "string goslice"

record WeightedPodAffinityTerm =
  wpat_Weight :: int
  wpat_PodAffinityTerm :: PodAffinityTerm

record KubernetesPodAffinity =
  kpa_RequiredDuringSchedulingIgnoredDuringExecution :: "PodAffinityTerm goslice"
  kpa_PreferredDuringSchedulingIgnoredDuringExecution :: "WeightedPodAffinityTerm goslice"

record NodeSelectorTerm =
  nst_MatchExpressions :: "NodeSelectorRequirement goslice"
  nst_MatchFields :: "NodeSelectorRequirement goslice"

record NodeSelector =
  nsel_NodeSelectorTerms :: "NodeSelectorTerm goslice"

record PreferredSchedulingTerm =
  pst_Weight :: int
  pst_Preference :: NodeSelectorTerm

record KubernetesNodeAffinity =
  kna_RequiredDuringSchedulingIgnoredDuringExecution :: "NodeSelector option"
  kna_PreferredDuringSchedulingIgnoredDuringExecution :: "PreferredSchedulingTerm goslice"

record KubernetesPodAntiAffinity =
  kpaa_RequiredDuringSchedulingIgnoredDuringExecution :: "PodAffinityTerm goslice"
  kpaa_PreferredDuringSchedulingIgnoredDuringExecution :: "WeightedPodAffinityTerm goslice"

record KubernetesAffinity =
  kaf_NodeAffinity :: "KubernetesNodeAffinity option"
  kaf_PodAffinity :: "KubernetesPodAffinity option"
  kaf_PodAntiAffinity :: "KubernetesPodAntiAffinity option"

record KubernetesDNSConfigOption =
  kdo_Name :: string
  kdo_Value :: "string option"

record KubernetesDNSConfig =
  kdns_Nameservers :: "string goslice"
  kdns_Options :: "KubernetesDNSConfigOption goslice"
  kdns_Searches :: "string goslice"

record Service =
  svc_Name :: string
  svc_Alias :: string
  svc_Command :: "string goslice"
  svc_Entrypoint :: "string goslice"
  svc_Environment :: "string goslice"

record KubernetesHostAliases =
  kha_IP :: string
  kha_Hostnames :: "string goslice"

record KubernetesContainerCapabilities =
  kcap_Add :: "string goslice"
  kcap_Drop :: "string goslice"

record KubernetesContainerSecurityContext =
  kcsc_Capabilities :: "KubernetesContainerCapabilities option"
  kcsc_Privileged :: "bool option"
  kcsc_RunAsUser :: "int option"
  kcsc_RunAsGroup :: "int option"
  kcsc_RunAsNonRoot :: "bool option"
  kcsc_ReadOnlyRootFilesystem :: "bool option"
  kcsc_AllowPrivilegeEscalation :: "bool option"
  kcsc_ProcMount :: string
  kcsc_SELinuxType :: string
  kcsc_SeccompProfile :: "KubernetesSeccompProfile option"
  kcsc_AppArmorProfile :: "KubernetesAppArmorProfile option"

record KubernetesConfig =
  kc_Host :: string
  kc_CertFile :: string
  kc_KeyFile :: string
  kc_CAFile :: string
  kc_BearerTokenOverwriteAllowed :: "bool option"
  kc_BearerToken :: string
  kc_Image :: string
  kc_Namespace :: string
  kc_NamespaceOverwriteAllowed :: string
  kc_Privileged :: "bool option"
  kc_RuntimeClassName :: "string option"
  kc_AllowPrivilegeEscalation :: "bool option"
  kc_CPULimit :: string
  kc_CPULimitOverwriteMaxAllowed :: string
  kc_CPURequest :: string
  kc_CPURequestOverwriteMaxAllowed :: string
  kc_MemoryLimit :: string
  kc_MemoryLimitOverwriteMaxAllowed :: string
  kc_MemoryRequest :: string
  kc_MemoryRequestOverwriteMaxAllowed :: string
  kc_EphemeralStorageLimit :: string
  kc_EphemeralStorageLimitOverwriteMaxAllowed :: string
  kc_EphemeralStorageRequest :: string
  kc_EphemeralStorageRequestOverwriteMaxAllowed :: string
  kc_ServiceCPULimit :: string
  kc_ServiceCPULimitOverwriteMaxAllowed :: string
  kc_ServiceCPURequest :: string
  kc_ServiceCPURequestOverwriteMaxAllowed :: string
  kc_ServiceMemoryLimit :: string
  kc_ServiceMemoryLimitOverwriteMaxAllowed :: string
  kc_ServiceMemoryRequest :: string
  kc_ServiceMemoryRequestOverwriteMaxAllowed :: string
  kc_ServiceEphemeralStorageLimit :: string
  kc_ServiceEphemeralStorageLimitOverwriteMaxAllowed :: string
  kc_ServiceEphemeralStorageRequest :: string
  kc_ServiceEphemeralStorageRequestOverwriteMaxAllowed :: string
  kc_HelperCPULimit :: string
  kc_HelperCPULimitOverwriteMaxAllowed :: string
  kc_HelperCPURequest :: string
  kc_HelperCPURequestOverwriteMaxAllowed :: string
  kc_HelperMemoryLimit :: string
  kc_HelperMemoryLimitOverwriteMaxAllowed :: string
  kc_HelperMemoryRequest :: string
  kc_HelperMemoryRequestOverwriteMaxAllowed :: string
  kc_HelperEphemeralStorageLimit :: string
  kc_HelperEphemeralStorageLimitOverwriteMaxAllowed :: string
  kc_HelperEphemeralStorageRequest :: string
  kc_HelperEphemeralStorageRequestOverwriteMaxAllowed :: string
  kc_AllowedImages :: "string goslice"
  kc_AllowedPullPolicies :: "string goslice"
  kc_AllowedServices :: "string goslice"
  kc_PullPolicy :: "string goslice"
  kc_NodeSelector :: "string gomap"
  kc_NodeSelectorOverwriteAllowed :: string
  kc_NodeTolerations :: "string gomap"
  kc_Affinity :: "KubernetesAffinity option"
  kc_ImagePullSecrets :: "string goslice"
  kc_HelperImage :: string
  kc_HelperImageFlavor :: string
  kc_PodTerminationGracePeriodSeconds :: "int option"
  kc_CleanupGracePeriodSeconds :: "int option"
  kc_PollInterval :: int
  kc_PollTimeout :: int
  kc_ResourceAvailabilityCheckMaxAttempts :: int
  kc_PodLabels :: "string gomap"
  kc_PodLabelsOverwriteAllowed :: string
  kc_SchedulerName :: string
  kc_ServiceAccount :: string
  kc_ServiceAccountOverwriteAllowed :: string
  kc_PodAnnotations :: "string gomap"
  kc_PodAnnotationsOverwriteAllowed :: string
  kc_PodSecurityContext :: "KubernetesPodSecurityContext option"
  kc_InitPermissionsContainerSecurityContext :: "KubernetesContainerSecurityContext option"
  kc_BuildContainerSecurityContext :: "KubernetesContainerSecurityContext option"
  kc_HelperContainerSecurityContext :: "KubernetesContainerSecurityContext option"
  kc_ServiceContainerSecurityContext :: "KubernetesContainerSecurityContext option"
  kc_Volumes :: "KubernetesVolumes option"
  kc_HostAliases :: "KubernetesHostAliases goslice"
  kc_Services :: "Service goslice"
  kc_CapAdd :: "string goslice"
  kc_CapDrop :: "string goslice"
  kc_DNSPolicy :: string
  kc_DNSConfig :: "KubernetesDNSConfig option"
  kc_ContainerLifecycle :: "KubernetesContainerLifecyle option"
  kc_PriorityClassName :: string
  kc_Context :: string
  kc_NamespacePerJob :: bool
  kc_PodCPULimit :: string
  kc_PodCPULimitOverwriteMaxAllowed :: string
  kc_PodCPURequest :: string
  kc_PodCPURequestOverwriteMaxAllowed :: string
  kc_PodMemoryLimit :: string
  kc_PodMemoryLimitOverwriteMaxAllowed :: string
  kc_PodMemoryRequest :: string
  kc_PodMemoryRequestOverwriteMaxAllowed :: string
  kc_NodeTolerationsOverwriteAllowed :: string
  kc_HelperImageAutosetArchAndOS :: bool
  kc_LogsBaseDir :: string
  kc_ScriptsBaseDir :: string
  kc_PodSpec :: "KubernetesPodSpec goslice"
  kc_AllowedUsers :: "string goslice"
  kc_AllowedGroups :: "string goslice"
  kc_AutomountServiceAccountToken :: "bool option"
  kc_PodDisruptionBudget :: "bool option"
  kc_PrintPodWarningEvents :: "bool option"
  kc_UseServiceAccountImagePullSecrets :: bool
  kc_EnableServiceLinks :: "bool option"
  kc_CleanupResourcesTimeout :: string
  kc_RequestRetryLimit :: "int option"
  kc_RequestRetryLimits :: "int gomap"
  kc_RequestRetryBackoffMax :: "int option"

text \<open>Go's zero value of the struct: an \<open>executor_config\<close> block that is left out.\<close>

definition KubernetesConfig_zero :: KubernetesConfig where
  "KubernetesConfig_zero = \<lparr>
    kc_Host = '''', kc_CertFile = '''', kc_KeyFile = '''', kc_CAFile = '''',
    kc_BearerTokenOverwriteAllowed = None, kc_BearerToken = '''', kc_Image = '''',
    kc_Namespace = '''', kc_NamespaceOverwriteAllowed = '''', kc_Privileged = None,
    kc_RuntimeClassName = None, kc_AllowPrivilegeEscalation = None, kc_CPULimit = '''',
    kc_CPULimitOverwriteMaxAllowed = '''', kc_CPURequest = '''',
    kc_CPURequestOverwriteMaxAllowed = '''', kc_MemoryLimit = '''',
    kc_MemoryLimitOverwriteMaxAllowed = '''', kc_MemoryRequest = '''',
    kc_MemoryRequestOverwriteMaxAllowed = '''', kc_EphemeralStorageLimit = '''',
    kc_EphemeralStorageLimitOverwriteMaxAllowed = '''', kc_EphemeralStorageRequest = '''',
    kc_EphemeralStorageRequestOverwriteMaxAllowed = '''', kc_ServiceCPULimit = '''',
    kc_ServiceCPULimitOverwriteMaxAllowed = '''', kc_ServiceCPURequest = '''',
    kc_ServiceCPURequestOverwriteMaxAllowed = '''', kc_ServiceMemoryLimit = '''',
    kc_ServiceMemoryLimitOverwriteMaxAllowed = '''', kc_ServiceMemoryRequest = '''',
    kc_ServiceMemoryRequestOverwriteMaxAllowed = '''', kc_ServiceEphemeralStorageLimit = '''',
    kc_ServiceEphemeralStorageLimitOverwriteMaxAllowed = '''',
    kc_ServiceEphemeralStorageRequest = '''',
    kc_ServiceEphemeralStorageRequestOverwriteMaxAllowed = '''', kc_HelperCPULimit = '''',
    kc_HelperCPULimitOverwriteMaxAllowed = '''', kc_HelperCPURequest = '''',
    kc_HelperCPURequestOverwriteMaxAllowed = '''', kc_HelperMemoryLimit = '''',
    kc_HelperMemoryLimitOverwriteMaxAllowed = '''', kc_HelperMemoryRequest = '''',
    kc_HelperMemoryRequestOverwriteMaxAllowed = '''', kc_HelperEphemeralStorageLimit = '''',
    kc_HelperEphemeralStorageLimitOverwriteMaxAllowed = '''',
    kc_HelperEphemeralStorageRequest = '''',
    kc_HelperEphemeralStorageRequestOverwriteMaxAllowed = '''', kc_AllowedImages = None,
    kc_AllowedPullPolicies = None, kc_AllowedServices = None, kc_PullPolicy = None,
    kc_NodeSelector = None, kc_NodeSelectorOverwriteAllowed = '''', kc_NodeTolerations = None,
    kc_Affinity = None, kc_ImagePullSecrets = None, kc_HelperImage = '''',
    kc_HelperImageFlavor = '''', kc_PodTerminationGracePeriodSeconds = None,
    kc_CleanupGracePeriodSeconds = None, kc_PollInterval = 0, kc_PollTimeout = 0,
    kc_ResourceAvailabilityCheckMaxAttempts = 0, kc_PodLabels = None,
    kc_PodLabelsOverwriteAllowed = '''', kc_SchedulerName = '''', kc_ServiceAccount = '''',
    kc_ServiceAccountOverwriteAllowed = '''', kc_PodAnnotations = None,
    kc_PodAnnotationsOverwriteAllowed = '''', kc_PodSecurityContext = None,
    kc_InitPermissionsContainerSecurityContext = None, kc_BuildContainerSecurityContext = None,
    kc_HelperContainerSecurityContext = None, kc_ServiceContainerSecurityContext = None,
    kc_Volumes = None, kc_HostAliases = None, kc_Services = None, kc_CapAdd = None,
    kc_CapDrop = None, kc_DNSPolicy = '''', kc_DNSConfig = None, kc_ContainerLifecycle = None,
    kc_PriorityClassName = '''', kc_Context = '''', kc_NamespacePerJob = False,
    kc_PodCPULimit = '''', kc_PodCPULimitOverwriteMaxAllowed = '''', kc_PodCPURequest = '''',
    kc_PodCPURequestOverwriteMaxAllowed = '''', kc_PodMemoryLimit = '''',
    kc_PodMemoryLimitOverwriteMaxAllowed = '''', kc_PodMemoryRequest = '''',
    kc_PodMemoryRequestOverwriteMaxAllowed = '''', kc_NodeTolerationsOverwriteAllowed = '''',
    kc_HelperImageAutosetArchAndOS = False, kc_LogsBaseDir = '''', kc_ScriptsBaseDir = '''',
    kc_PodSpec = None, kc_AllowedUsers = None, kc_AllowedGroups = None,
    kc_AutomountServiceAccountToken = None, kc_PodDisruptionBudget = None,
    kc_PrintPodWarningEvents = None, kc_UseServiceAccountImagePullSecrets = False,
    kc_EnableServiceLinks = None, kc_CleanupResourcesTimeout = '''', kc_RequestRetryLimit = None,
    kc_RequestRetryLimits = None, kc_RequestRetryBackoffMax = None\<rparr>"

text \<open>
  The admission rules on the struct (\<open>kubebuilder:validation:XValidation\<close> markers): the build
  namespace must be static.
\<close>

definition KubernetesConfig_admitted :: "KubernetesConfig \<Rightarrow> bool" where
  "KubernetesConfig_admitted k =
     (\<not> kc_NamespacePerJob k \<and> kc_NamespaceOverwriteAllowed k = '''')"

section \<open>Namespaces\<close>

text \<open>\<open>EffectiveNamespace\<close>; the receiver is a pointer, and nil is allowed.\<close>

definition EffectiveNamespace :: "KubernetesConfig option \<Rightarrow> string \<Rightarrow> string" where
  "EffectiveNamespace k fallback =
     (case k of
        Some c \<Rightarrow> (if kc_Namespace c \<noteq> '''' then kc_Namespace c else fallback)
      | None \<Rightarrow> fallback)"

fun allow_list_has :: "string \<Rightarrow> string list \<Rightarrow> bool" where
  "allow_list_has ns [] = False"
| "allow_list_has ns (a # as) = (if a = ''*'' \<or> a = ns then True else allow_list_has ns as)"

definition BuildNamespaceAllowed :: "string \<Rightarrow> string \<Rightarrow> string list \<Rightarrow> bool" where
  "BuildNamespaceAllowed ns ownNamespace allowed =
     (if ns = '''' \<or> ns = ownNamespace then True else allow_list_has ns allowed)"

lemma allow_list_has_iff: "allow_list_has ns allowed \<longleftrightarrow> ''*'' \<in> set allowed \<or> ns \<in> set allowed"
  by (induction allowed) auto

lemma BuildNamespaceAllowed_iff:
  "BuildNamespaceAllowed ns own allowed \<longleftrightarrow>
     ns = '''' \<or> ns = own \<or> ''*'' \<in> set allowed \<or> ns \<in> set allowed"
  by (simp add: BuildNamespaceAllowed_def allow_list_has_iff)

lemma BuildNamespaceAllowed_own [simp]: "BuildNamespaceAllowed own own allowed"
  by (simp add: BuildNamespaceAllowed_iff)

lemma EffectiveNamespace_eq [go_simps]:
  "EffectiveNamespace (Some c) own = (if kc_Namespace c = '''' then own else kc_Namespace c)"
  by (simp add: EffectiveNamespace_def)

text \<open>Rendering the resolved namespace back into the config does not change what it resolves to.\<close>

lemma EffectiveNamespace_idem:
  "EffectiveNamespace (Some (c\<lparr>kc_Namespace := EffectiveNamespace (Some c) own\<rparr>)) own
     = EffectiveNamespace (Some c) own"
  by (simp add: EffectiveNamespace_def)

end
