(* ===== verification/Cluster_Types.thy ===== *)
theory Cluster_Types
  imports Prelude
begin

text \<open>
  The Kubernetes objects the operator reads and writes, with the fields it sets or inspects.
  These are data types of the Kubernetes API, not code of this repository; a value the operator
  only passes on (an affinity, a toleration, an env entry) is its serialised text.
\<close>

section \<open>Metadata\<close>

record NSName =
  nn_Namespace :: string
  nn_Name :: string

abbreviation nsname :: "string \<Rightarrow> string \<Rightarrow> NSName" where
  "nsname ns n \<equiv> \<lparr>nn_Namespace = ns, nn_Name = n\<rparr>"

record OwnerReference =
  or_APIVersion :: string
  or_Kind :: string
  or_Name :: string
  or_UID :: string
  or_Controller :: "bool option"
  or_BlockOwnerDeletion :: "bool option"

record ObjectMeta =
  om_Name :: string
  om_Namespace :: string
  om_UID :: string
  om_ResourceVersion :: string
  om_Generation :: int
  om_DeletionTimestamp :: "time option"
  om_Labels :: "string gomap"
  om_Annotations :: "string gomap"
  om_OwnerReferences :: "OwnerReference list"
  om_Finalizers :: "string list"

definition ObjectMeta_zero :: ObjectMeta where
  "ObjectMeta_zero = \<lparr>om_Name = '''', om_Namespace = '''', om_UID = '''', om_ResourceVersion = '''',
     om_Generation = 0, om_DeletionTimestamp = None, om_Labels = None, om_Annotations = None,
     om_OwnerReferences = [], om_Finalizers = []\<rparr>"

record Condition =
  cond_Type :: string
  cond_Status :: string
  cond_Reason :: string
  cond_Message :: string
  cond_ObservedGeneration :: int
  cond_LastTransitionTime :: time

section \<open>Secrets, config maps, service accounts\<close>

record Secret =
  sec_Meta :: ObjectMeta
  sec_Type :: string
  sec_Data :: "string gomap"

record ConfigMap =
  cm_Meta :: ObjectMeta
  cm_Data :: "string gomap"
  cm_BinaryData :: "string gomap"

record ServiceAccount =
  sa_Meta :: ObjectMeta

section \<open>RBAC\<close>

record PolicyRule =
  pr_APIGroups :: "string list"
  pr_Resources :: "string list"
  pr_Verbs :: "string list"

record ClusterRole =
  cr_Meta :: ObjectMeta
  cr_Rules :: "PolicyRule list"

record Subject =
  sub_Kind :: string
  sub_Name :: string
  sub_Namespace :: string

record RoleRef =
  rr_APIGroup :: string
  rr_Kind :: string
  rr_Name :: string

record RoleBinding =
  rb_Meta :: ObjectMeta
  rb_Subjects :: "Subject list"
  rb_RoleRef :: RoleRef

section \<open>Workloads\<close>

record ResourceRequirements =
  rq_Limits :: "string gomap"
  rq_Requests :: "string gomap"
  rq_Claims :: "string goslice"

record SecurityContext =
  sc_AllowPrivilegeEscalation :: "bool option"
  sc_CapabilitiesDrop :: "string goslice"
  sc_SeccompProfileType :: "string option"
  sc_Other :: string \<comment> \<open>the fields the operator never sets\<close>

type_synonym EnvVar = string
type_synonym Toleration = string
type_synonym Affinity = string

datatype VolumeProjection =
    ProjectSecret string
  | ProjectDownwardAPI string string \<comment> \<open>path, field path\<close>

record Volume =
  vol_Name :: string
  vol_Projected :: "VolumeProjection list"

record Probe =
  probe_TCPPort :: int
  probe_InitialDelaySeconds :: int
  probe_PeriodSeconds :: int

record Container =
  con_Name :: string
  con_Image :: string
  con_ImagePullPolicy :: string
  con_Resources :: ResourceRequirements
  con_SecurityContext :: "SecurityContext option"
  con_Env :: "EnvVar goslice"
  con_Ports :: "(string \<times> int) list"
  con_ReadinessProbe :: "Probe option"
  con_LivenessProbe :: "Probe option"
  con_VolumeMounts :: "(string \<times> string) list"

record PodSpec =
  ps_TerminationGracePeriodSeconds :: "int option"
  ps_NodeSelector :: "string gomap"
  ps_Tolerations :: "Toleration goslice"
  ps_Affinity :: "Affinity option"
  ps_PriorityClassName :: string
  ps_Volumes :: "Volume list"
  ps_Containers :: "Container list"
  ps_ServiceAccountName :: string

record PodTemplateSpec =
  pt_Labels :: "string gomap"
  pt_Annotations :: "string gomap"
  pt_Spec :: PodSpec

record Deployment =
  dep_Meta :: ObjectMeta
  dep_Replicas :: "int option"
  dep_SelectorMatchLabels :: "string gomap"
  dep_Template :: PodTemplateSpec

record Pod =
  pod_Meta :: ObjectMeta

end
