(* ===== verification/Runner_Types.thy ===== *)
theory Runner_Types
  imports Auth_Types Kube_Types Cluster_Types
begin

text \<open>
  \<open>api/v1beta2/runner_types.go\<close>, \<open>multirunner_types.go\<close> and \<open>common.go\<close>: the two custom
  resources, their methods, and the interface \<open>types.RunnerInfo\<close> both implement
  (\<open>internal/types/runner_info.go\<close>). The fields the two specs declare alike are one record
  that both extend. Methods with a pointer receiver that assign fields return the changed object.
  The last section states the contract of the interface as a locale and shows that both kinds
  keep it.
\<close>

section \<open>Third-party helpers on an object\<close>

text \<open>
  \<open>controllerutil.ContainsFinalizer/AddFinalizer/RemoveFinalizer\<close> on the finalizer list and
  \<open>meta.SetStatusCondition\<close>, which takes the clock reading it stamps a transition with. They
  are code of other modules and stay parameters; \<open>finalizer_laws\<close> and \<open>condition_laws\<close> say
  what their documentation promises.
\<close>

record ObjectLibs =
  lib_ContainsFinalizer :: "string list \<Rightarrow> string \<Rightarrow> bool"
  lib_AddFinalizer :: "string list \<Rightarrow> string \<Rightarrow> string list"
  lib_RemoveFinalizer :: "string list \<Rightarrow> string \<Rightarrow> string list"
  lib_SetStatusCondition :: "time \<Rightarrow> Condition list \<Rightarrow> Condition \<Rightarrow> Condition list"

definition finalizer_laws :: "'a ObjectLibs_scheme \<Rightarrow> bool" where
  "finalizer_laws L =
     ((\<forall>fs f. lib_ContainsFinalizer L fs f = (f \<in> set fs)) \<and>
      (\<forall>fs f. set (lib_AddFinalizer L fs f) = insert f (set fs)) \<and>
      (\<forall>fs f. set (lib_RemoveFinalizer L fs f) = set fs - {f}))"

definition condition_laws :: "'a ObjectLibs_scheme \<Rightarrow> bool" where
  "condition_laws L =
     (\<forall>t cs c. \<exists>c' \<in> set (lib_SetStatusCondition L t cs c).
        cond_Type c' = cond_Type c \<and> cond_Status c' = cond_Status c \<and> cond_Reason c' = cond_Reason c \<and>
        cond_Message c' = cond_Message c \<and> cond_ObservedGeneration c' = cond_ObservedGeneration c)"

section \<open>Shared settings\<close>

definition ConditionReady :: string where
  "ConditionReady = ''Ready''"

record ConcurrencyLimits =
  cl_Limit :: int
  cl_RequestConcurrency :: int

definition defaultRunnerResources :: ResourceRequirements where
  "defaultRunnerResources =
     \<lparr>rq_Limits = Some (fmap_of_list [(''memory'', ''256Mi'')]),
      rq_Requests = Some (fmap_of_list [(''cpu'', ''100m''), (''memory'', ''128Mi'')]),
      rq_Claims = None\<rparr>"

definition defaultRunnerSecurityContext :: SecurityContext where
  "defaultRunnerSecurityContext =
     \<lparr>sc_AllowPrivilegeEscalation = Some False, sc_CapabilitiesDrop = Some [''ALL''],
      sc_SeccompProfileType = Some ''RuntimeDefault'', sc_Other = ''''\<rparr>"

definition setReadyCondition ::
  "'a ObjectLibs_scheme \<Rightarrow> time \<Rightarrow> Condition list \<Rightarrow> int \<Rightarrow> bool \<Rightarrow> string \<Rightarrow> string \<Rightarrow> Condition list" where
  "setReadyCondition L now conditions generation ready reason message =
     (let status = (if ready then ''True'' else ''False'')
      in lib_SetStatusCondition L now conditions
           \<lparr>cond_Type = ConditionReady, cond_Status = status, cond_Reason = reason,
            cond_Message = message, cond_ObservedGeneration = generation,
            cond_LastTransitionTime = zero_time\<rparr>)"

definition GroupVersion :: string where
  "GroupVersion = ''gitlab.k8s.alekc.dev/v1beta2''"

definition DefaultRunnerImage :: string where
  "DefaultRunnerImage = ''gitlab/gitlab-runner:alpine-v19.5.0''"

definition DefaultRunnerTerminationGracePeriodSeconds :: int where
  "DefaultRunnerTerminationGracePeriodSeconds = 3600"

section \<open>The resources\<close>

text \<open>The spec fields both kinds declare, then the fields of each kind.\<close>

record ManagerSpec =
  sp_GitlabInstanceURL :: string
  sp_LogLevel :: string
  sp_Concurrent :: int
  sp_CheckInterval :: int
  sp_LogFormat :: string
  sp_RunnerImage :: string
  sp_RunnerResources :: "ResourceRequirements option"
  sp_RunnerImagePullPolicy :: string
  sp_RunnerSecurityContext :: "SecurityContext option"
  sp_RunnerEnv :: "EnvVar goslice"
  sp_RunnerNodeSelector :: "string gomap"
  sp_RunnerTolerations :: "Toleration goslice"
  sp_RunnerAffinity :: "Affinity option"
  sp_RunnerPriorityClassName :: string
  sp_RunnerTerminationGracePeriodSeconds :: "int option"
  sp_CACertificate :: "CASource option"

record RunnerSpec = ManagerSpec +
  rs_Authentication :: GitlabAuth
  rs_ConcurrencyLimits :: ConcurrencyLimits
  rs_ExecutorConfig :: KubernetesConfig
  rs_Environment :: "string goslice"

record MultiRunnerEntry =
  mre_Name :: string
  mre_Authentication :: GitlabAuth
  mre_ExecutorConfig :: KubernetesConfig
  mre_Environment :: "string goslice"
  mre_ConcurrencyLimits :: ConcurrencyLimits

record MultiRunnerSpec = ManagerSpec +
  mrs_SentryDsn :: string
  mrs_Entries :: "MultiRunnerEntry list"

record StatusBase =
  st_Error :: string
  st_ConfigMapVersion :: string
  st_ObservedGeneration :: int
  st_Conditions :: "Condition list"
  st_Ready :: bool

record RunnerStatus = StatusBase +
  rst_RunnerID :: int
  rst_TokenExpiresAt :: "time option"
  rst_RegistrationHash :: string

record MultiRunnerStatus = StatusBase +
  mst_RunnerIDs :: "int gomap"
  mst_RegistrationHashes :: "string gomap"
  mst_TokenExpiresAt :: "time gomap"

record ('spec, 'status) Resource =
  res_Meta :: ObjectMeta
  res_Spec :: 'spec
  res_Status :: 'status

type_synonym Runner = "(RunnerSpec, RunnerStatus) Resource"
type_synonym MultiRunner = "(MultiRunnerSpec, MultiRunnerStatus) Resource"

text \<open>\<open>any\<close> as \<open>GetStatus\<close> returns it; \<open>SetStatus\<close> asserts its type and panics otherwise.\<close>

datatype StatusAny = AnyRunnerStatus RunnerStatus | AnyMultiRunnerStatus MultiRunnerStatus

section \<open>Methods of Runner\<close>

definition Runner_RegistrationConfig :: "Runner \<Rightarrow> GitlabRegInfo list" where
  "Runner_RegistrationConfig r =
     [\<lparr>reg_Name = om_Name (res_Meta r),
       reg_Auth = rs_Authentication (res_Spec r),
       reg_GitlabUrl = sp_GitlabInstanceURL (res_Spec r),
       reg_CACertificate = sp_CACertificate (res_Spec r),
       reg_RunnerID = rst_RunnerID (res_Status r),
       reg_AuthToken = '''',
       reg_TokenExpiresAt = rst_TokenExpiresAt (res_Status r),
       reg_RegistrationHash = rst_RegistrationHash (res_Status r)\<rparr>]"

definition Runner_StoreRunnerRegistration :: "GitlabRegInfo \<Rightarrow> Runner \<Rightarrow> Runner" where
  "Runner_StoreRunnerRegistration info r =
     r\<lparr>res_Status := (res_Status r)\<lparr>
         rst_RunnerID := reg_RunnerID info,
         rst_TokenExpiresAt := reg_TokenExpiresAt info,
         rst_RegistrationHash := reg_RegistrationHash info\<rparr>\<rparr>"

definition Runner_GetStatus :: "Runner \<Rightarrow> StatusAny" where
  "Runner_GetStatus r = AnyRunnerStatus (res_Status r)"

definition Runner_SetStatus :: "StatusAny \<Rightarrow> Runner \<Rightarrow> Runner option" where
  "Runner_SetStatus newStatus r =
     (case newStatus of
        AnyRunnerStatus s \<Rightarrow> Some (r\<lparr>res_Status := s\<rparr>)
      | AnyMultiRunnerStatus s \<Rightarrow> None)"

definition Runner_GetAnnotation :: "string \<Rightarrow> Runner \<Rightarrow> string" where
  "Runner_GetAnnotation key r =
     (let annotations = om_Annotations (res_Meta r) in
      if annotations = None then ''''
      else case map_get annotations key of Some val \<Rightarrow> val | None \<Rightarrow> '''')"

definition Runner_ChildName :: "Runner \<Rightarrow> string" where
  "Runner_ChildName r = ''gitlab-runner-'' @ om_Name (res_Meta r)"

definition Runner_ExecutorConfigs :: "Runner \<Rightarrow> KubernetesConfig list" where
  "Runner_ExecutorConfigs r = [rs_ExecutorConfig (res_Spec r)]"

definition Runner_finalizer :: string where
  "Runner_finalizer = ''gitlab.k8s.alekc.dev/finalizer''"

definition Runner_GetNamespace :: "Runner \<Rightarrow> string" where
  "Runner_GetNamespace r = om_Namespace (res_Meta r)"

definition Runner_CACertificate :: "Runner \<Rightarrow> CASource option" where
  "Runner_CACertificate r = sp_CACertificate (res_Spec r)"

definition Runner_GenerateOwnerReference :: "Runner \<Rightarrow> OwnerReference list" where
  "Runner_GenerateOwnerReference r =
     [\<lparr>or_APIVersion = GroupVersion, or_Kind = ''Runner'', or_Name = om_Name (res_Meta r),
       or_UID = om_UID (res_Meta r), or_Controller = Some True, or_BlockOwnerDeletion = None\<rparr>]"

definition Runner_SetStatusError :: "string \<Rightarrow> Runner \<Rightarrow> Runner" where
  "Runner_SetStatusError errorMessage r = r\<lparr>res_Status := (res_Status r)\<lparr>st_Error := errorMessage\<rparr>\<rparr>"

definition Runner_SetConfigMapVersion :: "string \<Rightarrow> Runner \<Rightarrow> Runner" where
  "Runner_SetConfigMapVersion versionHash r =
     r\<lparr>res_Status := (res_Status r)\<lparr>st_ConfigMapVersion := versionHash\<rparr>\<rparr>"

definition Runner_ConfigMapVersion :: "Runner \<Rightarrow> string" where
  "Runner_ConfigMapVersion r = st_ConfigMapVersion (res_Status r)"

definition Runner_SetStatusReady :: "bool \<Rightarrow> Runner \<Rightarrow> Runner" where
  "Runner_SetStatusReady ready r = r\<lparr>res_Status := (res_Status r)\<lparr>st_Ready := ready\<rparr>\<rparr>"

definition Runner_SetObservedGeneration :: "int \<Rightarrow> Runner \<Rightarrow> Runner" where
  "Runner_SetObservedGeneration gen r =
     r\<lparr>res_Status := (res_Status r)\<lparr>st_ObservedGeneration := gen\<rparr>\<rparr>"

definition Runner_SetReadyCondition ::
  "'a ObjectLibs_scheme \<Rightarrow> time \<Rightarrow> bool \<Rightarrow> string \<Rightarrow> string \<Rightarrow> Runner \<Rightarrow> Runner" where
  "Runner_SetReadyCondition L now ready reason message r =
     r\<lparr>res_Status := (res_Status r)\<lparr>st_Conditions :=
         setReadyCondition L now (st_Conditions (res_Status r)) (om_Generation (res_Meta r))
           ready reason message\<rparr>\<rparr>"

definition Runner_IsBeingDeleted :: "Runner \<Rightarrow> bool" where
  "Runner_IsBeingDeleted r = (\<not> is_zero (om_DeletionTimestamp (res_Meta r)))"

definition Runner_HasFinalizer :: "'a ObjectLibs_scheme \<Rightarrow> Runner \<Rightarrow> bool" where
  "Runner_HasFinalizer L r = lib_ContainsFinalizer L (om_Finalizers (res_Meta r)) Runner_finalizer"

definition Runner_AddFinalizer :: "'a ObjectLibs_scheme \<Rightarrow> Runner \<Rightarrow> Runner" where
  "Runner_AddFinalizer L r =
     r\<lparr>res_Meta := (res_Meta r)\<lparr>om_Finalizers :=
         lib_AddFinalizer L (om_Finalizers (res_Meta r)) Runner_finalizer\<rparr>\<rparr>"

definition Runner_RemoveFinalizer :: "'a ObjectLibs_scheme \<Rightarrow> Runner \<Rightarrow> Runner" where
  "Runner_RemoveFinalizer L r =
     r\<lparr>res_Meta := (res_Meta r)\<lparr>om_Finalizers :=
         lib_RemoveFinalizer L (om_Finalizers (res_Meta r)) Runner_finalizer\<rparr>\<rparr>"

definition Runner_RunnerImage :: "Runner \<Rightarrow> string" where
  "Runner_RunnerImage r =
     (if sp_RunnerImage (res_Spec r) \<noteq> '''' then sp_RunnerImage (res_Spec r) else DefaultRunnerImage)"

definition Runner_RunnerResources :: "Runner \<Rightarrow> ResourceRequirements" where
  "Runner_RunnerResources r =
     (case sp_RunnerResources (res_Spec r) of Some x \<Rightarrow> x | None \<Rightarrow> defaultRunnerResources)"

definition Runner_RunnerImagePullPolicy :: "Runner \<Rightarrow> string" where
  "Runner_RunnerImagePullPolicy r =
     (if sp_RunnerImagePullPolicy (res_Spec r) \<noteq> '''' then sp_RunnerImagePullPolicy (res_Spec r)
      else ''IfNotPresent'')"

definition Runner_RunnerSecurityContext :: "Runner \<Rightarrow> SecurityContext option" where
  "Runner_RunnerSecurityContext r =
     (if sp_RunnerSecurityContext (res_Spec r) \<noteq> None then sp_RunnerSecurityContext (res_Spec r)
      else Some defaultRunnerSecurityContext)"

definition Runner_RunnerEnv :: "Runner \<Rightarrow> EnvVar goslice" where
  "Runner_RunnerEnv r = sp_RunnerEnv (res_Spec r)"

definition Runner_RunnerNodeSelector :: "Runner \<Rightarrow> string gomap" where
  "Runner_RunnerNodeSelector r = sp_RunnerNodeSelector (res_Spec r)"

definition Runner_RunnerTolerations :: "Runner \<Rightarrow> Toleration goslice" where
  "Runner_RunnerTolerations r = sp_RunnerTolerations (res_Spec r)"

definition Runner_RunnerAffinity :: "Runner \<Rightarrow> Affinity option" where
  "Runner_RunnerAffinity r = sp_RunnerAffinity (res_Spec r)"

definition Runner_RunnerPriorityClassName :: "Runner \<Rightarrow> string" where
  "Runner_RunnerPriorityClassName r = sp_RunnerPriorityClassName (res_Spec r)"

definition Runner_RunnerTerminationGracePeriodSeconds :: "Runner \<Rightarrow> int" where
  "Runner_RunnerTerminationGracePeriodSeconds r =
     (case sp_RunnerTerminationGracePeriodSeconds (res_Spec r) of
        None \<Rightarrow> DefaultRunnerTerminationGracePeriodSeconds
      | Some s \<Rightarrow> s)"

section \<open>Methods of MultiRunner\<close>

definition MultiRunner_RegistrationConfig :: "MultiRunner \<Rightarrow> GitlabRegInfo list" where
  "MultiRunner_RegistrationConfig r =
     map (\<lambda>entry.
       \<lparr>reg_Name = mre_Name entry,
        reg_Auth = mre_Authentication entry,
        reg_GitlabUrl = sp_GitlabInstanceURL (res_Spec r),
        reg_CACertificate = sp_CACertificate (res_Spec r),
        reg_RunnerID = map_get_or 0 (mst_RunnerIDs (res_Status r)) (mre_Name entry),
        reg_AuthToken = '''',
        reg_TokenExpiresAt = map_get (mst_TokenExpiresAt (res_Status r)) (mre_Name entry),
        reg_RegistrationHash = map_get_or '''' (mst_RegistrationHashes (res_Status r)) (mre_Name entry)\<rparr>)
     (mrs_Entries (res_Spec r))"

definition MultiRunner_StoreRunnerRegistration :: "GitlabRegInfo \<Rightarrow> MultiRunner \<Rightarrow> MultiRunner" where
  "MultiRunner_StoreRunnerRegistration info r =
     (let s = res_Status r;
          ids = non_nil (mst_RunnerIDs s);
          hashes = non_nil (mst_RegistrationHashes s);
          expiries = non_nil (mst_TokenExpiresAt s)
      in r\<lparr>res_Status := s\<lparr>
           mst_RunnerIDs := map_put (reg_Name info) (reg_RunnerID info) ids,
           mst_RegistrationHashes := map_put (reg_Name info) (reg_RegistrationHash info) hashes,
           mst_TokenExpiresAt :=
             (case reg_TokenExpiresAt info of
                Some t \<Rightarrow> map_put (reg_Name info) t expiries
              | None \<Rightarrow> map_delete (reg_Name info) expiries)\<rparr>\<rparr>)"

definition MultiRunner_GetStatus :: "MultiRunner \<Rightarrow> StatusAny" where
  "MultiRunner_GetStatus r = AnyMultiRunnerStatus (res_Status r)"

definition MultiRunner_SetStatus :: "StatusAny \<Rightarrow> MultiRunner \<Rightarrow> MultiRunner option" where
  "MultiRunner_SetStatus newStatus r =
     (case newStatus of
        AnyMultiRunnerStatus s \<Rightarrow> Some (r\<lparr>res_Status := s\<rparr>)
      | AnyRunnerStatus s \<Rightarrow> None)"

definition MultiRunner_ChildName :: "MultiRunner \<Rightarrow> string" where
  "MultiRunner_ChildName r = ''gitlab-mrunner-'' @ om_Name (res_Meta r)"

definition MultiRunner_ExecutorConfigs :: "MultiRunner \<Rightarrow> KubernetesConfig list" where
  "MultiRunner_ExecutorConfigs r = map mre_ExecutorConfig (mrs_Entries (res_Spec r))"

definition MultiRunner_finalizer :: string where
  "MultiRunner_finalizer = ''gitlab.k8s.alekc.dev/mr-finalizer''"

definition MultiRunner_GetNamespace :: "MultiRunner \<Rightarrow> string" where
  "MultiRunner_GetNamespace r = om_Namespace (res_Meta r)"

definition MultiRunner_CACertificate :: "MultiRunner \<Rightarrow> CASource option" where
  "MultiRunner_CACertificate r = sp_CACertificate (res_Spec r)"

definition MultiRunner_GenerateOwnerReference :: "MultiRunner \<Rightarrow> OwnerReference list" where
  "MultiRunner_GenerateOwnerReference r =
     [\<lparr>or_APIVersion = GroupVersion, or_Kind = ''MultiRunner'', or_Name = om_Name (res_Meta r),
       or_UID = om_UID (res_Meta r), or_Controller = Some True, or_BlockOwnerDeletion = None\<rparr>]"

definition MultiRunner_SetStatusError :: "string \<Rightarrow> MultiRunner \<Rightarrow> MultiRunner" where
  "MultiRunner_SetStatusError errorMessage r = r\<lparr>res_Status := (res_Status r)\<lparr>st_Error := errorMessage\<rparr>\<rparr>"

definition MultiRunner_SetConfigMapVersion :: "string \<Rightarrow> MultiRunner \<Rightarrow> MultiRunner" where
  "MultiRunner_SetConfigMapVersion versionHash r =
     r\<lparr>res_Status := (res_Status r)\<lparr>st_ConfigMapVersion := versionHash\<rparr>\<rparr>"

definition MultiRunner_ConfigMapVersion :: "MultiRunner \<Rightarrow> string" where
  "MultiRunner_ConfigMapVersion r = st_ConfigMapVersion (res_Status r)"

definition MultiRunner_SetStatusReady :: "bool \<Rightarrow> MultiRunner \<Rightarrow> MultiRunner" where
  "MultiRunner_SetStatusReady ready r = r\<lparr>res_Status := (res_Status r)\<lparr>st_Ready := ready\<rparr>\<rparr>"

definition MultiRunner_SetObservedGeneration :: "int \<Rightarrow> MultiRunner \<Rightarrow> MultiRunner" where
  "MultiRunner_SetObservedGeneration gen r =
     r\<lparr>res_Status := (res_Status r)\<lparr>st_ObservedGeneration := gen\<rparr>\<rparr>"

definition MultiRunner_SetReadyCondition ::
  "'a ObjectLibs_scheme \<Rightarrow> time \<Rightarrow> bool \<Rightarrow> string \<Rightarrow> string \<Rightarrow> MultiRunner \<Rightarrow> MultiRunner" where
  "MultiRunner_SetReadyCondition L now ready reason message r =
     r\<lparr>res_Status := (res_Status r)\<lparr>st_Conditions :=
         setReadyCondition L now (st_Conditions (res_Status r)) (om_Generation (res_Meta r))
           ready reason message\<rparr>\<rparr>"

definition MultiRunner_IsBeingDeleted :: "MultiRunner \<Rightarrow> bool" where
  "MultiRunner_IsBeingDeleted r = (\<not> is_zero (om_DeletionTimestamp (res_Meta r)))"

definition MultiRunner_HasFinalizer :: "'a ObjectLibs_scheme \<Rightarrow> MultiRunner \<Rightarrow> bool" where
  "MultiRunner_HasFinalizer L r = lib_ContainsFinalizer L (om_Finalizers (res_Meta r)) MultiRunner_finalizer"

definition MultiRunner_AddFinalizer :: "'a ObjectLibs_scheme \<Rightarrow> MultiRunner \<Rightarrow> MultiRunner" where
  "MultiRunner_AddFinalizer L r =
     r\<lparr>res_Meta := (res_Meta r)\<lparr>om_Finalizers :=
         lib_AddFinalizer L (om_Finalizers (res_Meta r)) MultiRunner_finalizer\<rparr>\<rparr>"

definition MultiRunner_RemoveFinalizer :: "'a ObjectLibs_scheme \<Rightarrow> MultiRunner \<Rightarrow> MultiRunner" where
  "MultiRunner_RemoveFinalizer L r =
     r\<lparr>res_Meta := (res_Meta r)\<lparr>om_Finalizers :=
         lib_RemoveFinalizer L (om_Finalizers (res_Meta r)) MultiRunner_finalizer\<rparr>\<rparr>"

definition MultiRunner_RunnerImage :: "MultiRunner \<Rightarrow> string" where
  "MultiRunner_RunnerImage r =
     (if sp_RunnerImage (res_Spec r) \<noteq> '''' then sp_RunnerImage (res_Spec r) else DefaultRunnerImage)"

definition MultiRunner_RunnerResources :: "MultiRunner \<Rightarrow> ResourceRequirements" where
  "MultiRunner_RunnerResources r =
     (case sp_RunnerResources (res_Spec r) of Some x \<Rightarrow> x | None \<Rightarrow> defaultRunnerResources)"

definition MultiRunner_RunnerImagePullPolicy :: "MultiRunner \<Rightarrow> string" where
  "MultiRunner_RunnerImagePullPolicy r =
     (if sp_RunnerImagePullPolicy (res_Spec r) \<noteq> '''' then sp_RunnerImagePullPolicy (res_Spec r)
      else ''IfNotPresent'')"

definition MultiRunner_RunnerSecurityContext :: "MultiRunner \<Rightarrow> SecurityContext option" where
  "MultiRunner_RunnerSecurityContext r =
     (if sp_RunnerSecurityContext (res_Spec r) \<noteq> None then sp_RunnerSecurityContext (res_Spec r)
      else Some defaultRunnerSecurityContext)"

definition MultiRunner_RunnerEnv :: "MultiRunner \<Rightarrow> EnvVar goslice" where
  "MultiRunner_RunnerEnv r = sp_RunnerEnv (res_Spec r)"

definition MultiRunner_RunnerNodeSelector :: "MultiRunner \<Rightarrow> string gomap" where
  "MultiRunner_RunnerNodeSelector r = sp_RunnerNodeSelector (res_Spec r)"

definition MultiRunner_RunnerTolerations :: "MultiRunner \<Rightarrow> Toleration goslice" where
  "MultiRunner_RunnerTolerations r = sp_RunnerTolerations (res_Spec r)"

definition MultiRunner_RunnerAffinity :: "MultiRunner \<Rightarrow> Affinity option" where
  "MultiRunner_RunnerAffinity r = sp_RunnerAffinity (res_Spec r)"

definition MultiRunner_RunnerPriorityClassName :: "MultiRunner \<Rightarrow> string" where
  "MultiRunner_RunnerPriorityClassName r = sp_RunnerPriorityClassName (res_Spec r)"

definition MultiRunner_RunnerTerminationGracePeriodSeconds :: "MultiRunner \<Rightarrow> int" where
  "MultiRunner_RunnerTerminationGracePeriodSeconds r =
     (case sp_RunnerTerminationGracePeriodSeconds (res_Spec r) of
        None \<Rightarrow> DefaultRunnerTerminationGracePeriodSeconds
      | Some s \<Rightarrow> s)"

section \<open>The interface\<close>

text \<open>
  A \<open>types.RunnerInfo\<close> value holds one of the two pointers; every call is dispatched to the
  method of that kind. \<open>GetName\<close>, \<open>GetUID\<close>, \<open>GetGeneration\<close>, \<open>GetAnnotations\<close> and
  \<open>SetAnnotations\<close> are the promoted methods of the embedded \<open>ObjectMeta\<close>.
\<close>

datatype RunnerInfo = RunnerObj Runner | MultiRunnerObj MultiRunner

fun GetMeta :: "RunnerInfo \<Rightarrow> ObjectMeta" where
  "GetMeta (RunnerObj r) = res_Meta r"
| "GetMeta (MultiRunnerObj r) = res_Meta r"

fun SetMeta :: "ObjectMeta \<Rightarrow> RunnerInfo \<Rightarrow> RunnerInfo" where
  "SetMeta m (RunnerObj r) = RunnerObj (r\<lparr>res_Meta := m\<rparr>)"
| "SetMeta m (MultiRunnerObj r) = MultiRunnerObj (r\<lparr>res_Meta := m\<rparr>)"

definition GetName :: "RunnerInfo \<Rightarrow> string" where
  "GetName x = om_Name (GetMeta x)"

definition GetUID :: "RunnerInfo \<Rightarrow> string" where
  "GetUID x = om_UID (GetMeta x)"

definition GetGeneration :: "RunnerInfo \<Rightarrow> int" where
  "GetGeneration x = om_Generation (GetMeta x)"

definition GetAnnotations :: "RunnerInfo \<Rightarrow> string gomap" where
  "GetAnnotations x = om_Annotations (GetMeta x)"

definition SetAnnotations :: "string gomap \<Rightarrow> RunnerInfo \<Rightarrow> RunnerInfo" where
  "SetAnnotations a x = SetMeta ((GetMeta x)\<lparr>om_Annotations := a\<rparr>) x"

fun RegistrationConfig :: "RunnerInfo \<Rightarrow> GitlabRegInfo list" where
  "RegistrationConfig (RunnerObj r) = Runner_RegistrationConfig r"
| "RegistrationConfig (MultiRunnerObj r) = MultiRunner_RegistrationConfig r"

fun StoreRunnerRegistration :: "GitlabRegInfo \<Rightarrow> RunnerInfo \<Rightarrow> RunnerInfo" where
  "StoreRunnerRegistration a0 (RunnerObj r) = RunnerObj (Runner_StoreRunnerRegistration a0 r)"
| "StoreRunnerRegistration a0 (MultiRunnerObj r) = MultiRunnerObj (MultiRunner_StoreRunnerRegistration a0 r)"

fun GetStatus :: "RunnerInfo \<Rightarrow> StatusAny" where
  "GetStatus (RunnerObj r) = Runner_GetStatus r"
| "GetStatus (MultiRunnerObj r) = MultiRunner_GetStatus r"

fun ChildName :: "RunnerInfo \<Rightarrow> string" where
  "ChildName (RunnerObj r) = Runner_ChildName r"
| "ChildName (MultiRunnerObj r) = MultiRunner_ChildName r"

fun ExecutorConfigs :: "RunnerInfo \<Rightarrow> KubernetesConfig list" where
  "ExecutorConfigs (RunnerObj r) = Runner_ExecutorConfigs r"
| "ExecutorConfigs (MultiRunnerObj r) = MultiRunner_ExecutorConfigs r"

fun GetNamespace :: "RunnerInfo \<Rightarrow> string" where
  "GetNamespace (RunnerObj r) = Runner_GetNamespace r"
| "GetNamespace (MultiRunnerObj r) = MultiRunner_GetNamespace r"

fun CACertificate :: "RunnerInfo \<Rightarrow> CASource option" where
  "CACertificate (RunnerObj r) = Runner_CACertificate r"
| "CACertificate (MultiRunnerObj r) = MultiRunner_CACertificate r"

fun GenerateOwnerReference :: "RunnerInfo \<Rightarrow> OwnerReference list" where
  "GenerateOwnerReference (RunnerObj r) = Runner_GenerateOwnerReference r"
| "GenerateOwnerReference (MultiRunnerObj r) = MultiRunner_GenerateOwnerReference r"

fun SetStatusError :: "string \<Rightarrow> RunnerInfo \<Rightarrow> RunnerInfo" where
  "SetStatusError a0 (RunnerObj r) = RunnerObj (Runner_SetStatusError a0 r)"
| "SetStatusError a0 (MultiRunnerObj r) = MultiRunnerObj (MultiRunner_SetStatusError a0 r)"

fun SetConfigMapVersion :: "string \<Rightarrow> RunnerInfo \<Rightarrow> RunnerInfo" where
  "SetConfigMapVersion a0 (RunnerObj r) = RunnerObj (Runner_SetConfigMapVersion a0 r)"
| "SetConfigMapVersion a0 (MultiRunnerObj r) = MultiRunnerObj (MultiRunner_SetConfigMapVersion a0 r)"

fun ConfigMapVersion :: "RunnerInfo \<Rightarrow> string" where
  "ConfigMapVersion (RunnerObj r) = Runner_ConfigMapVersion r"
| "ConfigMapVersion (MultiRunnerObj r) = MultiRunner_ConfigMapVersion r"

fun SetStatusReady :: "bool \<Rightarrow> RunnerInfo \<Rightarrow> RunnerInfo" where
  "SetStatusReady a0 (RunnerObj r) = RunnerObj (Runner_SetStatusReady a0 r)"
| "SetStatusReady a0 (MultiRunnerObj r) = MultiRunnerObj (MultiRunner_SetStatusReady a0 r)"

fun SetObservedGeneration :: "int \<Rightarrow> RunnerInfo \<Rightarrow> RunnerInfo" where
  "SetObservedGeneration a0 (RunnerObj r) = RunnerObj (Runner_SetObservedGeneration a0 r)"
| "SetObservedGeneration a0 (MultiRunnerObj r) = MultiRunnerObj (MultiRunner_SetObservedGeneration a0 r)"

fun SetReadyCondition :: "'a ObjectLibs_scheme \<Rightarrow> time \<Rightarrow> bool \<Rightarrow> string \<Rightarrow> string \<Rightarrow> RunnerInfo \<Rightarrow> RunnerInfo" where
  "SetReadyCondition a0 a1 a2 a3 a4 (RunnerObj r) = RunnerObj (Runner_SetReadyCondition a0 a1 a2 a3 a4 r)"
| "SetReadyCondition a0 a1 a2 a3 a4 (MultiRunnerObj r) = MultiRunnerObj (MultiRunner_SetReadyCondition a0 a1 a2 a3 a4 r)"

fun IsBeingDeleted :: "RunnerInfo \<Rightarrow> bool" where
  "IsBeingDeleted (RunnerObj r) = Runner_IsBeingDeleted r"
| "IsBeingDeleted (MultiRunnerObj r) = MultiRunner_IsBeingDeleted r"

fun HasFinalizer :: "'a ObjectLibs_scheme \<Rightarrow> RunnerInfo \<Rightarrow> bool" where
  "HasFinalizer a0 (RunnerObj r) = Runner_HasFinalizer a0 r"
| "HasFinalizer a0 (MultiRunnerObj r) = MultiRunner_HasFinalizer a0 r"

fun AddFinalizer :: "'a ObjectLibs_scheme \<Rightarrow> RunnerInfo \<Rightarrow> RunnerInfo" where
  "AddFinalizer a0 (RunnerObj r) = RunnerObj (Runner_AddFinalizer a0 r)"
| "AddFinalizer a0 (MultiRunnerObj r) = MultiRunnerObj (MultiRunner_AddFinalizer a0 r)"

fun RemoveFinalizer :: "'a ObjectLibs_scheme \<Rightarrow> RunnerInfo \<Rightarrow> RunnerInfo" where
  "RemoveFinalizer a0 (RunnerObj r) = RunnerObj (Runner_RemoveFinalizer a0 r)"
| "RemoveFinalizer a0 (MultiRunnerObj r) = MultiRunnerObj (MultiRunner_RemoveFinalizer a0 r)"

fun RunnerImage :: "RunnerInfo \<Rightarrow> string" where
  "RunnerImage (RunnerObj r) = Runner_RunnerImage r"
| "RunnerImage (MultiRunnerObj r) = MultiRunner_RunnerImage r"

fun RunnerResources :: "RunnerInfo \<Rightarrow> ResourceRequirements" where
  "RunnerResources (RunnerObj r) = Runner_RunnerResources r"
| "RunnerResources (MultiRunnerObj r) = MultiRunner_RunnerResources r"

fun RunnerImagePullPolicy :: "RunnerInfo \<Rightarrow> string" where
  "RunnerImagePullPolicy (RunnerObj r) = Runner_RunnerImagePullPolicy r"
| "RunnerImagePullPolicy (MultiRunnerObj r) = MultiRunner_RunnerImagePullPolicy r"

fun RunnerSecurityContext :: "RunnerInfo \<Rightarrow> SecurityContext option" where
  "RunnerSecurityContext (RunnerObj r) = Runner_RunnerSecurityContext r"
| "RunnerSecurityContext (MultiRunnerObj r) = MultiRunner_RunnerSecurityContext r"

fun RunnerEnv :: "RunnerInfo \<Rightarrow> EnvVar goslice" where
  "RunnerEnv (RunnerObj r) = Runner_RunnerEnv r"
| "RunnerEnv (MultiRunnerObj r) = MultiRunner_RunnerEnv r"

fun RunnerNodeSelector :: "RunnerInfo \<Rightarrow> string gomap" where
  "RunnerNodeSelector (RunnerObj r) = Runner_RunnerNodeSelector r"
| "RunnerNodeSelector (MultiRunnerObj r) = MultiRunner_RunnerNodeSelector r"

fun RunnerTolerations :: "RunnerInfo \<Rightarrow> Toleration goslice" where
  "RunnerTolerations (RunnerObj r) = Runner_RunnerTolerations r"
| "RunnerTolerations (MultiRunnerObj r) = MultiRunner_RunnerTolerations r"

fun RunnerAffinity :: "RunnerInfo \<Rightarrow> Affinity option" where
  "RunnerAffinity (RunnerObj r) = Runner_RunnerAffinity r"
| "RunnerAffinity (MultiRunnerObj r) = MultiRunner_RunnerAffinity r"

fun RunnerPriorityClassName :: "RunnerInfo \<Rightarrow> string" where
  "RunnerPriorityClassName (RunnerObj r) = Runner_RunnerPriorityClassName r"
| "RunnerPriorityClassName (MultiRunnerObj r) = MultiRunner_RunnerPriorityClassName r"

fun RunnerTerminationGracePeriodSeconds :: "RunnerInfo \<Rightarrow> int" where
  "RunnerTerminationGracePeriodSeconds (RunnerObj r) = Runner_RunnerTerminationGracePeriodSeconds r"
| "RunnerTerminationGracePeriodSeconds (MultiRunnerObj r) = MultiRunner_RunnerTerminationGracePeriodSeconds r"

fun SetStatus :: "StatusAny \<Rightarrow> RunnerInfo \<Rightarrow> RunnerInfo option" where
  "SetStatus s (RunnerObj r) = map_option RunnerObj (Runner_SetStatus s r)"
| "SetStatus s (MultiRunnerObj r) = map_option MultiRunnerObj (MultiRunner_SetStatus s r)"

end
