(* ===== verification/Runner_Contract.thy ===== *)
theory Runner_Contract
  imports Runner_Types
begin

text \<open>
  The contract of \<open>types.RunnerInfo\<close>, and the proof that \<open>Runner\<close>, \<open>MultiRunner\<close> and the
  dispatching interface value keep it: what a registration record reads back after it is stored,
  and which parts of the object the setters leave alone.
\<close>

text \<open>What storing \<open>info\<close> makes of the record \<open>g\<close> of a unit.\<close>

definition recorded :: "GitlabRegInfo \<Rightarrow> GitlabRegInfo \<Rightarrow> GitlabRegInfo" where
  "recorded info g =
     (if reg_Name g = reg_Name info
      then g\<lparr>reg_RunnerID := reg_RunnerID info, reg_TokenExpiresAt := reg_TokenExpiresAt info,
             reg_RegistrationHash := reg_RegistrationHash info\<rparr>
      else g)"

lemma recorded_keeps [simp]:
  "reg_Name (recorded info g) = reg_Name g"
  "reg_Auth (recorded info g) = reg_Auth g"
  "reg_GitlabUrl (recorded info g) = reg_GitlabUrl g"
  "reg_AuthToken (recorded info g) = reg_AuthToken g"
  by (simp_all add: recorded_def)

lemma recorded_same:
  "reg_Name a = reg_Name b \<Longrightarrow> recorded b (recorded a g) = recorded b g"
  by (simp add: recorded_def)

lemma recorded_token [simp]: "recorded (info\<lparr>reg_AuthToken := t\<rparr>) g = recorded info g"
  by (simp add: recorded_def)

locale runner_object =
  fixes regs :: "'r \<Rightarrow> GitlabRegInfo list"
    and store :: "GitlabRegInfo \<Rightarrow> 'r \<Rightarrow> 'r"
    and meta :: "'r \<Rightarrow> ObjectMeta"
    and executors :: "'r \<Rightarrow> KubernetesConfig list"
    and version :: "'r \<Rightarrow> string"
    and set_error :: "string \<Rightarrow> 'r \<Rightarrow> 'r"
    and set_version :: "string \<Rightarrow> 'r \<Rightarrow> 'r"
    and set_ready :: "bool \<Rightarrow> 'r \<Rightarrow> 'r"
    and set_generation :: "int \<Rightarrow> 'r \<Rightarrow> 'r"
  assumes regs_store:
      "reg_Name info \<in> reg_Name ` set (regs r) \<Longrightarrow> regs (store info r) = map (recorded info) (regs r)"
    and regs_no_token: "g \<in> set (regs r) \<Longrightarrow> reg_AuthToken g = ''''"
    and meta_store: "meta (store info r) = meta r"
    and executors_store: "executors (store info r) = executors r"
    and regs_set:
      "regs (set_error e r) = regs r" "regs (set_version v r) = regs r"
      "regs (set_ready b r) = regs r" "regs (set_generation n r) = regs r"
    and meta_set:
      "meta (set_error e r) = meta r" "meta (set_version v r) = meta r"
      "meta (set_ready b r) = meta r" "meta (set_generation n r) = meta r"
    and executors_set:
      "executors (set_error e r) = executors r" "executors (set_version v r) = executors r"
      "executors (set_ready b r) = executors r" "executors (set_generation n r) = executors r"
    and version_set: "version (set_version v r) = v"
    and version_keep:
      "version (set_error e r) = version r" "version (set_ready b r) = version r"
      "version (set_generation n r) = version r" "version (store info r) = version r"
begin

lemma names_store:
  "reg_Name info \<in> reg_Name ` set (regs r) \<Longrightarrow>
     map reg_Name (regs (store info r)) = map reg_Name (regs r)"
  by (simp add: regs_store)

text \<open>A stored registration is read back, and no other unit's record changes.\<close>

lemma store_read_back:
  assumes "reg_Name info \<in> reg_Name ` set (regs r)" and "g \<in> set (regs (store info r))"
    and "reg_Name g = reg_Name info"
  shows "reg_RunnerID g = reg_RunnerID info" "reg_TokenExpiresAt g = reg_TokenExpiresAt info"
    "reg_RegistrationHash g = reg_RegistrationHash info"
  using assms by (auto simp: regs_store recorded_def)

lemma store_other_units:
  assumes "reg_Name info \<in> reg_Name ` set (regs r)" and "g \<in> set (regs r)"
    and "reg_Name g \<noteq> reg_Name info"
  shows "g \<in> set (regs (store info r))"
  using assms by (force simp: regs_store recorded_def)

lemma store_last_wins:
  assumes "reg_Name a \<in> reg_Name ` set (regs r)" and "reg_Name b = reg_Name a"
  shows "regs (store b (store a r)) = regs (store b r)"
proof -
  have "reg_Name b \<in> reg_Name ` set (regs (store a r))"
    using assms by (simp add: regs_store image_image)
  then show ?thesis
    using assms by (simp add: regs_store recorded_same)
qed

text \<open>The token of a registration never reaches the object.\<close>

lemma store_ignores_token:
  assumes "reg_Name info \<in> reg_Name ` set (regs r)"
  shows "regs (store (info\<lparr>reg_AuthToken := t\<rparr>) r) = regs (store info r)"
  using assms by (simp add: regs_store)

end

lemmas status_setter_defs =
  Runner_SetStatusError_def Runner_SetConfigMapVersion_def Runner_SetStatusReady_def
  Runner_SetObservedGeneration_def Runner_ConfigMapVersion_def
  MultiRunner_SetStatusError_def MultiRunner_SetConfigMapVersion_def MultiRunner_SetStatusReady_def
  MultiRunner_SetObservedGeneration_def MultiRunner_ConfigMapVersion_def

interpretation runner: runner_object Runner_RegistrationConfig Runner_StoreRunnerRegistration
    res_Meta Runner_ExecutorConfigs Runner_ConfigMapVersion Runner_SetStatusError
    Runner_SetConfigMapVersion Runner_SetStatusReady Runner_SetObservedGeneration
  by unfold_locales
    (auto simp: Runner_RegistrationConfig_def Runner_StoreRunnerRegistration_def recorded_def
      Runner_ExecutorConfigs_def status_setter_defs)

interpretation multi_runner: runner_object MultiRunner_RegistrationConfig
    MultiRunner_StoreRunnerRegistration res_Meta MultiRunner_ExecutorConfigs
    MultiRunner_ConfigMapVersion MultiRunner_SetStatusError MultiRunner_SetConfigMapVersion
    MultiRunner_SetStatusReady MultiRunner_SetObservedGeneration
  by unfold_locales
    (auto simp: MultiRunner_RegistrationConfig_def MultiRunner_StoreRunnerRegistration_def
      recorded_def map_get_or_def Let_def MultiRunner_ExecutorConfigs_def status_setter_defs
      split: option.splits)

lemma RegistrationConfig_cases:
  "RegistrationConfig x = (case x of RunnerObj r \<Rightarrow> Runner_RegistrationConfig r
                                   | MultiRunnerObj r \<Rightarrow> MultiRunner_RegistrationConfig r)"
  by (cases x) auto

interpretation runner_info: runner_object RegistrationConfig StoreRunnerRegistration
    GetMeta ExecutorConfigs ConfigMapVersion SetStatusError SetConfigMapVersion
    SetStatusReady SetObservedGeneration
proof (unfold_locales, goal_cases)
  case (1 info x)
  then show ?case by (cases x) (simp_all add: runner.regs_store multi_runner.regs_store)
next
  case (2 g x)
  then show ?case by (cases x) (simp_all add: runner.regs_no_token multi_runner.regs_no_token)
qed (rename_tac x, case_tac x,
     simp_all add: runner.meta_store multi_runner.meta_store runner.executors_store
       multi_runner.executors_store runner.regs_set multi_runner.regs_set runner.meta_set
       multi_runner.meta_set runner.executors_set multi_runner.executors_set runner.version_set
       multi_runner.version_set runner.version_keep multi_runner.version_keep)+

text \<open>Facts about the dispatching value that the components use as rewrite rules.\<close>

lemmas runner_info_simps [simp] =
  runner_info.meta_store runner_info.executors_store runner_info.regs_set runner_info.meta_set
  runner_info.executors_set runner_info.version_set runner_info.version_keep

lemma SetReadyCondition_keeps [simp]:
  "GetMeta (SetReadyCondition L t b r m x) = GetMeta x"
  "RegistrationConfig (SetReadyCondition L t b r m x) = RegistrationConfig x"
  "ExecutorConfigs (SetReadyCondition L t b r m x) = ExecutorConfigs x"
  "ConfigMapVersion (SetReadyCondition L t b r m x) = ConfigMapVersion x"
  by (cases x, simp_all add: Runner_SetReadyCondition_def MultiRunner_SetReadyCondition_def
    Runner_RegistrationConfig_def MultiRunner_RegistrationConfig_def Runner_ExecutorConfigs_def
    MultiRunner_ExecutorConfigs_def Runner_ConfigMapVersion_def MultiRunner_ConfigMapVersion_def)+

lemma GetMeta_SetMeta [simp]: "GetMeta (SetMeta m x) = m"
  by (cases x) auto

lemma SetMeta_keeps [simp]: "ExecutorConfigs (SetMeta m x) = ExecutorConfigs x"
  by (cases x) (auto simp: Runner_ExecutorConfigs_def MultiRunner_ExecutorConfigs_def)

text \<open>\<open>GetNamespace\<close> and \<open>ChildName\<close> depend on the metadata and the kind alone.\<close>

lemma GetNamespace_meta: "GetNamespace x = om_Namespace (GetMeta x)"
  by (cases x) (simp_all add: Runner_GetNamespace_def MultiRunner_GetNamespace_def)

definition is_multi :: "RunnerInfo \<Rightarrow> bool" where
  "is_multi x = (case x of RunnerObj r \<Rightarrow> False | MultiRunnerObj r \<Rightarrow> True)"

definition child_prefix :: "bool \<Rightarrow> string" where
  "child_prefix multi = (if multi then ''gitlab-mrunner-'' else ''gitlab-runner-'')"

lemma ChildName_meta: "ChildName x = child_prefix (is_multi x) @ GetName x"
  by (cases x) (simp_all add: Runner_ChildName_def MultiRunner_ChildName_def child_prefix_def
    is_multi_def GetName_def)

text \<open>
  Child names of two objects differ unless the objects have the same kind and the same name, so
  two runners never share a Deployment, a config Secret or a ServiceAccount.
\<close>

lemma ChildName_inj: "ChildName x = ChildName y \<longleftrightarrow> is_multi x = is_multi y \<and> GetName x = GetName y"
  by (cases "is_multi x"; cases "is_multi y") (auto simp: ChildName_meta child_prefix_def)

end
