(* ===== verification/Config_Types.thy ===== *)
theory Config_Types
  imports Kube_Types Cluster_Types
begin

text \<open>
  \<open>config/config.go\<close>, the structure rendered as \<open>config.toml\<close>, and
  \<open>internal/validate/pod_shape.go\<close>, the part of the manager pod the operator compares.
  An embedded struct is a field of its type's name.
\<close>

section \<open>config.toml\<close>

record RunnerCredentials =
  rc_URL :: string
  rc_Token :: string
  rc_TLSCAFile :: string
  rc_TLSCertFile :: string
  rc_TLSKeyFile :: string

definition RunnerCredentials_zero :: RunnerCredentials where
  "RunnerCredentials_zero = \<lparr>rc_URL = '''', rc_Token = '''', rc_TLSCAFile = '''',
     rc_TLSCertFile = '''', rc_TLSKeyFile = ''''\<rparr>"

record RunnerSettings =
  rset_Executor :: string
  rset_BuildsDir :: string
  rset_CacheDir :: string
  rset_CloneURL :: string
  rset_Environment :: "string goslice"
  rset_PreCloneScript :: string
  rset_PreBuildScript :: string
  rset_PostBuildScript :: string
  rset_DebugTraceDisabled :: bool
  rset_Kubernetes :: "KubernetesConfig option"

definition RunnerSettings_zero :: RunnerSettings where
  "RunnerSettings_zero = \<lparr>rset_Executor = '''', rset_BuildsDir = '''', rset_CacheDir = '''',
     rset_CloneURL = '''', rset_Environment = None, rset_PreCloneScript = '''',
     rset_PreBuildScript = '''', rset_PostBuildScript = '''', rset_DebugTraceDisabled = False,
     rset_Kubernetes = None\<rparr>"

record RunnerConfig =
  rcfg_Name :: string
  rcfg_Limit :: int
  rcfg_OutputLimit :: int
  rcfg_RequestConcurrency :: int
  rcfg_RunnerCredentials :: RunnerCredentials
  rcfg_RunnerSettings :: RunnerSettings

record Config =
  cfg_ListenAddress :: string
  cfg_Concurrent :: int
  cfg_CheckInterval :: int
  cfg_LogLevel :: string
  cfg_Runners :: "RunnerConfig list"

section \<open>The manager pod shape\<close>

definition RunnerContainerName :: string where
  "RunnerContainerName = ''runner''"

record PodShape =
  shape_Image :: string
  shape_ImagePullPolicy :: string
  shape_Resources :: ResourceRequirements
  shape_SecurityContext :: "SecurityContext option"
  shape_Env :: "EnvVar goslice"
  shape_NodeSelector :: "string gomap"
  shape_Tolerations :: "Toleration goslice"
  shape_Affinity :: "Affinity option"
  shape_PriorityClassName :: string
  shape_GracePeriod :: "int option"

definition ResourceRequirements_zero :: ResourceRequirements where
  "ResourceRequirements_zero = \<lparr>rq_Limits = None, rq_Requests = None, rq_Claims = None\<rparr>"

text \<open>The loop over the containers stops at the first one named \<open>runner\<close>.\<close>

fun shape_of_containers :: "Container list \<Rightarrow> PodShape \<Rightarrow> PodShape" where
  "shape_of_containers [] shape = shape"
| "shape_of_containers (c # cs) shape =
     (if con_Name c \<noteq> RunnerContainerName then shape_of_containers cs shape
      else shape\<lparr>shape_Image := con_Image c,
                 shape_ImagePullPolicy := con_ImagePullPolicy c,
                 shape_Resources := con_Resources c,
                 shape_SecurityContext := con_SecurityContext c,
                 shape_Env := con_Env c\<rparr>)"

definition ManagerPodShape :: "PodTemplateSpec \<Rightarrow> PodShape" where
  "ManagerPodShape tpl =
     (let shape =
        \<lparr>shape_Image = '''', shape_ImagePullPolicy = '''',
         shape_Resources = ResourceRequirements_zero, shape_SecurityContext = None,
         shape_Env = None,
         shape_NodeSelector = ps_NodeSelector (pt_Spec tpl),
         shape_Tolerations = ps_Tolerations (pt_Spec tpl),
         shape_Affinity = ps_Affinity (pt_Spec tpl),
         shape_PriorityClassName = ps_PriorityClassName (pt_Spec tpl),
         shape_GracePeriod = ps_TerminationGracePeriodSeconds (pt_Spec tpl)\<rparr>
      in shape_of_containers (ps_Containers (pt_Spec tpl)) shape)"

text \<open>
  The container is found by name, so containers of another name in front of it (an injected
  sidecar) or behind it do not change the shape.
\<close>

lemma shape_of_containers_find:
  "shape_of_containers cs shape =
     (case find (\<lambda>c. con_Name c = RunnerContainerName) cs of
        None \<Rightarrow> shape
      | Some c \<Rightarrow> shape\<lparr>shape_Image := con_Image c, shape_ImagePullPolicy := con_ImagePullPolicy c,
                        shape_Resources := con_Resources c,
                        shape_SecurityContext := con_SecurityContext c, shape_Env := con_Env c\<rparr>)"
  by (induction cs) auto

lemma shape_of_containers_sidecars:
  assumes "\<forall>c \<in> set pre. con_Name c \<noteq> RunnerContainerName"
  shows "shape_of_containers (pre @ cs) shape = shape_of_containers cs shape"
  using assms by (induction pre) auto

end
