(* ===== verification/Effects.thy ===== *)
theory Effects
  imports Runner_Contract Config_Types "HOL-Library.State_Monad" "HOL-Library.Multiset"
begin

text \<open>
  How the operator acts on the world. A Go function that talks to the Kubernetes API server, to
  GitLab or to the clock is a state transformer over \<open>world\<close>: the calls issued so far, each with
  its answer, and the runner object the pass holds a pointer to. Who answers is a parameter:
  an \<open>env\<close> gives, for every call, an answer that may depend on the whole history of calls, so
  a theorem over every \<open>env\<close> covers every behaviour of the API server and of GitLab, failures and
  concurrent changes included. The third-party functions the code calls are fields of \<open>env\<close> too.
\<close>

section \<open>Calls\<close>

text \<open>
  The cached client of the manager, or the uncached \<open>APIReader\<close>. The tag is on the reads that the code
  makes through both. The reads of service accounts, RoleBindings, Deployments and of the runner objects
  carry none, since the code makes them through the manager's client only: they are cached reads. An
  answer of a cached read is one of the environment like any other, not tied to the writes before it; where
  a theorem needs that the cache had caught up, that is a premise on the run it speaks about.
\<close>

datatype Reader = Cached | Uncached

record GitlabConn =
  gc_Token :: string
  gc_BaseURL :: string
  gc_CA :: string

record SdkCreateOptions =
  sdk_RunnerType :: "string option"
  sdk_GroupID :: "int option"
  sdk_ProjectID :: "int option"
  sdk_Description :: "string option"
  sdk_Paused :: "bool option"
  sdk_Locked :: "bool option"
  sdk_RunUntagged :: "bool option"
  sdk_TagList :: "string list option"
  sdk_AccessLevel :: "string option"
  sdk_MaximumTimeout :: "int option"
  sdk_MaintenanceNote :: "string option"

record SdkRunner =
  sdkr_ID :: int
  sdkr_Token :: string
  sdkr_TokenExpiresAt :: "time option"

text \<open>The HTTP status of the response, if there was one, and the error.\<close>

type_synonym sdk_answer = "int option \<times> goerr option"

datatype event =
    GetSecret Reader NSName "goerr + Secret"
  | GetConfigMap Reader NSName "goerr + ConfigMap"
  | GetServiceAccount NSName "goerr + ServiceAccount"
  | GetRoleBinding NSName "goerr + RoleBinding"
  | GetClusterRole Reader string "goerr + ClusterRole"
  | GetDeployment NSName "goerr + Deployment"
  | GetObject bool NSName "goerr + RunnerInfo"
  | ListRoleBindings Reader "string gomap" "goerr + RoleBinding list"
  | ListPods Reader string "string gomap" "goerr + Pod list"
  | CreateSecret Secret "goerr option"
  | CreateServiceAccount ServiceAccount "goerr option"
  | CreateRoleBinding RoleBinding "goerr option"
  | CreateClusterRole ClusterRole "goerr option"
  | CreateDeployment Deployment "goerr option"
  | UpdateSecret Secret "goerr option"
  | UpdateClusterRole ClusterRole "goerr option"
  | UpdateDeployment Deployment "goerr + Deployment"
  | UpdateObject RunnerInfo "goerr + RunnerInfo"
  | UpdateObjectStatus RunnerInfo "goerr + RunnerInfo"
  | DeleteDeployment NSName "goerr option"
  | DeletePod NSName "goerr option"
  | DeleteRoleBinding NSName "goerr option"
  | SdkCreateUserRunner GitlabConn SdkCreateOptions "goerr + SdkRunner"
  | SdkDeleteRegisteredRunner GitlabConn string sdk_answer
  | SdkRemoveRunner GitlabConn int sdk_answer
  | SdkVerifyRegisteredRunner GitlabConn string sdk_answer
  | ReadClock time

record world =
  trace :: "event list"
  obj :: RunnerInfo

type_synonym 'a go = "(world, 'a) state"

type_synonym 'a answer = "event list \<Rightarrow> 'a"

record env = ObjectLibs +
  toml_encode :: "Config \<Rightarrow> goerr + string"
  pem_has_certs :: "string \<Rightarrow> bool"
  sdk_new_client :: "GitlabConn \<Rightarrow> goerr option"
  sem_eq_rules :: "PolicyRule list \<Rightarrow> PolicyRule list \<Rightarrow> bool"
  sem_eq_shape :: "PodShape \<Rightarrow> PodShape \<Rightarrow> bool"
  retry_on_conflict :: "goerr option go \<Rightarrow> goerr option go"
  float_overflow :: int
  map_order :: "(string list \<Rightarrow> string list) answer"
  clock :: "time answer"
  api_GetSecret :: "(Reader \<Rightarrow> NSName \<Rightarrow> goerr + Secret) answer"
  api_GetConfigMap :: "(Reader \<Rightarrow> NSName \<Rightarrow> goerr + ConfigMap) answer"
  api_GetServiceAccount :: "(NSName \<Rightarrow> goerr + ServiceAccount) answer"
  api_GetRoleBinding :: "(NSName \<Rightarrow> goerr + RoleBinding) answer"
  api_GetClusterRole :: "(Reader \<Rightarrow> string \<Rightarrow> goerr + ClusterRole) answer"
  api_GetDeployment :: "(NSName \<Rightarrow> goerr + Deployment) answer"
  api_GetRunner :: "(NSName \<Rightarrow> goerr + Runner) answer"
  api_GetMultiRunner :: "(NSName \<Rightarrow> goerr + MultiRunner) answer"
  api_ListRoleBindings :: "(Reader \<Rightarrow> string gomap \<Rightarrow> goerr + RoleBinding list) answer"
  api_ListPods :: "(Reader \<Rightarrow> string \<Rightarrow> string gomap \<Rightarrow> goerr + Pod list) answer"
  api_CreateSecret :: "(Secret \<Rightarrow> goerr option) answer"
  api_CreateServiceAccount :: "(ServiceAccount \<Rightarrow> goerr option) answer"
  api_CreateRoleBinding :: "(RoleBinding \<Rightarrow> goerr option) answer"
  api_CreateClusterRole :: "(ClusterRole \<Rightarrow> goerr option) answer"
  api_CreateDeployment :: "(Deployment \<Rightarrow> goerr option) answer"
  api_UpdateSecret :: "(Secret \<Rightarrow> goerr option) answer"
  api_UpdateClusterRole :: "(ClusterRole \<Rightarrow> goerr option) answer"
  api_UpdateDeployment :: "(Deployment \<Rightarrow> goerr + Deployment) answer"
  api_UpdateRunner :: "(Runner \<Rightarrow> goerr + Runner) answer"
  api_UpdateMultiRunner :: "(MultiRunner \<Rightarrow> goerr + MultiRunner) answer"
  api_UpdateRunnerStatus :: "(Runner \<Rightarrow> goerr + Runner) answer"
  api_UpdateMultiRunnerStatus :: "(MultiRunner \<Rightarrow> goerr + MultiRunner) answer"
  api_DeleteDeployment :: "(NSName \<Rightarrow> goerr option) answer"
  api_DeletePod :: "(NSName \<Rightarrow> goerr option) answer"
  api_DeleteRoleBinding :: "(NSName \<Rightarrow> goerr option) answer"
  sdk_CreateUserRunner :: "(GitlabConn \<Rightarrow> SdkCreateOptions \<Rightarrow> goerr + SdkRunner) answer"
  sdk_DeleteRegisteredRunner :: "(GitlabConn \<Rightarrow> string \<Rightarrow> sdk_answer) answer"
  sdk_RemoveRunner :: "(GitlabConn \<Rightarrow> int \<Rightarrow> sdk_answer) answer"
  sdk_VerifyRegisteredRunner :: "(GitlabConn \<Rightarrow> string \<Rightarrow> sdk_answer) answer"

section \<open>Issuing a call\<close>

abbreviation ret :: "'a \<Rightarrow> 'a go" where
  "ret \<equiv> State_Monad.return"

text \<open>Ask, log the answer, return it.\<close>

definition issue :: "'r answer \<Rightarrow> ('r \<Rightarrow> event) \<Rightarrow> 'r go" where
  "issue ask ev = State (\<lambda>w. let r = ask (trace w) in (r, w\<lparr>trace := trace w @ [ev r]\<rparr>))"

text \<open>Reading without a logged call: the current object, and what the run time decides.\<close>

definition get_obj :: "RunnerInfo go" where
  "get_obj = State (\<lambda>w. (obj w, w))"

definition modify_obj :: "(RunnerInfo \<Rightarrow> RunnerInfo) \<Rightarrow> unit go" where
  "modify_obj f = State (\<lambda>w. ((), w\<lparr>obj := f (obj w)\<rparr>))"

definition observe :: "'r answer \<Rightarrow> 'r go" where
  "observe ask = State (\<lambda>w. (ask (trace w), w))"

lemma run_issue [simp]:
  "run_state (issue ask ev) w = (ask (trace w), w\<lparr>trace := trace w @ [ev (ask (trace w))]\<rparr>)"
  by (simp add: issue_def Let_def)

lemma run_get_obj [simp]: "run_state get_obj w = (obj w, w)"
  by (simp add: get_obj_def)

lemma run_modify_obj [simp]: "run_state (modify_obj f) w = ((), w\<lparr>obj := f (obj w)\<rparr>)"
  by (simp add: modify_obj_def)

lemma run_observe [simp]: "run_state (observe ask) w = (ask (trace w), w)"
  by (simp add: observe_def)

section \<open>The calls the code makes\<close>

definition cl_GetSecret :: "env \<Rightarrow> Reader \<Rightarrow> NSName \<Rightarrow> (goerr + Secret) go" where
  "cl_GetSecret E rd k = issue (\<lambda>tr. api_GetSecret E tr rd k) (GetSecret rd k)"

definition cl_GetConfigMap :: "env \<Rightarrow> Reader \<Rightarrow> NSName \<Rightarrow> (goerr + ConfigMap) go" where
  "cl_GetConfigMap E rd k = issue (\<lambda>tr. api_GetConfigMap E tr rd k) (GetConfigMap rd k)"

definition cl_GetServiceAccount :: "env \<Rightarrow> NSName \<Rightarrow> (goerr + ServiceAccount) go" where
  "cl_GetServiceAccount E k = issue (\<lambda>tr. api_GetServiceAccount E tr k) (GetServiceAccount k)"

definition cl_GetRoleBinding :: "env \<Rightarrow> NSName \<Rightarrow> (goerr + RoleBinding) go" where
  "cl_GetRoleBinding E k = issue (\<lambda>tr. api_GetRoleBinding E tr k) (GetRoleBinding k)"

definition cl_GetClusterRole :: "env \<Rightarrow> Reader \<Rightarrow> string \<Rightarrow> (goerr + ClusterRole) go" where
  "cl_GetClusterRole E rd n = issue (\<lambda>tr. api_GetClusterRole E tr rd n) (GetClusterRole rd n)"

definition cl_GetDeployment :: "env \<Rightarrow> NSName \<Rightarrow> (goerr + Deployment) go" where
  "cl_GetDeployment E k = issue (\<lambda>tr. api_GetDeployment E tr k) (GetDeployment k)"

definition cl_GetRunner :: "env \<Rightarrow> NSName \<Rightarrow> (goerr + RunnerInfo) go" where
  "cl_GetRunner E k = issue (\<lambda>tr. map_sum id RunnerObj (api_GetRunner E tr k)) (GetObject False k)"

definition cl_GetMultiRunner :: "env \<Rightarrow> NSName \<Rightarrow> (goerr + RunnerInfo) go" where
  "cl_GetMultiRunner E k =
     issue (\<lambda>tr. map_sum id MultiRunnerObj (api_GetMultiRunner E tr k)) (GetObject True k)"

definition cl_ListRoleBindings :: "env \<Rightarrow> Reader \<Rightarrow> string gomap \<Rightarrow> (goerr + RoleBinding list) go" where
  "cl_ListRoleBindings E rd sel =
     issue (\<lambda>tr. api_ListRoleBindings E tr rd sel) (ListRoleBindings rd sel)"

definition cl_ListPods :: "env \<Rightarrow> Reader \<Rightarrow> string \<Rightarrow> string gomap \<Rightarrow> (goerr + Pod list) go" where
  "cl_ListPods E rd ns sel = issue (\<lambda>tr. api_ListPods E tr rd ns sel) (ListPods rd ns sel)"

definition cl_CreateSecret :: "env \<Rightarrow> Secret \<Rightarrow> goerr option go" where
  "cl_CreateSecret E x = issue (\<lambda>tr. api_CreateSecret E tr x) (CreateSecret x)"

definition cl_CreateServiceAccount :: "env \<Rightarrow> ServiceAccount \<Rightarrow> goerr option go" where
  "cl_CreateServiceAccount E x =
     issue (\<lambda>tr. api_CreateServiceAccount E tr x) (CreateServiceAccount x)"

definition cl_CreateRoleBinding :: "env \<Rightarrow> RoleBinding \<Rightarrow> goerr option go" where
  "cl_CreateRoleBinding E x = issue (\<lambda>tr. api_CreateRoleBinding E tr x) (CreateRoleBinding x)"

definition cl_CreateClusterRole :: "env \<Rightarrow> ClusterRole \<Rightarrow> goerr option go" where
  "cl_CreateClusterRole E x = issue (\<lambda>tr. api_CreateClusterRole E tr x) (CreateClusterRole x)"

definition cl_CreateDeployment :: "env \<Rightarrow> Deployment \<Rightarrow> goerr option go" where
  "cl_CreateDeployment E x = issue (\<lambda>tr. api_CreateDeployment E tr x) (CreateDeployment x)"

definition cl_UpdateSecret :: "env \<Rightarrow> Secret \<Rightarrow> goerr option go" where
  "cl_UpdateSecret E x = issue (\<lambda>tr. api_UpdateSecret E tr x) (UpdateSecret x)"

definition cl_UpdateClusterRole :: "env \<Rightarrow> ClusterRole \<Rightarrow> goerr option go" where
  "cl_UpdateClusterRole E x = issue (\<lambda>tr. api_UpdateClusterRole E tr x) (UpdateClusterRole x)"

definition cl_UpdateDeployment :: "env \<Rightarrow> Deployment \<Rightarrow> (goerr + Deployment) go" where
  "cl_UpdateDeployment E x = issue (\<lambda>tr. api_UpdateDeployment E tr x) (UpdateDeployment x)"

definition cl_DeleteDeployment :: "env \<Rightarrow> NSName \<Rightarrow> goerr option go" where
  "cl_DeleteDeployment E k = issue (\<lambda>tr. api_DeleteDeployment E tr k) (DeleteDeployment k)"

definition cl_DeletePod :: "env \<Rightarrow> NSName \<Rightarrow> goerr option go" where
  "cl_DeletePod E k = issue (\<lambda>tr. api_DeletePod E tr k) (DeletePod k)"

definition cl_DeleteRoleBinding :: "env \<Rightarrow> NSName \<Rightarrow> goerr option go" where
  "cl_DeleteRoleBinding E k = issue (\<lambda>tr. api_DeleteRoleBinding E tr k) (DeleteRoleBinding k)"

definition Now :: "env \<Rightarrow> time go" where
  "Now E = issue (clock E) ReadClock"

text \<open>\<open>time.Until\<close>.\<close>

definition Until :: "env \<Rightarrow> time \<Rightarrow> duration go" where
  "Until E t = do { now \<leftarrow> Now E; ret (time_sub t now) }"

text \<open>
  \<open>client.Update\<close> and \<open>client.Status().Update\<close> of a runner object: the request carries the
  object as it is in memory, and a successful answer is decoded back into it.
\<close>

fun ask_update :: "env \<Rightarrow> RunnerInfo \<Rightarrow> (goerr + RunnerInfo) answer" where
  "ask_update E (RunnerObj r) tr = map_sum id RunnerObj (api_UpdateRunner E tr r)"
| "ask_update E (MultiRunnerObj r) tr = map_sum id MultiRunnerObj (api_UpdateMultiRunner E tr r)"

fun ask_update_status :: "env \<Rightarrow> RunnerInfo \<Rightarrow> (goerr + RunnerInfo) answer" where
  "ask_update_status E (RunnerObj r) tr = map_sum id RunnerObj (api_UpdateRunnerStatus E tr r)"
| "ask_update_status E (MultiRunnerObj r) tr =
     map_sum id MultiRunnerObj (api_UpdateMultiRunnerStatus E tr r)"

text \<open>An update of an object that is not the pass's own (the deferred status write).\<close>

definition cl_UpdateStatusOf :: "env \<Rightarrow> RunnerInfo \<Rightarrow> goerr option go" where
  "cl_UpdateStatusOf E x =
     do { r \<leftarrow> issue (ask_update_status E x) (UpdateObjectStatus x);
          ret (case r of Inl e \<Rightarrow> Some e | Inr y \<Rightarrow> None) }"

definition UpdateObj :: "env \<Rightarrow> goerr option go" where
  "UpdateObj E =
     do { x \<leftarrow> get_obj;
          r \<leftarrow> issue (ask_update E x) (UpdateObject x);
          case r of
            Inl e \<Rightarrow> ret (Some e)
          | Inr y \<Rightarrow> do { _ \<leftarrow> modify_obj (\<lambda>_. y); ret None } }"

definition UpdateStatusObj :: "env \<Rightarrow> goerr option go" where
  "UpdateStatusObj E =
     do { x \<leftarrow> get_obj;
          r \<leftarrow> issue (ask_update_status E x) (UpdateObjectStatus x);
          case r of
            Inl e \<Rightarrow> ret (Some e)
          | Inr y \<Rightarrow> do { _ \<leftarrow> modify_obj (\<lambda>_. y); ret None } }"

text \<open>\<open>SetReadyCondition\<close> on the pass's object; the library stamps it with the current time.\<close>

definition set_ready_condition :: "env \<Rightarrow> bool \<Rightarrow> string \<Rightarrow> string \<Rightarrow> unit go" where
  "set_ready_condition E ready reason message =
     do { now \<leftarrow> observe (clock E); modify_obj (SetReadyCondition E now ready reason message) }"

text \<open>
  \<open>for k := range m\<close>: the keys in an order that the run time picks; it is always a permutation.
\<close>

definition range_keys :: "env \<Rightarrow> string list \<Rightarrow> string list go" where
  "range_keys E ks =
     observe (\<lambda>tr. let ys = map_order E tr ks in if mset ys = mset ks then ys else ks)"

lemmas call_defs =
  cl_GetSecret_def cl_GetConfigMap_def cl_GetServiceAccount_def cl_GetRoleBinding_def
  cl_GetClusterRole_def cl_GetDeployment_def cl_GetRunner_def cl_GetMultiRunner_def
  cl_ListRoleBindings_def cl_ListPods_def cl_CreateSecret_def cl_CreateServiceAccount_def
  cl_CreateRoleBinding_def cl_CreateClusterRole_def cl_CreateDeployment_def cl_UpdateSecret_def
  cl_UpdateClusterRole_def cl_UpdateDeployment_def cl_DeleteDeployment_def cl_DeletePod_def
  cl_DeleteRoleBinding_def Now_def

end
