(* ===== verification/Logic.thy ===== *)
theory Logic
  imports Effects
begin

text \<open>
  The program logic of the development. \<open>runs m w Q\<close>: started in \<open>w\<close>, the operation \<open>m\<close>
  returns some \<open>r\<close>, appends the calls \<open>es\<close> to the trace and ends in \<open>w'\<close> with \<open>Q r es w'\<close>
  (operations always return, so this is total correctness). \<open>emits P m\<close>: every call that \<open>m\<close>
  issues, from any start, satisfies \<open>P\<close>. The rules decompose a program along its syntax;
  \<open>runs_rules\<close> and \<open>emits_rules\<close> collect them, the component theories add their own.
\<close>

named_theorems runs_rules "backward rules for runs"
named_theorems emits_rules "rules for emits"

section \<open>Specifications of one run\<close>

definition runs :: "'a go \<Rightarrow> world \<Rightarrow> ('a \<Rightarrow> event list \<Rightarrow> world \<Rightarrow> bool) \<Rightarrow> bool" where
  "runs m w Q = (\<exists>es. trace (snd (run_state m w)) = trace w @ es \<and>
                      Q (fst (run_state m w)) es (snd (run_state m w)))"

text \<open>The result of a run, the calls it adds, and the world it ends in.\<close>

definition result :: "'a go \<Rightarrow> world \<Rightarrow> 'a" where
  "result m w = fst (run_state m w)"

definition after :: "'a go \<Rightarrow> world \<Rightarrow> world" where
  "after m w = snd (run_state m w)"

definition new_events :: "'a go \<Rightarrow> world \<Rightarrow> event list" where
  "new_events m w = drop (length (trace w)) (trace (after m w))"

lemma runs_iff:
  "runs m w Q \<longleftrightarrow>
     trace (after m w) = trace w @ new_events m w \<and> Q (result m w) (new_events m w) (after m w)"
  by (auto simp: runs_def result_def after_def new_events_def)

lemma runs_conseq:
  assumes "runs m w Q" and "\<And>r es w'. Q r es w' \<Longrightarrow> Q' r es w'"
  shows "runs m w Q'"
  using assms by (auto simp: runs_def)

lemma runs_conj: "runs m w Q \<Longrightarrow> runs m w Q' \<Longrightarrow> runs m w (\<lambda>r es w'. Q r es w' \<and> Q' r es w')"
  by (auto simp: runs_def)

lemma runs_traced: "runs m w Q \<Longrightarrow> runs m w (\<lambda>r es w'. trace w' = trace w @ es \<and> Q r es w')"
  by (simp add: runs_def)

lemma runs_return [runs_rules]: "Q x [] w \<Longrightarrow> runs (ret x) w Q"
  by (simp add: runs_def)

lemma runs_bind [runs_rules]:
  assumes "runs m w (\<lambda>x es1 w1. runs (f x) w1 (\<lambda>y es2 w2. Q y (es1 @ es2) w2))"
  shows "runs (State_Monad.bind m f) w Q"
  using assms by (auto simp: runs_def split: prod.splits)

lemma runs_issue [runs_rules]:
  "Q (ask (trace w)) [ev (ask (trace w))] (w\<lparr>trace := trace w @ [ev (ask (trace w))]\<rparr>) \<Longrightarrow>
     runs (issue ask ev) w Q"
  by (simp add: runs_def)

lemma runs_get_obj [runs_rules]: "Q (obj w) [] w \<Longrightarrow> runs get_obj w Q"
  by (simp add: runs_def)

lemma runs_modify_obj [runs_rules]: "Q () [] (w\<lparr>obj := f (obj w)\<rparr>) \<Longrightarrow> runs (modify_obj f) w Q"
  by (simp add: runs_def)

lemma runs_observe [runs_rules]: "Q (ask (trace w)) [] w \<Longrightarrow> runs (observe ask) w Q"
  by (simp add: runs_def)

lemma runs_if [runs_rules]:
  "(b \<Longrightarrow> runs m w Q) \<Longrightarrow> (\<not> b \<Longrightarrow> runs m' w Q) \<Longrightarrow> runs (if b then m else m') w Q"
  by simp

lemma runs_case_sum [runs_rules]:
  "(\<And>e. x = Inl e \<Longrightarrow> runs (f e) w Q) \<Longrightarrow> (\<And>v. x = Inr v \<Longrightarrow> runs (g v) w Q) \<Longrightarrow>
     runs (case x of Inl e \<Rightarrow> f e | Inr v \<Rightarrow> g v) w Q"
  by (simp split: sum.split)

lemma runs_case_option [runs_rules]:
  "(x = None \<Longrightarrow> runs m w Q) \<Longrightarrow> (\<And>v. x = Some v \<Longrightarrow> runs (g v) w Q) \<Longrightarrow>
     runs (case x of None \<Rightarrow> m | Some v \<Rightarrow> g v) w Q"
  by (simp split: option.split)

lemma runs_case_prod [runs_rules]:
  "(\<And>a b. x = (a, b) \<Longrightarrow> runs (f a b) w Q) \<Longrightarrow> runs (case x of (a, b) \<Rightarrow> f a b) w Q"
  by (simp split: prod.split)

lemma runs_let [runs_rules]: "runs (f x) w Q \<Longrightarrow> runs (let y = x in f y) w Q"
  by (simp add: Let_def)

section \<open>Classes of calls\<close>

definition emits :: "(event \<Rightarrow> bool) \<Rightarrow> 'a go \<Rightarrow> bool" where
  "emits P m = (\<forall>w. runs m w (\<lambda>r es w'. \<forall>e \<in> set es. P e))"

lemma emitsD: "emits P m \<Longrightarrow> runs m w (\<lambda>r es w'. \<forall>e \<in> set es. P e)"
  by (simp add: emits_def)

lemma emits_new_events: "emits P m \<Longrightarrow> e \<in> set (new_events m w) \<Longrightarrow> P e"
  by (simp add: emits_def runs_iff)

lemma emits_mono: "emits P m \<Longrightarrow> (\<And>e. P e \<Longrightarrow> Q e) \<Longrightarrow> emits Q m"
  by (auto simp: emits_def intro: runs_conseq)

lemma emits_return [emits_rules]: "emits P (ret x)"
  by (auto simp: emits_def intro: runs_rules)

lemma emits_bind [emits_rules]:
  "emits P m \<Longrightarrow> (\<And>x. emits P (f x)) \<Longrightarrow> emits P (State_Monad.bind m f)"
  unfolding emits_def
  by (intro allI runs_bind) (fastforce elim: runs_conseq)

lemma emits_issue [emits_rules]: "(\<And>r. P (ev r)) \<Longrightarrow> emits P (issue ask ev)"
  by (auto simp: emits_def intro: runs_rules)

lemma emits_get_obj [emits_rules]: "emits P get_obj"
  by (auto simp: emits_def intro: runs_rules)

lemma emits_modify_obj [emits_rules]: "emits P (modify_obj f)"
  by (auto simp: emits_def intro: runs_rules)

lemma emits_observe [emits_rules]: "emits P (observe ask)"
  by (auto simp: emits_def intro: runs_rules)

lemma emits_if [emits_rules]:
  "(b \<Longrightarrow> emits P m) \<Longrightarrow> (\<not> b \<Longrightarrow> emits P m') \<Longrightarrow> emits P (if b then m else m')"
  by simp

lemma emits_case_sum [emits_rules]:
  "(\<And>e. x = Inl e \<Longrightarrow> emits P (f e)) \<Longrightarrow> (\<And>v. x = Inr v \<Longrightarrow> emits P (g v)) \<Longrightarrow>
     emits P (case x of Inl e \<Rightarrow> f e | Inr v \<Rightarrow> g v)"
  by (simp split: sum.split)

lemma emits_case_option [emits_rules]:
  "(x = None \<Longrightarrow> emits P m) \<Longrightarrow> (\<And>v. x = Some v \<Longrightarrow> emits P (g v)) \<Longrightarrow>
     emits P (case x of None \<Rightarrow> m | Some v \<Rightarrow> g v)"
  by (simp split: option.split)

lemma emits_case_prod [emits_rules]:
  "(\<And>a b. x = (a, b) \<Longrightarrow> emits P (f a b)) \<Longrightarrow> emits P (case x of (a, b) \<Rightarrow> f a b)"
  by (simp split: prod.split)

lemma emits_let [emits_rules]: "emits P (f x) \<Longrightarrow> emits P (let y = x in f y)"
  by (simp add: Let_def)

section \<open>Composing runs\<close>

lemma result_bind: "result (State_Monad.bind m f) w = result (f (result m w)) (after m w)"
  by (simp add: result_def after_def split: prod.splits)

lemma after_bind: "after (State_Monad.bind m f) w = after (f (result m w)) (after m w)"
  by (simp add: result_def after_def split: prod.splits)

section \<open>Frames\<close>

text \<open>\<open>keeps_obj m\<close>: the run does not assign the pass's object.\<close>

definition keeps_obj :: "'a go \<Rightarrow> bool" where
  "keeps_obj m = (\<forall>w. obj (after m w) = obj w)"

named_theorems keeps_rules "rules for keeps_obj"

lemma keeps_return [keeps_rules]: "keeps_obj (ret x)"
  by (simp add: keeps_obj_def after_def)

lemma keeps_bind [keeps_rules]:
  "keeps_obj m \<Longrightarrow> (\<And>x. keeps_obj (f x)) \<Longrightarrow> keeps_obj (State_Monad.bind m f)"
  by (simp add: keeps_obj_def after_bind)

lemma keeps_issue [keeps_rules]: "keeps_obj (issue ask ev)"
  by (simp add: keeps_obj_def after_def)

lemma keeps_get_obj [keeps_rules]: "keeps_obj get_obj"
  by (simp add: keeps_obj_def after_def)

lemma keeps_observe [keeps_rules]: "keeps_obj (observe ask)"
  by (simp add: keeps_obj_def after_def)

lemma keeps_if [keeps_rules]:
  "(b \<Longrightarrow> keeps_obj m) \<Longrightarrow> (\<not> b \<Longrightarrow> keeps_obj m') \<Longrightarrow> keeps_obj (if b then m else m')"
  by simp

lemma keeps_case_sum [keeps_rules]:
  "(\<And>e. x = Inl e \<Longrightarrow> keeps_obj (f e)) \<Longrightarrow> (\<And>v. x = Inr v \<Longrightarrow> keeps_obj (g v)) \<Longrightarrow>
     keeps_obj (case x of Inl e \<Rightarrow> f e | Inr v \<Rightarrow> g v)"
  by (simp split: sum.split)

lemma keeps_case_option [keeps_rules]:
  "(x = None \<Longrightarrow> keeps_obj m) \<Longrightarrow> (\<And>v. x = Some v \<Longrightarrow> keeps_obj (g v)) \<Longrightarrow>
     keeps_obj (case x of None \<Rightarrow> m | Some v \<Rightarrow> g v)"
  by (simp split: option.split)

lemma keeps_case_prod [keeps_rules]:
  "(\<And>a b. x = (a, b) \<Longrightarrow> keeps_obj (f a b)) \<Longrightarrow> keeps_obj (case x of (a, b) \<Rightarrow> f a b)"
  by (simp split: prod.split)

lemma keeps_let [keeps_rules]: "keeps_obj (f x) \<Longrightarrow> keeps_obj (let y = x in f y)"
  by (simp add: Let_def)

lemma runs_keeps:
  "keeps_obj m \<Longrightarrow> runs m w Q \<Longrightarrow> runs m w (\<lambda>r es w'. Q r es w' \<and> obj w' = obj w)"
  by (auto simp: keeps_obj_def runs_def after_def)

section \<open>Error returns\<close>

text \<open>\<open>err != nil && !tolerated(err)\<close>: which error is passed on.\<close>

definition tolerate :: "(goerr \<Rightarrow> bool) \<Rightarrow> goerr option \<Rightarrow> goerr option" where
  "tolerate tolerated err =
     (case err of None \<Rightarrow> None | Some e \<Rightarrow> (if tolerated e then None else Some e))"

text \<open>A loop whose body may return an error, which ends it.\<close>

fun each :: "('a \<Rightarrow> goerr option go) \<Rightarrow> 'a list \<Rightarrow> goerr option go" where
  "each f [] = ret None"
| "each f (x # xs) =
     do { err \<leftarrow> f x;
          case err of Some e \<Rightarrow> ret (Some e) | None \<Rightarrow> each f xs }"

text \<open>\<open>if err := m; err != nil { return err }\<close>, then the rest.\<close>

definition and_then :: "goerr option go \<Rightarrow> goerr option go \<Rightarrow> goerr option go" where
  "and_then m rest =
     do { err \<leftarrow> m; case err of Some e \<Rightarrow> ret (Some e) | None \<Rightarrow> rest }"

lemma tolerate_None [simp]: "tolerate t None = None"
  by (simp add: tolerate_def)

lemma tolerate_eq_Some: "tolerate t r = Some e \<longleftrightarrow> r = Some e \<and> \<not> t e"
  by (auto simp: tolerate_def split: option.splits)

lemma tolerate_eq_None: "tolerate t r = None \<longleftrightarrow> r = None \<or> (\<exists>e. r = Some e \<and> t e)"
  by (auto simp: tolerate_def split: option.splits)

lemma runs_and_then [runs_rules]:
  assumes "runs m w (\<lambda>err es1 w1. case err of
             Some e \<Rightarrow> Q (Some e) es1 w1
           | None \<Rightarrow> runs rest w1 (\<lambda>r es2 w2. Q r (es1 @ es2) w2))"
  shows "runs (and_then m rest) w Q"
  unfolding and_then_def
  by (intro runs_bind runs_conseq [OF assms]) (auto split: option.splits intro: runs_return)

lemma emits_and_then [emits_rules]: "emits P m \<Longrightarrow> emits P rest \<Longrightarrow> emits P (and_then m rest)"
  unfolding and_then_def by (intro emits_rules)

lemma keeps_and_then [keeps_rules]: "keeps_obj m \<Longrightarrow> keeps_obj rest \<Longrightarrow> keeps_obj (and_then m rest)"
  unfolding and_then_def by (intro keeps_rules)

lemma emits_each [emits_rules]: "(\<And>x. x \<in> set xs \<Longrightarrow> emits P (f x)) \<Longrightarrow> emits P (each f xs)"
  by (induction xs) (auto intro!: emits_rules)

lemma keeps_each [keeps_rules]: "(\<And>x. x \<in> set xs \<Longrightarrow> keeps_obj (f x)) \<Longrightarrow> keeps_obj (each f xs)"
  by (induction xs) (auto intro!: keeps_rules)

text \<open>
  A loop that ends without an error has run its body on every element; \<open>Post x\<close> is what one
  pass of the body leaves in the trace, and it survives further calls.
\<close>

lemma runs_each_all:
  fixes f :: "'a \<Rightarrow> goerr option go"
  assumes body: "\<And>x w. x \<in> set xs \<Longrightarrow> runs (f x) w (\<lambda>r es w'. r = None \<longrightarrow> Post x es)"
    and more: "\<And>x es pre post. Post x es \<Longrightarrow> Post x (pre @ es @ post)"
  shows "runs (each f xs) w (\<lambda>r es w'. r = None \<longrightarrow> (\<forall>x \<in> set xs. Post x es))"
  using body
proof (induction xs arbitrary: w)
  case Nil
  show ?case by (auto intro: runs_return)
next
  case (Cons x xs)
  have rest: "runs (each f xs) w' (\<lambda>r es w'. r = None \<longrightarrow> (\<forall>x \<in> set xs. Post x es))" for w'
    by (rule Cons.IH) (simp add: Cons.prems)
  have first: "runs (f x) w (\<lambda>r es1 w1. r = None \<longrightarrow> Post x es1)"
    by (rule Cons.prems) simp
  have step: "runs (case r of None \<Rightarrow> each f xs | Some e \<Rightarrow> ret (Some e)) w1
      (\<lambda>y es2 w2. y = None \<longrightarrow> (\<forall>z \<in> set (x # xs). Post z (es1 @ es2)))"
    if "r = None \<longrightarrow> Post x es1" for r es1 w1
  proof (cases r)
    case (Some e)
    then show ?thesis by (auto intro: runs_return)
  next
    case None
    with that have x: "Post x (es1 @ es2)" for es2
      using more [of x es1 "[]" es2] by simp
    have "runs (each f xs) w1 (\<lambda>y es2 w2. y = None \<longrightarrow> (\<forall>z \<in> set (x # xs). Post z (es1 @ es2)))"
      by (rule runs_conseq [OF rest]) (use more [of _ _ es1 "[]"] x in auto)
    with None show ?thesis by simp
  qed
  show ?case
    unfolding each.simps by (rule runs_bind, rule runs_conseq [OF first], rule step)
qed

section \<open>Trace properties\<close>

text \<open>
  \<open>traces P m\<close>: the calls of every run of \<open>m\<close>, as a list, satisfy \<open>P\<close>. For a \<open>P\<close> that holds of
  the empty list and is closed under concatenation, \<open>traces P\<close> goes along the syntax of a program.
\<close>

definition traces :: "(event list \<Rightarrow> bool) \<Rightarrow> 'a go \<Rightarrow> bool" where
  "traces P m = (\<forall>w. runs m w (\<lambda>r es w'. P es))"

lemma traces_new_events: "traces P m \<Longrightarrow> P (new_events m w)"
  by (simp add: traces_def runs_iff)

locale trace_property =
  fixes P :: "event list \<Rightarrow> bool"
  assumes nil: "P []"
    and append: "P es \<Longrightarrow> P fs \<Longrightarrow> P (es @ fs)"
begin

lemma return: "traces P (ret x)"
  by (auto simp: traces_def nil intro: runs_rules)

lemma get_obj: "traces P get_obj"
  by (auto simp: traces_def nil intro: runs_rules)

lemma modify_obj: "traces P (modify_obj f)"
  by (auto simp: traces_def nil intro: runs_rules)

lemma observe: "traces P (observe ask)"
  by (auto simp: traces_def nil intro: runs_rules)

lemma issue: "(\<And>r. P [ev r]) \<Longrightarrow> traces P (issue ask ev)"
  by (auto simp: traces_def intro: runs_rules)

lemma bind: "traces P m \<Longrightarrow> (\<And>x. traces P (f x)) \<Longrightarrow> traces P (State_Monad.bind m f)"
  unfolding traces_def by (intro allI runs_bind) (fastforce elim: runs_conseq intro: append)

lemma if_branch: "(b \<Longrightarrow> traces P m) \<Longrightarrow> (\<not> b \<Longrightarrow> traces P m') \<Longrightarrow> traces P (if b then m else m')"
  by simp

lemma case_sum:
  "(\<And>e. x = Inl e \<Longrightarrow> traces P (f e)) \<Longrightarrow> (\<And>v. x = Inr v \<Longrightarrow> traces P (g v)) \<Longrightarrow>
     traces P (case x of Inl e \<Rightarrow> f e | Inr v \<Rightarrow> g v)"
  by (simp split: sum.split)

lemma case_option:
  "(x = None \<Longrightarrow> traces P m) \<Longrightarrow> (\<And>v. x = Some v \<Longrightarrow> traces P (g v)) \<Longrightarrow>
     traces P (case x of None \<Rightarrow> m | Some v \<Rightarrow> g v)"
  by (simp split: option.split)

lemma case_prod: "(\<And>a b. x = (a, b) \<Longrightarrow> traces P (f a b)) \<Longrightarrow> traces P (case x of (a, b) \<Rightarrow> f a b)"
  by (simp split: prod.split)

lemma let_bound: "traces P (f x) \<Longrightarrow> traces P (let y = x in f y)"
  by (simp add: Let_def)

lemma and_then: "traces P m \<Longrightarrow> traces P rest \<Longrightarrow> traces P (and_then m rest)"
  unfolding and_then_def by (intro bind case_option return)

lemma each: "(\<And>x. x \<in> set xs \<Longrightarrow> traces P (f x)) \<Longrightarrow> traces P (each f xs)"
  by (induction xs) (auto intro!: return bind case_option)

lemmas rules = return get_obj modify_obj observe issue if_branch case_sum case_option case_prod
  let_bound and_then each bind

end

section \<open>Runs under an invariant of the object\<close>

text \<open>
  \<open>safe I P m R\<close>: from an object that satisfies \<open>I\<close>, every call satisfies \<open>P\<close>, the object still
  satisfies \<open>I\<close>, and the result satisfies \<open>R\<close>.
\<close>

definition safe ::
  "(RunnerInfo \<Rightarrow> bool) \<Rightarrow> (event \<Rightarrow> bool) \<Rightarrow> 'a go \<Rightarrow> ('a \<Rightarrow> bool) \<Rightarrow> bool" where
  "safe I P m R =
     (\<forall>w. I (obj w) \<longrightarrow> runs m w (\<lambda>r es w'. I (obj w') \<and> (\<forall>e \<in> set es. P e) \<and> R r))"

abbreviation unrestricted :: "'a \<Rightarrow> bool" where
  "unrestricted \<equiv> \<lambda>_. True"

lemma safe_new_events: "safe I P m R \<Longrightarrow> I (obj w) \<Longrightarrow> e \<in> set (new_events m w) \<Longrightarrow> P e"
  by (simp add: safe_def runs_iff)

lemma safe_result: "safe I P m R \<Longrightarrow> I (obj w) \<Longrightarrow> R (result m w)"
  by (simp add: safe_def runs_iff)

lemma safe_after: "safe I P m R \<Longrightarrow> I (obj w) \<Longrightarrow> I (obj (after m w))"
  by (simp add: safe_def runs_iff)

lemma safe_weaken:
  "safe I P m R \<Longrightarrow> (\<And>e. P e \<Longrightarrow> P' e) \<Longrightarrow> (\<And>r. R r \<Longrightarrow> R' r) \<Longrightarrow> safe I P' m R'"
  unfolding safe_def by (blast intro: runs_conseq)

lemma safe_bind_result:
  assumes "safe I P m R" and "\<And>x. R x \<Longrightarrow> safe I P (f x) S"
  shows "safe I P (State_Monad.bind m f) S"
  unfolding safe_def
proof (intro allI impI)
  fix w :: world assume "I (obj w)"
  with assms(1) have m: "runs m w (\<lambda>r es w'. I (obj w') \<and> (\<forall>e \<in> set es. P e) \<and> R r)"
    by (simp add: safe_def)
  show "runs (State_Monad.bind m f) w (\<lambda>r es w'. I (obj w') \<and> (\<forall>e \<in> set es. P e) \<and> S r)"
  proof (rule runs_bind, rule runs_conseq [OF m])
    fix x es1 and w1 :: world
    assume *: "I (obj w1) \<and> (\<forall>e \<in> set es1. P e) \<and> R x"
    with assms(2) have "runs (f x) w1 (\<lambda>r es w'. I (obj w') \<and> (\<forall>e \<in> set es. P e) \<and> S r)"
      by (simp add: safe_def)
    then show "runs (f x) w1 (\<lambda>y es2 w2. I (obj w2) \<and> (\<forall>e \<in> set (es1 @ es2). P e) \<and> S y)"
      by (rule runs_conseq) (use * in auto)
  qed
qed

lemma safe_of_emits: "emits P m \<Longrightarrow> keeps_obj m \<Longrightarrow> safe I P m unrestricted"
  unfolding safe_def by (auto intro!: runs_conseq [OF runs_keeps [OF _ emitsD]])

named_theorems safe_rules "rules for safe"

lemma safe_bind_get_obj [safe_rules]:
  "(\<And>x. I x \<Longrightarrow> safe I P (f x) S) \<Longrightarrow> safe I P (State_Monad.bind get_obj f) S"
  by (rule safe_bind_result [where R = I]) (auto simp: safe_def intro: runs_rules)

lemma safe_bind [safe_rules]:
  "safe I P m unrestricted \<Longrightarrow> (\<And>x. safe I P (f x) S) \<Longrightarrow> safe I P (State_Monad.bind m f) S"
  by (rule safe_bind_result)

lemma safe_return [safe_rules]: "R x \<Longrightarrow> safe I P (ret x) R"
  by (auto simp: safe_def intro: runs_rules)

lemma safe_get_obj [safe_rules]: "safe I P get_obj unrestricted"
  by (auto simp: safe_def intro: runs_rules)

lemma safe_modify_obj [safe_rules]:
  "(\<And>x. I x \<Longrightarrow> I (f x)) \<Longrightarrow> safe I P (modify_obj f) unrestricted"
  by (auto simp: safe_def intro: runs_rules)

lemma safe_observe [safe_rules]: "safe I P (observe ask) unrestricted"
  by (auto simp: safe_def intro: runs_rules)

lemma safe_issue [safe_rules]: "(\<And>r. P (ev r)) \<Longrightarrow> safe I P (issue ask ev) unrestricted"
  by (auto simp: safe_def intro: runs_rules)

lemma safe_if [safe_rules]:
  "(b \<Longrightarrow> safe I P m R) \<Longrightarrow> (\<not> b \<Longrightarrow> safe I P m' R) \<Longrightarrow> safe I P (if b then m else m') R"
  by simp

lemma safe_case_sum [safe_rules]:
  "(\<And>e. x = Inl e \<Longrightarrow> safe I P (f e) R) \<Longrightarrow> (\<And>v. x = Inr v \<Longrightarrow> safe I P (g v) R) \<Longrightarrow>
     safe I P (case x of Inl e \<Rightarrow> f e | Inr v \<Rightarrow> g v) R"
  by (simp split: sum.split)

lemma safe_case_option [safe_rules]:
  "(x = None \<Longrightarrow> safe I P m R) \<Longrightarrow> (\<And>v. x = Some v \<Longrightarrow> safe I P (g v) R) \<Longrightarrow>
     safe I P (case x of None \<Rightarrow> m | Some v \<Rightarrow> g v) R"
  by (simp split: option.split)

lemma safe_case_prod [safe_rules]:
  "(\<And>a b. x = (a, b) \<Longrightarrow> safe I P (f a b) R) \<Longrightarrow> safe I P (case x of (a, b) \<Rightarrow> f a b) R"
  by (simp split: prod.split)

lemma safe_let [safe_rules]: "safe I P (f x) R \<Longrightarrow> safe I P (let y = x in f y) R"
  by (simp add: Let_def)

lemma safe_and_then [safe_rules]:
  "safe I P m unrestricted \<Longrightarrow> safe I P rest unrestricted \<Longrightarrow> safe I P (and_then m rest) unrestricted"
  unfolding and_then_def by (intro safe_rules; simp)

lemma safe_each [safe_rules]:
  "(\<And>x. x \<in> set xs \<Longrightarrow> safe I P (f x) unrestricted) \<Longrightarrow> safe I P (each f xs) unrestricted"
  by (induction xs) (auto intro!: safe_return safe_bind safe_case_option)

end
