(* ===== verification/Gitlab_Api.thy ===== *)
theory Gitlab_Api
  imports Logic
begin

text \<open>
  \<open>internal/api/gitlab.go\<close>: the client the reconciler drives managed runners with, and its
  construction. The HTTP client of \<open>gitlab.com/gitlab-org/api/client-go\<close> is third-party code: its
  calls are the \<open>sdk_\<close> answers of the environment. \<open>GitlabClient\<close> is a Go interface, so its
  values are records of operations; \<open>gitlabApi\<close> is the production implementation and
  \<open>MockedGitlabClient\<close> (\<open>mocked_client.go\<close>) the one tests inject.
\<close>

section \<open>The interface\<close>

record CreatedRunner =
  cr_ID :: int
  cr_Token :: string
  cr_TokenExpiresAt :: "time option"

record GitlabClient =
  gl_CreateRunner :: "RunnerCreateOptions \<Rightarrow> (goerr + CreatedRunner) go"
  gl_DeleteRunner :: "string \<Rightarrow> goerr option go"
  gl_DeleteRunnerByID :: "int \<Rightarrow> goerr option go"
  gl_VerifyToken :: "string \<Rightarrow> (goerr + bool) go"

section \<open>The production client\<close>

text \<open>
  The request of \<open>CreateRunner\<close>: an option that is unset in the spec is left out of the request,
  so that GitLab's own default applies. \<open>runner_type\<close> is always sent.
\<close>

definition sdk_create_options :: "RunnerCreateOptions \<Rightarrow> SdkCreateOptions" where
  "sdk_create_options opts =
     \<lparr>sdk_RunnerType = Some (rco_RunnerType opts),
      sdk_GroupID = rco_GroupID opts,
      sdk_ProjectID = rco_ProjectID opts,
      sdk_Description = (if rco_Description opts \<noteq> '''' then Some (rco_Description opts) else None),
      sdk_Paused = rco_Paused opts,
      sdk_Locked = rco_Locked opts,
      sdk_RunUntagged = rco_RunUntagged opts,
      sdk_TagList = (if 0 < length (rco_TagList opts) then Some (rco_TagList opts) else None),
      sdk_AccessLevel = (if rco_AccessLevel opts \<noteq> '''' then Some (rco_AccessLevel opts) else None),
      sdk_MaximumTimeout = rco_MaximumTimeout opts,
      sdk_MaintenanceNote =
        (if rco_MaintenanceNote opts \<noteq> '''' then Some (rco_MaintenanceNote opts) else None)\<rparr>"

definition gitlabApi_CreateRunner ::
  "env \<Rightarrow> GitlabConn \<Rightarrow> RunnerCreateOptions \<Rightarrow> (goerr + CreatedRunner) go" where
  "gitlabApi_CreateRunner E g opts =
     do { r \<leftarrow> issue (\<lambda>tr. sdk_CreateUserRunner E tr g (sdk_create_options opts))
                    (SdkCreateUserRunner g (sdk_create_options opts));
          case r of
            Inl err \<Rightarrow> ret (Inl err)
          | Inr runner \<Rightarrow>
              ret (Inr \<lparr>cr_ID = sdkr_ID runner, cr_Token = sdkr_Token runner,
                        cr_TokenExpiresAt = sdkr_TokenExpiresAt runner\<rparr>) }"

definition gitlabApi_DeleteRunner :: "env \<Rightarrow> GitlabConn \<Rightarrow> string \<Rightarrow> goerr option go" where
  "gitlabApi_DeleteRunner E g token =
     do { (resp, err) \<leftarrow> issue (\<lambda>tr. sdk_DeleteRegisteredRunner E tr g token)
                              (SdkDeleteRegisteredRunner g token);
          ret (case err of
                 None \<Rightarrow> None
               | Some e \<Rightarrow> (if resp = Some 403 \<or> resp = Some 404 then None else Some e)) }"

definition gitlabApi_DeleteRunnerByID :: "env \<Rightarrow> GitlabConn \<Rightarrow> int \<Rightarrow> goerr option go" where
  "gitlabApi_DeleteRunnerByID E g i =
     do { (resp, err) \<leftarrow> issue (\<lambda>tr. sdk_RemoveRunner E tr g i) (SdkRemoveRunner g i);
          ret (case err of
                 None \<Rightarrow> None
               | Some e \<Rightarrow> (if resp = Some 404 then None else Some e)) }"

definition gitlabApi_VerifyToken :: "env \<Rightarrow> GitlabConn \<Rightarrow> string \<Rightarrow> (goerr + bool) go" where
  "gitlabApi_VerifyToken E g token =
     do { (resp, err) \<leftarrow> issue (\<lambda>tr. sdk_VerifyRegisteredRunner E tr g token)
                              (SdkVerifyRegisteredRunner g token);
          ret (case err of
                 None \<Rightarrow> Inr True
               | Some e \<Rightarrow> (if resp = Some 401 \<or> resp = Some 403 then Inr False else Inl e)) }"

definition gitlabApi :: "env \<Rightarrow> GitlabConn \<Rightarrow> GitlabClient" where
  "gitlabApi E g =
     \<lparr>gl_CreateRunner = gitlabApi_CreateRunner E g,
      gl_DeleteRunner = gitlabApi_DeleteRunner E g,
      gl_DeleteRunnerByID = gitlabApi_DeleteRunnerByID E g,
      gl_VerifyToken = gitlabApi_VerifyToken E g\<rparr>"

definition defaultGitlabURL :: string where
  "defaultGitlabURL = ''https://gitlab.com/''"

definition NewGitlabClient :: "env \<Rightarrow> string \<Rightarrow> string \<Rightarrow> string \<Rightarrow> goerr + GitlabClient" where
  "NewGitlabClient E token url caPEM =
     (let url' = (if url = '''' then defaultGitlabURL else url);
          conn = \<lparr>gc_Token = token, gc_BaseURL = url', gc_CA = caPEM\<rparr>
      in if 0 < length caPEM \<and> \<not> pem_has_certs E caPEM
         then Inl (err_new ''custom CA bundle contains no valid PEM certificate'')
         else case sdk_new_client E conn of
                Some err \<Rightarrow> Inl err
              | None \<Rightarrow> Inr (gitlabApi E conn))"

section \<open>The test double\<close>

record MockedGitlabClient =
  OnCreateRunner :: "(RunnerCreateOptions \<Rightarrow> (goerr + CreatedRunner) go) option"
  OnDeleteRunner :: "(string \<Rightarrow> goerr option go) option"
  OnDeleteRunnerByID :: "(int \<Rightarrow> goerr option go) option"
  OnVerifyToken :: "(string \<Rightarrow> (goerr + bool) go) option"

definition mocked_client :: "MockedGitlabClient \<Rightarrow> GitlabClient" where
  "mocked_client m =
     (let undefined_call = err_new ''call is not defined'' in
      \<lparr>gl_CreateRunner =
         (\<lambda>opts. case OnCreateRunner m of None \<Rightarrow> ret (Inl undefined_call) | Some f \<Rightarrow> f opts),
       gl_DeleteRunner =
         (\<lambda>token. case OnDeleteRunner m of None \<Rightarrow> ret (Some undefined_call) | Some f \<Rightarrow> f token),
       gl_DeleteRunnerByID =
         (\<lambda>i. case OnDeleteRunnerByID m of None \<Rightarrow> ret (Some undefined_call) | Some f \<Rightarrow> f i),
       gl_VerifyToken =
         (\<lambda>token. case OnVerifyToken m of None \<Rightarrow> ret (Inr True) | Some f \<Rightarrow> f token)\<rparr>)"

section \<open>Properties of the calls\<close>

lemmas gitlabApi_defs =
  gitlabApi_CreateRunner_def gitlabApi_DeleteRunner_def gitlabApi_DeleteRunnerByID_def
  gitlabApi_VerifyToken_def

lemma gitlabApi_fields [simp]:
  "gl_CreateRunner (gitlabApi E g) = gitlabApi_CreateRunner E g"
  "gl_DeleteRunner (gitlabApi E g) = gitlabApi_DeleteRunner E g"
  "gl_DeleteRunnerByID (gitlabApi E g) = gitlabApi_DeleteRunnerByID E g"
  "gl_VerifyToken (gitlabApi E g) = gitlabApi_VerifyToken E g"
  by (simp_all add: gitlabApi_def)

lemma NewGitlabClient_ok:
  "NewGitlabClient E token url caPEM = Inr gl \<Longrightarrow>
     gl = gitlabApi E \<lparr>gc_Token = token, gc_BaseURL = (if url = '''' then defaultGitlabURL else url),
                      gc_CA = caPEM\<rparr> \<and> (caPEM \<noteq> [] \<longrightarrow> pem_has_certs E caPEM)"
  by (auto simp: NewGitlabClient_def Let_def split: if_splits option.splits)

text \<open>
  The contract the reconciler relies on: the operations only talk to GitLab, and none of them
  assigns the pass's object. \<open>gitlab_call\<close> are the calls that reach GitLab.
\<close>

fun gitlab_call :: "event \<Rightarrow> bool" where
  "gitlab_call (SdkCreateUserRunner g opts r) = True"
| "gitlab_call (SdkDeleteRegisteredRunner g t r) = True"
| "gitlab_call (SdkRemoveRunner g i r) = True"
| "gitlab_call (SdkVerifyRegisteredRunner g t r) = True"
| "gitlab_call e = False"

fun gitlab_create :: "event \<Rightarrow> bool" where
  "gitlab_create (SdkCreateUserRunner g opts r) = True"
| "gitlab_create e = False"

fun gitlab_delete :: "event \<Rightarrow> bool" where
  "gitlab_delete (SdkDeleteRegisteredRunner g t r) = True"
| "gitlab_delete (SdkRemoveRunner g i r) = True"
| "gitlab_delete e = False"

lemma gitlab_create_call: "gitlab_create e \<Longrightarrow> gitlab_call e"
  by (cases e) simp_all

lemma gitlab_delete_call: "gitlab_delete e \<Longrightarrow> gitlab_call e"
  by (cases e) simp_all

locale gitlab_client =
  fixes gl :: GitlabClient
  assumes create_emits: "emits gitlab_create (gl_CreateRunner gl opts)"
    and delete_emits: "emits gitlab_delete (gl_DeleteRunner gl t)"
    and delete_id_emits: "emits gitlab_delete (gl_DeleteRunnerByID gl i)"
    and verify_emits: "emits (\<lambda>e. gitlab_call e \<and> \<not> gitlab_create e \<and> \<not> gitlab_delete e) (gl_VerifyToken gl t)"
    and keeps: "keeps_obj (gl_CreateRunner gl opts)" "keeps_obj (gl_DeleteRunner gl t)"
      "keeps_obj (gl_DeleteRunnerByID gl i)" "keeps_obj (gl_VerifyToken gl t)"
begin

lemma calls_gitlab:
  "emits gitlab_call (gl_CreateRunner gl opts)" "emits gitlab_call (gl_DeleteRunner gl t)"
  "emits gitlab_call (gl_DeleteRunnerByID gl i)" "emits gitlab_call (gl_VerifyToken gl t)"
  by (rule emits_mono [OF create_emits] emits_mono [OF delete_emits]
        emits_mono [OF delete_id_emits] emits_mono [OF verify_emits];
      simp add: gitlab_create_call gitlab_delete_call)+

end

interpretation production: gitlab_client "gitlabApi E g"
  by unfold_locales
    (unfold gitlabApi_fields gitlabApi_defs, (intro emits_rules keeps_rules; simp)+)

lemma new_client_contract: "NewGitlabClient E token url caPEM = Inr gl \<Longrightarrow> gitlab_client gl"
  using NewGitlabClient_ok production.gitlab_client_axioms by blast

end
