(* ===== verification/Names.thy ===== *)
theory Names
  imports Prelude
begin

text \<open>
  \<open>internal/types/const.go\<close>: the keys of the config Secret and of the annotations, and the
  names of the files the manager pod mounts.
\<close>

definition ConfigVersionAnnotationKey :: string where
  "ConfigVersionAnnotationKey = ''config-version''"

definition ConfigMapKeyName :: string where
  "ConfigMapKeyName = ''config.toml''"

definition SystemIDAnnotationKey :: string where
  "SystemIDAnnotationKey = ''system-id''"

definition SystemIDFileName :: string where
  "SystemIDFileName = ''.runner_system_id''"

definition ConfigTokenKeyPrefix :: string where
  "ConfigTokenKeyPrefix = ''authentication-token-''"

definition CACertFileName :: string where
  "CACertFileName = ''ca.crt''"

definition CACertFile :: string where
  "CACertFile = ''/etc/gitlab-runner/'' @ CACertFileName"

text \<open>A token key is never one of the two other keys of the Secret.\<close>

lemma token_key_neq [simp]:
  "ConfigTokenKeyPrefix @ n \<noteq> ConfigMapKeyName" "ConfigTokenKeyPrefix @ n \<noteq> CACertFileName"
  "ConfigMapKeyName \<noteq> ConfigTokenKeyPrefix @ n" "CACertFileName \<noteq> ConfigTokenKeyPrefix @ n"
  "ConfigMapKeyName \<noteq> CACertFileName" "CACertFileName \<noteq> ConfigMapKeyName"
  by (simp_all add: ConfigTokenKeyPrefix_def ConfigMapKeyName_def CACertFileName_def)

end
