(* ===== verification/Crud.thy ===== *)
theory Crud
  imports Gitlab_Api Names "HOL-Library.List_Lexorder" "HOL-Library.Char_ord"
begin

text \<open>
  \<open>internal/crud/crud.go\<close>: fetching the custom resources, recovering tokens and the CA bundle
  from the config Secret, and the RBAC of a runner: one shared ClusterRole per grant, a
  ServiceAccount, and a RoleBinding in every build namespace. Log calls are left out.
\<close>

definition managedByLabel :: string where
  "managedByLabel = ''app.kubernetes.io/managed-by''"

definition managedByValue :: string where
  "managedByValue = ''gitlab-runner-operator''"

definition ownerNamespaceLabel :: string where
  "ownerNamespaceLabel = ''gitlab.k8s.alekc.dev/owner-namespace''"

definition ownerUIDLabel :: string where
  "ownerUIDLabel = ''gitlab.k8s.alekc.dev/owner-uid''"

definition executorClusterRoleName :: string where
  "executorClusterRoleName = ''gitlab-runner-operator-executor''"

definition executorPDBClusterRoleName :: string where
  "executorPDBClusterRoleName = ''gitlab-runner-operator-executor-pdb''"

definition pdbBindingPrefix :: string where
  "pdbBindingPrefix = ''pdb-''"

section \<open>Fetching the object\<close>

definition SingleRunner :: "env \<Rightarrow> NSName \<Rightarrow> (goerr + RunnerInfo) go" where
  "SingleRunner E nsName = cl_GetRunner E nsName"

text \<open>A fetched MultiRunner has its three status maps allocated.\<close>

definition init_status_maps :: "MultiRunnerStatus \<Rightarrow> MultiRunnerStatus" where
  "init_status_maps s =
     s\<lparr>mst_RunnerIDs := non_nil (mst_RunnerIDs s),
       mst_RegistrationHashes := non_nil (mst_RegistrationHashes s),
       mst_TokenExpiresAt := non_nil (mst_TokenExpiresAt s)\<rparr>"

fun with_status_maps :: "RunnerInfo \<Rightarrow> RunnerInfo" where
  "with_status_maps (RunnerObj r) = RunnerObj r"
| "with_status_maps (MultiRunnerObj r) = MultiRunnerObj (r\<lparr>res_Status := init_status_maps (res_Status r)\<rparr>)"

definition MultiRunner_fetch :: "env \<Rightarrow> NSName \<Rightarrow> (goerr + RunnerInfo) go" where
  "MultiRunner_fetch E nsName =
     do { r \<leftarrow> cl_GetMultiRunner E nsName; ret (map_sum id with_status_maps r) }"

section \<open>The config Secret, read\<close>

text \<open>The loop over \<open>secret.Data\<close>; distinct keys with the prefix give distinct names.\<close>

definition config_tokens :: "string gomap \<Rightarrow> string gomap" where
  "config_tokens data =
     (case data of
        None \<Rightarrow> Some fmempty
      | Some f \<Rightarrow>
          Some (fmap_of_list
            (concat (map (\<lambda>(k, v). case cut_prefix k ConfigTokenKeyPrefix of
                                     Some name \<Rightarrow> [(name, v)] | None \<Rightarrow> [])
               (sorted_list_of_fmap f)))))"

definition ExistingConfigTokens :: "env \<Rightarrow> string \<Rightarrow> string \<Rightarrow> (goerr + string gomap) go" where
  "ExistingConfigTokens E namespace childName =
     do { r \<leftarrow> cl_GetSecret E Cached (nsname namespace childName);
          ret (case r of
                 Inl err \<Rightarrow> (if IsNotFound err then Inr (Some fmempty) else Inl err)
               | Inr secret \<Rightarrow> Inr (config_tokens (sec_Data secret))) }"

definition ExistingConfigCA :: "env \<Rightarrow> string \<Rightarrow> string \<Rightarrow> (goerr + string) go" where
  "ExistingConfigCA E namespace childName =
     do { r \<leftarrow> cl_GetSecret E Cached (nsname namespace childName);
          ret (case r of
                 Inl err \<Rightarrow> (if IsNotFound err then Inr '''' else Inl err)
               | Inr secret \<Rightarrow> Inr (map_get_or '''' (sec_Data secret) CACertFileName)) }"

section \<open>Which RBAC a runner gets\<close>

definition desiredRoleRules :: "PolicyRule list" where
  "desiredRoleRules =
     [\<lparr>pr_APIGroups = [''''], pr_Resources = [''pods''],
       pr_Verbs = [''get'', ''list'', ''watch'', ''create'', ''delete'']\<rparr>,
      \<lparr>pr_APIGroups = [''''], pr_Resources = [''pods/exec'', ''pods/attach''],
       pr_Verbs = [''get'', ''create'', ''patch'', ''delete'']\<rparr>,
      \<lparr>pr_APIGroups = [''''], pr_Resources = [''pods/log''], pr_Verbs = [''get'', ''list'']\<rparr>,
      \<lparr>pr_APIGroups = [''''], pr_Resources = [''secrets''],
       pr_Verbs = [''get'', ''create'', ''update'', ''delete'']\<rparr>,
      \<lparr>pr_APIGroups = [''''], pr_Resources = [''configmaps''],
       pr_Verbs = [''get'', ''create'', ''delete'']\<rparr>,
      \<lparr>pr_APIGroups = [''''], pr_Resources = [''services''], pr_Verbs = [''get'', ''create'']\<rparr>,
      \<lparr>pr_APIGroups = [''''], pr_Resources = [''serviceaccounts''], pr_Verbs = [''get'']\<rparr>,
      \<lparr>pr_APIGroups = [''''], pr_Resources = [''events''], pr_Verbs = [''list'', ''watch'']\<rparr>]"

definition desiredPDBRules :: "PolicyRule list" where
  "desiredPDBRules =
     [\<lparr>pr_APIGroups = [''policy''], pr_Resources = [''poddisruptionbudgets''],
       pr_Verbs = [''get'', ''create'']\<rparr>]"

definition entry_namespace :: "RunnerInfo \<Rightarrow> KubernetesConfig \<Rightarrow> string" where
  "entry_namespace x cfg = EffectiveNamespace (Some cfg) (GetNamespace x)"

text \<open>The keys of the set that \<open>BuildNamespaces\<close> collects, then the loop that lists it.\<close>

definition build_namespace_keys :: "RunnerInfo \<Rightarrow> string list" where
  "build_namespace_keys x =
     (let ks = remdups (map (entry_namespace x) (ExecutorConfigs x))
      in if ks = [] then [GetNamespace x] else ks)"

definition BuildNamespaces :: "env \<Rightarrow> RunnerInfo \<Rightarrow> string list go" where
  "BuildNamespaces E x = range_keys E (build_namespace_keys x)"

definition pdbNamespaces :: "RunnerInfo \<Rightarrow> string set" where
  "pdbNamespaces x =
     set (map (entry_namespace x)
       (filter (\<lambda>cfg. kc_PodDisruptionBudget cfg = Some True) (ExecutorConfigs x)))"

record optionalGrant =
  og_namePrefix :: string
  og_clusterRole :: string
  og_rules :: "PolicyRule list"
  og_wanted :: "RunnerInfo \<Rightarrow> string set"

definition optionalGrants :: "optionalGrant list" where
  "optionalGrants =
     [\<lparr>og_namePrefix = pdbBindingPrefix, og_clusterRole = executorPDBClusterRoleName,
       og_rules = desiredPDBRules, og_wanted = pdbNamespaces\<rparr>]"

record BindingKey =
  bk_Namespace :: string
  bk_Name :: string
  bk_ClusterRole :: string

definition base_binding :: "RunnerInfo \<Rightarrow> string \<Rightarrow> BindingKey" where
  "base_binding x namespace =
     \<lparr>bk_Namespace = namespace, bk_Name = ChildName x, bk_ClusterRole = executorClusterRoleName\<rparr>"

definition grant_binding :: "RunnerInfo \<Rightarrow> string \<Rightarrow> optionalGrant \<Rightarrow> BindingKey" where
  "grant_binding x namespace g =
     \<lparr>bk_Namespace = namespace, bk_Name = og_namePrefix g @ ChildName x,
      bk_ClusterRole = og_clusterRole g\<rparr>"

fun DesiredBindings :: "RunnerInfo \<Rightarrow> string list \<Rightarrow> BindingKey list" where
  "DesiredBindings x [] = []"
| "DesiredBindings x (namespace # namespaces) =
     base_binding x namespace #
     map (grant_binding x namespace) (filter (\<lambda>g. namespace \<in> og_wanted g x) optionalGrants) @
     DesiredBindings x namespaces"

definition AllBindingsIn :: "RunnerInfo \<Rightarrow> string \<Rightarrow> BindingKey list" where
  "AllBindingsIn x namespace =
     base_binding x namespace # map (grant_binding x namespace) optionalGrants"

definition rbacLabels :: "RunnerInfo \<Rightarrow> string gomap" where
  "rbacLabels x =
     Some (fmap_of_list
       [(managedByLabel, managedByValue),
        (ownerNamespaceLabel, GetNamespace x),
        (ownerUIDLabel, GetUID x)])"

definition desiredRoleBinding :: "RunnerInfo \<Rightarrow> string \<Rightarrow> string \<Rightarrow> string \<Rightarrow> RoleBinding" where
  "desiredRoleBinding x namespace name clusterRole =
     (let binding =
        \<lparr>rb_Meta = ObjectMeta_zero\<lparr>om_Name := name, om_Namespace := namespace,
           om_Labels := rbacLabels x\<rparr>,
         rb_Subjects = [\<lparr>sub_Kind = ''ServiceAccount'', sub_Name = ChildName x,
                         sub_Namespace = GetNamespace x\<rparr>],
         rb_RoleRef = \<lparr>rr_APIGroup = ''rbac.authorization.k8s.io'', rr_Kind = ''ClusterRole'',
                       rr_Name = clusterRole\<rparr>\<rparr>
      in if namespace = GetNamespace x
         then binding\<lparr>rb_Meta := (rb_Meta binding)\<lparr>om_OwnerReferences := GenerateOwnerReference x\<rparr>\<rparr>
         else binding)"

section \<open>Reconciling it\<close>

definition reconcileClusterRole ::
  "env \<Rightarrow> string \<Rightarrow> PolicyRule list \<Rightarrow> bool \<Rightarrow> goerr option go" where
  "reconcileClusterRole E name desired converge =
     do { r \<leftarrow> cl_GetClusterRole E Uncached name;
          case r of
            Inl err \<Rightarrow>
              (if IsNotFound err
               then do { err' \<leftarrow> cl_CreateClusterRole E
                           \<lparr>cr_Meta = ObjectMeta_zero\<lparr>om_Name := name,
                              om_Labels := Some (fmap_of_list [(managedByLabel, managedByValue)])\<rparr>,
                            cr_Rules = desired\<rparr>;
                         ret (tolerate IsAlreadyExists err') }
               else ret (Some err))
          | Inr existing \<Rightarrow>
              (if converge \<and> \<not> sem_eq_rules E (cr_Rules existing) desired
               then do { err' \<leftarrow> cl_UpdateClusterRole E (existing\<lparr>cr_Rules := desired\<rparr>);
                         ret (tolerate IsConflict err') }
               else ret None) }"

definition ensureClusterRole :: "env \<Rightarrow> string \<Rightarrow> PolicyRule list \<Rightarrow> goerr option go" where
  "ensureClusterRole E name desired = reconcileClusterRole E name desired True"

definition ensureClusterRoleExists :: "env \<Rightarrow> string \<Rightarrow> PolicyRule list \<Rightarrow> goerr option go" where
  "ensureClusterRoleExists E name desired = reconcileClusterRole E name desired False"

definition ensureBaseClusterRole :: "env \<Rightarrow> goerr option go" where
  "ensureBaseClusterRole E = ensureClusterRole E executorClusterRoleName desiredRoleRules"

definition ensureOptionalClusterRoles :: "env \<Rightarrow> goerr option go" where
  "ensureOptionalClusterRoles E =
     each (\<lambda>g. ensureClusterRole E (og_clusterRole g) (og_rules g)) optionalGrants"

definition CreateSaIfMissing :: "env \<Rightarrow> RunnerInfo \<Rightarrow> goerr option go" where
  "CreateSaIfMissing E x =
     do { r \<leftarrow> cl_GetServiceAccount E (nsname (GetNamespace x) (ChildName x));
          case r of
            Inr sa \<Rightarrow> ret None
          | Inl err \<Rightarrow>
              (if \<not> IsNotFound err then ret (Some err)
               else cl_CreateServiceAccount E
                      \<lparr>sa_Meta = ObjectMeta_zero\<lparr>om_Name := ChildName x, om_Namespace := GetNamespace x,
                         om_OwnerReferences := GenerateOwnerReference x\<rparr>\<rparr>) }"

definition meta_key :: "ObjectMeta \<Rightarrow> NSName" where
  "meta_key m = nsname (om_Namespace m) (om_Name m)"

definition reconcileRoleBinding ::
  "env \<Rightarrow> RunnerInfo \<Rightarrow> string \<Rightarrow> string \<Rightarrow> string \<Rightarrow> goerr option go" where
  "reconcileRoleBinding E x namespace name clusterRole =
     (let desired = desiredRoleBinding x namespace name clusterRole in
      do { r \<leftarrow> cl_GetRoleBinding E (nsname namespace name);
           case r of
             Inl err \<Rightarrow>
               (if IsNotFound err
                then do { err' \<leftarrow> cl_CreateRoleBinding E desired; ret (tolerate IsAlreadyExists err') }
                else ret (Some err))
           | Inr existing \<Rightarrow>
               (if rb_RoleRef existing \<noteq> rb_RoleRef desired
                then do { err \<leftarrow> cl_DeleteRoleBinding E (meta_key (rb_Meta existing));
                          case tolerate IsNotFound err of
                            Some e \<Rightarrow> ret (Some e)
                          | None \<Rightarrow> do { err' \<leftarrow> cl_CreateRoleBinding E desired;
                                       ret (tolerate IsAlreadyExists err') } }
                else ret None) })"

text \<open>The prune compares the texts \<open>namespace/name\<close>.\<close>

definition slash_key :: "string \<Rightarrow> string \<Rightarrow> string" where
  "slash_key namespace name = namespace @ ''/'' @ name"

definition keep_set :: "BindingKey list \<Rightarrow> string set" where
  "keep_set keep = set (map (\<lambda>k. slash_key (bk_Namespace k) (bk_Name k)) keep)"

definition prune_item :: "env \<Rightarrow> string set \<Rightarrow> RoleBinding \<Rightarrow> goerr option go" where
  "prune_item E keepSet item =
     (if slash_key (om_Namespace (rb_Meta item)) (om_Name (rb_Meta item)) \<in> keepSet
      then ret None
      else do { err \<leftarrow> cl_DeleteRoleBinding E (meta_key (rb_Meta item));
                ret (tolerate IsNotFound err) })"

definition DeleteRBACExcept :: "env \<Rightarrow> Reader \<Rightarrow> RunnerInfo \<Rightarrow> BindingKey list \<Rightarrow> goerr option go" where
  "DeleteRBACExcept E reader x keep =
     (let keepSet = keep_set keep in
      do { r \<leftarrow> cl_ListRoleBindings E reader (rbacLabels x);
           case r of
             Inl err \<Rightarrow> ret (Some err)
           | Inr items \<Rightarrow> each (prune_item E keepSet) items })"

definition CreateRBACIfMissing :: "env \<Rightarrow> RunnerInfo \<Rightarrow> goerr option go" where
  "CreateRBACIfMissing E x =
     and_then (ensureOptionalClusterRoles E)
    (and_then (ensureClusterRoleExists E executorClusterRoleName desiredRoleRules)
    (and_then (CreateSaIfMissing E x)
    (do { namespaces \<leftarrow> BuildNamespaces E x;
          let desired = DesiredBindings x namespaces;
          and_then
            (each (\<lambda>key. reconcileRoleBinding E x (bk_Namespace key) (bk_Name key)
                            (bk_ClusterRole key)) desired)
         (and_then (ensureBaseClusterRole E)
            (DeleteRBACExcept E Uncached x desired)) })))"

section \<open>Which bindings are wanted, and which calls are made\<close>

lemma range_keys_bind_emits:
  "(\<And>ys. mset ys = mset ks \<Longrightarrow> emits P (f ys)) \<Longrightarrow> emits P (State_Monad.bind (range_keys E ks) f)"
  unfolding emits_def range_keys_def
  by (intro allI runs_bind runs_observe) (auto simp: Let_def)

lemma keeps_range_keys [keeps_rules]: "keeps_obj (range_keys E ks)"
  unfolding range_keys_def by (intro keeps_rules)

lemma DesiredBindings_iff:
  "k \<in> set (DesiredBindings x namespaces) \<longleftrightarrow>
     (\<exists>ns \<in> set namespaces. k = base_binding x ns \<or>
        (\<exists>g \<in> set optionalGrants. ns \<in> og_wanted g x \<and> k = grant_binding x ns g))"
  by (induction namespaces) auto

lemma optionalGrants_set [simp]:
  "set optionalGrants = {\<lparr>og_namePrefix = pdbBindingPrefix, og_clusterRole = executorPDBClusterRoleName,
     og_rules = desiredPDBRules, og_wanted = pdbNamespaces\<rparr>}"
  by (simp add: optionalGrants_def)

lemma build_namespace_keys_set:
  "set (build_namespace_keys x) =
     (if ExecutorConfigs x = [] then {GetNamespace x} else entry_namespace x ` set (ExecutorConfigs x))"
  by (simp add: build_namespace_keys_def Let_def)

lemma pdbNamespaces_subset: "pdbNamespaces x \<subseteq> set (build_namespace_keys x)"
  by (auto simp: pdbNamespaces_def build_namespace_keys_set)

text \<open>\<open>wanted_binding x b\<close>: the binding is one of those the object should have.\<close>

definition wanted_binding :: "RunnerInfo \<Rightarrow> RoleBinding \<Rightarrow> bool" where
  "wanted_binding x b =
     (\<exists>k \<in> set (DesiredBindings x (build_namespace_keys x)).
        b = desiredRoleBinding x (bk_Namespace k) (bk_Name k) (bk_ClusterRole k))"

lemma DesiredBindings_perm:
  "mset ys = mset zs \<Longrightarrow> set (DesiredBindings x ys) = set (DesiredBindings x zs)"
  by (auto simp: DesiredBindings_iff dest: mset_eq_setD)

fun rbac_call :: "(RoleBinding \<Rightarrow> bool) \<Rightarrow> event \<Rightarrow> bool" where
  "rbac_call P (CreateRoleBinding b r) = P b"
| "rbac_call P (GetServiceAccount k r) = True"
| "rbac_call P (GetRoleBinding k r) = True"
| "rbac_call P (GetClusterRole rd n r) = True"
| "rbac_call P (ListRoleBindings rd sel r) = True"
| "rbac_call P (CreateServiceAccount x r) = True"
| "rbac_call P (CreateClusterRole x r) = True"
| "rbac_call P (UpdateClusterRole x r) = True"
| "rbac_call P (DeleteRoleBinding k r) = True"
| "rbac_call P e = False"

lemma emits_ClusterRole: "emits (rbac_call P) (reconcileClusterRole E name desired converge)"
  unfolding reconcileClusterRole_def call_defs by (intro emits_rules; simp)

lemma keeps_ClusterRole: "keeps_obj (reconcileClusterRole E name desired converge)"
  unfolding reconcileClusterRole_def call_defs by (intro keeps_rules)

lemma emits_Sa: "emits (rbac_call P) (CreateSaIfMissing E x)"
  unfolding CreateSaIfMissing_def call_defs by (intro emits_rules; simp)

lemma emits_RoleBinding:
  "P (desiredRoleBinding x ns name role) \<Longrightarrow> emits (rbac_call P) (reconcileRoleBinding E x ns name role)"
  unfolding reconcileRoleBinding_def call_defs Let_def by (intro emits_rules; simp)

lemma emits_DeleteRBACExcept: "emits (rbac_call P) (DeleteRBACExcept E rd x keep)"
  unfolding DeleteRBACExcept_def prune_item_def call_defs Let_def by (intro emits_rules; simp)

lemmas ensure_role_defs =
  ensureOptionalClusterRoles_def ensureBaseClusterRole_def ensureClusterRole_def
  ensureClusterRoleExists_def

lemma emits_CreateRBAC: "emits (rbac_call (wanted_binding x)) (CreateRBACIfMissing E x)"
  unfolding CreateRBACIfMissing_def ensure_role_defs BuildNamespaces_def
  by (intro emits_and_then emits_each range_keys_bind_emits emits_let emits_ClusterRole emits_Sa
        emits_RoleBinding emits_DeleteRBACExcept)
     (auto simp: wanted_binding_def dest: DesiredBindings_perm)

lemma keeps_CreateRBAC: "keeps_obj (CreateRBACIfMissing E x)"
  unfolding CreateRBACIfMissing_def ensure_role_defs BuildNamespaces_def CreateSaIfMissing_def
    reconcileRoleBinding_def DeleteRBACExcept_def prune_item_def call_defs
  by (intro keeps_rules keeps_ClusterRole)

lemma keeps_DeleteRBACExcept: "keeps_obj (DeleteRBACExcept E rd x keep)"
  unfolding DeleteRBACExcept_def prune_item_def call_defs by (intro keeps_rules)

end
