(* ===== verification/Generate.thy ===== *)
theory Generate
  imports Logic Names
begin

text \<open>
  \<open>internal/generate/config.go\<close>: the configuration file of a runner. Rendering a Runner
  assigns the effective namespace through \<open>&r.Spec.ExecutorConfig\<close>, so \<open>SingleRunnerConfig\<close>
  also returns the changed object; a MultiRunner's entries are copied first.
\<close>

text \<open>\<open>int(math.Max(lo, float64(x)))\<close>.\<close>

definition int_of_float :: "env \<Rightarrow> int \<Rightarrow> int" where
  "int_of_float E f = (if in_int64 f then f else float_overflow E)"

definition at_least :: "env \<Rightarrow> int \<Rightarrow> int \<Rightarrow> int" where
  "at_least E lo x = int_of_float E (max lo (float64_of_int x))"

definition runner_config ::
  "string \<Rightarrow> ConcurrencyLimits \<Rightarrow> string gomap \<Rightarrow> string \<Rightarrow> string goslice \<Rightarrow> KubernetesConfig \<Rightarrow>
   CASource option \<Rightarrow> RunnerConfig" where
  "runner_config name limits tokens url environment kubernetes ca =
     \<lparr>rcfg_Name = name,
      rcfg_Limit = cl_Limit limits,
      rcfg_OutputLimit = 0,
      rcfg_RequestConcurrency = cl_RequestConcurrency limits,
      rcfg_RunnerCredentials = RunnerCredentials_zero\<lparr>
        rc_Token := map_get_or '''' tokens name,
        rc_URL := url,
        rc_TLSCAFile := (if CASource_IsSet ca then CACertFile else '''')\<rparr>,
      rcfg_RunnerSettings = RunnerSettings_zero\<lparr>
        rset_Environment := environment,
        rset_Executor := ''kubernetes'',
        rset_Kubernetes := Some kubernetes\<rparr>\<rparr>"

definition root_config :: "env \<Rightarrow> 'a ManagerSpec_scheme \<Rightarrow> RunnerConfig list \<Rightarrow> Config" where
  "root_config E spec runners =
     \<lparr>cfg_ListenAddress = '':9090'',
      cfg_Concurrent = at_least E 1 (sp_Concurrent spec),
      cfg_CheckInterval = at_least E 3 (sp_CheckInterval spec),
      cfg_LogLevel = (if sp_LogLevel spec = '''' then ''info'' else sp_LogLevel spec),
      cfg_Runners = runners\<rparr>"

text \<open>The rendered text and its digest, which covers the CA bundle.\<close>

definition hash_input :: "string \<Rightarrow> string \<Rightarrow> string" where
  "hash_input gitlabConfig caPEM =
     (if 0 < length caPEM then gitlabConfig @ [char_of (10::nat)] @ caPEM else gitlabConfig)"

definition render_config :: "env \<Rightarrow> Config \<Rightarrow> string \<Rightarrow> goerr + string \<times> string" where
  "render_config E rootConfig caPEM =
     (case toml_encode E rootConfig of
        Inl err \<Rightarrow> Inl err
      | Inr gitlabConfig \<Rightarrow> Inr (gitlabConfig, StringToSHA1 (hash_input gitlabConfig caPEM)))"

definition resolve_namespace :: "KubernetesConfig \<Rightarrow> string \<Rightarrow> KubernetesConfig" where
  "resolve_namespace k own = k\<lparr>kc_Namespace := EffectiveNamespace (Some k) own\<rparr>"

definition single_root_config :: "env \<Rightarrow> Runner \<Rightarrow> string gomap \<Rightarrow> Config" where
  "single_root_config E r tokens =
     root_config E (res_Spec r)
       [runner_config (om_Name (res_Meta r)) (rs_ConcurrencyLimits (res_Spec r)) tokens
          (sp_GitlabInstanceURL (res_Spec r)) (rs_Environment (res_Spec r))
          (resolve_namespace (rs_ExecutorConfig (res_Spec r)) (om_Namespace (res_Meta r)))
          (sp_CACertificate (res_Spec r))]"

definition SingleRunnerConfig ::
  "env \<Rightarrow> Runner \<Rightarrow> string gomap \<Rightarrow> string \<Rightarrow> Runner \<times> (goerr + string \<times> string)" where
  "SingleRunnerConfig E r tokens caPEM =
     (let kubernetes = resolve_namespace (rs_ExecutorConfig (res_Spec r)) (om_Namespace (res_Meta r))
      in (r\<lparr>res_Spec := (res_Spec r)\<lparr>rs_ExecutorConfig := kubernetes\<rparr>\<rparr>,
          render_config E (single_root_config E r tokens) caPEM))"

definition multi_root_config :: "env \<Rightarrow> MultiRunner \<Rightarrow> string gomap \<Rightarrow> Config" where
  "multi_root_config E r tokens =
     root_config E (res_Spec r)
       (map (\<lambda>entry.
          runner_config (mre_Name entry) (mre_ConcurrencyLimits entry) tokens
            (sp_GitlabInstanceURL (res_Spec r)) (mre_Environment entry)
            (resolve_namespace (mre_ExecutorConfig entry) (om_Namespace (res_Meta r)))
            (sp_CACertificate (res_Spec r)))
        (mrs_Entries (res_Spec r)))"

definition MultiRunnerConfig ::
  "env \<Rightarrow> MultiRunner \<Rightarrow> string gomap \<Rightarrow> string \<Rightarrow> goerr + string \<times> string" where
  "MultiRunnerConfig E r tokens caPEM = render_config E (multi_root_config E r tokens) caPEM"

fun TomlConfig ::
  "env \<Rightarrow> RunnerInfo \<Rightarrow> string gomap \<Rightarrow> string \<Rightarrow> RunnerInfo \<times> (goerr + string \<times> string)" where
  "TomlConfig E (RunnerObj r) tokens caPEM =
     (let (r', res) = SingleRunnerConfig E r tokens caPEM in (RunnerObj r', res))"
| "TomlConfig E (MultiRunnerObj r) tokens caPEM =
     (MultiRunnerObj r, MultiRunnerConfig E r tokens caPEM)"

section \<open>What is rendered\<close>

text \<open>The configuration that \<open>TomlConfig\<close> encodes.\<close>

fun rendered_config :: "env \<Rightarrow> RunnerInfo \<Rightarrow> string gomap \<Rightarrow> Config" where
  "rendered_config E (RunnerObj r) tokens = single_root_config E r tokens"
| "rendered_config E (MultiRunnerObj r) tokens = multi_root_config E r tokens"

lemma TomlConfig_renders:
  "snd (TomlConfig E x tokens caPEM) = render_config E (rendered_config E x tokens) caPEM"
  by (cases x) (simp_all add: SingleRunnerConfig_def MultiRunnerConfig_def Let_def)

lemma render_config_ok:
  "render_config E c caPEM = Inr (text, hash) \<Longrightarrow>
     toml_encode E c = Inr text \<and> hash = StringToSHA1 (hash_input text caPEM)"
  by (auto simp: render_config_def split: sum.splits)

lemma TomlConfig_keeps:
  "GetMeta (fst (TomlConfig E x tokens caPEM)) = GetMeta x"
  "RegistrationConfig (fst (TomlConfig E x tokens caPEM)) = RegistrationConfig x"
  "GetStatus (fst (TomlConfig E x tokens caPEM)) = GetStatus x"
  "is_multi (fst (TomlConfig E x tokens caPEM)) = is_multi x"
  "ConfigMapVersion (fst (TomlConfig E x tokens caPEM)) = ConfigMapVersion x"
  by (cases x, simp_all add: SingleRunnerConfig_def Let_def Runner_RegistrationConfig_def
    Runner_GetStatus_def is_multi_def Runner_ConfigMapVersion_def)+

text \<open>
  The side effect on a Runner fixes the namespace that the rest of the pass resolves to anyway.
\<close>

lemma TomlConfig_namespaces:
  "map (\<lambda>k. EffectiveNamespace (Some k) (GetNamespace x)) (ExecutorConfigs (fst (TomlConfig E x tokens caPEM)))
     = map (\<lambda>k. EffectiveNamespace (Some k) (GetNamespace x)) (ExecutorConfigs x)"
  by (cases x) (simp_all add: SingleRunnerConfig_def Let_def Runner_ExecutorConfigs_def
    Runner_GetNamespace_def resolve_namespace_def EffectiveNamespace_idem)

definition config_namespaces :: "Config \<Rightarrow> string list" where
  "config_namespaces c =
     map (\<lambda>r. case rset_Kubernetes (rcfg_RunnerSettings r) of Some k \<Rightarrow> kc_Namespace k | None \<Rightarrow> '''')
       (cfg_Runners c)"

lemma rendered_namespaces:
  "config_namespaces (rendered_config E x tokens) =
     map (\<lambda>k. EffectiveNamespace (Some k) (GetNamespace x)) (ExecutorConfigs x)"
  by (cases x) (simp_all add: config_namespaces_def single_root_config_def multi_root_config_def
    root_config_def runner_config_def resolve_namespace_def Runner_ExecutorConfigs_def
    MultiRunner_ExecutorConfigs_def Runner_GetNamespace_def MultiRunner_GetNamespace_def
    RunnerSettings_zero_def)

lemma at_least_exact: "0 \<le> lo \<Longrightarrow> lo < 2 ^ 53 \<Longrightarrow> \<bar>x\<bar> < 2 ^ 53 \<Longrightarrow> at_least E lo x = max lo x"
  by (auto simp: at_least_def int_of_float_def float64_of_int_exact in_int64_def int64_min_def
    int64_max_def)

lemma rendered_limits:
  "cfg_Concurrent (rendered_config E x tokens) =
     at_least E 1 (case x of RunnerObj r \<Rightarrow> sp_Concurrent (res_Spec r)
                           | MultiRunnerObj r \<Rightarrow> sp_Concurrent (res_Spec r))"
  "cfg_CheckInterval (rendered_config E x tokens) =
     at_least E 3 (case x of RunnerObj r \<Rightarrow> sp_CheckInterval (res_Spec r)
                           | MultiRunnerObj r \<Rightarrow> sp_CheckInterval (res_Spec r))"
  by (cases x; simp add: single_root_config_def multi_root_config_def root_config_def)+

text \<open>Each runner of the file carries its own entry's token.\<close>

lemma rendered_tokens:
  "map (\<lambda>r. (rcfg_Name r, rc_Token (rcfg_RunnerCredentials r))) (cfg_Runners (rendered_config E x tokens)) =
     map (\<lambda>g. (reg_Name g, map_get_or '''' tokens (reg_Name g))) (RegistrationConfig x)"
  by (cases x) (simp_all add: single_root_config_def multi_root_config_def root_config_def
    runner_config_def Runner_RegistrationConfig_def MultiRunner_RegistrationConfig_def
    RunnerCredentials_zero_def)

end
