(* ===== verification/Identity.thy ===== *)
theory Identity
  imports Crud Generate
begin

text \<open>
  Which parts of the runner object stay the same while a pass works on it, and what is assumed of
  the API server's answers to updates.
\<close>

section \<open>The identity of an object across a pass\<close>

text \<open>
  What a pass assumes of the object it works on: kind, name, namespace, UID, the namespaces and
  the optional grant of each executor entry, and the name and credentials of each unit. Setting
  status fields keeps all of it.
\<close>

definition entry_view :: "RunnerInfo \<Rightarrow> (string \<times> bool option) list" where
  "entry_view x = map (\<lambda>k. (entry_namespace x k, kc_PodDisruptionBudget k)) (ExecutorConfigs x)"

definition unit_view :: "RunnerInfo \<Rightarrow> (string \<times> GitlabAuth) list" where
  "unit_view x = map (\<lambda>g. (reg_Name g, reg_Auth g)) (RegistrationConfig x)"

definition same_unit :: "RunnerInfo \<Rightarrow> RunnerInfo \<Rightarrow> bool" where
  "same_unit x y =
     (is_multi x = is_multi y \<and> GetName x = GetName y \<and> GetNamespace x = GetNamespace y \<and>
      GetUID x = GetUID y \<and> entry_view x = entry_view y \<and> unit_view x = unit_view y)"

text \<open>Whether the operator keeps a runner on GitLab for some unit of the object.\<close>

definition has_managed :: "RunnerInfo \<Rightarrow> bool" where
  "has_managed x = (\<exists>g \<in> set (RegistrationConfig x). IsManaged (Some (reg_Auth g)))"

lemma has_managed_view: "has_managed x \<longleftrightarrow> (\<exists>u \<in> set (unit_view x). IsManaged (Some (snd u)))"
  by (simp add: has_managed_def unit_view_def)

lemma same_unit_managed: "same_unit x y \<Longrightarrow> has_managed x = has_managed y"
  by (simp add: has_managed_view same_unit_def)

lemma same_unit_refl [simp]: "same_unit x x"
  by (simp add: same_unit_def)

lemma same_unit_sym: "same_unit x y \<Longrightarrow> same_unit y x"
  by (auto simp: same_unit_def)

lemma same_unit_trans: "same_unit x y \<Longrightarrow> same_unit y z \<Longrightarrow> same_unit x z"
  by (auto simp: same_unit_def)

lemma same_unit_ChildName: "same_unit x y \<Longrightarrow> ChildName x = ChildName y"
  by (simp add: same_unit_def ChildName_inj)

lemma build_namespace_keys_view:
  "build_namespace_keys x =
     (let ks = remdups (map fst (entry_view x)) in if ks = [] then [GetNamespace x] else ks)"
  by (simp add: build_namespace_keys_def entry_view_def comp_def)

lemma pdbNamespaces_view: "pdbNamespaces x = fst ` {p \<in> set (entry_view x). snd p = Some True}"
  by (force simp: pdbNamespaces_def entry_view_def)

lemma same_unit_keys: "same_unit x y \<Longrightarrow> build_namespace_keys x = build_namespace_keys y"
  by (simp add: build_namespace_keys_view same_unit_def)

lemma same_unit_pdb: "same_unit x y \<Longrightarrow> pdbNamespaces x = pdbNamespaces y"
  by (simp add: pdbNamespaces_view same_unit_def)

lemma same_unit_owner: "same_unit x y \<Longrightarrow> GenerateOwnerReference x = GenerateOwnerReference y"
  by (cases x; cases y) (simp_all add: same_unit_def is_multi_def GetName_def GetUID_def
    Runner_GenerateOwnerReference_def MultiRunner_GenerateOwnerReference_def)

lemma same_unit_binding:
  "same_unit x y \<Longrightarrow> desiredRoleBinding x = desiredRoleBinding y"
  by (frule same_unit_ChildName, frule same_unit_owner)
     (auto simp: fun_eq_iff desiredRoleBinding_def Let_def rbacLabels_def same_unit_def)

lemma same_unit_DesiredBindings:
  assumes "same_unit x y"
  shows "DesiredBindings x = DesiredBindings y"
proof
  fix nss
  have "base_binding x = base_binding y" "grant_binding x = grant_binding y"
    using assms by (simp_all add: fun_eq_iff base_binding_def grant_binding_def same_unit_ChildName)
  moreover have "filter (\<lambda>g. ns \<in> og_wanted g x) optionalGrants = filter (\<lambda>g. ns \<in> og_wanted g y) optionalGrants" for ns
    using assms by (simp add: optionalGrants_def same_unit_pdb)
  ultimately show "DesiredBindings x nss = DesiredBindings y nss"
    by (induction nss) auto
qed

lemma same_unit_wanted: "same_unit x y \<Longrightarrow> wanted_binding x = wanted_binding y"
  by (simp add: fun_eq_iff wanted_binding_def same_unit_keys same_unit_DesiredBindings same_unit_binding)

text \<open>Of two objects with the same metadata, executor entries and units.\<close>

lemma same_unit_intro:
  assumes "is_multi x = is_multi y"
    and "om_Name (GetMeta x) = om_Name (GetMeta y)" "om_Namespace (GetMeta x) = om_Namespace (GetMeta y)"
      "om_UID (GetMeta x) = om_UID (GetMeta y)"
    and "entry_view x = entry_view y" and "unit_view x = unit_view y"
  shows "same_unit x y"
  using assms by (simp add: same_unit_def GetName_def GetUID_def GetNamespace_meta)

lemma is_multi_setters [simp]:
  "is_multi (SetStatusError e x) = is_multi x" "is_multi (SetStatusReady b x) = is_multi x"
  "is_multi (SetConfigMapVersion v x) = is_multi x" "is_multi (SetObservedGeneration n x) = is_multi x"
  "is_multi (SetReadyCondition L t b r m x) = is_multi x" "is_multi (StoreRunnerRegistration g x) = is_multi x"
  "is_multi (AddFinalizer L x) = is_multi x" "is_multi (RemoveFinalizer L x) = is_multi x"
  "is_multi (SetAnnotations a x) = is_multi x"
  by (cases x, simp_all add: is_multi_def SetAnnotations_def)+

lemma unit_view_store: "unit_view (StoreRunnerRegistration info x) = unit_view x"
  by (cases x) (simp_all add: unit_view_def Runner_RegistrationConfig_def Runner_StoreRunnerRegistration_def
    MultiRunner_RegistrationConfig_def MultiRunner_StoreRunnerRegistration_def Let_def)

lemma meta_setters:
  "RegistrationConfig (AddFinalizer L x) = RegistrationConfig x"
  "RegistrationConfig (RemoveFinalizer L x) = RegistrationConfig x"
  "RegistrationConfig (SetAnnotations a x) = RegistrationConfig x"
  "ExecutorConfigs (AddFinalizer L x) = ExecutorConfigs x"
  "ExecutorConfigs (RemoveFinalizer L x) = ExecutorConfigs x"
  "ExecutorConfigs (SetAnnotations a x) = ExecutorConfigs x"
  by (cases x, simp_all add: Runner_AddFinalizer_def MultiRunner_AddFinalizer_def
    Runner_RemoveFinalizer_def MultiRunner_RemoveFinalizer_def SetAnnotations_def
    Runner_RegistrationConfig_def MultiRunner_RegistrationConfig_def Runner_ExecutorConfigs_def
    MultiRunner_ExecutorConfigs_def)+

lemma meta_fields:
  "om_Name (GetMeta (AddFinalizer L x)) = om_Name (GetMeta x)"
  "om_Namespace (GetMeta (AddFinalizer L x)) = om_Namespace (GetMeta x)"
  "om_UID (GetMeta (AddFinalizer L x)) = om_UID (GetMeta x)"
  "om_Name (GetMeta (RemoveFinalizer L x)) = om_Name (GetMeta x)"
  "om_Namespace (GetMeta (RemoveFinalizer L x)) = om_Namespace (GetMeta x)"
  "om_UID (GetMeta (RemoveFinalizer L x)) = om_UID (GetMeta x)"
  "om_Name (GetMeta (SetAnnotations a x)) = om_Name (GetMeta x)"
  "om_Namespace (GetMeta (SetAnnotations a x)) = om_Namespace (GetMeta x)"
  "om_UID (GetMeta (SetAnnotations a x)) = om_UID (GetMeta x)"
  by (cases x, simp_all add: Runner_AddFinalizer_def MultiRunner_AddFinalizer_def
    Runner_RemoveFinalizer_def MultiRunner_RemoveFinalizer_def SetAnnotations_def)+

lemma same_unit_store [simp]: "same_unit x (StoreRunnerRegistration g x)"
  by (rule same_unit_intro) (simp_all add: unit_view_store entry_view_def entry_namespace_def GetNamespace_meta)

lemma same_unit_regs:
  assumes "is_multi x = is_multi y"
    and "om_Name (GetMeta x) = om_Name (GetMeta y)" "om_Namespace (GetMeta x) = om_Namespace (GetMeta y)"
      "om_UID (GetMeta x) = om_UID (GetMeta y)"
    and "ExecutorConfigs x = ExecutorConfigs y" and "RegistrationConfig x = RegistrationConfig y"
  shows "same_unit x y"
  using assms by (intro same_unit_intro)
    (simp_all add: unit_view_def entry_view_def entry_namespace_def GetNamespace_meta)

lemma same_unit_setters [simp]:
  "same_unit x (SetStatusError e x)" "same_unit x (SetStatusReady b x)"
  "same_unit x (SetConfigMapVersion v x)" "same_unit x (SetObservedGeneration n x)"
  "same_unit x (SetReadyCondition L t b r m x)" "same_unit x (AddFinalizer L x)"
  "same_unit x (RemoveFinalizer L x)" "same_unit x (SetAnnotations a x)"
  by (simp_all add: same_unit_regs meta_setters meta_fields)

lemma same_unit_TomlConfig: "same_unit x (fst (TomlConfig E x tokens ca))"
proof (rule same_unit_intro)
  show "entry_view x = entry_view (fst (TomlConfig E x tokens ca))"
    by (cases x) (simp_all add: entry_view_def SingleRunnerConfig_def Let_def Runner_ExecutorConfigs_def
      entry_namespace_def Runner_GetNamespace_def resolve_namespace_def EffectiveNamespace_idem)
  show "unit_view x = unit_view (fst (TomlConfig E x tokens ca))"
    by (simp add: unit_view_def TomlConfig_keeps)
qed (simp_all add: TomlConfig_keeps)

section \<open>Updates\<close>

text \<open>
  A successful update is answered with the stored object. The request carries the resource
  version that was read, so the stored object is the one the pass read, with the fields the
  request may change.
\<close>

definition update_laws :: "env \<Rightarrow> bool" where
  "update_laws E =
     (\<forall>tr x y. (ask_update E x tr = Inr y \<or> ask_update_status E x tr = Inr y) \<longrightarrow> same_unit x y)"

lemma safe_UpdateObj:
  assumes "update_laws E" and "\<And>y r. same_unit x y \<Longrightarrow> P (UpdateObject y r)"
  shows "safe (same_unit x) P (UpdateObj E) unrestricted"
  unfolding safe_def UpdateObj_def
  using assms unfolding update_laws_def
  by (intro allI impI runs_rules) (auto intro: same_unit_trans)

lemma safe_UpdateStatusObj:
  assumes "update_laws E" and "\<And>y r. same_unit x y \<Longrightarrow> P (UpdateObjectStatus y r)"
  shows "safe (same_unit x) P (UpdateStatusObj E) unrestricted"
  unfolding safe_def UpdateStatusObj_def
  using assms unfolding update_laws_def
  by (intro allI impI runs_rules) (auto intro: same_unit_trans)

lemma safe_set_ready_condition:
  "safe (same_unit x) P (set_ready_condition E b r m) unrestricted"
  unfolding set_ready_condition_def
  by (intro safe_rules) (auto intro: same_unit_trans)

lemma safe_modify_same_unit:
  "(\<And>y. same_unit y (f y)) \<Longrightarrow> safe (same_unit x) P (modify_obj f) unrestricted"
  by (intro safe_rules) (auto intro: same_unit_trans)

end
