(* ===== verification/Auth_Flow.thy ===== *)
theory Auth_Flow
  imports Crud Identity
begin

text \<open>
  \<open>internal/controller/shared.go\<close>, the part that runs while a runner exists: resolving tokens
  and CA bundles, the namespace allow-list, and the life cycle of managed runners on GitLab.
  The reconciler's \<open>GitlabApiClient\<close> field is the argument \<open>injected\<close>; it is nil in production.
\<close>

definition defaultSecretTokenKey :: string where
  "defaultSecretTokenKey = ''token''"

definition tokenRefreshThreshold :: duration where
  "tokenRefreshThreshold = 24 * hour"

definition tokenResyncLead :: duration where
  "tokenResyncLead = 12 * hour"

definition maxResyncInterval :: duration where
  "maxResyncInterval = hour"

definition minResyncInterval :: duration where
  "minResyncInterval = minute"

section \<open>Credentials\<close>

definition resolveTokenSource :: "env \<Rightarrow> string \<Rightarrow> TokenSource option \<Rightarrow> (goerr + string) go" where
  "resolveTokenSource E namespace src =
     (case src of
        None \<Rightarrow> ret (Inr '''')
      | Some s \<Rightarrow>
          (if ts_Value s \<noteq> '''' then ret (Inr (ts_Value s))
           else case ts_SecretKeyRef s of
             None \<Rightarrow> ret (Inr '''')
           | Some ref \<Rightarrow>
               (let opt = (sks_Optional ref = Some True);
                    dataKey = (if sks_Key ref = '''' then defaultSecretTokenKey else sks_Key ref)
                in do { r \<leftarrow> cl_GetSecret E Cached (nsname namespace (sks_Name ref));
                        ret (case r of
                               Inl err \<Rightarrow>
                                 (if opt \<and> IsNotFound err then Inr ''''
                                  else Inl (err_wrap (''cannot read secret '' @ quote (sks_Name ref)) err))
                             | Inr secret \<Rightarrow>
                                 (case map_get (sec_Data secret) dataKey of
                                    Some v \<Rightarrow> Inr v
                                  | None \<Rightarrow>
                                      (if opt then Inr ''''
                                       else Inl (err_new (''secret '' @ quote (sks_Name ref)
                                              @ '' has no key '' @ quote dataKey))))) })))"

definition ca_data_key :: "CAKeyRef \<Rightarrow> string" where
  "ca_data_key ref = (if car_Key ref = '''' then DefaultCAKey else car_Key ref)"

definition resolveCABundle :: "env \<Rightarrow> Reader \<Rightarrow> string \<Rightarrow> CASource option \<Rightarrow> (goerr + string) go" where
  "resolveCABundle E rd namespace src =
     (if \<not> CASource_IsSet src then ret (Inr '''')
      else case src of
        None \<Rightarrow> ret (Inr '''')
      | Some s \<Rightarrow>
          (if ca_Value s \<noteq> '''' then ret (Inr (ca_Value s))
           else case ca_SecretKeyRef s of
             Some ref \<Rightarrow>
               do { r \<leftarrow> cl_GetSecret E rd (nsname namespace (car_Name ref));
                    ret (case r of
                           Inl err \<Rightarrow> Inl (err_wrap (''cannot read CA secret '' @ quote (car_Name ref)) err)
                         | Inr secret \<Rightarrow>
                             (case map_get (sec_Data secret) (ca_data_key ref) of
                                Some d \<Rightarrow> Inr d
                              | None \<Rightarrow> Inl (err_new (''CA secret '' @ quote (car_Name ref)
                                            @ '' has no key '' @ quote (ca_data_key ref))))) }
           | None \<Rightarrow>
               (case ca_ConfigMapKeyRef s of
                  Some ref \<Rightarrow>
                    do { r \<leftarrow> cl_GetConfigMap E rd (nsname namespace (car_Name ref));
                         ret (case r of
                                Inl err \<Rightarrow>
                                  Inl (err_wrap (''cannot read CA configmap '' @ quote (car_Name ref)) err)
                              | Inr cm \<Rightarrow>
                                  (case map_get (cm_Data cm) (ca_data_key ref) of
                                     Some d \<Rightarrow> Inr d
                                   | None \<Rightarrow>
                                       (case map_get (cm_BinaryData cm) (ca_data_key ref) of
                                          Some d \<Rightarrow> Inr d
                                        | None \<Rightarrow> Inl (err_new (''CA configmap '' @ quote (car_Name ref)
                                              @ '' has no key '' @ quote (ca_data_key ref)))))) }
                | None \<Rightarrow> ret (Inr ''''))))"

section \<open>The namespace allow-list\<close>

text \<open>The loop of \<open>enforceAllowedBuildNamespaces\<close>: the namespaces kept, and the last bad one.\<close>

fun split_allowed :: "string \<Rightarrow> string list \<Rightarrow> string list \<Rightarrow> string list \<Rightarrow> string \<Rightarrow> string list \<times> string" where
  "split_allowed own allowed [] keep bad = (keep, bad)"
| "split_allowed own allowed (ns # nss) keep bad =
     (if BuildNamespaceAllowed ns own allowed
      then split_allowed own allowed nss (keep @ [ns]) bad
      else split_allowed own allowed nss keep ns)"

definition not_permitted_message :: "string \<Rightarrow> string \<Rightarrow> string" where
  "not_permitted_message bad own =
     ''executor_config.namespace '' @ quote bad @ '' is not permitted: it must be the runner'' @
     [CHR 0x27] @ ''s own namespace ('' @ quote own @ '') or one of --allowed-build-namespaces''"

definition enforceAllowedBuildNamespaces ::
  "env \<Rightarrow> Reader \<Rightarrow> string list \<Rightarrow> (bool \<times> goerr option) go" where
  "enforceAllowedBuildNamespaces E reader allowed =
     do { x \<leftarrow> get_obj;
          namespaces \<leftarrow> BuildNamespaces E x;
          let (keep, bad) = split_allowed (GetNamespace x) allowed namespaces [] '''';
          if bad = '''' then ret (True, None)
          else do { let msg = not_permitted_message bad (GetNamespace x);
                    _ \<leftarrow> modify_obj (SetStatusError msg);
                    _ \<leftarrow> set_ready_condition E False ''ExecutorNamespaceNotAllowed'' msg;
                    x' \<leftarrow> get_obj;
                    err \<leftarrow> DeleteRBACExcept E reader x' (DesiredBindings x' keep);
                    ret (False, err) } }"

section \<open>Managed runners\<close>

type_synonym token_expiry = "string \<times> time option"

definition persistRunner ::
  "env \<Rightarrow> GitlabRegInfo \<Rightarrow> CreatedRunner \<Rightarrow> string \<Rightarrow> (goerr + token_expiry) go" where
  "persistRunner E reg created hash =
     (let reg' = reg\<lparr>reg_RunnerID := cr_ID created, reg_AuthToken := cr_Token created,
                     reg_TokenExpiresAt := cr_TokenExpiresAt created,
                     reg_RegistrationHash := hash\<rparr>
      in do { _ \<leftarrow> modify_obj (StoreRunnerRegistration reg');
              err \<leftarrow> UpdateStatusObj E;
              ret (case err of
                     Some e \<Rightarrow> Inl (err_wrap (''cannot persist status for runner '' @ quote (reg_Name reg)) e)
                   | None \<Rightarrow> Inr (cr_Token created, cr_TokenExpiresAt created)) })"

definition nil_create_options :: goerr where
  "nil_create_options = Panic ''invalid memory address or nil pointer dereference''"

text \<open>\<open>gc.CreateRunner(*reg.Auth.CreateOptions)\<close>, then \<open>persistRunner\<close>.\<close>

definition create_and_persist ::
  "env \<Rightarrow> GitlabClient \<Rightarrow> GitlabRegInfo \<Rightarrow> string \<Rightarrow> string \<Rightarrow> (goerr + token_expiry) go" where
  "create_and_persist E gc reg desiredHash verb =
     (case auth_CreateOptions (reg_Auth reg) of
        None \<Rightarrow> ret (Inl nil_create_options)
      | Some opts \<Rightarrow>
          do { created \<leftarrow> gl_CreateRunner gc opts;
               case created of
                 Inl err \<Rightarrow>
                   ret (Inl (err_wrap (''cannot '' @ verb @ '' runner '' @ quote (reg_Name reg) @ '' on gitlab'') err))
               | Inr c \<Rightarrow> persistRunner E reg c desiredHash })"

text \<open>The deletion in front of a re-creation; \<open>None\<close> lets the creation go ahead.\<close>

definition delete_stale :: "GitlabClient \<Rightarrow> GitlabRegInfo \<Rightarrow> string \<Rightarrow> goerr option go" where
  "delete_stale gc reg oldToken =
     (if oldToken \<noteq> ''''
      then do { err \<leftarrow> gl_DeleteRunner gc oldToken;
                case err of
                  None \<Rightarrow> ret None
                | Some e \<Rightarrow>
                    do { err' \<leftarrow> gl_DeleteRunnerByID gc (reg_RunnerID reg);
                         ret (map_option (err_wrap (''cannot delete stale runner '' @ quote (reg_Name reg)
                                @ '' before recreate (by token and by id)'')) err') } }
      else if reg_RunnerID reg \<noteq> 0
      then do { _ \<leftarrow> gl_DeleteRunnerByID gc (reg_RunnerID reg); ret None }
      else ret None)"

definition recreateManagedRunner ::
  "env \<Rightarrow> (goerr + GitlabClient) go \<Rightarrow> GitlabRegInfo \<Rightarrow> string \<Rightarrow> string \<Rightarrow> (goerr + token_expiry) go" where
  "recreateManagedRunner E gitlabClient reg oldToken desiredHash =
     do { r \<leftarrow> gitlabClient;
          case r of
            Inl err \<Rightarrow> ret (Inl err)
          | Inr gc \<Rightarrow>
              do { err \<leftarrow> delete_stale gc reg oldToken;
                   case err of
                     Some e \<Rightarrow> ret (Inl e)
                   | None \<Rightarrow> create_and_persist E gc reg desiredHash ''recreate'' } }"

text \<open>The closure \<open>gitlabClient\<close> of \<open>ensureManagedRunner\<close>.\<close>

definition managed_client ::
  "env \<Rightarrow> GitlabClient option \<Rightarrow> GitlabRegInfo \<Rightarrow> string \<Rightarrow> (goerr + GitlabClient) go" where
  "managed_client E injected reg caPEM =
     (case injected of
        Some gc \<Rightarrow> ret (Inr gc)
      | None \<Rightarrow>
          do { x \<leftarrow> get_obj;
               r \<leftarrow> resolveTokenSource E (GetNamespace x) (auth_AccessToken (reg_Auth reg));
               ret (case r of
                      Inl err \<Rightarrow> Inl err
                    | Inr accessToken \<Rightarrow>
                        (if accessToken = ''''
                         then Inl (err_new (''managed runner '' @ quote (reg_Name reg)
                                @ '' requires an access_token (value or secret_key_ref)''))
                         else NewGitlabClient E accessToken (reg_GitlabUrl reg) caPEM)) })"

text \<open>The steady state of a managed runner: its token is known and not near its end.\<close>

definition verifyManagedRunner ::
  "env \<Rightarrow> (goerr + GitlabClient) go \<Rightarrow> GitlabRegInfo \<Rightarrow> string \<Rightarrow> string \<Rightarrow> (goerr + token_expiry) go" where
  "verifyManagedRunner E gitlabClient reg recoveredToken desiredHash =
     (if recoveredToken = '''' then recreateManagedRunner E gitlabClient reg '''' desiredHash
      else do { r \<leftarrow> gitlabClient;
                case r of
                  Inl err \<Rightarrow> ret (Inl err)
                | Inr gc \<Rightarrow>
                    do { v \<leftarrow> gl_VerifyToken gc recoveredToken;
                         case v of
                           Inl err \<Rightarrow>
                             ret (Inl (err_wrap (''cannot verify token for runner '' @ quote (reg_Name reg)) err))
                         | Inr valid \<Rightarrow>
                             (if \<not> valid
                              then recreateManagedRunner E gitlabClient reg recoveredToken desiredHash
                              else ret (Inr (recoveredToken, reg_TokenExpiresAt reg))) } })"

definition ensureManagedRunner ::
  "env \<Rightarrow> GitlabClient option \<Rightarrow> GitlabRegInfo \<Rightarrow> string \<Rightarrow> string \<Rightarrow> (goerr + token_expiry) go" where
  "ensureManagedRunner E injected reg recoveredToken caPEM =
     (let desiredHash = RunnerCreateOptions_Hash (auth_CreateOptions (reg_Auth reg));
          gitlabClient = managed_client E injected reg caPEM
      in if reg_RunnerID reg = 0
         then do { r \<leftarrow> gitlabClient;
                   case r of
                     Inl err \<Rightarrow> ret (Inl err)
                   | Inr gc \<Rightarrow> create_and_persist E gc reg desiredHash ''create'' }
         else if reg_RegistrationHash reg \<noteq> desiredHash
         then recreateManagedRunner E gitlabClient reg recoveredToken desiredHash
         else case reg_TokenExpiresAt reg of
             None \<Rightarrow> verifyManagedRunner E gitlabClient reg recoveredToken desiredHash
           | Some t \<Rightarrow>
               do { left \<leftarrow> Until E t;
                    if left < tokenRefreshThreshold
                    then recreateManagedRunner E gitlabClient reg recoveredToken desiredHash
                    else verifyManagedRunner E gitlabClient reg recoveredToken desiredHash })"

definition clamp_resync :: "duration \<Rightarrow> duration" where
  "clamp_resync d =
     (let d' = (if d < minResyncInterval then minResyncInterval else d)
      in if maxResyncInterval < d' then maxResyncInterval else d')"

definition resyncAfter :: "env \<Rightarrow> time option \<Rightarrow> duration go" where
  "resyncAfter E soonestExpiry =
     (case soonestExpiry of
        None \<Rightarrow> ret 0
      | Some t \<Rightarrow> do { d \<leftarrow> Until E (t - tokenResyncLead); ret (clamp_resync d) })"

definition sooner :: "time option \<Rightarrow> time option \<Rightarrow> time option" where
  "sooner soonest expiry =
     (case expiry of
        None \<Rightarrow> soonest
      | Some e \<Rightarrow> (case soonest of None \<Rightarrow> Some e | Some s \<Rightarrow> (if e < s then Some e else Some s)))"

text \<open>One unit of the loop of \<open>ensureRunners\<close>: the token and expiry it contributes.\<close>

definition ensure_unit ::
  "env \<Rightarrow> GitlabClient option \<Rightarrow> string \<Rightarrow> string gomap \<Rightarrow> string \<Rightarrow> GitlabRegInfo \<Rightarrow>
   (goerr + token_expiry) go" where
  "ensure_unit E injected namespace existing caPEM reg =
     (if \<not> IsManaged (Some (reg_Auth reg))
      then do { r \<leftarrow> resolveTokenSource E namespace (auth_Token (reg_Auth reg));
                ret (case r of
                       Inl err \<Rightarrow> Inl err
                     | Inr token \<Rightarrow>
                         (if token = ''''
                          then Inl (err_new (''runner '' @ quote (reg_Name reg)
                                 @ '' requires a token (value or secret_key_ref)''))
                          else Inr (token, None))) }
      else ensureManagedRunner E injected reg (map_get_or '''' existing (reg_Name reg)) caPEM)"

fun ensure_units ::
  "env \<Rightarrow> GitlabClient option \<Rightarrow> string \<Rightarrow> string gomap \<Rightarrow> string \<Rightarrow> GitlabRegInfo list \<Rightarrow>
   (string, string) fmap \<Rightarrow> time option \<Rightarrow> (goerr + (string, string) fmap \<times> time option) go" where
  "ensure_units E injected namespace existing caPEM [] tokens soonest = ret (Inr (tokens, soonest))"
| "ensure_units E injected namespace existing caPEM (reg # regs) tokens soonest =
     do { r \<leftarrow> ensure_unit E injected namespace existing caPEM reg;
          case r of
            Inl err \<Rightarrow> ret (Inl err)
          | Inr (token, expiry) \<Rightarrow>
              ensure_units E injected namespace existing caPEM regs
                (fmupd (reg_Name reg) token tokens) (sooner soonest expiry) }"

definition ensureRunners ::
  "env \<Rightarrow> GitlabClient option \<Rightarrow> string \<Rightarrow> (goerr + string gomap \<times> duration) go" where
  "ensureRunners E injected caPEM =
     do { x \<leftarrow> get_obj;
          let namespace = GetNamespace x;
          ex \<leftarrow> ExistingConfigTokens E namespace (ChildName x);
          case ex of
            Inl err \<Rightarrow> ret (Inl (err_wrap ''cannot read existing config secret'' err))
          | Inr existing \<Rightarrow>
              do { r \<leftarrow> ensure_units E injected namespace existing caPEM (RegistrationConfig x) fmempty None;
                   case r of
                     Inl err \<Rightarrow> ret (Inl err)
                   | Inr (tokens, soonest) \<Rightarrow>
                       do { d \<leftarrow> resyncAfter E soonest; ret (Inr (Some tokens, d)) } } }"

end
