(* ===== verification/Validate.thy ===== *)
theory Validate
  imports Crud Generate
begin

text \<open>
  \<open>internal/validate/validate.go\<close> and \<open>internal/result/result.go\<close>: the manager Deployment
  and the config Secret of a runner, created, updated or left alone. A non-nil \<open>*ctrl.Result\<close>
  ends the pass.
\<close>

section \<open>Results\<close>

record Result =
  ctrl_Requeue :: bool
  ctrl_RequeueAfter :: duration

definition Result_zero :: Result where
  "Result_zero = \<lparr>ctrl_Requeue = False, ctrl_RequeueAfter = 0\<rparr>"

definition DefaultTimeout :: duration where
  "DefaultTimeout = second * 10"

definition RequeueWithDefaultTimeout :: "Result option" where
  "RequeueWithDefaultTimeout = Some \<lparr>ctrl_Requeue = True, ctrl_RequeueAfter = DefaultTimeout\<rparr>"

definition RequeueNow :: "Result option" where
  "RequeueNow = Some \<lparr>ctrl_Requeue = True, ctrl_RequeueAfter = 0\<rparr>"

definition DontRequeue :: "Result option" where
  "DontRequeue = Some \<lparr>ctrl_Requeue = False, ctrl_RequeueAfter = 0\<rparr>"

section \<open>The Deployment\<close>

definition ManagerPodLabels :: "RunnerInfo \<Rightarrow> string gomap" where
  "ManagerPodLabels x = Some (fmap_of_list [(''deployment'', GetName x)])"

definition manager_annotations :: "RunnerInfo \<Rightarrow> string gomap" where
  "manager_annotations x =
     Some (fmap_of_list
       [(ConfigVersionAnnotationKey, ConfigMapVersion x),
        (SystemIDAnnotationKey, SystemID (GetUID x))])"

definition metrics_probe :: "int \<Rightarrow> int \<Rightarrow> Probe" where
  "metrics_probe initialDelay period =
     \<lparr>probe_TCPPort = 9090, probe_InitialDelaySeconds = initialDelay, probe_PeriodSeconds = period\<rparr>"

definition manager_container :: "RunnerInfo \<Rightarrow> Container" where
  "manager_container x =
     \<lparr>con_Name = RunnerContainerName,
      con_Image = RunnerImage x,
      con_ImagePullPolicy = RunnerImagePullPolicy x,
      con_Resources = RunnerResources x,
      con_SecurityContext = RunnerSecurityContext x,
      con_Env = RunnerEnv x,
      con_Ports = [(''metrics'', 9090)],
      con_ReadinessProbe = Some (metrics_probe 10 20),
      con_LivenessProbe = Some (metrics_probe 30 30),
      con_VolumeMounts = [(''config'', ''/etc/gitlab-runner/'')]\<rparr>"

definition wanted_template :: "RunnerInfo \<Rightarrow> PodTemplateSpec" where
  "wanted_template x =
     \<lparr>pt_Labels = ManagerPodLabels x,
      pt_Annotations = manager_annotations x,
      pt_Spec =
        \<lparr>ps_TerminationGracePeriodSeconds = Some (RunnerTerminationGracePeriodSeconds x),
         ps_NodeSelector = RunnerNodeSelector x,
         ps_Tolerations = RunnerTolerations x,
         ps_Affinity = RunnerAffinity x,
         ps_PriorityClassName = RunnerPriorityClassName x,
         ps_Volumes =
           [\<lparr>vol_Name = ''config'',
             vol_Projected =
               [ProjectSecret (ChildName x),
                ProjectDownwardAPI SystemIDFileName
                  (''metadata.annotations['' @ [CHR 0x27] @ SystemIDAnnotationKey @ [CHR 0x27] @ '']'')]\<rparr>],
         ps_Containers = [manager_container x],
         ps_ServiceAccountName = ChildName x\<rparr>\<rparr>"

definition wantedDeployment :: "RunnerInfo \<Rightarrow> Deployment" where
  "wantedDeployment x =
     \<lparr>dep_Meta = ObjectMeta_zero\<lparr>om_Name := ChildName x, om_Namespace := GetNamespace x,
        om_Annotations := manager_annotations x, om_OwnerReferences := GenerateOwnerReference x\<rparr>,
      dep_Replicas = Some 1,
      dep_SelectorMatchLabels = ManagerPodLabels x,
      dep_Template = wanted_template x\<rparr>"

text \<open>The tracked difference between the live Deployment and the wanted one.\<close>

definition deployment_changed :: "env \<Rightarrow> RunnerInfo \<Rightarrow> Deployment \<Rightarrow> bool" where
  "deployment_changed E x existing =
     (map_get_or '''' (om_Annotations (dep_Meta existing)) ConfigVersionAnnotationKey \<noteq> ConfigMapVersion x \<or>
      map_get_or '''' (pt_Annotations (dep_Template existing)) SystemIDAnnotationKey \<noteq> SystemID (GetUID x) \<or>
      \<not> sem_eq_shape E (ManagerPodShape (dep_Template existing)) (ManagerPodShape (wanted_template x)))"

definition validate_Deployment :: "env \<Rightarrow> RunnerInfo \<Rightarrow> (Result option \<times> goerr option) go" where
  "validate_Deployment E x =
     do { r \<leftarrow> cl_GetDeployment E (nsname (GetNamespace x) (ChildName x));
          case r of
            Inl err \<Rightarrow>
              (if \<not> IsNotFound err then ret (RequeueWithDefaultTimeout, Some err)
               else do { err' \<leftarrow> cl_CreateDeployment E (wantedDeployment x);
                         ret (case err' of
                                Some e \<Rightarrow> (RequeueWithDefaultTimeout, Some e)
                              | None \<Rightarrow> (RequeueNow, None)) })
          | Inr existing \<Rightarrow>
              (if deployment_changed E x existing
               then let wanted = wantedDeployment x;
                        intended = ManagerPodShape (dep_Template wanted);
                        wanted' = wanted\<lparr>dep_Meta := (dep_Meta wanted)\<lparr>om_ResourceVersion :=
                                    om_ResourceVersion (dep_Meta existing)\<rparr>\<rparr>
                    in do { u \<leftarrow> cl_UpdateDeployment E wanted';
                            ret (case u of
                                   Inl e \<Rightarrow> (RequeueWithDefaultTimeout, Some e)
                                 | Inr stored \<Rightarrow>
                                     (if \<not> sem_eq_shape E intended (ManagerPodShape (dep_Template stored))
                                      then (None, None) else (RequeueNow, None))) }
               else ret (None, None)) }"

section \<open>The config Secret\<close>

definition token_keys :: "string gomap \<Rightarrow> (string, string) fmap" where
  "token_keys tokens =
     (case tokens of
        None \<Rightarrow> fmempty
      | Some f \<Rightarrow> fmap_of_list (map (\<lambda>(name, token). (ConfigTokenKeyPrefix @ name, token))
                                (sorted_list_of_fmap f)))"

definition desired_secret_data :: "string \<Rightarrow> string gomap \<Rightarrow> string \<Rightarrow> string gomap" where
  "desired_secret_data toml tokens caPEM =
     (let desired = fmupd ConfigMapKeyName toml fmempty ++\<^sub>f token_keys tokens
      in Some (if 0 < length caPEM then fmupd CACertFileName caPEM desired else desired))"

definition validate_Secret ::
  "env \<Rightarrow> string \<Rightarrow> string gomap \<Rightarrow> string \<Rightarrow> (Result option \<times> goerr option) go" where
  "validate_Secret E toml tokens caPEM =
     (let desired = desired_secret_data toml tokens caPEM in
      do { x \<leftarrow> get_obj;
           r \<leftarrow> cl_GetSecret E Cached (nsname (GetNamespace x) (ChildName x));
           case r of
             Inl err \<Rightarrow>
               (if \<not> IsNotFound err then ret (RequeueWithDefaultTimeout, Some err)
                else do { err' \<leftarrow> cl_CreateSecret E
                            \<lparr>sec_Meta = ObjectMeta_zero\<lparr>om_Name := ChildName x,
                               om_Namespace := GetNamespace x,
                               om_OwnerReferences := GenerateOwnerReference x\<rparr>,
                             sec_Type = ''Opaque'', sec_Data = desired\<rparr>;
                          case err' of
                            Some e \<Rightarrow>
                              do { _ \<leftarrow> modify_obj (SetStatusError ''cannot create config secret'');
                                   ret (RequeueWithDefaultTimeout, Some e) }
                          | None \<Rightarrow> ret (RequeueNow, None) })
           | Inr secret \<Rightarrow>
               (if sec_Data secret \<noteq> desired
                then do { err' \<leftarrow> cl_UpdateSecret E (secret\<lparr>sec_Data := desired\<rparr>);
                          case err' of
                            Some e \<Rightarrow>
                              do { _ \<leftarrow> modify_obj (SetStatusError
                                     ''cannot update config secret with the new configuration'');
                                   ret (Some \<lparr>ctrl_Requeue = True, ctrl_RequeueAfter = 0\<rparr>, Some e) }
                          | None \<Rightarrow> ret (RequeueNow, None) }
                else ret (None, None)) })"

section \<open>The Secret as a store\<close>

lemma fmlookup_token_keys:
  "fmlookup (token_keys tokens) k =
     (case cut_prefix k ConfigTokenKeyPrefix of Some n \<Rightarrow> map_get tokens n | None \<Rightarrow> None)"
proof -
  have "map_of (map (\<lambda>(n, t). (ConfigTokenKeyPrefix @ n, t)) al) k =
      (case cut_prefix k ConfigTokenKeyPrefix of Some n \<Rightarrow> map_of al n | None \<Rightarrow> None)"
    for al :: "(string \<times> string) list"
    by (induction al) (auto simp: cut_prefix_Some split: option.splits)
  then show ?thesis
    by (auto simp: token_keys_def map_get_def fmlookup_of_list split: option.splits)
qed

lemma map_get_config_tokens:
  "map_get (config_tokens data) n = map_get data (ConfigTokenKeyPrefix @ n)"
proof -
  have "map_of (concat (map (\<lambda>(k, v). case cut_prefix k ConfigTokenKeyPrefix of
            Some name \<Rightarrow> [(name, v)] | None \<Rightarrow> []) al)) n = map_of al (ConfigTokenKeyPrefix @ n)"
    for al :: "(string \<times> string) list"
    by (induction al) (auto simp: cut_prefix_Some split: option.splits)
  then show ?thesis
    by (simp add: config_tokens_def map_get_def fmlookup_of_list split: option.splits)
qed

lemma map_get_desired:
  "map_get (desired_secret_data toml tokens ca) k =
     (if k = CACertFileName \<and> ca \<noteq> [] then Some ca
      else case cut_prefix k ConfigTokenKeyPrefix of
        Some n \<Rightarrow> (case map_get tokens n of Some t \<Rightarrow> Some t
                                         | None \<Rightarrow> if k = ConfigMapKeyName then Some toml else None)
      | None \<Rightarrow> if k = ConfigMapKeyName then Some toml else None)"
  by (auto simp: desired_secret_data_def map_get_def [of "Some _"] fmlookup_token_keys Let_def
    fmdom'_notI fmlookup_dom_iff split: option.splits)

text \<open>
  The interface between the writer of the config Secret (\<open>validate.Secret\<close>) and its readers
  (\<open>crud.ExistingConfigTokens\<close>, \<open>crud.ExistingConfigCA\<close>, the manager pod).
\<close>

locale runner_store =
  fixes render :: "string \<Rightarrow> string gomap \<Rightarrow> string \<Rightarrow> 'd"
    and tokens_of :: "'d \<Rightarrow> string gomap"
    and ca_of :: "'d \<Rightarrow> string"
    and config_of :: "'d \<Rightarrow> string option"
  assumes tokens_render: "map_get (tokens_of (render toml tokens ca)) n = map_get tokens n"
    and ca_render: "ca_of (render toml tokens ca) = ca"
    and config_render: "config_of (render toml tokens ca) = Some toml"
begin

lemma render_determines:
  assumes "render toml tokens ca = render toml' tokens' ca'"
  shows "toml = toml' \<and> ca = ca' \<and> (\<forall>n. map_get tokens n = map_get tokens' n)"
  using assms tokens_render ca_render config_render by (metis option.inject)

text \<open>Rendering what was read back, with the same configuration, keeps the tokens and the CA.\<close>

lemma rewrite_keeps:
  assumes "d = render toml tokens ca"
  shows "map_get (tokens_of (render toml' (tokens_of d) (ca_of d))) n = map_get tokens n"
    and "ca_of (render toml' (tokens_of d) (ca_of d)) = ca"
  using assms by (simp_all add: tokens_render ca_render)

end

definition config_ca :: "string gomap \<Rightarrow> string" where
  "config_ca data = map_get_or '''' data CACertFileName"

interpretation config_secret: runner_store desired_secret_data config_tokens config_ca
    "\<lambda>data. map_get data ConfigMapKeyName"
proof unfold_locales
  have no_prefix: "cut_prefix CACertFileName ConfigTokenKeyPrefix = None"
    "cut_prefix ConfigMapKeyName ConfigTokenKeyPrefix = None"
    by (simp_all add: CACertFileName_def ConfigTokenKeyPrefix_def ConfigMapKeyName_def)
  fix toml tokens ca n
  show "map_get (config_tokens (desired_secret_data toml tokens ca)) n = map_get tokens n"
    by (simp add: map_get_config_tokens map_get_desired split: option.split)
  show "config_ca (desired_secret_data toml tokens ca) = ca"
    by (simp add: config_ca_def map_get_or_def map_get_desired no_prefix)
  show "map_get (desired_secret_data toml tokens ca) ConfigMapKeyName = Some toml"
    by (simp add: map_get_desired no_prefix)
qed

section \<open>Outcomes of the Secret step\<close>

fun secret_call :: "string gomap \<Rightarrow> event \<Rightarrow> bool" where
  "secret_call d (GetSecret rd k r) = True"
| "secret_call d (CreateSecret s r) = (sec_Data s = d)"
| "secret_call d (UpdateSecret s r) = (sec_Data s = d)"
| "secret_call d e = False"

lemma emits_Secret: "emits (secret_call (desired_secret_data toml tokens ca)) (validate_Secret E toml tokens ca)"
  unfolding validate_Secret_def call_defs Let_def by (intro emits_rules; simp)

lemma runs_Secret_settled:
  "runs (validate_Secret E toml tokens ca) w
     (\<lambda>r es w'. fst r = None \<longrightarrow> snd r = None \<and> obj w' = obj w \<and>
        (\<exists>s. es = [GetSecret Cached (nsname (GetNamespace (obj w)) (ChildName (obj w))) (Inr s)] \<and>
             sec_Data s = desired_secret_data toml tokens ca))"
  unfolding validate_Secret_def call_defs Let_def
  by (intro runs_rules; simp add: RequeueWithDefaultTimeout_def RequeueNow_def)

section \<open>Outcomes of the Deployment step\<close>

lemma keeps_Deployment: "keeps_obj (validate_Deployment E x)"
  unfolding validate_Deployment_def call_defs by (intro keeps_rules)

fun deployment_call :: "(Deployment \<Rightarrow> bool) \<Rightarrow> event \<Rightarrow> bool" where
  "deployment_call P (GetDeployment k r) = True"
| "deployment_call P (CreateDeployment d r) = P d"
| "deployment_call P (UpdateDeployment d r) = P d"
| "deployment_call P e = False"

text \<open>The Deployment that is written, up to the resource version of a conditional update.\<close>

definition at_version :: "string \<Rightarrow> Deployment \<Rightarrow> Deployment" where
  "at_version rv d = d\<lparr>dep_Meta := (dep_Meta d)\<lparr>om_ResourceVersion := rv\<rparr>\<rparr>"

lemma runs_Deployment:
  "runs (validate_Deployment E x) w
     (\<lambda>r es w'. \<exists>ans writes.
        es = GetDeployment (nsname (GetNamespace x) (ChildName x)) ans # writes \<and>
        (case ans of
           Inl e \<Rightarrow>
             (if IsNotFound e
              then \<exists>a. writes = [CreateDeployment (wantedDeployment x) a] \<and>
                   r = (case a of Some e' \<Rightarrow> (RequeueWithDefaultTimeout, Some e') | None \<Rightarrow> (RequeueNow, None))
              else writes = [] \<and> r = (RequeueWithDefaultTimeout, Some e))
         | Inr live \<Rightarrow>
             (if deployment_changed E x live
              then \<exists>a. writes = [UpdateDeployment (at_version (om_ResourceVersion (dep_Meta live)) (wantedDeployment x)) a] \<and>
                   r = (case a of
                          Inl e \<Rightarrow> (RequeueWithDefaultTimeout, Some e)
                        | Inr stored \<Rightarrow>
                            (if sem_eq_shape E (ManagerPodShape (wanted_template x)) (ManagerPodShape (dep_Template stored))
                             then (RequeueNow, None) else (None, None)))
              else writes = [] \<and> r = (None, None))))"
  unfolding validate_Deployment_def call_defs Let_def at_version_def
  by (intro runs_rules; simp add: wantedDeployment_def split: option.split sum.split)

text \<open>An injected sidecar, in front of the manager container or behind it, is not a change.\<close>

lemma sidecars_not_a_change:
  assumes refl: "\<And>s. sem_eq_shape E s s"
    and version: "map_get (om_Annotations (dep_Meta live)) ConfigVersionAnnotationKey = Some (ConfigMapVersion x)"
    and tpl: "dep_Template live = (wanted_template x)\<lparr>pt_Spec := (pt_Spec (wanted_template x))\<lparr>
                ps_Containers := pre @ manager_container x # post\<rparr>\<rparr>"
    and pre: "\<forall>c \<in> set pre. con_Name c \<noteq> RunnerContainerName"
  shows "\<not> deployment_changed E x live"
proof -
  have "ManagerPodShape (dep_Template live) = ManagerPodShape (wanted_template x)"
    using pre by (simp add: ManagerPodShape_def tpl wanted_template_def shape_of_containers_sidecars
      manager_container_def)
  moreover have "map_get_or '''' (pt_Annotations (dep_Template live)) SystemIDAnnotationKey = SystemID (GetUID x)"
    by (simp add: tpl wanted_template_def manager_annotations_def map_get_or_def map_get_def
      SystemIDAnnotationKey_def ConfigVersionAnnotationKey_def)
  ultimately show ?thesis
    using version refl by (simp add: deployment_changed_def map_get_or_def)
qed

end
