(* ===== verification/Finalize.thy ===== *)
theory Finalize
  imports Auth_Flow Validate
begin

text \<open>
  \<open>internal/controller/shared.go\<close>, the part that runs when a runner is deleted: draining the
  manager, deleting managed runners from GitLab, cleaning up RBAC in other namespaces, and the
  bounded number of attempts before the finalizer is dropped anyway.
\<close>

definition maxDeleteAttempts :: int where
  "maxDeleteAttempts = 5"

definition deleteAttemptsAnnotation :: string where
  "deleteAttemptsAnnotation = ''gitlab.k8s.alekc.dev/delete-attempts''"

definition drainMargin :: duration where
  "drainMargin = minute"

definition defaultTimeout :: duration where
  "defaultTimeout = 15 * second"

definition resultRequeueAfterDefaultTimeout :: Result where
  "resultRequeueAfterDefaultTimeout = \<lparr>ctrl_Requeue = True, ctrl_RequeueAfter = defaultTimeout\<rparr>"

definition resultRequeueNow :: Result where
  "resultRequeueNow = \<lparr>ctrl_Requeue = True, ctrl_RequeueAfter = 0\<rparr>"

section \<open>Deleting managed runners\<close>

definition by_id_client ::
  "env \<Rightarrow> GitlabClient option \<Rightarrow> string \<Rightarrow> GitlabRegInfo \<Rightarrow> string \<Rightarrow> (goerr + GitlabClient) go" where
  "by_id_client E injected namespace reg caPEM =
     (case injected of
        Some gc \<Rightarrow> ret (Inr gc)
      | None \<Rightarrow>
          do { r \<leftarrow> resolveTokenSource E namespace (auth_AccessToken (reg_Auth reg));
               ret (case r of
                      Inl err \<Rightarrow> Inl err
                    | Inr accessToken \<Rightarrow>
                        (if accessToken = ''''
                         then Inl (err_new (''runner '' @ quote (reg_Name reg)
                                @ '': no usable runner token and no access_token for the delete-by-id fallback; ''
                                @ ''it may be orphaned on gitlab''))
                         else NewGitlabClient E accessToken (reg_GitlabUrl reg) caPEM)) })"

definition delete_by_id ::
  "env \<Rightarrow> GitlabClient option \<Rightarrow> string \<Rightarrow> GitlabRegInfo \<Rightarrow> string \<Rightarrow> goerr option go" where
  "delete_by_id E injected namespace reg caPEM =
     do { r \<leftarrow> by_id_client E injected namespace reg caPEM;
          case r of
            Inl err \<Rightarrow> ret (Some err)
          | Inr gc \<Rightarrow>
              do { err \<leftarrow> gl_DeleteRunnerByID gc (reg_RunnerID reg);
                   ret (map_option (err_wrap (''runner '' @ quote (reg_Name reg)
                          @ '': delete by id fallback failed'')) err) } }"

definition deleteManagedRunner ::
  "env \<Rightarrow> GitlabClient option \<Rightarrow> string \<Rightarrow> GitlabRegInfo \<Rightarrow> string \<Rightarrow> string \<Rightarrow> goerr option go" where
  "deleteManagedRunner E injected namespace reg token caPEM =
     (if token \<noteq> ''''
      then case (case injected of
                   Some gc \<Rightarrow> Inr gc
                 | None \<Rightarrow> NewGitlabClient E '''' (reg_GitlabUrl reg) caPEM) of
             Inl err \<Rightarrow> ret (Some err)
           | Inr gc \<Rightarrow>
               do { err \<leftarrow> gl_DeleteRunner gc token;
                    case err of
                      None \<Rightarrow> ret None
                    | Some e \<Rightarrow> delete_by_id E injected namespace reg caPEM }
      else delete_by_id E injected namespace reg caPEM)"

text \<open>Every managed unit with an id is tried; the first error is the one returned.\<close>

fun remove_units ::
  "env \<Rightarrow> GitlabClient option \<Rightarrow> string gomap \<Rightarrow> string \<Rightarrow> GitlabRegInfo list \<Rightarrow> goerr option \<Rightarrow>
   goerr option go" where
  "remove_units E injected tokens caPEM [] firstErr = ret firstErr"
| "remove_units E injected tokens caPEM (reg # regs) firstErr =
     (if \<not> IsManaged (Some (reg_Auth reg)) \<or> reg_RunnerID reg = 0
      then remove_units E injected tokens caPEM regs firstErr
      else do { x \<leftarrow> get_obj;
                err \<leftarrow> deleteManagedRunner E injected (GetNamespace x) reg
                         (map_get_or '''' tokens (reg_Name reg)) caPEM;
                remove_units E injected tokens caPEM regs
                  (case firstErr of None \<Rightarrow> err | Some e \<Rightarrow> Some e) })"

definition removeManagedRunners :: "env \<Rightarrow> GitlabClient option \<Rightarrow> goerr option go" where
  "removeManagedRunners E injected =
     do { x \<leftarrow> get_obj;
          t \<leftarrow> ExistingConfigTokens E (GetNamespace x) (ChildName x);
          case t of
            Inl err \<Rightarrow>
              ret (Some (err_wrap ''cannot read config secret to recover runner tokens'' err))
          | Inr tokens \<Rightarrow>
              do { c \<leftarrow> ExistingConfigCA E (GetNamespace x) (ChildName x);
                   case c of
                     Inl err \<Rightarrow>
                       ret (Some (err_wrap ''cannot read config secret to recover the CA bundle'' err))
                   | Inr caPEM \<Rightarrow> remove_units E injected tokens caPEM (RegistrationConfig x) None } }"

section \<open>Draining\<close>

fun isManagerPod_refs :: "OwnerReference list \<Rightarrow> string \<Rightarrow> bool" where
  "isManagerPod_refs [] deployment = False"
| "isManagerPod_refs (ref # refs) deployment =
     (if or_Kind ref = ''ReplicaSet'' \<and> has_prefix (or_Name ref) (deployment @ ''-'')
      then True else isManagerPod_refs refs deployment)"

definition isManagerPod :: "Pod \<Rightarrow> string \<Rightarrow> bool" where
  "isManagerPod pod deployment = isManagerPod_refs (om_OwnerReferences (pod_Meta pod)) deployment"

record drain_count =
  dc_remaining :: int
  dc_pending :: int
  dc_deadline :: time

fun drain_pods :: "env \<Rightarrow> string \<Rightarrow> Pod list \<Rightarrow> drain_count \<Rightarrow> (goerr + drain_count) go" where
  "drain_pods E deployment [] c = ret (Inr c)"
| "drain_pods E deployment (pod # pods) c =
     (if \<not> isManagerPod pod deployment then drain_pods E deployment pods c
      else case om_DeletionTimestamp (pod_Meta pod) of
        None \<Rightarrow>
          do { err \<leftarrow> cl_DeletePod E (meta_key (pod_Meta pod));
               case tolerate IsNotFound err of
                 Some e \<Rightarrow> ret (Inl e)
               | None \<Rightarrow>
                   drain_pods E deployment pods
                     (c\<lparr>dc_remaining := dc_remaining c + 1, dc_pending := dc_pending c + 1\<rparr>) }
      | Some t \<Rightarrow>
          drain_pods E deployment pods
            (c\<lparr>dc_remaining := dc_remaining c + 1,
               dc_deadline := (if dc_deadline c < t then t else dc_deadline c)\<rparr>))"

definition drained_at :: "drain_count \<Rightarrow> time \<Rightarrow> bool" where
  "drained_at c now =
     (if dc_remaining c = 0 then True
      else if 0 < dc_pending c then False
      else dc_deadline c + drainMargin < now)"

definition drainManager :: "env \<Rightarrow> RunnerInfo \<Rightarrow> time \<Rightarrow> (goerr + bool) go" where
  "drainManager E x now =
     do { err \<leftarrow> cl_DeleteDeployment E (nsname (GetNamespace x) (ChildName x));
          case tolerate IsNotFound err of
            Some e \<Rightarrow> ret (Inl e)
          | None \<Rightarrow>
              do { p \<leftarrow> cl_ListPods E Uncached (GetNamespace x) (ManagerPodLabels x);
                   case p of
                     Inl err \<Rightarrow> ret (Inl err)
                   | Inr pods \<Rightarrow>
                       do { r \<leftarrow> drain_pods E (ChildName x) pods
                                   \<lparr>dc_remaining = 0, dc_pending = 0, dc_deadline = zero_time\<rparr>;
                            ret (map_sum id (\<lambda>c. drained_at c now) r) } } }"

section \<open>Attempts\<close>

definition deleteAttempts :: "RunnerInfo \<Rightarrow> int" where
  "deleteAttempts x =
     (case map_get (GetAnnotations x) deleteAttemptsAnnotation of
        Some v \<Rightarrow> (case atoi v of Some n \<Rightarrow> n | None \<Rightarrow> 0)
      | None \<Rightarrow> 0)"

definition setDeleteAttempts :: "int \<Rightarrow> RunnerInfo \<Rightarrow> RunnerInfo" where
  "setDeleteAttempts n x =
     SetAnnotations (map_put deleteAttemptsAnnotation (itoa n) (non_nil (GetAnnotations x))) x"

section \<open>Finalization\<close>

text \<open>From the RBAC clean-up to the end.\<close>

definition dropFinalizer :: "env \<Rightarrow> (Result \<times> goerr option) go" where
  "dropFinalizer E =
     do { x \<leftarrow> get_obj;
          err \<leftarrow> DeleteRBACExcept E Uncached x (AllBindingsIn x (GetNamespace x));
          case err of
            Some e \<Rightarrow> ret (resultRequeueAfterDefaultTimeout, Some e)
          | None \<Rightarrow>
              do { _ \<leftarrow> modify_obj (RemoveFinalizer E);
                   err' \<leftarrow> UpdateObj E;
                   ret (case err' of
                          Some e \<Rightarrow> (resultRequeueAfterDefaultTimeout, Some e)
                        | None \<Rightarrow> (resultRequeueNow, None)) } }"

definition finalizeDeletion :: "env \<Rightarrow> GitlabClient option \<Rightarrow> (Result \<times> goerr option) go" where
  "finalizeDeletion E injected =
     do { x \<leftarrow> get_obj;
          now \<leftarrow> Now E;
          d \<leftarrow> drainManager E x now;
          case d of
            Inl err \<Rightarrow> ret (resultRequeueAfterDefaultTimeout, Some err)
          | Inr drained \<Rightarrow>
              (if \<not> drained then ret (resultRequeueAfterDefaultTimeout, None)
               else do { rerr \<leftarrow> removeManagedRunners E injected;
                         case rerr of
                           None \<Rightarrow> dropFinalizer E
                         | Some err \<Rightarrow>
                             do { y \<leftarrow> get_obj;
                                  let attempts = wrap64 (deleteAttempts y + 1);
                                  _ \<leftarrow> modify_obj (setDeleteAttempts attempts);
                                  _ \<leftarrow> UpdateObj E;
                                  if attempts < maxDeleteAttempts
                                  then ret (resultRequeueAfterDefaultTimeout, Some err)
                                  else dropFinalizer E } }) }"

end
