(* ===== verification/Reconcile.thy ===== *)
theory Reconcile
  imports Finalize
begin

text \<open>
  \<open>internal/controller/runner_controller.go\<close> and \<open>multirunner_controller.go\<close>: one pass of the two
  reconcilers, whose bodies differ in the object they fetch, and the filters that decide which
  events start a pass.
\<close>

record RunnerReconciler =
  rec_GitlabApiClient :: "GitlabClient option"
  rec_AllowedBuildNamespaces :: "string list"

section \<open>The deferred status write\<close>

text \<open>The function literal handed to \<open>retry.RetryOnConflict\<close>; its final error is only logged.\<close>

definition nil_status :: goerr where
  "nil_status = Panic ''interface conversion''"

definition write_status_once ::
  "env \<Rightarrow> (NSName \<Rightarrow> (goerr + RunnerInfo) go) \<Rightarrow> RunnerInfo \<Rightarrow> goerr option go" where
  "write_status_once E fetch x =
     do { r \<leftarrow> fetch (nsname (GetNamespace x) (GetName x));
          case r of
            Inl err \<Rightarrow> ret (Some err)
          | Inr newRunner \<Rightarrow>
              (if GetStatus x = GetStatus newRunner then ret None
               else case SetStatus (GetStatus x) newRunner of
                 None \<Rightarrow> ret (Some nil_status)
               | Some y \<Rightarrow> cl_UpdateStatusOf E y) }"

definition write_status :: "env \<Rightarrow> (NSName \<Rightarrow> (goerr + RunnerInfo) go) \<Rightarrow> unit go" where
  "write_status E fetch =
     do { x \<leftarrow> get_obj;
          _ \<leftarrow> retry_on_conflict E (write_status_once E fetch x);
          ret () }"

section \<open>The steps of a pass\<close>

text \<open>A step that failed: error text and Ready condition, then a retry.\<close>

definition fail_pass :: "env \<Rightarrow> string \<Rightarrow> string \<Rightarrow> goerr \<Rightarrow> (Result \<times> goerr option) go" where
  "fail_pass E msg reason err =
     do { _ \<leftarrow> modify_obj (SetStatusError msg);
          _ \<leftarrow> set_ready_condition E False reason (err_text err);
          ret (resultRequeueAfterDefaultTimeout, Some err) }"

text \<open>\<open>*res\<close>; a nil result would panic.\<close>

definition deref_result :: "Result option \<Rightarrow> goerr option \<Rightarrow> Result \<times> goerr option" where
  "deref_result res err =
     (case res of
        Some r \<Rightarrow> (r, err)
      | None \<Rightarrow> (Result_zero, Some (Panic ''invalid memory address or nil pointer dereference'')))"

text \<open>\<open>if res, err := step; res != nil || err != nil\<close> with the condition it sets.\<close>

definition validate_step ::
  "env \<Rightarrow> string \<Rightarrow> (Result option \<times> goerr option) go \<Rightarrow> (Result \<times> goerr option) go \<Rightarrow>
   (Result \<times> goerr option) go" where
  "validate_step E reason step rest =
     do { (res, err) \<leftarrow> step;
          if res \<noteq> None \<or> err \<noteq> None
          then do { _ \<leftarrow> (case err of
                          Some e \<Rightarrow> set_ready_condition E False reason (err_text e)
                        | None \<Rightarrow> ret ());
                    ret (deref_result res err) }
          else rest }"

definition mark_ready :: "env \<Rightarrow> duration \<Rightarrow> (Result \<times> goerr option) go" where
  "mark_ready E requeueAfter =
     do { _ \<leftarrow> modify_obj (SetStatusReady True);
          _ \<leftarrow> set_ready_condition E True ''Reconciled'' ''runner is ready'';
          ret (if 0 < requeueAfter then (Result_zero\<lparr>ctrl_RequeueAfter := requeueAfter\<rparr>, None)
               else deref_result DontRequeue None) }"

text \<open>From the rendering of \<open>config.toml\<close> on.\<close>

definition converge_workload ::
  "env \<Rightarrow> string gomap \<Rightarrow> duration \<Rightarrow> string \<Rightarrow> (Result \<times> goerr option) go" where
  "converge_workload E tokens requeueAfter caPEM =
     do { x \<leftarrow> get_obj;
          let (x', rendered) = TomlConfig E x tokens caPEM;
          _ \<leftarrow> modify_obj (\<lambda>_. x');
          case rendered of
            Inl err \<Rightarrow> fail_pass E (err_text err) ''ConfigRenderFailed'' err
          | Inr (generatedTomlConfig, configHashKey) \<Rightarrow>
              do { _ \<leftarrow> modify_obj (SetConfigMapVersion configHashKey);
                   validate_step E ''ConfigSecretFailed''
                     (validate_Secret E generatedTomlConfig tokens caPEM)
                     (validate_step E ''DeploymentFailed''
                        (do { y \<leftarrow> get_obj; validate_Deployment E y })
                        (mark_ready E requeueAfter)) } }"

text \<open>The pass once the finalizer is set.\<close>

definition provision :: "env \<Rightarrow> RunnerReconciler \<Rightarrow> (Result \<times> goerr option) go" where
  "provision E R =
     do { _ \<leftarrow> modify_obj (SetStatusError '''');
          _ \<leftarrow> modify_obj (SetStatusReady False);
          _ \<leftarrow> modify_obj (\<lambda>x. SetObservedGeneration (GetGeneration x) x);
          (ok, err) \<leftarrow> enforceAllowedBuildNamespaces E Uncached (rec_AllowedBuildNamespaces R);
          case err of
            Some e \<Rightarrow> ret (resultRequeueAfterDefaultTimeout, Some e)
          | None \<Rightarrow>
              (if \<not> ok then ret (deref_result DontRequeue None)
               else do { x \<leftarrow> get_obj;
                         ca \<leftarrow> resolveCABundle E Uncached (GetNamespace x) (CACertificate x);
                         case ca of
                           Inl e \<Rightarrow> fail_pass E (err_text e) ''CAResolveFailed'' e
                         | Inr caPEM \<Rightarrow>
                             do { rs \<leftarrow> ensureRunners E (rec_GitlabApiClient R) caPEM;
                                  case rs of
                                    Inl e \<Rightarrow> fail_pass E (err_text e) ''AuthFailed'' e
                                  | Inr (tokens, requeueAfter) \<Rightarrow>
                                      do { y \<leftarrow> get_obj;
                                           rb \<leftarrow> CreateRBACIfMissing E y;
                                           case rb of
                                             Some e \<Rightarrow> fail_pass E ''Cannot create the rbac objects'' ''RBACFailed'' e
                                           | None \<Rightarrow> converge_workload E tokens requeueAfter caPEM } } }) }"

definition reconcile_live :: "env \<Rightarrow> RunnerReconciler \<Rightarrow> (Result \<times> goerr option) go" where
  "reconcile_live E R =
     do { x \<leftarrow> get_obj;
          if \<not> HasFinalizer E x
          then do { _ \<leftarrow> modify_obj (AddFinalizer E);
                    err \<leftarrow> UpdateObj E;
                    ret (case err of
                           Some e \<Rightarrow> (resultRequeueAfterDefaultTimeout, Some e)
                         | None \<Rightarrow> (resultRequeueNow, None)) }
          else provision E R }"

text \<open>The pass over a fetched object, and the whole pass.\<close>

definition reconcile_object ::
  "env \<Rightarrow> RunnerReconciler \<Rightarrow> (NSName \<Rightarrow> (goerr + RunnerInfo) go) \<Rightarrow> RunnerInfo \<Rightarrow>
   (Result \<times> goerr option) go" where
  "reconcile_object E R fetch x =
     do { _ \<leftarrow> modify_obj (\<lambda>_. x);
          if IsBeingDeleted x then finalizeDeletion E (rec_GitlabApiClient R)
          else do { res \<leftarrow> reconcile_live E R;
                    _ \<leftarrow> write_status E fetch;
                    ret res } }"

definition reconcile_with ::
  "env \<Rightarrow> RunnerReconciler \<Rightarrow> (NSName \<Rightarrow> (goerr + RunnerInfo) go) \<Rightarrow> NSName \<Rightarrow>
   (Result \<times> goerr option) go" where
  "reconcile_with E R fetch req =
     do { r \<leftarrow> fetch req;
          case r of
            Inl err \<Rightarrow> ret (deref_result DontRequeue (IgnoreNotFound err))
          | Inr x \<Rightarrow> reconcile_object E R fetch x }"

definition RunnerReconciler_Reconcile ::
  "env \<Rightarrow> RunnerReconciler \<Rightarrow> NSName \<Rightarrow> (Result \<times> goerr option) go" where
  "RunnerReconciler_Reconcile E R req = reconcile_with E R (SingleRunner E) req"

definition MultiRunnerReconciler_Reconcile ::
  "env \<Rightarrow> RunnerReconciler \<Rightarrow> NSName \<Rightarrow> (Result \<times> goerr option) go" where
  "MultiRunnerReconciler_Reconcile E R req = reconcile_with E R (MultiRunner_fetch E) req"

section \<open>Which events start a pass\<close>

text \<open>
  The predicates of \<open>SetupWithManager\<close> on the primary object; a nil object of the event is
  \<open>None\<close>. \<open>metav1.GetControllerOf\<close> is a parameter of the two index functions.
\<close>

definition primary_UpdateFunc :: "RunnerInfo option \<Rightarrow> RunnerInfo option \<Rightarrow> bool" where
  "primary_UpdateFunc ObjectOld ObjectNew =
     (case (ObjectOld, ObjectNew) of
        (Some old, Some new) \<Rightarrow>
          (if \<not> is_zero (om_DeletionTimestamp (GetMeta new)) then True
           else GetGeneration new \<noteq> GetGeneration old)
      | _ \<Rightarrow> False)"

definition primary_DeleteFunc :: "RunnerInfo option \<Rightarrow> bool" where
  "primary_DeleteFunc Object = False"

definition index_owner ::
  "(OwnerReference list \<Rightarrow> OwnerReference option) \<Rightarrow> string \<Rightarrow> ObjectMeta \<Rightarrow> string list" where
  "index_owner get_controller_of kind object =
     (case get_controller_of (om_OwnerReferences object) of
        None \<Rightarrow> []
      | Some owner \<Rightarrow>
          (if or_APIVersion owner \<noteq> GroupVersion \<or> or_Kind owner \<noteq> kind then []
           else [or_UID owner]))"

definition runner_index ::
  "(OwnerReference list \<Rightarrow> OwnerReference option) \<Rightarrow> ObjectMeta \<Rightarrow> string list" where
  "runner_index get_controller_of = index_owner get_controller_of ''Runner''"

definition multirunner_index ::
  "(OwnerReference list \<Rightarrow> OwnerReference option) \<Rightarrow> ObjectMeta \<Rightarrow> string list" where
  "multirunner_index get_controller_of = index_owner get_controller_of ''MultiRunner''"

end
