(* ===== verification/Rbac_Facts.thy ===== *)
theory Rbac_Facts
  imports Crud
begin

text \<open>
  What the RBAC operations of \<open>Crud\<close> guarantee: which calls they make and in which order, what a
  pass without an error has established, what a prune deletes, and that nothing is written when
  everything is in place.
\<close>

section \<open>What a successful pass has established\<close>

text \<open>\<open>role_present n e\<close>: the answer \<open>e\<close> shows that the ClusterRole \<open>n\<close> exists.\<close>

fun role_present :: "string \<Rightarrow> event \<Rightarrow> bool" where
  "role_present n (GetClusterRole rd n' (Inr role)) = (n' = n)"
| "role_present n (CreateClusterRole role err) =
     (om_Name (cr_Meta role) = n \<and> tolerate IsAlreadyExists err = None)"
| "role_present n e = False"

fun binding_present :: "RunnerInfo \<Rightarrow> BindingKey \<Rightarrow> event \<Rightarrow> bool" where
  "binding_present x k (GetRoleBinding key (Inr b)) =
     (key = nsname (bk_Namespace k) (bk_Name k) \<and>
      rb_RoleRef b = rb_RoleRef (desiredRoleBinding x (bk_Namespace k) (bk_Name k) (bk_ClusterRole k)))"
| "binding_present x k (CreateRoleBinding b err) =
     (b = desiredRoleBinding x (bk_Namespace k) (bk_Name k) (bk_ClusterRole k) \<and>
      tolerate IsAlreadyExists err = None)"
| "binding_present x k e = False"

lemma runs_reconcileClusterRole:
  "runs (reconcileClusterRole E name desired converge) w
     (\<lambda>r es w'. r = None \<longrightarrow> (\<exists>e \<in> set es. role_present name e))"
  unfolding reconcileClusterRole_def call_defs
  by (intro runs_rules; simp)

lemma runs_reconcileRoleBinding:
  "runs (reconcileRoleBinding E x (bk_Namespace k) (bk_Name k) (bk_ClusterRole k)) w
     (\<lambda>r es w'. r = None \<longrightarrow> (\<exists>e \<in> set es. binding_present x k e))"
  unfolding reconcileRoleBinding_def call_defs Let_def
  by (intro runs_rules; simp)

lemma runs_each_bindings:
  "runs (each (\<lambda>key. reconcileRoleBinding E x (bk_Namespace key) (bk_Name key) (bk_ClusterRole key)) ks) w
     (\<lambda>r es w'. r = None \<longrightarrow> (\<forall>k \<in> set ks. \<exists>e \<in> set es. binding_present x k e))"
  by (rule runs_each_all) (auto intro: runs_reconcileRoleBinding)

text \<open>\<open>roles_first es\<close>: a RoleBinding is created only after its ClusterRole was seen to exist.\<close>

definition roles_first :: "event list \<Rightarrow> bool" where
  "roles_first es =
     (\<forall>pre b r post. es = pre @ CreateRoleBinding b r # post \<longrightarrow>
        (\<exists>e \<in> set pre. role_present (rr_Name (rb_RoleRef b)) e))"

lemma roles_first_no_bindings:
  "\<forall>e \<in> set es. \<forall>b r. e \<noteq> CreateRoleBinding b r \<Longrightarrow> roles_first es"
  by (auto simp: roles_first_def)

lemma roles_first_append:
  assumes "roles_first es"
    and "\<And>b r. CreateRoleBinding b r \<in> set fs \<Longrightarrow> \<exists>e \<in> set es. role_present (rr_Name (rb_RoleRef b)) e"
  shows "roles_first (es @ fs)"
  unfolding roles_first_def
proof (intro allI impI)
  fix pre b r post
  assume "es @ fs = pre @ CreateRoleBinding b r # post"
  then consider us where "es = pre @ CreateRoleBinding b r # us"
    | us where "pre = es @ us" "fs = us @ CreateRoleBinding b r # post"
    by (auto simp: append_eq_append_conv2 append_eq_Cons_conv)
  then show "\<exists>e \<in> set pre. role_present (rr_Name (rb_RoleRef b)) e"
  proof cases
    case 1
    with assms(1) show ?thesis by (auto simp: roles_first_def)
  next
    case 2
    with assms(2) show ?thesis by auto
  qed
qed

definition no_bindings :: "event list \<Rightarrow> bool" where
  "no_bindings es = (\<forall>e \<in> set es. rbac_call (\<lambda>b. False) e)"

lemma no_bindings_roles_first: "no_bindings es \<Longrightarrow> roles_first es"
  by (rule roles_first_no_bindings) (auto simp: no_bindings_def)

lemma no_bindings_append [simp]: "no_bindings (es @ fs) \<longleftrightarrow> no_bindings es \<and> no_bindings fs"
  by (auto simp: no_bindings_def)

lemma runs_ensure_role:
  "runs (reconcileClusterRole E name desired converge) w
     (\<lambda>r es w'. no_bindings es \<and> (r = None \<longrightarrow> (\<exists>e \<in> set es. role_present name e)))"
  unfolding no_bindings_def
  by (rule runs_conj [OF emitsD [OF emits_ClusterRole] runs_reconcileClusterRole])

lemma runs_optional_roles:
  "runs (ensureOptionalClusterRoles E) w
     (\<lambda>r es w'. no_bindings es \<and>
        (r = None \<longrightarrow> (\<forall>g \<in> set optionalGrants. \<exists>e \<in> set es. role_present (og_clusterRole g) e)))"
proof -
  have "runs (ensureOptionalClusterRoles E) w (\<lambda>r es w'. no_bindings es)"
    unfolding no_bindings_def ensure_role_defs
    by (intro emitsD emits_each emits_ClusterRole)
  moreover have "runs (ensureOptionalClusterRoles E) w
     (\<lambda>r es w'. r = None \<longrightarrow> (\<forall>g \<in> set optionalGrants. \<exists>e \<in> set es. role_present (og_clusterRole g) e))"
    unfolding ensure_role_defs
    by (rule runs_each_all) (auto intro: runs_reconcileClusterRole)
  ultimately show ?thesis by (rule runs_conj)
qed

lemma desiredRoleBinding_simps [simp]:
  "rb_RoleRef (desiredRoleBinding x ns name role) =
     \<lparr>rr_APIGroup = ''rbac.authorization.k8s.io'', rr_Kind = ''ClusterRole'', rr_Name = role\<rparr>"
  "rb_Subjects (desiredRoleBinding x ns name role) =
     [\<lparr>sub_Kind = ''ServiceAccount'', sub_Name = ChildName x, sub_Namespace = GetNamespace x\<rparr>]"
  "om_Namespace (rb_Meta (desiredRoleBinding x ns name role)) = ns"
  "om_Name (rb_Meta (desiredRoleBinding x ns name role)) = name"
  "om_Labels (rb_Meta (desiredRoleBinding x ns name role)) = rbacLabels x"
  "om_OwnerReferences (rb_Meta (desiredRoleBinding x ns name role)) =
     (if ns = GetNamespace x then GenerateOwnerReference x else [])"
  by (simp_all add: desiredRoleBinding_def Let_def ObjectMeta_zero_def)

lemma wanted_binding_role:
  "wanted_binding x b \<Longrightarrow>
     rr_Name (rb_RoleRef b) = executorClusterRoleName \<or> rr_Name (rb_RoleRef b) = executorPDBClusterRoleName"
  by (auto simp: wanted_binding_def DesiredBindings_iff base_binding_def grant_binding_def)

text \<open>\<open>CreateRBACIfMissing\<close> after its two preparations.\<close>

definition bind_and_prune :: "env \<Rightarrow> RunnerInfo \<Rightarrow> goerr option go" where
  "bind_and_prune E x =
     do { namespaces \<leftarrow> BuildNamespaces E x;
          let desired = DesiredBindings x namespaces;
          and_then
            (each (\<lambda>key. reconcileRoleBinding E x (bk_Namespace key) (bk_Name key)
                            (bk_ClusterRole key)) desired)
         (and_then (ensureBaseClusterRole E)
            (DeleteRBACExcept E Uncached x desired)) }"

lemma CreateRBACIfMissing_phases:
  "CreateRBACIfMissing E x =
     and_then (ensureOptionalClusterRoles E)
    (and_then (ensureClusterRoleExists E executorClusterRoleName desiredRoleRules)
    (and_then (CreateSaIfMissing E x) (bind_and_prune E x)))"
  by (simp add: CreateRBACIfMissing_def bind_and_prune_def)

lemma emits_sa_bind_prune:
  "emits (rbac_call (wanted_binding x)) (and_then (CreateSaIfMissing E x) (bind_and_prune E x))"
  unfolding bind_and_prune_def ensure_role_defs BuildNamespaces_def
  by (intro emits_and_then emits_each range_keys_bind_emits emits_let emits_ClusterRole emits_Sa
        emits_RoleBinding emits_DeleteRBACExcept)
     (auto simp: wanted_binding_def dest: DesiredBindings_perm)

lemma CreateRBAC_roles_first: "traces roles_first (CreateRBACIfMissing E x)"
  unfolding traces_def CreateRBACIfMissing_phases
proof (intro allI runs_and_then, rule runs_conseq [OF runs_optional_roles])
  fix w r1 es1 w1
  assume 1: "no_bindings es1 \<and>
    (r1 = None \<longrightarrow> (\<forall>g \<in> set optionalGrants. \<exists>e \<in> set es1. role_present (og_clusterRole g) e))"
  have "runs (and_then (ensureClusterRoleExists E executorClusterRoleName desiredRoleRules)
      (and_then (CreateSaIfMissing E x) (bind_and_prune E x))) w1 (\<lambda>r es2 w2. roles_first (es1 @ es2))"
    if r1: "r1 = None"
    unfolding ensure_role_defs
  proof (rule runs_and_then, rule runs_conseq [OF runs_ensure_role])
    fix r2 es2 w2
    assume 2: "no_bindings es2 \<and> (r2 = None \<longrightarrow> (\<exists>e \<in> set es2. role_present executorClusterRoleName e))"
    have "runs (and_then (CreateSaIfMissing E x) (bind_and_prune E x)) w2
        (\<lambda>r es3 w3. roles_first (es1 @ es2 @ es3))" if r2: "r2 = None"
    proof (rule runs_conseq [OF emitsD [OF emits_sa_bind_prune]])
      fix r es3 w3
      assume 3: "\<forall>e \<in> set es3. rbac_call (wanted_binding x) e"
      have "roles_first ((es1 @ es2) @ es3)"
      proof (rule roles_first_append)
        show "roles_first (es1 @ es2)" using 1 2 by (simp add: no_bindings_roles_first)
        fix b r assume "CreateRoleBinding b r \<in> set es3"
        with 3 have "wanted_binding x b" by force
        from wanted_binding_role [OF this] 1 2 r1 r2
        show "\<exists>e \<in> set (es1 @ es2). role_present (rr_Name (rb_RoleRef b)) e" by auto
      qed
      then show "roles_first (es1 @ es2 @ es3)" by simp
    qed
    with 1 2 show "case r2 of
        None \<Rightarrow> runs (and_then (CreateSaIfMissing E x) (bind_and_prune E x)) w2
                  (\<lambda>r es3 w3. roles_first (es1 @ es2 @ es3))
      | Some e \<Rightarrow> roles_first (es1 @ es2)"
      by (auto split: option.split intro: no_bindings_roles_first)
  qed
  with 1 show "case r1 of
      None \<Rightarrow> runs (and_then (ensureClusterRoleExists E executorClusterRoleName desiredRoleRules)
        (and_then (CreateSaIfMissing E x) (bind_and_prune E x))) w1 (\<lambda>r es2 w2. roles_first (es1 @ es2))
    | Some e \<Rightarrow> roles_first es1"
    by (auto split: option.split intro: no_bindings_roles_first)
qed

lemma runs_range_keys_bind:
  "(\<And>ys. mset ys = mset ks \<Longrightarrow> runs (f ys) w Q) \<Longrightarrow> runs (State_Monad.bind (range_keys E ks) f) w Q"
  unfolding range_keys_def by (intro runs_bind runs_observe) (auto simp: Let_def)

lemma runs_and_then_success:
  assumes "runs m w (\<lambda>r es w'. r = None \<longrightarrow> P es)"
    and "\<And>w. runs rest w (\<lambda>r es w'. r = None \<longrightarrow> R es)"
  shows "runs (and_then m rest) w (\<lambda>r es w'. r = None \<longrightarrow> (\<exists>fs gs. es = fs @ gs \<and> P fs \<and> R gs))"
  by (intro runs_and_then runs_conseq [OF assms(1)])
     (auto split: option.split intro!: runs_conseq [OF assms(2)])

text \<open>A step that issues calls of some class, and of which nothing more is needed.\<close>

lemma runs_skip: "emits P m \<Longrightarrow> runs m w (\<lambda>r es w'. r = None \<longrightarrow> True)"
  by (auto dest: emitsD intro: runs_conseq)

lemma runs_bind_and_prune:
  "runs (bind_and_prune E x) w
     (\<lambda>r es w'. r = None \<longrightarrow>
        (\<forall>k \<in> set (DesiredBindings x (build_namespace_keys x)). \<exists>e \<in> set es. binding_present x k e))"
  unfolding bind_and_prune_def BuildNamespaces_def
proof (rule runs_range_keys_bind, rule runs_let)
  fix ys
  assume ys: "mset ys = mset (build_namespace_keys x)"
  note eq = DesiredBindings_perm [OF ys, of x]
  have tail: "emits (rbac_call (\<lambda>b. True))
      (and_then (ensureBaseClusterRole E) (DeleteRBACExcept E Uncached x (DesiredBindings x ys)))"
    unfolding ensure_role_defs by (intro emits_and_then emits_ClusterRole emits_DeleteRBACExcept)
  show "runs (and_then (each (\<lambda>key. reconcileRoleBinding E x (bk_Namespace key) (bk_Name key)
        (bk_ClusterRole key)) (DesiredBindings x ys))
      (and_then (ensureBaseClusterRole E) (DeleteRBACExcept E Uncached x (DesiredBindings x ys)))) w
     (\<lambda>r es w'. r = None \<longrightarrow>
        (\<forall>k \<in> set (DesiredBindings x (build_namespace_keys x)). \<exists>e \<in> set es. binding_present x k e))"
    by (rule runs_conseq [OF runs_and_then_success [OF runs_each_bindings runs_skip [OF tail]]])
       (fastforce simp: eq)
qed

lemma runs_CreateRBAC:
  "runs (CreateRBACIfMissing E x) w
     (\<lambda>r es w'. r = None \<longrightarrow>
        (\<forall>k \<in> set (DesiredBindings x (build_namespace_keys x)). \<exists>e \<in> set es. binding_present x k e))"
proof -
  have "emits (rbac_call (\<lambda>b. True)) (ensureOptionalClusterRoles E)"
    "emits (rbac_call (\<lambda>b. True)) (ensureClusterRoleExists E executorClusterRoleName desiredRoleRules)"
    "emits (rbac_call (\<lambda>b. True)) (CreateSaIfMissing E x)"
    unfolding ensure_role_defs by (intro emits_each emits_ClusterRole emits_Sa)+
  note skips = this [THEN runs_skip]
  show ?thesis
    unfolding CreateRBACIfMissing_phases
    by (rule runs_conseq [OF runs_and_then_success [OF skips(1) runs_and_then_success [OF skips(2)
          runs_and_then_success [OF skips(3) runs_bind_and_prune]]]]) fastforce
qed

section \<open>Pruning\<close>

definition pruned_key :: "RoleBinding \<Rightarrow> string" where
  "pruned_key item = slash_key (om_Namespace (rb_Meta item)) (om_Name (rb_Meta item))"

text \<open>
  A Kubernetes namespace contains no slash, so the text \<open>namespace/name\<close> determines both parts.
\<close>

lemma slash_key_inj:
  assumes "CHR ''/'' \<notin> set ns" and "CHR ''/'' \<notin> set ns'" and "slash_key ns n = slash_key ns' n'"
  shows "ns = ns' \<and> n = n'"
proof -
  have "takeWhile (\<lambda>c. c \<noteq> CHR ''/'') (slash_key ns n) = ns"
    "takeWhile (\<lambda>c. c \<noteq> CHR ''/'') (slash_key ns' n') = ns'"
    using assms(1,2) by (simp_all add: slash_key_def takeWhile_append)
  with assms(3) show ?thesis by (simp add: slash_key_def)
qed

lemma keep_set_iff:
  assumes "CHR ''/'' \<notin> set ns" and "\<forall>k \<in> set keep. CHR ''/'' \<notin> set (bk_Namespace k)"
  shows "slash_key ns n \<in> keep_set keep \<longleftrightarrow> (\<exists>k \<in> set keep. bk_Namespace k = ns \<and> bk_Name k = n)"
  using assms by (force simp: keep_set_def dest: slash_key_inj)

fun deletion_of :: "RoleBinding \<Rightarrow> event \<Rightarrow> bool" where
  "deletion_of item (DeleteRoleBinding k err) = (k = meta_key (rb_Meta item))"
| "deletion_of item e = False"

fun done_deletion_of :: "RoleBinding \<Rightarrow> event \<Rightarrow> bool" where
  "done_deletion_of item (DeleteRoleBinding k err) =
     (k = meta_key (rb_Meta item) \<and> tolerate IsNotFound err = None)"
| "done_deletion_of item e = False"

lemma runs_prune_item:
  "runs (prune_item E K item) w
     (\<lambda>r es w'. r = None \<longrightarrow> pruned_key item \<notin> K \<longrightarrow> (\<exists>e \<in> set es. done_deletion_of item e))"
  unfolding prune_item_def call_defs by (intro runs_rules; simp add: pruned_key_def)

lemma emits_prune:
  "emits (\<lambda>e. \<exists>item \<in> set items. pruned_key item \<notin> K \<and> deletion_of item e) (each (prune_item E K) items)"
  unfolding prune_item_def call_defs
  by (intro emits_each emits_if emits_bind emits_return emits_issue) (auto simp: pruned_key_def)

lemma runs_prune:
  "runs (each (prune_item E K) items) w
     (\<lambda>r es w'. r = None \<longrightarrow>
        (\<forall>item \<in> set items. pruned_key item \<notin> K \<longrightarrow> (\<exists>e \<in> set es. done_deletion_of item e)))"
  by (rule runs_each_all) (auto intro: runs_prune_item)

text \<open>The calls of a prune: one list, then deletions of exactly the listed bindings not kept.\<close>

lemma runs_DeleteRBACExcept:
  "runs (DeleteRBACExcept E rd x keep) w
     (\<lambda>r es w'. \<exists>ans dels. es = ListRoleBindings rd (rbacLabels x) ans # dels \<and>
        (case ans of
           Inl err \<Rightarrow> r = Some err \<and> dels = []
         | Inr items \<Rightarrow>
             (\<forall>e \<in> set dels. \<exists>item \<in> set items. pruned_key item \<notin> keep_set keep \<and> deletion_of item e) \<and>
             (r = None \<longrightarrow> (\<forall>item \<in> set items. pruned_key item \<notin> keep_set keep \<longrightarrow>
                              (\<exists>e \<in> set dels. done_deletion_of item e)))))"
  unfolding DeleteRBACExcept_def cl_ListRoleBindings_def
  by (intro runs_let runs_bind runs_issue runs_case_sum runs_return)
     (auto intro!: runs_conseq [OF runs_conj [OF emitsD [OF emits_prune] runs_prune]])

section \<open>Steady state\<close>

fun reads :: "event \<Rightarrow> bool" where
  "reads (GetSecret rd k r) = True"
| "reads (GetConfigMap rd k r) = True"
| "reads (GetServiceAccount k r) = True"
| "reads (GetRoleBinding k r) = True"
| "reads (GetClusterRole rd n r) = True"
| "reads (GetDeployment k r) = True"
| "reads (GetObject m k r) = True"
| "reads (ListRoleBindings rd sel r) = True"
| "reads (ListPods rd ns sel r) = True"
| "reads (ReadClock t) = True"
| "reads e = False"

definition clean :: "goerr option go \<Rightarrow> world \<Rightarrow> bool" where
  "clean m w = runs m w (\<lambda>r es w'. r = None \<and> (\<forall>e \<in> set es. reads e))"

lemma clean_and_then: "clean m w \<Longrightarrow> (\<And>w. clean rest w) \<Longrightarrow> clean (and_then m rest) w"
  unfolding clean_def
  by (rule runs_and_then, erule runs_conseq) (auto intro: runs_conseq)

lemma clean_each:
  "(\<And>y w. y \<in> set ys \<Longrightarrow> clean (f y) w) \<Longrightarrow> clean (each f ys) w"
proof (induction ys arbitrary: w)
  case Nil
  show ?case by (auto simp: clean_def intro: runs_return)
next
  case (Cons y ys)
  have "each f (y # ys) = and_then (f y) (each f ys)"
    by (simp add: and_then_def)
  with Cons show ?case by (auto intro: clean_and_then)
qed

text \<open>Every RBAC object of \<open>x\<close> is in place, and nothing else carries its labels.\<close>

definition rbac_in_place :: "env \<Rightarrow> RunnerInfo \<Rightarrow> bool" where
  "rbac_in_place E x =
     ((\<forall>tr. \<exists>role. api_GetClusterRole E tr Uncached executorClusterRoleName = Inr role \<and>
                   sem_eq_rules E (cr_Rules role) desiredRoleRules) \<and>
      (\<forall>tr. \<exists>role. api_GetClusterRole E tr Uncached executorPDBClusterRoleName = Inr role \<and>
                   sem_eq_rules E (cr_Rules role) desiredPDBRules) \<and>
      (\<forall>tr. \<exists>sa. api_GetServiceAccount E tr (nsname (GetNamespace x) (ChildName x)) = Inr sa) \<and>
      (\<forall>tr. \<forall>k \<in> set (DesiredBindings x (build_namespace_keys x)). \<exists>b.
         api_GetRoleBinding E tr (nsname (bk_Namespace k) (bk_Name k)) = Inr b \<and>
         rb_RoleRef b = rb_RoleRef (desiredRoleBinding x (bk_Namespace k) (bk_Name k) (bk_ClusterRole k))) \<and>
      (\<forall>tr. \<exists>items. api_ListRoleBindings E tr Uncached (rbacLabels x) = Inr items \<and>
         (\<forall>item \<in> set items. \<exists>k \<in> set (DesiredBindings x (build_namespace_keys x)).
            om_Namespace (rb_Meta item) = bk_Namespace k \<and> om_Name (rb_Meta item) = bk_Name k)))"

lemma clean_role:
  assumes "\<exists>role. api_GetClusterRole E (trace w) Uncached name = Inr role \<and> sem_eq_rules E (cr_Rules role) rules"
  shows "clean (reconcileClusterRole E name rules converge) w"
  unfolding clean_def reconcileClusterRole_def cl_GetClusterRole_def
  using assms by (intro runs_bind runs_issue) (auto intro!: runs_return)

lemma clean_binding:
  assumes "\<exists>b. api_GetRoleBinding E (trace w) (nsname ns name) = Inr b \<and>
     rb_RoleRef b = rb_RoleRef (desiredRoleBinding x ns name role)"
  shows "clean (reconcileRoleBinding E x ns name role) w"
  unfolding clean_def reconcileRoleBinding_def cl_GetRoleBinding_def
  using assms by (intro runs_let runs_bind runs_issue) (auto intro!: runs_return)

lemma clean_sa:
  assumes "\<exists>sa. api_GetServiceAccount E (trace w) (nsname (GetNamespace x) (ChildName x)) = Inr sa"
  shows "clean (CreateSaIfMissing E x) w"
  unfolding clean_def CreateSaIfMissing_def cl_GetServiceAccount_def
  using assms by (intro runs_bind runs_issue) (auto intro!: runs_return)

lemma clean_prune:
  assumes "\<exists>items. api_ListRoleBindings E (trace w) rd (rbacLabels x) = Inr items \<and>
     (\<forall>item \<in> set items. pruned_key item \<in> keep_set keep)"
  shows "clean (DeleteRBACExcept E rd x keep) w"
proof -
  have "clean (each (prune_item E (keep_set keep)) items) w'"
    if "\<forall>item \<in> set items. pruned_key item \<in> keep_set keep" for items w'
    using that by (intro clean_each)
      (auto simp: clean_def prune_item_def pruned_key_def intro!: runs_return)
  with assms show ?thesis
    unfolding clean_def DeleteRBACExcept_def cl_ListRoleBindings_def
    by (intro runs_let runs_bind runs_issue) auto
qed

lemma clean_range_keys_bind:
  "(\<And>ys. mset ys = mset ks \<Longrightarrow> clean (f ys) w) \<Longrightarrow> clean (State_Monad.bind (range_keys E ks) f) w"
  unfolding clean_def by (rule runs_range_keys_bind)

lemma rbac_in_place_binding:
  assumes "rbac_in_place E x" and "k \<in> set (DesiredBindings x (build_namespace_keys x))"
  shows "\<exists>b. api_GetRoleBinding E tr (nsname (bk_Namespace k) (bk_Name k)) = Inr b \<and>
     rb_RoleRef b = rb_RoleRef (desiredRoleBinding x (bk_Namespace k) (bk_Name k) (bk_ClusterRole k))"
  using assms unfolding rbac_in_place_def by meson

lemma clean_bind_and_prune:
  assumes "rbac_in_place E x"
  shows "clean (bind_and_prune E x) w"
  unfolding bind_and_prune_def BuildNamespaces_def ensure_role_defs Let_def
proof (intro clean_range_keys_bind clean_and_then clean_each)
  fix ys k w
  assume ys: "mset ys = mset (build_namespace_keys x)"
  note eq = DesiredBindings_perm [OF ys, of x]
  show "clean (reconcileClusterRole E executorClusterRoleName desiredRoleRules True) w"
    using assms by (intro clean_role) (simp add: rbac_in_place_def)
  have "\<exists>items. api_ListRoleBindings E (trace w) Uncached (rbacLabels x) = Inr items \<and>
     (\<forall>item \<in> set items. \<exists>k \<in> set (DesiredBindings x ys).
        om_Namespace (rb_Meta item) = bk_Namespace k \<and> om_Name (rb_Meta item) = bk_Name k)"
    using assms unfolding eq by (simp add: rbac_in_place_def)
  then show "clean (DeleteRBACExcept E Uncached x (DesiredBindings x ys)) w"
    by (intro clean_prune) (fastforce simp: pruned_key_def keep_set_def)
  assume "k \<in> set (DesiredBindings x ys)"
  with assms show "clean (reconcileRoleBinding E x (bk_Namespace k) (bk_Name k) (bk_ClusterRole k)) w"
    unfolding eq by (intro clean_binding) (rule rbac_in_place_binding)
qed

lemma clean_CreateRBAC:
  assumes "rbac_in_place E x"
  shows "clean (CreateRBACIfMissing E x) w"
  unfolding CreateRBACIfMissing_phases ensure_role_defs
  using assms
  by (intro clean_and_then clean_each clean_role clean_sa clean_bind_and_prune)
     (simp_all add: rbac_in_place_def)

end
