(* ===== verification/Auth_Facts.thy ===== *)
theory Auth_Facts
  imports Auth_Flow
begin

text \<open>
  What the authentication step of a pass guarantees: the calls it makes, that a created GitLab
  runner is recorded in the status at once, that a stale runner is deleted before its
  replacement is created, and that a runner whose token is still accepted is left alone.
\<close>

section \<open>Which calls authentication makes\<close>

fun secret_read :: "event \<Rightarrow> bool" where
  "secret_read (GetSecret rd k r) = True"
| "secret_read e = False"

lemma emits_resolveTokenSource: "emits secret_read (resolveTokenSource E ns src)"
  unfolding resolveTokenSource_def call_defs Let_def by (intro emits_rules; simp)

lemma keeps_resolveTokenSource: "keeps_obj (resolveTokenSource E ns src)"
  unfolding resolveTokenSource_def call_defs Let_def by (intro keeps_rules)

lemma emits_ExistingConfigTokens: "emits secret_read (ExistingConfigTokens E ns n)"
  unfolding ExistingConfigTokens_def call_defs by (intro emits_rules; simp)

lemma keeps_ExistingConfigTokens: "keeps_obj (ExistingConfigTokens E ns n)"
  unfolding ExistingConfigTokens_def call_defs by (intro keeps_rules)

lemma keeps_resolveCABundle: "keeps_obj (resolveCABundle E rd ns src)"
  unfolding resolveCABundle_def call_defs Let_def by (intro keeps_rules)

fun ca_read :: "event \<Rightarrow> bool" where
  "ca_read (GetSecret rd k r) = True"
| "ca_read (GetConfigMap rd k r) = True"
| "ca_read e = False"

lemma emits_resolveCABundle: "emits ca_read (resolveCABundle E rd ns src)"
  unfolding resolveCABundle_def call_defs Let_def by (intro emits_rules; simp)

text \<open>The client a pass works with keeps the contract of \<open>GitlabClient\<close>.\<close>

definition client_ok :: "GitlabClient option \<Rightarrow> bool" where
  "client_ok injected = (\<forall>gc. injected = Some gc \<longrightarrow> gitlab_client gc)"

definition contract_result :: "goerr + GitlabClient \<Rightarrow> bool" where
  "contract_result r = (\<forall>gc. r = Inr gc \<longrightarrow> gitlab_client gc)"

lemma emits_managed_client: "emits secret_read (managed_client E injected reg ca)"
  unfolding managed_client_def by (intro emits_rules emits_resolveTokenSource)

lemma keeps_managed_client: "keeps_obj (managed_client E injected reg ca)"
  unfolding managed_client_def by (intro keeps_rules keeps_resolveTokenSource)

fun auth_call :: "RunnerInfo \<Rightarrow> event \<Rightarrow> bool" where
  "auth_call x (GetSecret rd k r) = True"
| "auth_call x (SdkCreateUserRunner g opts r) = has_managed x"
| "auth_call x (SdkDeleteRegisteredRunner g t r) = has_managed x"
| "auth_call x (SdkRemoveRunner g i r) = has_managed x"
| "auth_call x (SdkVerifyRegisteredRunner g t r) = has_managed x"
| "auth_call x (ReadClock t) = True"
| "auth_call x (UpdateObjectStatus y r) = same_unit x y"
| "auth_call x e = False"

lemma auth_call_weaken:
  "secret_read e \<Longrightarrow> auth_call x e" "has_managed x \<Longrightarrow> gitlab_call e \<Longrightarrow> auth_call x e"
  by (cases e; simp)+

text \<open>
  The steps of authentication, for an invariant \<open>I\<close> of the object that recording a registration and
  writing the status keep, and any class \<open>P\<close> of calls with the reads and the GitLab calls.
\<close>

locale auth_steps =
  fixes E :: env and I :: "RunnerInfo \<Rightarrow> bool" and P :: "event \<Rightarrow> bool"
  assumes reads: "secret_read e \<Longrightarrow> P e"
    and gitlab: "gitlab_call e \<Longrightarrow> P e"
    and clock_read: "P (ReadClock t)"
    and store: "I y \<Longrightarrow> I (StoreRunnerRegistration g y)"
    and status_write: "safe I P (UpdateStatusObj E) unrestricted"
begin

lemma secret_step: "emits secret_read m \<Longrightarrow> keeps_obj m \<Longrightarrow> safe I P m unrestricted"
  by (rule safe_of_emits) (auto elim: emits_mono simp: reads)

lemma safe_managed_client:
  "client_ok injected \<Longrightarrow> safe I P (managed_client E injected reg ca) contract_result"
  unfolding managed_client_def contract_result_def
  by (intro safe_case_option safe_bind_get_obj safe_bind safe_of_emits emits_mono [OF emits_resolveTokenSource]
        keeps_resolveTokenSource safe_return)
     (auto simp: client_ok_def reads new_client_contract split: sum.split)

lemma gitlab_step: "emits gitlab_call m \<Longrightarrow> keeps_obj m \<Longrightarrow> safe I P m unrestricted"
  by (rule safe_of_emits) (auto elim: emits_mono simp: gitlab)

lemma safe_client_ops:
  assumes "gitlab_client gc"
  shows "safe I P (gl_CreateRunner gc opts) unrestricted" "safe I P (gl_DeleteRunner gc t) unrestricted"
    "safe I P (gl_DeleteRunnerByID gc i) unrestricted" "safe I P (gl_VerifyToken gc t) unrestricted"
  by (rule gitlab_step; rule gitlab_client.calls_gitlab [OF assms] gitlab_client.keeps [OF assms])+

lemma safe_persistRunner: "safe I P (persistRunner E reg c h) unrestricted"
  unfolding persistRunner_def
  by (intro safe_let safe_bind safe_modify_obj store status_write safe_return; simp)

lemma safe_create_and_persist:
  "gitlab_client gc \<Longrightarrow> safe I P (create_and_persist E gc reg h verb) unrestricted"
  unfolding create_and_persist_def
  by (intro safe_rules safe_client_ops safe_persistRunner; simp)

lemma safe_delete_stale: "gitlab_client gc \<Longrightarrow> safe I P (delete_stale gc reg t) unrestricted"
  unfolding delete_stale_def by (intro safe_rules safe_client_ops; simp)

lemma safe_recreate:
  assumes "safe I P mk contract_result"
  shows "safe I P (recreateManagedRunner E mk reg t h) unrestricted"
  unfolding recreateManagedRunner_def
  by (rule safe_bind_result [OF assms])
     (intro safe_rules safe_delete_stale safe_create_and_persist; simp add: contract_result_def)

lemma safe_verify:
  assumes "safe I P mk contract_result"
  shows "safe I P (verifyManagedRunner E mk reg t h) unrestricted"
  unfolding verifyManagedRunner_def
  by (intro safe_if safe_recreate assms safe_bind_result [OF assms])
     (intro safe_rules safe_client_ops safe_recreate assms; simp add: contract_result_def)

lemma safe_Until: "safe I P (Until E t) unrestricted"
  unfolding Until_def Now_def by (intro safe_rules clock_read; simp)

lemma safe_ensureManagedRunner:
  assumes "client_ok injected"
  shows "safe I P (ensureManagedRunner E injected reg t ca) unrestricted"
proof -
  note mk = safe_managed_client [OF assms]
  show ?thesis
    unfolding ensureManagedRunner_def Let_def
    by (intro safe_if safe_case_option safe_recreate safe_verify mk safe_bind_result [OF mk]
          safe_bind [OF safe_Until])
       (intro safe_rules safe_create_and_persist; simp add: contract_result_def)
qed

lemma safe_ensure_unit:
  "client_ok injected \<Longrightarrow> safe I P (ensure_unit E injected ns ex ca reg) unrestricted"
  unfolding ensure_unit_def
  by (intro safe_if safe_ensureManagedRunner safe_bind safe_return
        secret_step [OF emits_resolveTokenSource keeps_resolveTokenSource]; simp)

lemma safe_ensure_units:
  assumes "client_ok injected"
  shows "safe I P (ensure_units E injected ns ex ca regs toks s) unrestricted"
proof (induction regs arbitrary: toks s)
  case Nil
  show ?case by (simp add: safe_return)
next
  case (Cons reg regs)
  show ?case
    unfolding ensure_units.simps
    by (intro safe_bind safe_ensure_unit assms safe_case_sum safe_case_prod safe_return Cons.IH) simp
qed

lemma safe_ensureRunners:
  assumes "client_ok injected"
  shows "safe I P (ensureRunners E injected ca) unrestricted"
proof -
  have "safe I P (resyncAfter E s) unrestricted" for s
    unfolding resyncAfter_def by (intro safe_rules safe_Until; simp)
  then show ?thesis
    unfolding ensureRunners_def Let_def
    by (intro safe_bind_get_obj safe_bind safe_case_sum safe_case_prod safe_return safe_ensure_units assms
          secret_step [OF emits_ExistingConfigTokens keeps_ExistingConfigTokens]; simp)
qed

end

text \<open>For every object, with no assumption on the answers; and with the identity of the object kept.\<close>

fun auth_event :: "event \<Rightarrow> bool" where
  "auth_event (UpdateObjectStatus y r) = True"
| "auth_event e = (secret_read e \<or> gitlab_call e \<or> (\<exists>t. e = ReadClock t))"

interpretation any_object: auth_steps E unrestricted auth_event for E
proof
  show "auth_event e" if "secret_read e" for e using that by (cases e) simp_all
  show "auth_event e" if "gitlab_call e" for e using that by (cases e) simp_all
  show "safe unrestricted auth_event (UpdateStatusObj E) unrestricted"
    unfolding UpdateStatusObj_def by (intro safe_rules; simp)
qed simp_all

lemma same_object: "update_laws E \<Longrightarrow> has_managed x \<Longrightarrow> auth_steps E (same_unit x) (auth_call x)"
proof
  show "same_unit x (StoreRunnerRegistration g y)" if "same_unit x y" for g y
    using that by (rule same_unit_trans) simp
  show "safe (same_unit x) (auth_call x) (UpdateStatusObj E) unrestricted" if "update_laws E"
    by (rule safe_UpdateStatusObj [OF that]) simp
qed (simp_all add: auth_call_weaken)

lemma safe_secret_read:
  "emits secret_read m \<Longrightarrow> keeps_obj m \<Longrightarrow> safe I (auth_call x) m unrestricted"
  by (rule safe_of_emits) (auto elim: emits_mono simp: auth_call_weaken)

text \<open>Units with a token of their own only need Secrets to be read.\<close>

lemma provided_ensure_units:
  assumes "\<forall>g \<in> set regs. \<not> IsManaged (Some (reg_Auth g))"
  shows "safe I (auth_call x) (ensure_units E injected ns ex ca regs toks s) unrestricted"
  using assms
proof (induction regs arbitrary: toks s)
  case (Cons reg regs)
  then have "safe I (auth_call x) (ensure_unit E injected ns ex ca reg) unrestricted"
    unfolding ensure_unit_def
    by (intro safe_if safe_bind safe_return safe_secret_read emits_resolveTokenSource keeps_resolveTokenSource) simp_all
  moreover have "safe I (auth_call x) (ensure_units E injected ns ex ca regs toks' s') unrestricted" for toks' s'
    using Cons by simp
  ultimately show ?case
    unfolding ensure_units.simps by (intro safe_bind safe_case_sum safe_case_prod safe_return) simp_all
qed (simp add: safe_return)

lemma provided_ensureRunners:
  assumes "\<not> has_managed x"
  shows "safe (same_unit x) (auth_call x) (ensureRunners E injected ca) unrestricted"
proof -
  have "safe (same_unit x) (auth_call x) (resyncAfter E s) unrestricted" for s
    unfolding resyncAfter_def Until_def Now_def by (intro safe_rules; simp)
  moreover have "safe (same_unit x) (auth_call x)
      (ensure_units E injected ns ex ca (RegistrationConfig y) toks s) unrestricted"
    if "same_unit x y" for y ns ex toks s
    using assms same_unit_managed [OF that] by (intro provided_ensure_units) (simp add: has_managed_def)
  ultimately show ?thesis
    unfolding ensureRunners_def Let_def
    by (intro safe_bind_get_obj safe_bind safe_case_sum safe_case_prod safe_return
          safe_secret_read [OF emits_ExistingConfigTokens keeps_ExistingConfigTokens]; simp)
qed

lemma object_ensureRunners:
  assumes "update_laws E" and "client_ok injected"
  shows "safe (same_unit x) (auth_call x) (ensureRunners E injected ca) unrestricted"
  using auth_steps.safe_ensureRunners [OF same_object [OF assms(1)] assms(2)] provided_ensureRunners
  by (cases "has_managed x") blast+

section \<open>A created runner is recorded at once\<close>

fun records :: "RunnerInfo \<Rightarrow> string \<Rightarrow> int \<Rightarrow> bool" where
  "records (RunnerObj r) name i = (rst_RunnerID (res_Status r) = i)"
| "records (MultiRunnerObj r) name i = (map_get (mst_RunnerIDs (res_Status r)) name = Some i)"

lemma records_store:
  "reg_Name g = n \<Longrightarrow> reg_RunnerID g = i \<Longrightarrow> records (StoreRunnerRegistration g x) n i"
  by (cases x) (simp_all add: Runner_StoreRunnerRegistration_def MultiRunner_StoreRunnerRegistration_def Let_def)

definition write_follows :: "SdkRunner \<Rightarrow> event list \<Rightarrow> bool" where
  "write_follows s es =
     (case es of UpdateObjectStatus y r # _ \<Rightarrow> (\<exists>name. records y name (sdkr_ID s)) | _ \<Rightarrow> False)"

fun persisted :: "event list \<Rightarrow> bool" where
  "persisted [] = True"
| "persisted (SdkCreateUserRunner g opts (Inr s) # es) = (write_follows s es \<and> persisted es)"
| "persisted (e # es) = persisted es"

lemma write_follows_append: "write_follows s es \<Longrightarrow> write_follows s (es @ fs)"
  by (cases es) (auto simp: write_follows_def split: event.splits)

interpretation persist: trace_property persisted
proof
  show "persisted (es @ fs)" if "persisted es" "persisted fs" for es fs
    using that by (induction es rule: persisted.induct) (auto simp: write_follows_append)
qed simp

lemma persisted_if_no_create: "\<forall>e \<in> set es. \<not> gitlab_create e \<Longrightarrow> persisted es"
  by (induction es rule: persisted.induct) auto

lemma persisted_of_emits: "emits (\<lambda>e. \<not> gitlab_create e) m \<Longrightarrow> traces persisted m"
  unfolding traces_def emits_def by (blast intro: runs_conseq persisted_if_no_create)

lemma persisted_split:
  "persisted (pre @ SdkCreateUserRunner g opts (Inr s) # post) \<Longrightarrow> write_follows s post"
  by (induction pre rule: persisted.induct) auto

text \<open>The production client.\<close>

definition production_result :: "env \<Rightarrow> goerr + GitlabClient \<Rightarrow> bool" where
  "production_result E r = (\<forall>gc. r = Inr gc \<longrightarrow> (\<exists>conn. gc = gitlabApi E conn))"

lemma persisted_create:
  "traces persisted (create_and_persist E (gitlabApi E conn) reg h verb)"
  unfolding traces_def create_and_persist_def gitlabApi_fields gitlabApi_CreateRunner_def
    persistRunner_def UpdateStatusObj_def Let_def
  by (intro allI runs_rules) (auto simp: write_follows_def intro!: exI [of _ "reg_Name reg"] records_store)

lemma production_managed_client:
  "safe I (auth_call x) (managed_client E None reg ca) (production_result E)"
  unfolding managed_client_def production_result_def option.case
  by (intro safe_bind_get_obj safe_bind safe_secret_read emits_resolveTokenSource
        keeps_resolveTokenSource safe_return)
     (auto split: sum.split dest: NewGitlabClient_ok)

text \<open>A bind whose first part has a result property, for the trace property.\<close>

lemma traces_bind_result:
  assumes "traces persisted m" and "safe unrestricted unrestricted m R"
    and "\<And>x. R x \<Longrightarrow> traces persisted (f x)"
  shows "traces persisted (State_Monad.bind m f)"
  unfolding traces_def
proof (intro allI runs_bind)
  fix w
  have "runs m w (\<lambda>r es w'. persisted es \<and> R r)"
    using assms(1,2) unfolding traces_def safe_def by (auto intro!: runs_conj intro: runs_conseq)
  then show "runs m w (\<lambda>x es1 w1. runs (f x) w1 (\<lambda>y es2 w2. persisted (es1 @ es2)))"
    by (rule runs_conseq)
       (use assms(3) in \<open>auto simp: traces_def intro!: persist.append intro: runs_conseq\<close>)
qed

lemma persisted_secret_read: "emits secret_read m \<Longrightarrow> traces persisted m"
  by (rule persisted_of_emits) (erule emits_mono, auto elim: secret_read.elims)

lemma persisted_gitlab:
  "emits gitlab_delete m \<Longrightarrow> traces persisted m"
  "emits (\<lambda>e. gitlab_call e \<and> \<not> gitlab_create e \<and> \<not> gitlab_delete e) m \<Longrightarrow> traces persisted m"
  by (rule persisted_of_emits; erule emits_mono; auto elim: gitlab_delete.elims)+

lemma persisted_delete_stale: "gitlab_client gc \<Longrightarrow> traces persisted (delete_stale gc reg t)"
  unfolding delete_stale_def
  by (intro persist.rules persisted_gitlab(1) gitlab_client.delete_emits gitlab_client.delete_id_emits)

lemma production_ok: "production_result E r \<Longrightarrow> contract_result r"
  using production.gitlab_client_axioms by (auto simp: production_result_def contract_result_def)

lemma production_safe: "safe unrestricted unrestricted (managed_client E None reg ca) (production_result E)"
  by (rule safe_weaken [OF production_managed_client]) simp_all

lemma persisted_managed_client: "traces persisted (managed_client E injected reg ca)"
  by (rule persisted_secret_read [OF emits_managed_client])

lemma persisted_recreate: "traces persisted (recreateManagedRunner E (managed_client E None reg ca) reg t h)"
  unfolding recreateManagedRunner_def
  by (rule traces_bind_result [OF persisted_managed_client production_safe])
     (auto simp: production_result_def
       intro!: persist.rules persisted_delete_stale persisted_create production.gitlab_client_axioms
       split: sum.split option.split)

lemma persisted_verify: "traces persisted (verifyManagedRunner E (managed_client E None reg ca) reg t h)"
  unfolding verifyManagedRunner_def
proof (intro persist.if_branch persisted_recreate traces_bind_result [OF persisted_managed_client production_safe])
  fix r assume "production_result E r"
  then show "traces persisted (case r of Inl err \<Rightarrow> ret (Inl err) | Inr gc \<Rightarrow>
      do { v \<leftarrow> gl_VerifyToken gc t;
           case v of Inl err \<Rightarrow> ret (Inl (err_wrap (''cannot verify token for runner '' @ quote (reg_Name reg)) err))
           | Inr valid \<Rightarrow> (if \<not> valid then recreateManagedRunner E (managed_client E None reg ca) reg t h
                          else ret (Inr (t, reg_TokenExpiresAt reg))) })"
    by (intro persist.rules persisted_recreate persisted_gitlab(2) gitlab_client.verify_emits)
       (auto simp: production_result_def intro: production.gitlab_client_axioms)
qed

lemma persisted_Until: "traces persisted (Until E t)"
  unfolding Until_def Now_def by (intro persist.rules) simp

lemma persisted_ensureManagedRunner: "traces persisted (ensureManagedRunner E None reg t ca)"
  unfolding ensureManagedRunner_def Let_def
  by (intro persist.if_branch persist.case_option persisted_recreate persisted_verify
        persist.bind [OF persisted_Until]
        traces_bind_result [OF persisted_managed_client production_safe])
     (auto simp: production_result_def intro!: persist.return persisted_create split: sum.split)

lemma persisted_ensure_units:
  "traces persisted (ensure_units E None ns ex ca regs toks s)"
proof (induction regs arbitrary: toks s)
  case (Cons reg regs)
  show ?case
    unfolding ensure_units.simps ensure_unit_def
    by (intro persist.rules Cons.IH persisted_ensureManagedRunner
          persisted_secret_read [OF emits_resolveTokenSource])
qed (simp add: persist.return)

lemma persisted_ensureRunners: "traces persisted (ensureRunners E None ca)"
  unfolding ensureRunners_def resyncAfter_def
  by (intro persist.rules persisted_ensure_units persisted_Until
        persisted_secret_read [OF emits_ExistingConfigTokens])

section \<open>A stale runner is deleted before its replacement is created\<close>

fun stale_deleted :: "string \<Rightarrow> int \<Rightarrow> event \<Rightarrow> bool" where
  "stale_deleted t i (SdkDeleteRegisteredRunner g t' (resp, err)) =
     (t' = t \<and> (err = None \<or> resp = Some 403 \<or> resp = Some 404))"
| "stale_deleted t i (SdkRemoveRunner g i' (resp, err)) = (i' = i \<and> (err = None \<or> resp = Some 404))"
| "stale_deleted t i e = False"

text \<open>Every call in \<open>Q\<close> comes after some call in \<open>P\<close>.\<close>

definition preceded :: "(event \<Rightarrow> bool) \<Rightarrow> (event \<Rightarrow> bool) \<Rightarrow> event list \<Rightarrow> bool" where
  "preceded P Q es = (\<forall>pre e post. es = pre @ e # post \<longrightarrow> Q e \<longrightarrow> (\<exists>d \<in> set pre. P d))"

lemma preceded_none: "\<forall>e \<in> set es. \<not> Q e \<Longrightarrow> preceded P Q es"
  by (auto simp: preceded_def)

lemma preceded_append:
  assumes "\<forall>e \<in> set es. \<not> Q e" and "(\<exists>d \<in> set es. P d) \<or> preceded P Q fs"
  shows "preceded P Q (es @ fs)"
  unfolding preceded_def
proof (intro allI impI)
  fix pre e post
  assume "es @ fs = pre @ e # post" and q: "Q e"
  then consider us where "es = pre @ e # us" | us where "pre = es @ us" "fs = us @ e # post"
    by (auto simp: append_eq_append_conv2 append_eq_Cons_conv)
  then show "\<exists>d \<in> set pre. P d"
  proof cases
    case 1
    with assms(1) q show ?thesis by auto
  next
    case 2
    with assms(2) q show ?thesis by (fastforce simp: preceded_def)
  qed
qed

definition quiet :: "event list \<Rightarrow> bool" where
  "quiet es = (\<forall>e \<in> set es. \<not> gitlab_create e)"

lemma quiet_of_emits: "emits P m \<Longrightarrow> (\<And>e. P e \<Longrightarrow> \<not> gitlab_create e) \<Longrightarrow> runs m w (\<lambda>r es w'. quiet es)"
  unfolding quiet_def by (drule emitsD) (auto intro: runs_conseq)

lemma not_create:
  "secret_read e \<Longrightarrow> \<not> gitlab_create e" "gitlab_delete e \<Longrightarrow> \<not> gitlab_create e"
  by (cases e; simp)+

lemma runs_managed_client:
  "runs (managed_client E None reg ca) w (\<lambda>r es w'. (\<forall>e \<in> set es. secret_read e) \<and> obj w' = obj w \<and> production_result E r)"
proof -
  have "runs (managed_client E None reg ca) w (\<lambda>r es w'. production_result E r)"
    using production_safe [of E reg ca] unfolding safe_def by (auto intro: runs_conseq)
  from runs_conj [OF runs_keeps [OF keeps_managed_client emitsD [OF emits_managed_client]] this]
  show ?thesis by (rule runs_conseq) simp
qed

lemma runs_delete_stale:
  "runs (delete_stale (gitlabApi E conn) reg t) w
     (\<lambda>r es w'. quiet es \<and> (t \<noteq> '''' \<longrightarrow> r = None \<longrightarrow> (\<exists>e \<in> set es. stale_deleted t (reg_RunnerID reg) e)))"
  unfolding delete_stale_def gitlabApi_fields gitlabApi_DeleteRunner_def gitlabApi_DeleteRunnerByID_def
  by (intro runs_rules; simp add: quiet_def split: if_splits option.splits)

lemma runs_any: "traces persisted m \<Longrightarrow> (\<And>r es w'. Q r es w') \<Longrightarrow> runs m w Q"
  unfolding traces_def by (blast intro: runs_conseq)

lemma recreate_deletes_first:
  "runs (recreateManagedRunner E (managed_client E None reg ca) reg t h) w
     (\<lambda>r es w'. t \<noteq> '''' \<longrightarrow> preceded (stale_deleted t (reg_RunnerID reg)) gitlab_create es)"
  unfolding recreateManagedRunner_def
proof (rule runs_bind, rule runs_conseq [OF runs_managed_client])
  fix r es1 and w1 :: world
  assume 1: "(\<forall>e \<in> set es1. secret_read e) \<and> obj w1 = obj w \<and> production_result E r"
  then have q1: "\<forall>e \<in> set es1. \<not> gitlab_create e" by (auto simp: not_create)
  let ?P = "preceded (stale_deleted t (reg_RunnerID reg)) gitlab_create"
  show "runs (case r of
       Inl err \<Rightarrow> ret (Inl err)
     | Inr gc \<Rightarrow> do { err \<leftarrow> delete_stale gc reg t;
                     case err of Some e \<Rightarrow> ret (Inl e)
                     | None \<Rightarrow> create_and_persist E gc reg h ''recreate'' }) w1
     (\<lambda>r es2 w2. t \<noteq> '''' \<longrightarrow> ?P (es1 @ es2))"
  proof (cases r)
    case (Inl e)
    then show ?thesis by (auto intro!: runs_return preceded_none simp: q1)
  next
    case (Inr gc)
    with 1 obtain conn where gc: "gc = gitlabApi E conn" by (auto simp: production_result_def)
    have "runs (case err of Some e \<Rightarrow> ret (Inl e) | None \<Rightarrow> create_and_persist E gc reg h ''recreate'') w2
        (\<lambda>r es3 w3. t \<noteq> '''' \<longrightarrow> ?P (es1 @ es2 @ es3))"
      if 2: "quiet es2 \<and> (t \<noteq> '''' \<longrightarrow> err = None \<longrightarrow> (\<exists>e \<in> set es2. stale_deleted t (reg_RunnerID reg) e))"
      for err es2 and w2 :: world
    proof (cases err)
      case None
      have "t \<noteq> '''' \<longrightarrow> ?P (es1 @ es2 @ es3)" for es3
        using 2 None preceded_append [OF q1, of _ "es2 @ es3"] preceded_append [of es2 gitlab_create _ es3]
        by (auto simp: quiet_def)
      with None show ?thesis unfolding gc by (auto intro: runs_any [OF persisted_create])
    next
      case (Some e)
      with 2 q1 show ?thesis
        by (auto intro!: runs_return preceded_none simp: quiet_def)
    qed
    note inner = this
    show ?thesis
      unfolding Inr sum.case
      by (rule runs_bind, unfold gc, rule runs_conseq [OF runs_delete_stale], rule inner [unfolded gc])
  qed
qed

section \<open>A runner whose token is accepted is left alone\<close>

fun replaces :: "event \<Rightarrow> bool" where
  "replaces (SdkCreateUserRunner g opts r) = True"
| "replaces (SdkDeleteRegisteredRunner g t r) = True"
| "replaces (SdkRemoveRunner g i r) = True"
| "replaces (UpdateObjectStatus x r) = True"
| "replaces e = False"

fun rejected :: "string \<Rightarrow> event \<Rightarrow> bool" where
  "rejected t (SdkVerifyRegisteredRunner g t' (resp, err)) =
     (t' = t \<and> err \<noteq> None \<and> (resp = Some 401 \<or> resp = Some 403))"
| "rejected t e = False"

lemma not_replaces: "secret_read e \<Longrightarrow> \<not> replaces e"
  by (cases e) simp_all

lemma verify_leaves_alone:
  assumes "t \<noteq> ''''"
  shows "runs (verifyManagedRunner E (managed_client E None reg ca) reg t h) w
     (\<lambda>r es w'. (\<exists>e \<in> set es. rejected t e) \<or>
        ((\<forall>e \<in> set es. \<not> replaces e) \<and> obj w' = obj w \<and>
         (\<forall>v. r = Inr v \<longrightarrow> v = (t, reg_TokenExpiresAt reg))))"
proof -
  have "runs (case r of
       Inl err \<Rightarrow> ret (Inl err)
     | Inr gc \<Rightarrow> do { v \<leftarrow> gl_VerifyToken gc t;
           case v of Inl err \<Rightarrow> ret (Inl (err_wrap (''cannot verify token for runner '' @ quote (reg_Name reg)) err))
           | Inr valid \<Rightarrow> (if \<not> valid then recreateManagedRunner E (managed_client E None reg ca) reg t h
                          else ret (Inr (t, reg_TokenExpiresAt reg))) }) w1
     (\<lambda>r es2 w2. (\<exists>e \<in> set (es1 @ es2). rejected t e) \<or>
        ((\<forall>e \<in> set (es1 @ es2). \<not> replaces e) \<and> obj w2 = obj w \<and>
         (\<forall>v. r = Inr v \<longrightarrow> v = (t, reg_TokenExpiresAt reg))))"
    if 1: "(\<forall>e \<in> set es1. secret_read e) \<and> obj w1 = obj w \<and> production_result E r" for r es1 and w1 :: world
  proof (cases r)
    case (Inl e)
    with 1 show ?thesis by (auto intro!: runs_return simp: not_replaces)
  next
    case (Inr gc)
    with 1 obtain conn where gc: "gc = gitlabApi E conn" by (auto simp: production_result_def)
    from 1 show ?thesis
      unfolding Inr sum.case gc gitlabApi_fields gitlabApi_VerifyToken_def
      by (intro runs_rules; auto split: if_splits option.splits simp: not_replaces
            intro!: runs_any [OF persisted_recreate])
  qed
  note step = this
  show ?thesis
    unfolding verifyManagedRunner_def if_not_P [OF assms]
    by (rule runs_bind, rule runs_conseq [OF runs_managed_client], rule step)
qed

text \<open>When the options are unchanged, the token is known and far from its end, that is the path taken.\<close>

definition token_fresh :: "env \<Rightarrow> GitlabRegInfo \<Rightarrow> bool" where
  "token_fresh E reg =
     (\<forall>t tr. reg_TokenExpiresAt reg = Some t \<longrightarrow> tokenRefreshThreshold \<le> time_sub t (clock E tr))"

lemma steady_leaves_alone:
  assumes "reg_RunnerID reg \<noteq> 0"
    and "reg_RegistrationHash reg = RunnerCreateOptions_Hash (auth_CreateOptions (reg_Auth reg))"
    and "t \<noteq> ''''" and "token_fresh E reg"
  shows "runs (ensureManagedRunner E None reg t ca) w
     (\<lambda>r es w'. (\<exists>e \<in> set es. rejected t e) \<or>
        ((\<forall>e \<in> set es. \<not> replaces e) \<and> obj w' = obj w \<and>
         (\<forall>v. r = Inr v \<longrightarrow> v = (t, reg_TokenExpiresAt reg))))"
proof (cases "reg_TokenExpiresAt reg")
  case None
  with assms verify_leaves_alone [OF assms(3), of E reg ca] show ?thesis
    by (simp add: ensureManagedRunner_def)
next
  case (Some exp)
  with assms(4) have "\<not> time_sub exp (clock E tr) < tokenRefreshThreshold" for tr
    by (auto simp: token_fresh_def not_less)
  with Some assms(1,2) show ?thesis
    unfolding ensureManagedRunner_def Until_def Now_def Let_def
    by simp
       (intro runs_bind runs_issue runs_return, simp,
        rule runs_conseq [OF verify_leaves_alone [OF assms(3)]], auto)
qed

section \<open>Tokens and the next pass\<close>

lemma resyncAfter_bounds:
  "runs (resyncAfter E s) w (\<lambda>r es w'. (s = None \<longrightarrow> r = 0 \<and> es = []) \<and>
     (s \<noteq> None \<longrightarrow> minute \<le> r \<and> r \<le> hour))"
  unfolding resyncAfter_def Until_def Now_def
  by (intro runs_rules)
     (auto simp: clamp_resync_def Let_def minResyncInterval_def maxResyncInterval_def duration_defs)

section \<open>At most one creation per unit\<close>

definition creates :: "event list \<Rightarrow> nat" where
  "creates es = length (filter gitlab_create es)"

lemma creates_simps [simp]:
  "creates [] = 0" "creates (e # es) = (if gitlab_create e then Suc (creates es) else creates es)"
  "creates (es @ fs) = creates es + creates fs"
  by (simp_all add: creates_def)

definition budget :: "nat \<Rightarrow> 'a go \<Rightarrow> bool" where
  "budget n m = (\<forall>w. runs m w (\<lambda>r es w'. creates es \<le> n))"

lemma budget_none: "emits P m \<Longrightarrow> (\<And>e. P e \<Longrightarrow> \<not> gitlab_create e) \<Longrightarrow> budget 0 m"
  unfolding budget_def creates_def
  by (auto simp: filter_empty_conv dest: emitsD intro: runs_conseq)

lemma budget_bind_result:
  assumes m: "\<And>w. runs m w (\<lambda>r es w'. creates es \<le> a \<and> R r)" and f: "\<And>x. R x \<Longrightarrow> budget b (f x)"
  shows "budget (a + b) (State_Monad.bind m f)"
  unfolding budget_def
proof (intro allI runs_bind, rule runs_conseq [OF m])
  fix x es1 and w1 :: world
  assume 1: "creates es1 \<le> a \<and> R x"
  then have "runs (f x) w1 (\<lambda>y es2 w2. creates es2 \<le> b)" using f by (simp add: budget_def)
  then show "runs (f x) w1 (\<lambda>y es2 w2. creates (es1 @ es2) \<le> a + b)"
    by (rule runs_conseq) (use 1 in simp)
qed

lemma budget_bind: "budget a m \<Longrightarrow> (\<And>x. budget b (f x)) \<Longrightarrow> budget (a + b) (State_Monad.bind m f)"
  by (rule budget_bind_result [where R = unrestricted]) (auto simp: budget_def)

lemma budget_seq: "budget 0 m \<Longrightarrow> (\<And>x. budget n (f x)) \<Longrightarrow> budget n (State_Monad.bind m f)"
  using budget_bind [of 0 m n f] by simp

lemma budget_return: "budget n (ret x)"
  by (auto simp: budget_def intro!: runs_return)

lemma budget_cases:
  "(c \<Longrightarrow> budget n m) \<Longrightarrow> (\<not> c \<Longrightarrow> budget n m') \<Longrightarrow> budget n (if c then m else m')"
  "(\<And>e. x = Inl e \<Longrightarrow> budget n (f e)) \<Longrightarrow> (\<And>v. x = Inr v \<Longrightarrow> budget n (g v)) \<Longrightarrow>
     budget n (case x of Inl e \<Rightarrow> f e | Inr v \<Rightarrow> g v)"
  "(y = None \<Longrightarrow> budget n m) \<Longrightarrow> (\<And>z. y = Some z \<Longrightarrow> budget n (h z)) \<Longrightarrow>
     budget n (case y of None \<Rightarrow> m | Some z \<Rightarrow> h z)"
  "(\<And>i j. p = (i, j) \<Longrightarrow> budget n (k i j)) \<Longrightarrow> budget n (case p of (i, j) \<Rightarrow> k i j)"
  by (simp_all split: sum.split option.split prod.split)

lemmas budget_rules = budget_return budget_cases

lemma budget_client:
  assumes "\<And>e. budget n (f (Inl e))" and "\<And>conn. budget n (f (Inr (gitlabApi E conn)))"
  shows "budget n (State_Monad.bind (managed_client E None reg ca) f)"
proof -
  have "budget (0 + n) (State_Monad.bind (managed_client E None reg ca) f)"
  proof (rule budget_bind_result [where R = "production_result E"])
    show "runs (managed_client E None reg ca) w (\<lambda>r es w'. creates es \<le> 0 \<and> production_result E r)" for w
      by (rule runs_conseq [OF runs_managed_client]) (auto simp: creates_def filter_empty_conv not_create)
    show "budget n (f r)" if "production_result E r" for r
      using that assms by (cases r) (auto simp: production_result_def)
  qed
  then show ?thesis by simp
qed

lemma budget_create: "budget (Suc 0) (create_and_persist E (gitlabApi E conn) reg h verb)"
  unfolding budget_def create_and_persist_def gitlabApi_fields gitlabApi_CreateRunner_def
    persistRunner_def UpdateStatusObj_def Let_def
  by (intro allI runs_rules; simp)

lemma budget_delete_stale: "budget 0 (delete_stale (gitlabApi E conn) reg t)"
  unfolding budget_def
  by (intro allI runs_conseq [OF runs_delete_stale]) (auto simp: quiet_def creates_def filter_empty_conv)

lemma budget_recreate: "budget (Suc 0) (recreateManagedRunner E (managed_client E None reg ca) reg t h)"
  unfolding recreateManagedRunner_def
  by (rule budget_client; unfold sum.case)
     (intro budget_rules budget_seq budget_delete_stale budget_create)+

lemma budget_VerifyToken: "budget 0 (gl_VerifyToken (gitlabApi E conn) t)"
  by (rule budget_none [OF production.verify_emits]) simp

lemma budget_verify: "budget (Suc 0) (verifyManagedRunner E (managed_client E None reg ca) reg t h)"
  unfolding verifyManagedRunner_def
  by (intro budget_cases(1) budget_recreate budget_client; unfold sum.case)
     (intro budget_rules budget_seq [OF budget_VerifyToken] budget_recreate)+

lemma budget_Until: "budget 0 (Until E s)"
  unfolding Until_def Now_def budget_def by (intro allI runs_rules; simp)

lemma budget_ensureManagedRunner: "budget (Suc 0) (ensureManagedRunner E None reg t ca)"
  unfolding ensureManagedRunner_def Let_def
  by (intro budget_cases(1,3) budget_recreate budget_verify budget_seq [OF budget_Until] budget_client;
      unfold sum.case)
     (intro budget_return budget_create)+

definition managed_units :: "GitlabRegInfo list \<Rightarrow> nat" where
  "managed_units regs = length (filter (\<lambda>g. IsManaged (Some (reg_Auth g))) regs)"

lemma budget_ensure_units: "budget (managed_units regs) (ensure_units E None ns ex ca regs toks s)"
proof (induction regs arbitrary: toks s)
  case Nil
  show ?case by (simp add: budget_return)
next
  case (Cons reg regs)
  have "budget (managed_units [reg]) (ensure_unit E None ns ex ca reg)"
  proof (cases "IsManaged (Some (reg_Auth reg))")
    case True
    then show ?thesis
      unfolding ensure_unit_def by (simp add: managed_units_def budget_ensureManagedRunner)
  next
    case False
    then show ?thesis
      unfolding ensure_unit_def
      by (simp only: not_False_eq_True if_True)
         (rule budget_seq [OF budget_none [OF emits_resolveTokenSource]], auto simp: not_create intro: budget_return)
  qed
  moreover have "managed_units (reg # regs) = managed_units [reg] + managed_units regs"
    by (simp add: managed_units_def)
  ultimately show ?case
    unfolding ensure_units.simps by (simp only:) (intro budget_bind budget_rules Cons.IH)
qed

lemma ensureRunners_creates:
  "runs (ensureRunners E None ca) w (\<lambda>r es w'. creates es \<le> managed_units (RegistrationConfig (obj w)))"
proof -
  have u: "budget 0 (resyncAfter E s)" for s
    unfolding resyncAfter_def by (intro budget_rules budget_seq [OF budget_Until])
  have tail: "budget n (State_Monad.bind m (\<lambda>r. case r of Inl err \<Rightarrow> ret (Inl err)
        | Inr (tokens, soonest) \<Rightarrow> do { d \<leftarrow> resyncAfter E soonest; ret (Inr (Some tokens, d)) }))"
    if "budget n m" for n and m :: "(goerr + (string, string) fmap \<times> time option) go"
  proof -
    have "budget (n + 0) (State_Monad.bind m (\<lambda>r. case r of Inl err \<Rightarrow> ret (Inl err)
        | Inr (tokens, soonest) \<Rightarrow> do { d \<leftarrow> resyncAfter E soonest; ret (Inr (Some tokens, d)) }))"
      by (intro budget_bind [OF that] budget_rules budget_seq [OF u])
    then show ?thesis by simp
  qed
  have "budget (managed_units regs) (State_Monad.bind (ExistingConfigTokens E ns n) (\<lambda>ex. case ex of
      Inl err \<Rightarrow> ret (Inl (err_wrap ''cannot read existing config secret'' err))
    | Inr existing \<Rightarrow> do { r \<leftarrow> ensure_units E None ns existing ca regs fmempty None;
        case r of Inl err \<Rightarrow> ret (Inl err)
        | Inr (tokens, soonest) \<Rightarrow> do { d \<leftarrow> resyncAfter E soonest; ret (Inr (Some tokens, d)) } }))"
    for ns n regs
    by (intro budget_seq budget_none [OF emits_ExistingConfigTokens] budget_rules tail budget_ensure_units)
       (rule not_create)
  note main = this [unfolded budget_def, rule_format]
  show ?thesis
    unfolding ensureRunners_def Let_def
    by (rule runs_bind, rule runs_get_obj, unfold append_Nil, rule main)
qed

section \<open>No empty token\<close>

text \<open>
  GitLab may answer a creation with an empty token, which the code stores as it is; that apart, no
  unit of a successful authentication is left with an empty one.
\<close>

definition blank_creation :: "event \<Rightarrow> bool" where
  "blank_creation e = (\<exists>g opts s. e = SdkCreateUserRunner g opts (Inr s) \<and> sdkr_Token s = '''')"

definition tokened :: "(goerr + token_expiry) go \<Rightarrow> bool" where
  "tokened m = (\<forall>w. runs m w (\<lambda>r es w'. \<forall>t e. r = Inr (t, e) \<longrightarrow> t \<noteq> '''' \<or> (\<exists>e \<in> set es. blank_creation e)))"

lemma tokened_return: "(\<And>t e. r = Inr (t, e) \<Longrightarrow> t \<noteq> '''') \<Longrightarrow> tokened (ret r)"
  by (auto simp: tokened_def intro!: runs_return)

lemma tokened_bind_result:
  assumes m: "\<And>w. runs m w (\<lambda>r es w'. R r)" and f: "\<And>x. R x \<Longrightarrow> tokened (f x)"
  shows "tokened (State_Monad.bind m f)"
  unfolding tokened_def
proof (intro allI runs_bind, rule runs_conseq [OF m])
  fix x es1 and w1 :: world
  assume "R x"
  then have "tokened (f x)" by (rule f)
  then show "runs (f x) w1 (\<lambda>y es2 w2. \<forall>t e. y = Inr (t, e) \<longrightarrow> t \<noteq> '''' \<or> (\<exists>e \<in> set (es1 @ es2). blank_creation e))"
    unfolding tokened_def by (elim allE [of _ w1] runs_conseq) auto
qed

lemma runs_unrestricted: "runs m w (\<lambda>r es w'. unrestricted r)" if "emits P m" for m :: "'a go"
  by (rule runs_conseq [OF emitsD [OF that]]) simp

lemma tokened_bind: "emits P m \<Longrightarrow> (\<And>x. tokened (f x)) \<Longrightarrow> tokened (State_Monad.bind m f)"
  by (rule tokened_bind_result [where R = unrestricted]) (rule runs_unrestricted)

lemma tokened_cases:
  "(c \<Longrightarrow> tokened m) \<Longrightarrow> (\<not> c \<Longrightarrow> tokened m') \<Longrightarrow> tokened (if c then m else m')"
  "(\<And>e. x = Inl e \<Longrightarrow> tokened (f e)) \<Longrightarrow> (\<And>v. x = Inr v \<Longrightarrow> tokened (g v)) \<Longrightarrow>
     tokened (case x of Inl e \<Rightarrow> f e | Inr v \<Rightarrow> g v)"
  "(y = None \<Longrightarrow> tokened m) \<Longrightarrow> (\<And>z. y = Some z \<Longrightarrow> tokened (h z)) \<Longrightarrow>
     tokened (case y of None \<Rightarrow> m | Some z \<Rightarrow> h z)"
  by (simp_all split: sum.split option.split)

lemma tokened_client:
  assumes "\<And>e. tokened (f (Inl e))" and "\<And>conn. tokened (f (Inr (gitlabApi E conn)))"
  shows "tokened (State_Monad.bind (managed_client E None reg ca) f)"
proof (rule tokened_bind_result [where R = "production_result E"])
  show "runs (managed_client E None reg ca) w (\<lambda>r es w'. production_result E r)" for w
    by (rule runs_conseq [OF runs_managed_client]) simp
  show "tokened (f r)" if "production_result E r" for r
    using that assms by (cases r) (auto simp: production_result_def)
qed

lemma tokened_create: "tokened (create_and_persist E (gitlabApi E conn) reg h verb)"
  unfolding tokened_def create_and_persist_def gitlabApi_fields gitlabApi_CreateRunner_def
    persistRunner_def UpdateStatusObj_def Let_def
  by (intro allI runs_rules) (auto simp: blank_creation_def split: sum.splits option.splits)

lemma tokened_recreate: "tokened (recreateManagedRunner E (managed_client E None reg ca) reg t h)"
proof -
  have del: "runs (delete_stale (gitlabApi E conn) reg t) w (\<lambda>r es w'. unrestricted r)" for conn w
    by (rule runs_conseq [OF runs_delete_stale]) simp
  show ?thesis
    unfolding recreateManagedRunner_def
    by (rule tokened_client; unfold sum.case)
       (auto intro!: tokened_return tokened_bind_result [OF del] tokened_create split: option.split)
qed

lemma tokened_verify: "tokened (verifyManagedRunner E (managed_client E None reg ca) reg t h)"
proof (cases "t = ''''")
  case True
  then show ?thesis by (simp add: verifyManagedRunner_def tokened_recreate)
next
  case False
  show ?thesis
    unfolding verifyManagedRunner_def if_not_P [OF False]
    apply (rule tokened_client; unfold sum.case)
     apply (rule tokened_return, simp)
    apply (rule tokened_bind [OF production.verify_emits])
    apply (intro tokened_cases tokened_recreate tokened_return)
    apply (use False in simp_all)
    done
qed

lemma tokened_ensureManagedRunner: "tokened (ensureManagedRunner E None reg t ca)"
proof -
  have u: "runs (Until E s) w (\<lambda>r es w'. unrestricted r)" for s w
    unfolding Until_def Now_def by (intro runs_rules; simp)
  show ?thesis
    unfolding ensureManagedRunner_def Let_def
    by (intro tokened_cases(1,3) tokened_recreate tokened_verify tokened_bind_result [OF u] tokened_client;
        unfold sum.case)
       (auto intro!: tokened_return tokened_create)
qed

lemma tokened_ensure_unit: "tokened (ensure_unit E None ns ex ca reg)"
proof (cases "IsManaged (Some (reg_Auth reg))")
  case True
  then show ?thesis unfolding ensure_unit_def by (simp add: tokened_ensureManagedRunner)
next
  case False
  then show ?thesis
    unfolding ensure_unit_def
    by (simp only: not_False_eq_True if_True)
       (rule tokened_bind [OF emits_resolveTokenSource], auto intro!: tokened_return split: sum.splits if_splits)
qed

lemma ensure_units_tokens:
  "runs (ensure_units E None ns ex ca regs toks s) w
     (\<lambda>r es w'. \<forall>toks' s'. r = Inr (toks', s') \<longrightarrow>
        fmdom' toks' = fmdom' toks \<union> reg_Name ` set regs \<and>
        (\<forall>n. fmlookup toks' n = Some '''' \<longrightarrow> fmlookup toks n = Some '''' \<or> (\<exists>e \<in> set es. blank_creation e)))"
proof (induction regs arbitrary: toks s w)
  case Nil
  show ?case by (auto intro!: runs_return)
next
  case (Cons reg regs)
  show ?case
    unfolding ensure_units.simps
    by (rule runs_bind, rule runs_conseq [OF tokened_ensure_unit [unfolded tokened_def, rule_format]],
        intro runs_case_sum runs_case_prod)
       (auto intro!: runs_return runs_conseq [OF Cons.IH] split: if_splits)
qed

lemma runs_ensureRunners_result:
  "runs (ensureRunners E None ca) w
     (\<lambda>r es w'. \<forall>tokens d. r = Inr (tokens, d) \<longrightarrow>
        (\<exists>f. tokens = Some f \<and> fmdom' f = reg_Name ` set (RegistrationConfig (obj w)) \<and>
           ((\<exists>n. fmlookup f n = Some '''') \<longrightarrow> (\<exists>e \<in> set es. blank_creation e))) \<and>
        (d = 0 \<or> (minute \<le> d \<and> d \<le> hour)))"
proof -
  have tail: "runs (do { d \<leftarrow> resyncAfter E s; ret (Inr (Some f, d)) }) w1
      (\<lambda>r es w'. \<forall>tokens d. r = Inr (tokens, d) \<longrightarrow> tokens = Some f \<and> (d = 0 \<or> (minute \<le> d \<and> d \<le> hour)))"
    for s f w1
    by (rule runs_bind, rule runs_conseq [OF resyncAfter_bounds], rule runs_return) auto
  have units: "runs (do { r \<leftarrow> ensure_units E None ns existing ca regs fmempty None;
        case r of Inl err \<Rightarrow> ret (Inl err)
        | Inr (tokens, soonest) \<Rightarrow> do { d \<leftarrow> resyncAfter E soonest; ret (Inr (Some tokens, d)) } }) w1
      (\<lambda>r es w'. \<forall>tokens d. r = Inr (tokens, d) \<longrightarrow>
         (\<exists>f. tokens = Some f \<and> fmdom' f = reg_Name ` set regs \<and>
            ((\<exists>n. fmlookup f n = Some '''') \<longrightarrow> (\<exists>e \<in> set es. blank_creation e))) \<and>
         (d = 0 \<or> (minute \<le> d \<and> d \<le> hour)))"
    for ns existing regs w1
    by (rule runs_bind, rule runs_conseq [OF ensure_units_tokens], rule runs_case_sum, rule runs_return, simp,
        rule runs_case_prod, rule runs_conseq [OF tail], auto)
  show ?thesis
    unfolding ensureRunners_def Let_def
    by (rule runs_bind, rule runs_get_obj, rule runs_bind,
        rule runs_conseq [OF emitsD [OF emits_ExistingConfigTokens]], rule runs_case_sum, rule runs_return, simp,
        rule runs_conseq [OF units], fastforce)
qed

end
