(* ===== verification/Finalize_Facts.thy ===== *)
theory Finalize_Facts
  imports Finalize Auth_Facts
begin

text \<open>
  What finalization guarantees: only the manager's own Deployment and pods are deleted, nothing
  else happens before the manager has drained, every managed runner is deleted from GitLab
  before the finalizer goes, and the number of failed attempts is bounded.
\<close>

section \<open>Draining\<close>

lemma isManagerPod_iff:
  "isManagerPod pod d \<longleftrightarrow>
     (\<exists>ref \<in> set (om_OwnerReferences (pod_Meta pod)).
        or_Kind ref = ''ReplicaSet'' \<and> has_prefix (or_Name ref) (d @ ''-''))"
proof -
  have "isManagerPod_refs refs d \<longleftrightarrow>
      (\<exists>ref \<in> set refs. or_Kind ref = ''ReplicaSet'' \<and> has_prefix (or_Name ref) (d @ ''-''))" for refs
    by (induction refs) auto
  then show ?thesis by (simp add: isManagerPod_def)
qed

text \<open>What the loop over the pods counts.\<close>

definition managers :: "string \<Rightarrow> Pod list \<Rightarrow> Pod list" where
  "managers d pods = filter (\<lambda>p. isManagerPod p d) pods"

definition stop_time :: "Pod \<Rightarrow> time option" where
  "stop_time p = om_DeletionTimestamp (pod_Meta p)"

fun pod_deletion :: "Pod \<Rightarrow> event \<Rightarrow> bool" where
  "pod_deletion p (DeletePod k r) = (k = meta_key (pod_Meta p))"
| "pod_deletion p e = False"

lemma managers_simps [simp]:
  "managers d [] = []"
  "managers d (p # ps) = (if isManagerPod p d then p # managers d ps else managers d ps)"
  by (simp_all add: managers_def)

lemma emits_drain_pods:
  "emits (\<lambda>e. \<exists>p \<in> set (managers d pods). stop_time p = None \<and> pod_deletion p e) (drain_pods E d pods c)"
proof (induction pods arbitrary: c)
  case Nil
  show ?case by (simp add: emits_return)
next
  case (Cons p pods)
  have IH: "emits (\<lambda>e. \<exists>q \<in> set (managers d (p # pods)). stop_time q = None \<and> pod_deletion q e) (drain_pods E d pods c)" for c
    by (rule emits_mono [OF Cons.IH]) auto
  show ?case
    unfolding drain_pods.simps cl_DeletePod_def
    by (intro emits_rules IH; simp add: stop_time_def)
qed

lemma keeps_drain_pods: "keeps_obj (drain_pods E d pods c)"
proof (induction pods arbitrary: c)
  case Nil
  show ?case by (simp add: keeps_return)
next
  case (Cons p pods)
  show ?case
    unfolding drain_pods.simps cl_DeletePod_def by (intro keeps_rules Cons.IH)
qed

text \<open>The longest deadline of the terminating manager pods.\<close>

fun last_stop :: "time \<Rightarrow> Pod list \<Rightarrow> time" where
  "last_stop t [] = t"
| "last_stop t (p # ps) = last_stop (case stop_time p of None \<Rightarrow> t | Some s \<Rightarrow> if t < s then s else t) ps"

lemma last_stop_upper: "t \<le> last_stop t ps \<and> (\<forall>p \<in> set ps. \<forall>s. stop_time p = Some s \<longrightarrow> s \<le> last_stop t ps)"
proof (induction ps arbitrary: t)
  case (Cons p ps)
  show ?case
    using Cons [of "case stop_time p of None \<Rightarrow> t | Some s \<Rightarrow> if t < s then s else t"] by (auto split: option.splits if_splits)
qed simp

lemma last_stop_attained: "last_stop t ps = t \<or> (\<exists>p \<in> set ps. stop_time p = Some (last_stop t ps))"
proof (induction ps arbitrary: t)
  case (Cons p ps)
  show ?case
    using Cons [of "case stop_time p of None \<Rightarrow> t | Some s \<Rightarrow> if t < s then s else t"]
    by (auto split: option.splits if_splits)
qed simp

definition counted :: "string \<Rightarrow> Pod list \<Rightarrow> drain_count \<Rightarrow> drain_count \<Rightarrow> bool" where
  "counted d pods c c' =
     (dc_remaining c' = dc_remaining c + int (length (managers d pods)) \<and>
      dc_pending c' = dc_pending c + int (length (filter (\<lambda>p. stop_time p = None) (managers d pods))) \<and>
      dc_deadline c' = last_stop (dc_deadline c) (managers d pods))"

definition right_count :: "string \<Rightarrow> Pod list \<Rightarrow> drain_count \<Rightarrow> goerr + drain_count \<Rightarrow> bool" where
  "right_count d pods c r = (case r of Inl e \<Rightarrow> True | Inr c' \<Rightarrow> counted d pods c c')"

lemma counted_step:
  assumes "isManagerPod p d"
  shows "stop_time p = Some t \<Longrightarrow>
      counted d pods (c\<lparr>dc_remaining := dc_remaining c + 1,
        dc_deadline := (if dc_deadline c < t then t else dc_deadline c)\<rparr>) c' \<Longrightarrow> counted d (p # pods) c c'"
    and "stop_time p = None \<Longrightarrow>
      counted d pods (c\<lparr>dc_remaining := dc_remaining c + 1, dc_pending := dc_pending c + 1\<rparr>) c' \<Longrightarrow>
      counted d (p # pods) c c'"
  using assms by (simp_all add: counted_def)

lemma runs_drain_pods: "runs (drain_pods E d pods c) w (\<lambda>r es w'. right_count d pods c r)"
proof (induction pods arbitrary: c w)
  case Nil
  show ?case by (auto intro!: runs_return simp: right_count_def counted_def)
next
  case (Cons p pods)
  have step: "runs (drain_pods E d pods c1) w (\<lambda>r es w'. right_count d (p # pods) c r)"
    if "\<And>c'. counted d pods c1 c' \<Longrightarrow> counted d (p # pods) c c'" for c1 w
    by (rule runs_conseq [OF Cons.IH]) (use that in \<open>auto simp: right_count_def split: sum.splits\<close>)
  show ?case
  proof (cases "isManagerPod p d")
    case False
    then show ?thesis by simp (rule step, simp add: counted_def)
  next
    case True
    show ?thesis
    proof (cases "stop_time p")
      case (Some t)
      with True show ?thesis
        unfolding drain_pods.simps stop_time_def
        by (simp only: not_True_eq_False if_False option.case)
           (intro step counted_step(1); simp add: stop_time_def)
    next
      case None
      with True show ?thesis
        unfolding drain_pods.simps stop_time_def cl_DeletePod_def
        by (simp only: not_True_eq_False if_False option.case)
           (intro runs_bind runs_issue runs_case_option runs_return step counted_step(2);
            simp add: stop_time_def right_count_def)
    qed
  qed
qed

text \<open>Drained: no manager pod is left, or all of them are past their deadline by the margin.\<close>

definition drained_spec :: "string \<Rightarrow> Pod list \<Rightarrow> time \<Rightarrow> bool" where
  "drained_spec d pods now =
     (managers d pods = [] \<or>
      ((\<forall>p \<in> set (managers d pods). stop_time p \<noteq> None) \<and>
       last_stop zero_time (managers d pods) + drainMargin < now))"

definition no_pods :: drain_count where
  "no_pods = \<lparr>dc_remaining = 0, dc_pending = 0, dc_deadline = zero_time\<rparr>"

lemma drained_at_spec: "counted d pods no_pods c \<Longrightarrow> drained_at c now = drained_spec d pods now"
  by (auto simp: counted_def no_pods_def drained_at_def drained_spec_def filter_empty_conv)

fun drain_call :: "RunnerInfo \<Rightarrow> event \<Rightarrow> bool" where
  "drain_call x (DeleteDeployment k r) = (k = nsname (GetNamespace x) (ChildName x))"
| "drain_call x (ListPods rd ns sel r) = (ns = GetNamespace x \<and> sel = ManagerPodLabels x)"
| "drain_call x (DeletePod k r) = True"
| "drain_call x e = False"

lemma map_sum_Inr: "map_sum id f r = Inr b \<longleftrightarrow> (\<exists>c. r = Inr c \<and> f c = b)"
  by (cases r) auto

lemma runs_drainManager:
  "runs (drainManager E x now) w
     (\<lambda>r es w'. obj w' = obj w \<and>
        (\<exists>a. es = [DeleteDeployment (nsname (GetNamespace x) (ChildName x)) a] \<and> (\<exists>e. r = Inl e)
         \<or> (\<exists>ans dels. es = DeleteDeployment (nsname (GetNamespace x) (ChildName x)) a #
                 ListPods Uncached (GetNamespace x) (ManagerPodLabels x) ans # dels \<and>
              (case ans of
                 Inl e \<Rightarrow> r = Inl e \<and> dels = []
               | Inr pods \<Rightarrow>
                   (\<forall>e \<in> set dels. \<exists>p \<in> set (managers (ChildName x) pods). stop_time p = None \<and> pod_deletion p e) \<and>
                   (\<forall>b. r = Inr b \<longrightarrow> b = drained_spec (ChildName x) pods now)))))"
proof -
  have loop: "runs (drain_pods E (ChildName x) pods \<lparr>dc_remaining = 0, dc_pending = 0, dc_deadline = zero_time\<rparr>) w
      (\<lambda>r es w'. (\<forall>e \<in> set es. \<exists>p \<in> set (managers (ChildName x) pods). stop_time p = None \<and> pod_deletion p e) \<and>
         obj w' = obj w \<and> (\<forall>c. r = Inr c \<longrightarrow> drained_at c now = drained_spec (ChildName x) pods now))" for pods w
    by (rule runs_conseq [OF runs_conj [OF runs_keeps [OF keeps_drain_pods emitsD [OF emits_drain_pods]] runs_drain_pods]])
       (auto simp: right_count_def drained_at_spec no_pods_def [symmetric])
  show ?thesis
    unfolding drainManager_def cl_DeleteDeployment_def cl_ListPods_def
    by (intro runs_bind runs_issue runs_case_option runs_case_sum runs_return runs_conseq [OF loop];
        auto simp: map_sum_Inr split: sum.splits)
qed

section \<open>Deleting the managed runners\<close>

fun removal_call :: "event \<Rightarrow> bool" where
  "removal_call (GetSecret rd k r) = True"
| "removal_call (SdkDeleteRegisteredRunner g t r) = True"
| "removal_call (SdkRemoveRunner g i r) = True"
| "removal_call e = False"

lemma removal_call_weaken: "secret_read e \<Longrightarrow> removal_call e" "gitlab_delete e \<Longrightarrow> removal_call e"
  by (cases e; simp)+

lemma emits_removal: "emits secret_read m \<Longrightarrow> emits removal_call m" "emits gitlab_delete n \<Longrightarrow> emits removal_call n"
  by (auto elim: emits_mono simp: removal_call_weaken)

text \<open>\<open>settled m w Q\<close>: the calls of \<open>m\<close> are those of a removal, the object stays, and \<open>Q\<close> holds.\<close>

definition removal :: "goerr option go \<Rightarrow> world \<Rightarrow> (event \<Rightarrow> bool) \<Rightarrow> bool" where
  "removal m w P = runs m w (\<lambda>r es w'. obj w' = obj w \<and> (\<forall>e \<in> set es. removal_call e) \<and>
     (r = None \<longrightarrow> (\<exists>e \<in> set es. P e)))"

lemma runs_secret_read:
  "emits secret_read m \<Longrightarrow> keeps_obj m \<Longrightarrow> runs m w (\<lambda>r es w'. obj w' = obj w \<and> (\<forall>e \<in> set es. removal_call e))"
  by (rule runs_conseq [OF runs_keeps [OF _ emitsD]]) (auto simp: removal_call_weaken)

definition from_api :: "env \<Rightarrow> goerr + GitlabClient \<Rightarrow> bool" where
  "from_api E r = (\<forall>gc. r = Inr gc \<longrightarrow> (\<exists>conn. gc = gitlabApi E conn))"

lemma from_api_New: "from_api E (NewGitlabClient E t u ca)"
  by (auto simp: from_api_def dest: NewGitlabClient_ok)

lemma runs_by_id_client:
  "runs (by_id_client E None ns reg ca) w
     (\<lambda>r es w'. obj w' = obj w \<and> (\<forall>e \<in> set es. removal_call e) \<and> from_api E r)"
  unfolding by_id_client_def option.case
  by (rule runs_bind, rule runs_conseq [OF runs_secret_read [OF emits_resolveTokenSource keeps_resolveTokenSource]])
     (auto intro!: runs_return from_api_New simp: from_api_def [of _ "Inl _"] split: sum.split)

lemma removal_by_id: "removal (delete_by_id E None ns reg ca) w (stale_deleted t (reg_RunnerID reg))"
  unfolding removal_def delete_by_id_def
proof (rule runs_bind, rule runs_conseq [OF runs_by_id_client], elim conjE, rule runs_case_sum)
  fix r es1 gc and w1 :: world
  assume 1: "obj w1 = obj w" "\<forall>e \<in> set es1. removal_call e" "from_api E r" "r = Inr gc"
  then obtain conn where "gc = gitlabApi E conn" by (auto simp: from_api_def)
  with 1 show "runs (do { err \<leftarrow> gl_DeleteRunnerByID gc (reg_RunnerID reg);
      ret (map_option (err_wrap (''runner '' @ quote (reg_Name reg) @ '': delete by id fallback failed'')) err) }) w1
    (\<lambda>r es2 w2. obj w2 = obj w \<and> (\<forall>e \<in> set (es1 @ es2). removal_call e) \<and>
       (r = None \<longrightarrow> (\<exists>e \<in> set (es1 @ es2). stale_deleted t (reg_RunnerID reg) e)))"
    by (simp add: gitlabApi_DeleteRunnerByID_def)
       (intro runs_rules; auto split: option.splits if_splits)
qed (auto intro!: runs_return)

lemma removal_unit: "removal (deleteManagedRunner E None ns reg t ca) w (stale_deleted t (reg_RunnerID reg))"
proof (cases "t = ''''")
  case True
  then show ?thesis by (simp add: deleteManagedRunner_def removal_by_id)
next
  case False
  show ?thesis
  proof (cases "NewGitlabClient E '''' (reg_GitlabUrl reg) ca")
    case (Inl e)
    with False show ?thesis
      by (auto simp: deleteManagedRunner_def removal_def intro!: runs_return)
  next
    case (Inr gc)
    then obtain conn where gc: "gc = gitlabApi E conn" by (auto dest: NewGitlabClient_ok)
    note fallback = removal_by_id [unfolded removal_def, of E ns reg ca _ t, THEN runs_conseq]
    from False Inr show ?thesis
      unfolding deleteManagedRunner_def removal_def gc gitlabApi_fields gitlabApi_DeleteRunner_def
      by (simp add: gitlabApi_DeleteRunner_def)
         (intro runs_bind runs_issue runs_case_prod runs_return runs_case_option;
          auto intro!: fallback split: option.splits if_splits)
  qed
qed

lemma remove_units_all:
  "runs (remove_units E None tokens ca regs first) w
     (\<lambda>r es w'. obj w' = obj w \<and> (\<forall>e \<in> set es. removal_call e) \<and>
        (r = None \<longrightarrow> first = None \<and>
           (\<forall>reg \<in> set regs. IsManaged (Some (reg_Auth reg)) \<longrightarrow> reg_RunnerID reg \<noteq> 0 \<longrightarrow>
              (\<exists>e \<in> set es. stale_deleted (map_get_or '''' tokens (reg_Name reg)) (reg_RunnerID reg) e))))"
proof (induction regs arbitrary: first w)
  case Nil
  show ?case by (auto intro!: runs_return)
next
  case (Cons reg regs)
  show ?case
  proof (cases "\<not> IsManaged (Some (reg_Auth reg)) \<or> reg_RunnerID reg = 0")
    case True
    then show ?thesis
      unfolding remove_units.simps if_P [OF True]
      by (intro runs_conseq [OF Cons.IH]) auto
  next
    case False
    let ?t = "map_get_or '''' tokens (reg_Name reg)"
    show ?thesis
      unfolding remove_units.simps if_not_P [OF False]
    proof (rule runs_bind, rule runs_get_obj, unfold append_Nil, rule runs_bind,
        rule runs_conseq [OF removal_unit [unfolded removal_def]])
      fix err :: "goerr option" and es1 and w1 :: world
      assume 1: "obj w1 = obj w \<and> (\<forall>e \<in> set es1. removal_call e) \<and>
        (err = None \<longrightarrow> (\<exists>e \<in> set es1. stale_deleted ?t (reg_RunnerID reg) e))"
      show "runs (remove_units E None tokens ca regs (case first of None \<Rightarrow> err | Some e \<Rightarrow> Some e)) w1
        (\<lambda>r es2 w2. obj w2 = obj w \<and> (\<forall>e \<in> set (es1 @ es2). removal_call e) \<and>
          (r = None \<longrightarrow> first = None \<and>
            (\<forall>reg \<in> set (reg # regs). IsManaged (Some (reg_Auth reg)) \<longrightarrow> reg_RunnerID reg \<noteq> 0 \<longrightarrow>
              (\<exists>e \<in> set (es1 @ es2). stale_deleted (map_get_or '''' tokens (reg_Name reg)) (reg_RunnerID reg) e))))"
        by (rule runs_conseq [OF Cons.IH]) (use 1 in \<open>fastforce split: option.splits\<close>)
    qed
  qed
qed

text \<open>Every managed unit that has a GitLab runner was deleted, by its recovered token or by id.\<close>

definition tokens_read :: "RunnerInfo \<Rightarrow> event list \<Rightarrow> string gomap \<Rightarrow> bool" where
  "tokens_read x es tokens =
     (\<exists>ans. GetSecret Cached (nsname (GetNamespace x) (ChildName x)) ans \<in> set es \<and>
        (case ans of Inl e \<Rightarrow> IsNotFound e \<and> tokens = Some fmempty
                   | Inr s \<Rightarrow> tokens = config_tokens (sec_Data s)))"

definition all_deleted :: "RunnerInfo \<Rightarrow> event list \<Rightarrow> bool" where
  "all_deleted x es =
     (\<exists>tokens. tokens_read x es tokens \<and>
        (\<forall>reg \<in> set (RegistrationConfig x). IsManaged (Some (reg_Auth reg)) \<longrightarrow> reg_RunnerID reg \<noteq> 0 \<longrightarrow>
           (\<exists>e \<in> set es. stale_deleted (map_get_or '''' tokens (reg_Name reg)) (reg_RunnerID reg) e)))"

lemma all_deleted_append: "all_deleted x es \<Longrightarrow> all_deleted x (pre @ es @ post)"
  unfolding all_deleted_def tokens_read_def by (auto; blast)

lemma runs_ExistingConfigTokens:
  "runs (ExistingConfigTokens E (GetNamespace x) (ChildName x)) w
     (\<lambda>r es w'. obj w' = obj w \<and> (\<forall>e \<in> set es. removal_call e) \<and>
        (\<forall>tokens. r = Inr tokens \<longrightarrow> tokens_read x es tokens))"
  unfolding ExistingConfigTokens_def cl_GetSecret_def
  by (intro runs_rules) (auto simp: tokens_read_def split: sum.splits if_splits)

lemma runs_ExistingConfigCA:
  "runs (ExistingConfigCA E ns n) w (\<lambda>r es w'. obj w' = obj w \<and> (\<forall>e \<in> set es. removal_call e))"
  unfolding ExistingConfigCA_def cl_GetSecret_def by (intro runs_rules; simp)

lemma runs_removeManagedRunners:
  "runs (removeManagedRunners E None) w
     (\<lambda>r es w'. obj w' = obj w \<and> (\<forall>e \<in> set es. removal_call e) \<and> (r = None \<longrightarrow> all_deleted (obj w) es))"
  unfolding removeManagedRunners_def
proof (rule runs_bind, rule runs_get_obj, unfold append_Nil, rule runs_bind,
    rule runs_conseq [OF runs_ExistingConfigTokens], rule runs_case_sum)
  fix t es1 tokens and w1 :: world
  assume 1: "obj w1 = obj w \<and> (\<forall>e \<in> set es1. removal_call e) \<and>
      (\<forall>tokens. t = Inr tokens \<longrightarrow> tokens_read (obj w) es1 tokens)" "t = Inr tokens"
  have "runs (remove_units E None tokens ca (RegistrationConfig (obj w)) None) w2
      (\<lambda>r es3 w3. obj w3 = obj w \<and> (\<forall>e \<in> set (es1 @ es2 @ es3). removal_call e) \<and>
         (r = None \<longrightarrow> all_deleted (obj w) (es1 @ es2 @ es3)))"
    if "obj w2 = obj w" "\<forall>e \<in> set es2. removal_call e" for ca es2 and w2 :: world
  proof (rule runs_conseq [OF remove_units_all])
    fix r es3 and w3 :: world
    assume *: "obj w3 = obj w2 \<and> (\<forall>e \<in> set es3. removal_call e) \<and> (r = None \<longrightarrow> None = None \<and>
      (\<forall>reg \<in> set (RegistrationConfig (obj w)). IsManaged (Some (reg_Auth reg)) \<longrightarrow> reg_RunnerID reg \<noteq> 0 \<longrightarrow>
        (\<exists>e \<in> set es3. stale_deleted (map_get_or '''' tokens (reg_Name reg)) (reg_RunnerID reg) e)))"
    have "tokens_read (obj w) (es1 @ es2 @ es3) tokens"
      using 1 by (auto simp: tokens_read_def)
    with * that 1 show "obj w3 = obj w \<and> (\<forall>e \<in> set (es1 @ es2 @ es3). removal_call e) \<and>
        (r = None \<longrightarrow> all_deleted (obj w) (es1 @ es2 @ es3))"
      unfolding all_deleted_def by (auto; blast)
  qed
  note units = this
  show "runs (do { c \<leftarrow> ExistingConfigCA E (GetNamespace (obj w)) (ChildName (obj w));
      case c of
        Inl err \<Rightarrow> ret (Some (err_wrap ''cannot read config secret to recover the CA bundle'' err))
      | Inr caPEM \<Rightarrow> remove_units E None tokens caPEM (RegistrationConfig (obj w)) None }) w1
     (\<lambda>r es2 w2. obj w2 = obj w \<and> (\<forall>e \<in> set (es1 @ es2). removal_call e) \<and>
        (r = None \<longrightarrow> all_deleted (obj w) (es1 @ es2)))"
    by (rule runs_bind, rule runs_conseq [OF runs_ExistingConfigCA], rule runs_case_sum)
       ((use 1 in \<open>auto intro!: runs_return\<close>)[1], rule units, use 1 in simp_all)
qed (auto intro!: runs_return)

section \<open>Attempts\<close>

lemma deleteAttempts_set: "in_int64 n \<Longrightarrow> deleteAttempts (setDeleteAttempts n x) = n"
  by (cases x) (simp_all add: deleteAttempts_def setDeleteAttempts_def SetAnnotations_def GetAnnotations_def atoi_itoa)

lemma deleteAttempts_range: "in_int64 (deleteAttempts x)"
  by (auto simp: deleteAttempts_def atoi_def in_int64_def int64_min_def int64_max_def Let_def
      split: option.splits list.splits if_splits)

text \<open>What \<open>strconv.Atoi\<close> reads as a number: an optional sign, then decimal digits and nothing else.\<close>

fun unsigned_part :: "string \<Rightarrow> string" where
  "unsigned_part [] = []"
| "unsigned_part (c # cs) = (if c = CHR ''-'' \<or> c = CHR ''+'' then cs else c # cs)"

definition numeral_text :: "string \<Rightarrow> bool" where
  "numeral_text v = (unsigned_part v \<noteq> [] \<and> (\<forall>c \<in> set (unsigned_part v). c \<in> set ''0123456789''))"

lemma digit_value_digit:
  assumes "digit_value c = Some d"
  shows "c \<in> set ''0123456789''"
proof -
  from assms have d: "0 \<le> d" "d < 10" and "of_char c = (48 + d :: int)"
    by (auto simp: digit_value_def Let_def split: if_splits)
  then have "c = digit_char d" unfolding digit_char_def by (metis char_of_char)
  moreover from d have "d = 0 \<or> d = 1 \<or> d = 2 \<or> d = 3 \<or> d = 4 \<or> d = 5 \<or> d = 6 \<or> d = 7 \<or> d = 8 \<or> d = 9"
    by arith
  ultimately show ?thesis by (elim disjE) (simp_all add: digit_char_def char_of_def)
qed

lemma read_digits_digits: "read_digits acc s = Some n \<Longrightarrow> \<forall>c \<in> set s. c \<in> set ''0123456789''"
proof (induction acc s rule: read_digits.induct)
  case (2 acc c cs)
  then show ?case using digit_value_digit [of c] by (auto split: option.splits)
qed simp

lemma atoi_numeral: "atoi v = Some n \<Longrightarrow> numeral_text v"
  by (cases v)
     (auto simp: atoi_def Let_def read_nat_def numeral_text_def dest!: read_digits_digits digit_value_digit
       split: option.splits if_splits)

lemma deleteAttempts_default:
  "map_get (GetAnnotations x) deleteAttemptsAnnotation = None \<Longrightarrow> deleteAttempts x = 0"
  "map_get (GetAnnotations x) deleteAttemptsAnnotation = Some v \<Longrightarrow> \<not> numeral_text v \<Longrightarrow> deleteAttempts x = 0"
  using atoi_numeral [of v] by (auto simp: deleteAttempts_def split: option.split)

lemma HasFinalizer_setDeleteAttempts [simp]:
  "HasFinalizer L (setDeleteAttempts n x) = HasFinalizer L x"
  by (cases x) (simp_all add: setDeleteAttempts_def SetAnnotations_def Runner_HasFinalizer_def MultiRunner_HasFinalizer_def)

lemma HasFinalizer_RemoveFinalizer: "finalizer_laws L \<Longrightarrow> \<not> HasFinalizer L (RemoveFinalizer L x)"
  by (cases x) (simp_all add: finalizer_laws_def Runner_HasFinalizer_def MultiRunner_HasFinalizer_def
    Runner_RemoveFinalizer_def MultiRunner_RemoveFinalizer_def)

section \<open>Dropping the finalizer\<close>

text \<open>The clean-up stops early only when the API server refuses a call.\<close>

fun refused :: "event \<Rightarrow> bool" where
  "refused (ListRoleBindings rd sel (Inl e)) = True"
| "refused (DeleteRoleBinding k (Some e)) = True"
| "refused e = False"

lemma runs_each_refused:
  assumes "\<And>x w. runs (f x) w (\<lambda>r es w'. r \<noteq> None \<longrightarrow> (\<exists>e \<in> set es. refused e))"
  shows "runs (each f xs) w (\<lambda>r es w'. r \<noteq> None \<longrightarrow> (\<exists>e \<in> set es. refused e))"
proof (induction xs arbitrary: w)
  case Nil
  show ?case by (auto intro!: runs_return)
next
  case (Cons x xs)
  show ?case
    unfolding each.simps
    by (rule runs_bind, rule runs_conseq [OF assms], rule runs_case_option)
       (auto intro!: runs_return runs_conseq [OF Cons.IH])
qed

lemma runs_prune_refused:
  "runs (DeleteRBACExcept E rd x keep) w (\<lambda>r es w'. r \<noteq> None \<longrightarrow> (\<exists>e \<in> set es. refused e))"
proof -
  have "runs (prune_item E K item) w (\<lambda>r es w'. r \<noteq> None \<longrightarrow> (\<exists>e \<in> set es. refused e))" for K item w
    unfolding prune_item_def call_defs
    by (intro runs_rules; auto simp: tolerate_def split: option.splits)
  from runs_each_refused [OF this] show ?thesis
    unfolding DeleteRBACExcept_def cl_ListRoleBindings_def Let_def
    by (intro runs_bind runs_issue runs_case_sum runs_return) (auto intro: runs_conseq)
qed

lemma runs_dropFinalizer:
  "runs (dropFinalizer E) w (\<lambda>r es w'. \<exists>cleanup tl. es = cleanup @ tl \<and>
     (\<forall>e \<in> set cleanup. rbac_call (\<lambda>b. False) e) \<and>
     (tl = [] \<and> snd r \<noteq> None \<and> (\<exists>e \<in> set cleanup. refused e) \<or>
      (\<exists>a. tl = [UpdateObject (RemoveFinalizer E (obj w)) a])))"
  unfolding dropFinalizer_def UpdateObj_def
proof (rule runs_bind, rule runs_get_obj, unfold append_Nil, rule runs_bind,
    rule runs_conseq [OF runs_conj [OF runs_keeps [OF keeps_DeleteRBACExcept emitsD [OF emits_DeleteRBACExcept]]
      runs_prune_refused]],
    rule runs_case_option)
  fix err es1 and w1 :: world
  assume "((\<forall>e \<in> set es1. rbac_call (\<lambda>b. False) e) \<and> obj w1 = obj w) \<and> (err \<noteq> None \<longrightarrow> (\<exists>e \<in> set es1. refused e))"
    "err = None"
  then show "runs (do { _ \<leftarrow> modify_obj (RemoveFinalizer E);
      err' \<leftarrow> do { x \<leftarrow> get_obj; r \<leftarrow> issue (ask_update E x) (UpdateObject x);
                  case r of Inl e \<Rightarrow> ret (Some e) | Inr y \<Rightarrow> do { _ \<leftarrow> modify_obj (\<lambda>_. y); ret None } };
      ret (case err' of Some e \<Rightarrow> (resultRequeueAfterDefaultTimeout, Some e)
                      | None \<Rightarrow> (resultRequeueNow, None)) }) w1
    (\<lambda>r es2 w2. \<exists>cleanup tl. es1 @ es2 = cleanup @ tl \<and>
       (\<forall>e \<in> set cleanup. rbac_call (\<lambda>b. False) e) \<and>
       (tl = [] \<and> snd r \<noteq> None \<and> (\<exists>e \<in> set cleanup. refused e) \<or>
        (\<exists>a. tl = [UpdateObject (RemoveFinalizer E (obj w)) a])))"
    by (intro runs_rules; auto)
qed (rule runs_return, rule exI, rule exI [of _ "[]"], auto)

section \<open>The whole finalization\<close>

text \<open>What follows the drain.\<close>

definition finish :: "env \<Rightarrow> (Result \<times> goerr option) go" where
  "finish E =
     do { rerr \<leftarrow> removeManagedRunners E None;
          case rerr of
            None \<Rightarrow> dropFinalizer E
          | Some err \<Rightarrow>
              do { y \<leftarrow> get_obj;
                   let attempts = wrap64 (deleteAttempts y + 1);
                   _ \<leftarrow> modify_obj (setDeleteAttempts attempts);
                   _ \<leftarrow> UpdateObj E;
                   if attempts < maxDeleteAttempts
                   then ret (resultRequeueAfterDefaultTimeout, Some err)
                   else dropFinalizer E } }"

lemma finalizeDeletion_phases:
  "finalizeDeletion E None =
     do { x \<leftarrow> get_obj;
          now \<leftarrow> Now E;
          d \<leftarrow> drainManager E x now;
          case d of
            Inl err \<Rightarrow> ret (resultRequeueAfterDefaultTimeout, Some err)
          | Inr drained \<Rightarrow>
              (if \<not> drained then ret (resultRequeueAfterDefaultTimeout, None) else finish E) }"
  unfolding finalizeDeletion_def finish_def ..

fun finish_call :: "event \<Rightarrow> bool" where
  "finish_call (UpdateObject y a) = True"
| "finish_call e = (removal_call e \<or> rbac_call (\<lambda>b. False) e)"

lemma finish_call_weaken: "removal_call e \<Longrightarrow> finish_call e" "rbac_call (\<lambda>b. False) e \<Longrightarrow> finish_call e"
  by (cases e; simp)+

text \<open>
  The outcome for the object \<open>x\<close>: an update without the finalizer is sent only when every managed
  runner is deleted or the attempts are used up; otherwise the counter is increased and the
  error is returned. At the last attempt nothing but a refused call of the clean-up keeps the
  finalizer.
\<close>

fun drops :: "env \<Rightarrow> event \<Rightarrow> bool" where
  "drops E (UpdateObject y a) = (\<not> HasFinalizer E y)"
| "drops E e = False"

definition finish_outcome :: "env \<Rightarrow> RunnerInfo \<Rightarrow> Result \<times> goerr option \<Rightarrow> event list \<Rightarrow> bool" where
  "finish_outcome E x r es =
     (let attempts = wrap64 (deleteAttempts x + 1) in
      (\<forall>e \<in> set es. finish_call e) \<and>
      (\<forall>e \<in> set es. drops E e \<longrightarrow> all_deleted x es \<or> maxDeleteAttempts \<le> attempts) \<and>
      (\<not> all_deleted x es \<longrightarrow> attempts < maxDeleteAttempts \<longrightarrow>
         snd r \<noteq> None \<and> (\<exists>a. UpdateObject (setDeleteAttempts attempts x) a \<in> set es)) \<and>
      (maxDeleteAttempts \<le> attempts \<longrightarrow> (\<exists>e \<in> set es. drops E e \<or> refused e)))"

lemma runs_drop_outcome:
  assumes "finalizer_laws E"
  shows "runs (dropFinalizer E) w (\<lambda>r es w'. (\<forall>e \<in> set es. finish_call e) \<and> (\<exists>e \<in> set es. drops E e \<or> refused e))"
  by (rule runs_conseq [OF runs_dropFinalizer])
     (auto simp: finish_call_weaken HasFinalizer_RemoveFinalizer [OF assms])

lemma runs_UpdateObj:
  "runs (UpdateObj E) w (\<lambda>r es w'. \<exists>a. es = [UpdateObject (obj w) a])"
  unfolding UpdateObj_def by (intro runs_rules; simp)

lemma runs_finish:
  assumes laws: "finalizer_laws E" and fin: "HasFinalizer E (obj w)"
  shows "runs (finish E) w (\<lambda>r es w'. finish_outcome E (obj w) r es)"
  unfolding finish_def
proof (rule runs_bind, rule runs_conseq [OF runs_removeManagedRunners], rule runs_case_option)
  fix rerr es1 and w1 :: world
  assume 1: "obj w1 = obj w \<and> (\<forall>e \<in> set es1. removal_call e) \<and> (rerr = None \<longrightarrow> all_deleted (obj w) es1)"
    and "rerr = None"
  then show "runs (dropFinalizer E) w1 (\<lambda>r es2 w2. finish_outcome E (obj w) r (es1 @ es2))"
    using all_deleted_append [of "obj w" es1 "[]"]
    by (intro runs_conseq [OF runs_drop_outcome [OF laws]])
       (auto simp: finish_outcome_def Let_def finish_call_weaken)
next
  fix rerr es1 and err :: goerr and w1 :: world
  assume 1: "obj w1 = obj w \<and> (\<forall>e \<in> set es1. removal_call e) \<and> (rerr = None \<longrightarrow> all_deleted (obj w) es1)"
    and err: "rerr = Some err"
  from 1 have obj: "obj w1 = obj w" by simp
  let ?n = "wrap64 (deleteAttempts (obj w) + 1)"
  let ?x = "setDeleteAttempts ?n (obj w)"
  have nd: "\<not> drops E e" if "removal_call e" for e
    using that by (cases e) simp_all
  have tail: "runs (if ?n < maxDeleteAttempts then ret (resultRequeueAfterDefaultTimeout, Some err) else dropFinalizer E) w3
      (\<lambda>r es3 w4. finish_outcome E (obj w) r (es1 @ es2 @ es3))"
    if "\<exists>a. es2 = [UpdateObject ?x a]" for es2 and w3 :: world
  proof (rule runs_if)
    assume "?n < maxDeleteAttempts"
    with that 1 fin show "runs (ret (resultRequeueAfterDefaultTimeout, Some err)) w3
      (\<lambda>r es3 w4. finish_outcome E (obj w) r (es1 @ es2 @ es3))"
      by (intro runs_return) (auto simp: finish_outcome_def Let_def finish_call_weaken dest: nd)
  next
    assume "\<not> ?n < maxDeleteAttempts"
    with that 1 show "runs (dropFinalizer E) w3 (\<lambda>r es3 w4. finish_outcome E (obj w) r (es1 @ es2 @ es3))"
      by (intro runs_conseq [OF runs_drop_outcome [OF laws]])
         (auto simp: finish_outcome_def Let_def finish_call_weaken)
  qed
  show "runs (do { y \<leftarrow> get_obj; let attempts = wrap64 (deleteAttempts y + 1);
      _ \<leftarrow> modify_obj (setDeleteAttempts attempts); _ \<leftarrow> UpdateObj E;
      if attempts < maxDeleteAttempts then ret (resultRequeueAfterDefaultTimeout, Some err)
      else dropFinalizer E }) w1 (\<lambda>r es2 w2. finish_outcome E (obj w) r (es1 @ es2))"
    by (intro runs_bind runs_get_obj runs_let runs_modify_obj; unfold append_Nil obj)
       (rule runs_conseq [OF runs_UpdateObj], rule tail, simp)
qed

text \<open>
  The calls of a finalization for the object \<open>x\<close>: the clock, the drain, and, only once the manager
  pods are gone or overdue, the rest.
\<close>

definition pods_listed :: "RunnerInfo \<Rightarrow> event list \<Rightarrow> Pod list \<Rightarrow> bool" where
  "pods_listed x es pods =
     (ListPods Uncached (GetNamespace x) (ManagerPodLabels x) (Inr pods) \<in> set es)"

definition drain_calls :: "RunnerInfo \<Rightarrow> event list \<Rightarrow> bool" where
  "drain_calls x es =
     (\<forall>e \<in> set es.
        (\<exists>a. e = DeleteDeployment (nsname (GetNamespace x) (ChildName x)) a) \<or>
        (\<exists>ans. e = ListPods Uncached (GetNamespace x) (ManagerPodLabels x) ans) \<or>
        (\<exists>pods p. pods_listed x es pods \<and> p \<in> set (managers (ChildName x) pods) \<and>
                  stop_time p = None \<and> pod_deletion p e))"

lemma runs_drain:
  "runs (drainManager E x now) w
     (\<lambda>r es w'. obj w' = obj w \<and> drain_calls x es \<and>
        (r = Inr True \<longrightarrow> (\<exists>pods. pods_listed x es pods \<and> drained_spec (ChildName x) pods now)))"
proof (rule runs_conseq [OF runs_drainManager], elim conjE exE disjE)
  fix r :: "goerr + bool" and es a e and w' :: world
  assume "obj w' = obj w" "es = [DeleteDeployment (nsname (GetNamespace x) (ChildName x)) a]" "r = Inl e"
  then show "obj w' = obj w \<and> drain_calls x es \<and>
      (r = Inr True \<longrightarrow> (\<exists>pods. pods_listed x es pods \<and> drained_spec (ChildName x) pods now))"
    by (auto simp: drain_calls_def)
next
  fix r :: "goerr + bool" and es a ans dels and w' :: world
  assume o: "obj w' = obj w"
    and es: "es = DeleteDeployment (nsname (GetNamespace x) (ChildName x)) a #
        ListPods Uncached (GetNamespace x) (ManagerPodLabels x) ans # dels"
    and ans: "case ans of Inl e \<Rightarrow> r = Inl e \<and> dels = []
      | Inr pods \<Rightarrow> (\<forall>e \<in> set dels. \<exists>p \<in> set (managers (ChildName x) pods). stop_time p = None \<and> pod_deletion p e) \<and>
          (\<forall>b. r = Inr b \<longrightarrow> b = drained_spec (ChildName x) pods now)"
  show "obj w' = obj w \<and> drain_calls x es \<and>
      (r = Inr True \<longrightarrow> (\<exists>pods. pods_listed x es pods \<and> drained_spec (ChildName x) pods now))"
  proof (cases ans)
    case (Inl e)
    with o es ans show ?thesis by (auto simp: drain_calls_def)
  next
    case (Inr pods)
    with es have l: "pods_listed x es pods" by (simp add: pods_listed_def)
    from ans Inr have dels: "\<forall>e \<in> set dels. \<exists>p \<in> set (managers (ChildName x) pods). stop_time p = None \<and> pod_deletion p e"
      by simp
    have "drain_calls x es"
      unfolding drain_calls_def
    proof
      fix e assume "e \<in> set es"
      then consider "e = DeleteDeployment (nsname (GetNamespace x) (ChildName x)) a"
        | "e = ListPods Uncached (GetNamespace x) (ManagerPodLabels x) ans" | "e \<in> set dels"
        using es by auto
      then show "(\<exists>a. e = DeleteDeployment (nsname (GetNamespace x) (ChildName x)) a) \<or>
          (\<exists>ans. e = ListPods Uncached (GetNamespace x) (ManagerPodLabels x) ans) \<or>
          (\<exists>pods p. pods_listed x es pods \<and> p \<in> set (managers (ChildName x) pods) \<and>
                    stop_time p = None \<and> pod_deletion p e)"
        by cases (use l dels in blast)+
    qed
    with o ans Inr l show ?thesis by auto
  qed
qed

definition finalize_outcome :: "env \<Rightarrow> RunnerInfo \<Rightarrow> Result \<times> goerr option \<Rightarrow> event list \<Rightarrow> bool" where
  "finalize_outcome E x r es =
     (\<exists>now drain rest. es = ReadClock now # drain @ rest \<and> drain_calls x drain \<and>
        (rest = [] \<and> fst r = resultRequeueAfterDefaultTimeout \<or>
         (\<exists>pods. pods_listed x drain pods \<and> drained_spec (ChildName x) pods now) \<and>
         finish_outcome E x r rest))"

lemma runs_finalizeDeletion:
  assumes "finalizer_laws E" and "HasFinalizer E (obj w)"
  shows "runs (finalizeDeletion E None) w (\<lambda>r es w'. finalize_outcome E (obj w) r es)"
  unfolding finalizeDeletion_phases Now_def
proof (rule runs_bind, rule runs_get_obj, rule runs_bind, rule runs_issue, rule runs_bind,
    rule runs_conseq [OF runs_drain], unfold append_Nil, rule runs_case_sum)
  let ?now = "clock E (trace w)"
  fix d :: "goerr + bool" and es1 b and w1 :: world
  assume 1: "obj w1 = obj (w\<lparr>trace := trace w @ [ReadClock ?now]\<rparr>) \<and> drain_calls (obj w) es1 \<and>
    (d = Inr True \<longrightarrow> (\<exists>pods. pods_listed (obj w) es1 pods \<and> drained_spec (ChildName (obj w)) pods ?now))"
    and "d = Inr b"
  with assms show "runs (if \<not> b then ret (resultRequeueAfterDefaultTimeout, None) else finish E) w1
      (\<lambda>r es w'. finalize_outcome E (obj w) r ([ReadClock ?now] @ es1 @ es))"
    by (intro runs_if runs_return runs_conseq [OF runs_finish])
       (auto simp: finalize_outcome_def)
next
  let ?now = "clock E (trace w)"
  fix d :: "goerr + bool" and es1 e and w1 :: world
  assume "obj w1 = obj (w\<lparr>trace := trace w @ [ReadClock ?now]\<rparr>) \<and> drain_calls (obj w) es1 \<and>
    (d = Inr True \<longrightarrow> (\<exists>pods. pods_listed (obj w) es1 pods \<and> drained_spec (ChildName (obj w)) pods ?now))"
  then show "runs (ret (resultRequeueAfterDefaultTimeout, Some e)) w1
      (\<lambda>r es w'. finalize_outcome E (obj w) r ([ReadClock ?now] @ es1 @ es))"
    by (intro runs_return) (auto simp: finalize_outcome_def)
qed

end
