(* ===== verification/Reconcile_Facts.thy ===== *)
theory Reconcile_Facts
  imports Reconcile Rbac_Facts Auth_Facts Finalize_Facts
begin

text \<open>
  Properties of a whole pass of the reconcilers: which privileges it can grant, when it talks to
  GitLab, what it records, and when it reports the runner ready.
\<close>

section \<open>Retrying the status write\<close>

text \<open>
  \<open>retry.RetryOnConflict\<close> calls the function again while it answers with a conflict, up to a fixed
  number of steps, and returns its last answer.
\<close>

fun retry_attempts :: "nat \<Rightarrow> goerr option go \<Rightarrow> goerr option go" where
  "retry_attempts 0 m = m"
| "retry_attempts (Suc n) m =
     do { r \<leftarrow> m;
          case r of
            None \<Rightarrow> ret None
          | Some e \<Rightarrow> (if IsConflict e then retry_attempts n m else ret (Some e)) }"

definition retry_laws :: "env \<Rightarrow> bool" where
  "retry_laws E = (\<exists>n. \<forall>m. retry_on_conflict E m = retry_attempts n m)"

lemma emits_retry: "retry_laws E \<Longrightarrow> emits P m \<Longrightarrow> emits P (retry_on_conflict E m)"
proof -
  assume "retry_laws E" "emits P m"
  have "emits P (retry_attempts n m)" for n
    by (induction n) (auto intro!: emits_rules \<open>emits P m\<close>)
  with \<open>retry_laws E\<close> show ?thesis by (auto simp: retry_laws_def)
qed

lemma keeps_retry: "retry_laws E \<Longrightarrow> keeps_obj m \<Longrightarrow> keeps_obj (retry_on_conflict E m)"
proof -
  assume "retry_laws E" "keeps_obj m"
  have "keeps_obj (retry_attempts n m)" for n
    by (induction n) (auto intro!: keeps_rules \<open>keeps_obj m\<close>)
  with \<open>retry_laws E\<close> show ?thesis by (auto simp: retry_laws_def)
qed

fun status_call :: "event \<Rightarrow> bool" where
  "status_call (GetObject m k r) = True"
| "status_call (UpdateObjectStatus x r) = True"
| "status_call e = False"

definition fetches :: "(NSName \<Rightarrow> (goerr + RunnerInfo) go) \<Rightarrow> bool" where
  "fetches fetch = (\<forall>k. emits status_call (fetch k) \<and> keeps_obj (fetch k))"

lemma fetches_SingleRunner: "fetches (SingleRunner E)"
  unfolding fetches_def SingleRunner_def call_defs by (intro allI conjI emits_rules keeps_rules; simp)

lemma fetches_MultiRunner: "fetches (MultiRunner_fetch E)"
  unfolding fetches_def MultiRunner_fetch_def call_defs by (intro allI conjI emits_rules keeps_rules; simp)

lemma emits_write_status_once: "fetches fetch \<Longrightarrow> emits status_call (write_status_once E fetch x)"
  unfolding write_status_once_def cl_UpdateStatusOf_def fetches_def by (intro emits_rules; simp)

lemma keeps_write_status_once: "fetches fetch \<Longrightarrow> keeps_obj (write_status_once E fetch x)"
  unfolding write_status_once_def cl_UpdateStatusOf_def fetches_def by (intro keeps_rules; simp)

lemma emits_write_status: "retry_laws E \<Longrightarrow> fetches fetch \<Longrightarrow> emits status_call (write_status E fetch)"
  unfolding write_status_def by (intro emits_rules emits_retry emits_write_status_once)

lemma keeps_write_status: "retry_laws E \<Longrightarrow> fetches fetch \<Longrightarrow> keeps_obj (write_status E fetch)"
  unfolding write_status_def by (intro keeps_rules keeps_retry keeps_write_status_once)

section \<open>The calls of a finalization\<close>

fun cleanup_call :: "event \<Rightarrow> bool" where
  "cleanup_call (CreateRoleBinding b r) = False"
| "cleanup_call (SdkCreateUserRunner g opts r) = False"
| "cleanup_call e = True"

lemma cleanup_weaken:
  "secret_read e \<Longrightarrow> cleanup_call e" "gitlab_delete e \<Longrightarrow> cleanup_call e" "status_call e \<Longrightarrow> cleanup_call e"
  "rbac_call (\<lambda>b. False) e \<Longrightarrow> cleanup_call e" "ca_read e \<Longrightarrow> cleanup_call e"
  by (cases e; simp)+

lemma emits_iff_safe: "emits P m \<longleftrightarrow> safe unrestricted P m unrestricted"
  by (simp add: emits_def safe_def)

lemma emits_bind_result:
  "safe unrestricted P m R \<Longrightarrow> (\<And>x. R x \<Longrightarrow> emits P (f x)) \<Longrightarrow> emits P (State_Monad.bind m f)"
  unfolding emits_iff_safe by (rule safe_bind_result)

lemma emits_cleanup:
  "emits secret_read m \<Longrightarrow> emits cleanup_call m" "emits gitlab_delete m \<Longrightarrow> emits cleanup_call m"
  "emits (rbac_call (\<lambda>b. False)) m \<Longrightarrow> emits cleanup_call m"
  by (auto elim: emits_mono simp: cleanup_weaken)

lemma safe_by_id_client:
  "client_ok injected \<Longrightarrow> safe unrestricted cleanup_call (by_id_client E injected ns reg ca) contract_result"
  unfolding by_id_client_def contract_result_def
  by (intro safe_case_option safe_bind safe_of_emits emits_cleanup(1) [OF emits_resolveTokenSource]
        keeps_resolveTokenSource safe_return)
     (auto simp: client_ok_def new_client_contract split: sum.split)

lemma emits_delete_by_id: "client_ok injected \<Longrightarrow> emits cleanup_call (delete_by_id E injected ns reg ca)"
  unfolding delete_by_id_def
  by (rule emits_bind_result [OF safe_by_id_client], assumption)
     (intro emits_rules emits_cleanup(2) gitlab_client.delete_id_emits; simp add: contract_result_def)

lemma emits_deleteManagedRunner:
  "client_ok injected \<Longrightarrow> emits cleanup_call (deleteManagedRunner E injected ns reg t ca)"
  unfolding deleteManagedRunner_def
  by (intro emits_rules emits_delete_by_id emits_cleanup(2) gitlab_client.delete_emits)
     (auto simp: client_ok_def new_client_contract split: option.splits)

lemma emits_remove_units: "client_ok injected \<Longrightarrow> emits cleanup_call (remove_units E injected toks ca regs err)"
  by (induction regs arbitrary: err) (auto intro!: emits_rules emits_deleteManagedRunner)

lemma emits_drainManager: "emits cleanup_call (drainManager E x now)"
proof -
  have "emits cleanup_call (drain_pods E d pods c)" for d pods c
    by (rule emits_mono [OF emits_drain_pods]) (auto elim: pod_deletion.elims)
  then show ?thesis
    unfolding drainManager_def call_defs by (intro emits_rules; simp)
qed

lemma emits_UpdateObj: "emits cleanup_call (UpdateObj E)"
  unfolding UpdateObj_def by (intro emits_rules; simp)

lemma emits_dropFinalizer: "emits cleanup_call (dropFinalizer E)"
  unfolding dropFinalizer_def
  by (intro emits_rules emits_cleanup(3) emits_DeleteRBACExcept emits_UpdateObj)

lemma emits_finalizeDeletion: "client_ok injected \<Longrightarrow> emits cleanup_call (finalizeDeletion E injected)"
  unfolding finalizeDeletion_def removeManagedRunners_def ExistingConfigTokens_def ExistingConfigCA_def call_defs
  by (intro emits_rules emits_drainManager emits_remove_units emits_dropFinalizer emits_UpdateObj; simp)

text \<open>Units with a token of their own are not looked up on GitLab on the way out either.\<close>

lemma provided_remove_units:
  "\<forall>g \<in> set regs. \<not> IsManaged (Some (reg_Auth g)) \<Longrightarrow> remove_units E injected toks ca regs err = ret err"
  by (induction regs) simp_all

lemma provided_finalizeDeletion:
  assumes "\<not> has_managed x" and "update_laws E"
  shows "safe (same_unit x) (\<lambda>e. \<not> gitlab_call e) (finalizeDeletion E injected) unrestricted"
proof -
  let ?P = "\<lambda>e. \<not> gitlab_call e"
  have reads: "\<not> gitlab_call e" if "secret_read e" for e using that by (cases e) simp_all
  have prune: "\<not> gitlab_call e" if "rbac_call (\<lambda>b. False) e" for e using that by (cases e) simp_all
  have units: "remove_units E injected toks ca (RegistrationConfig y) err = ret err" if "same_unit x y" for toks ca y err
    using assms(1) same_unit_managed [OF that] by (intro provided_remove_units) (simp add: has_managed_def)
  have drain: "safe (same_unit x) ?P (drainManager E y now) unrestricted" for y now
    unfolding drainManager_def call_defs
    by (intro safe_bind safe_issue safe_case_option safe_case_sum safe_return
          safe_of_emits [OF emits_mono [OF emits_drain_pods] keeps_drain_pods]) (auto elim: pod_deletion.elims)
  have removal: "safe (same_unit x) ?P (removeManagedRunners E injected) unrestricted"
    unfolding removeManagedRunners_def ExistingConfigTokens_def ExistingConfigCA_def call_defs
    by (intro safe_bind_get_obj safe_bind safe_issue safe_case_sum safe_return; simp add: units safe_return)
  have update: "safe (same_unit x) ?P (UpdateObj E) unrestricted"
    by (rule safe_UpdateObj [OF assms(2)]) simp
  have drop: "safe (same_unit x) ?P (dropFinalizer E) unrestricted"
    unfolding dropFinalizer_def
    by (intro safe_bind_get_obj safe_bind safe_case_option safe_return safe_modify_same_unit update
          safe_of_emits [OF emits_mono [OF emits_DeleteRBACExcept] keeps_DeleteRBACExcept] prune) simp_all
  show ?thesis
    unfolding finalizeDeletion_def call_defs Let_def
    by (intro safe_bind_get_obj safe_bind safe_issue safe_case_sum safe_case_option safe_if safe_return
          safe_modify_same_unit drain removal update drop; simp add: setDeleteAttempts_def)
qed

section \<open>Enforcing the allow-list\<close>

lemma split_allowed_keep:
  "fst (split_allowed own allowed nss keep bad) =
     keep @ filter (\<lambda>ns. BuildNamespaceAllowed ns own allowed) nss"
  by (induction own allowed nss keep bad rule: split_allowed.induct) simp_all

lemma split_allowed_bad:
  "snd (split_allowed own allowed nss keep bad) = '''' \<longleftrightarrow>
     bad = '''' \<and> (\<forall>ns \<in> set nss. BuildNamespaceAllowed ns own allowed)"
proof (induction own allowed nss keep bad rule: split_allowed.induct)
  case (2 own allowed ns nss keep bad)
  have "BuildNamespaceAllowed '''' own allowed"
    by (simp add: BuildNamespaceAllowed_iff)
  then show ?case
    using 2 by (cases "BuildNamespaceAllowed ns own allowed") auto
qed simp

definition all_allowed :: "string list \<Rightarrow> RunnerInfo \<Rightarrow> bool" where
  "all_allowed allowed x = (\<forall>ns \<in> set (build_namespace_keys x). BuildNamespaceAllowed ns (GetNamespace x) allowed)"

lemma safe_range_keys: "safe I P (range_keys E ks) (\<lambda>ys. mset ys = mset ks)"
  unfolding range_keys_def safe_def by (auto intro!: runs_observe simp: Let_def)

lemma same_unit_allowed: "same_unit x y \<Longrightarrow> all_allowed allowed x = all_allowed allowed y"
  by (frule same_unit_keys) (simp add: all_allowed_def same_unit_def)

definition permitted :: "string list \<Rightarrow> RunnerInfo \<Rightarrow> bool \<times> goerr option \<Rightarrow> bool" where
  "permitted allowed x r = (r = (True, None) \<longrightarrow> all_allowed allowed x)"

lemma safe_enforce:
  assumes "\<And>e. rbac_call (\<lambda>b. False) e \<Longrightarrow> P e"
  shows "safe (same_unit x) P (enforceAllowedBuildNamespaces E rd allowed) (permitted allowed x)"
  unfolding enforceAllowedBuildNamespaces_def BuildNamespaces_def Let_def
proof (rule safe_bind_get_obj, rule safe_bind_result [OF safe_range_keys], rule safe_case_prod)
  fix y ys keep bad
  assume y: "same_unit x y" and ys: "mset ys = mset (build_namespace_keys y)"
    and s: "split_allowed (GetNamespace y) allowed ys [] '''' = (keep, bad)"
  have good: "all_allowed allowed x" if "bad = ''''"
    using that s split_allowed_bad [of "GetNamespace y" allowed ys "[]" "''''"] mset_eq_setD [OF ys]
      same_unit_allowed [OF y]
    by (simp add: all_allowed_def)
  show "safe (same_unit x) P (if bad = '''' then ret (True, None)
      else do { _ \<leftarrow> modify_obj (SetStatusError (not_permitted_message bad (GetNamespace y)));
                _ \<leftarrow> set_ready_condition E False ''ExecutorNamespaceNotAllowed''
                      (not_permitted_message bad (GetNamespace y));
                x' \<leftarrow> get_obj;
                err \<leftarrow> DeleteRBACExcept E rd x' (DesiredBindings x' keep);
                ret (False, err) }) (permitted allowed x)"
    by (intro safe_if safe_return safe_bind safe_modify_same_unit
          safe_set_ready_condition safe_bind_get_obj
          safe_of_emits [OF emits_mono [OF emits_DeleteRBACExcept] keeps_DeleteRBACExcept] assms)
       (use good in \<open>auto simp: permitted_def\<close>)
qed

section \<open>The steps of a pass, safely\<close>

lemma safe_fail_pass: "safe (same_unit x) P (fail_pass E msg reason err) unrestricted"
  unfolding fail_pass_def
  by (intro safe_bind safe_modify_same_unit safe_set_ready_condition safe_return; simp)

lemma safe_validate_step:
  assumes "safe (same_unit x) P step unrestricted" and "safe (same_unit x) P rest unrestricted"
  shows "safe (same_unit x) P (validate_step E reason step rest) unrestricted"
  unfolding validate_step_def
  by (intro safe_bind safe_case_prod safe_if safe_case_option safe_set_ready_condition safe_return assms; simp)

lemma safe_mark_ready: "safe (same_unit x) P (mark_ready E d) unrestricted"
  unfolding mark_ready_def
  by (intro safe_bind safe_modify_same_unit safe_set_ready_condition safe_return; simp)

text \<open>
  The calls that need the build namespaces to be permitted: creating a binding, talking to GitLab,
  and writing the Secret or the Deployment.
\<close>

fun pass_call :: "string list \<Rightarrow> RunnerInfo \<Rightarrow> event \<Rightarrow> bool" where
  "pass_call allowed x (CreateRoleBinding b r) = (all_allowed allowed x \<and> wanted_binding x b)"
| "pass_call allowed x (SdkCreateUserRunner g opts r) = (all_allowed allowed x \<and> has_managed x)"
| "pass_call allowed x (SdkDeleteRegisteredRunner g t r) = (all_allowed allowed x \<and> has_managed x)"
| "pass_call allowed x (SdkRemoveRunner g i r) = (all_allowed allowed x \<and> has_managed x)"
| "pass_call allowed x (SdkVerifyRegisteredRunner g t r) = (all_allowed allowed x \<and> has_managed x)"
| "pass_call allowed x (CreateSecret s r) = all_allowed allowed x"
| "pass_call allowed x (UpdateSecret s r) = all_allowed allowed x"
| "pass_call allowed x (CreateDeployment d r) = all_allowed allowed x"
| "pass_call allowed x (UpdateDeployment d r) = all_allowed allowed x"
| "pass_call allowed x (DeleteDeployment k r) = False"
| "pass_call allowed x (DeletePod k r) = False"
| "pass_call allowed x e = True"

lemma pass_call_weaken:
  "rbac_call (\<lambda>b. False) e \<Longrightarrow> pass_call allowed x e" "status_call e \<Longrightarrow> pass_call allowed x e"
  "ca_read e \<Longrightarrow> pass_call allowed x e"
  "all_allowed allowed x \<Longrightarrow> auth_call x e \<Longrightarrow> pass_call allowed x e"
  "all_allowed allowed x \<Longrightarrow> rbac_call (wanted_binding x) e \<Longrightarrow> pass_call allowed x e"
  "all_allowed allowed x \<Longrightarrow> secret_call d e \<Longrightarrow> pass_call allowed x e"
  "all_allowed allowed x \<Longrightarrow> deployment_call D e \<Longrightarrow> pass_call allowed x e"
  by (cases e; simp)+

lemma safe_Secret:
  assumes "\<And>e. secret_call (desired_secret_data toml tokens ca) e \<Longrightarrow> P e"
  shows "safe (same_unit x) P (validate_Secret E toml tokens ca) unrestricted"
proof -
  have P: "P (GetSecret rd k r)" "sec_Data s = desired_secret_data toml tokens ca \<Longrightarrow> P (CreateSecret s r')"
    "sec_Data s = desired_secret_data toml tokens ca \<Longrightarrow> P (UpdateSecret s r')" for rd k r s r'
    by (simp_all add: assms)
  show ?thesis
    unfolding validate_Secret_def call_defs Let_def
    by (intro safe_bind_get_obj safe_bind safe_issue safe_case_sum safe_case_option safe_if safe_return
          safe_modify_same_unit P; simp)
qed

lemma emits_Deployment: "emits (deployment_call (\<lambda>d. True)) (validate_Deployment E x)"
  unfolding validate_Deployment_def call_defs Let_def by (intro emits_rules; simp)

lemma safe_converge:
  assumes "\<And>d e. secret_call d e \<Longrightarrow> P e" and "\<And>e. deployment_call (\<lambda>d. True) e \<Longrightarrow> P e"
  shows "safe (same_unit x) P (converge_workload E tokens d ca) unrestricted"
proof -
  have dep: "safe (same_unit x) P (do { y \<leftarrow> get_obj; validate_Deployment E y }) unrestricted"
    by (intro safe_bind_get_obj safe_of_emits emits_mono [OF emits_Deployment] keeps_Deployment)
       (rule assms(2))
  have sec: "safe (same_unit x) P (validate_Secret E toml tokens ca) unrestricted" for toml
    by (rule safe_Secret) (rule assms(1))
  show ?thesis
    unfolding converge_workload_def Let_def
  proof (rule safe_bind_get_obj, rule safe_case_prod)
    fix y x' rendered
    assume y: "same_unit x y" and r: "TomlConfig E y tokens ca = (x', rendered)"
    then have x': "same_unit x x'"
      using same_unit_TomlConfig [of y E tokens ca] by (auto intro: same_unit_trans)
    show "safe (same_unit x) P
        (do { _ \<leftarrow> modify_obj (\<lambda>_. x');
              case rendered of
                Inl err \<Rightarrow> fail_pass E (err_text err) ''ConfigRenderFailed'' err
              | Inr (generatedTomlConfig, configHashKey) \<Rightarrow>
                  do { _ \<leftarrow> modify_obj (SetConfigMapVersion configHashKey);
                       validate_step E ''ConfigSecretFailed''
                         (validate_Secret E generatedTomlConfig tokens ca)
                         (validate_step E ''DeploymentFailed''
                            (do { y \<leftarrow> get_obj; validate_Deployment E y })
                            (mark_ready E d)) } }) unrestricted"
      by (intro safe_bind safe_case_sum safe_case_prod safe_fail_pass safe_validate_step sec dep safe_mark_ready
            safe_modify_same_unit safe_modify_obj x' same_unit_setters)
  qed
qed

lemma safe_bind_permitted:
  assumes "safe I P m (permitted allowed x)"
    and "\<And>ok err. (ok \<Longrightarrow> err = None \<Longrightarrow> all_allowed allowed x) \<Longrightarrow> safe I P (f (ok, err)) S"
  shows "safe I P (State_Monad.bind m f) S"
proof (rule safe_bind_result [OF assms(1)])
  fix r assume "permitted allowed x r"
  then show "safe I P (f r) S"
    using assms(2) [of "fst r" "snd r"] by (cases r) (simp add: permitted_def)
qed

lemma safe_CreateRBAC:
  assumes "all_allowed allowed x" and "same_unit x y"
  shows "safe I (pass_call allowed x) (CreateRBACIfMissing E y) unrestricted"
  by (rule safe_of_emits [OF emits_mono [OF emits_CreateRBAC] keeps_CreateRBAC])
     (simp add: pass_call_weaken(5) assms same_unit_wanted [OF assms(2), symmetric])

lemma safe_provision:
  assumes "update_laws E" and "client_ok (rec_GitlabApiClient R)" and "allowed = rec_AllowedBuildNamespaces R"
  shows "safe (same_unit x) (pass_call allowed x) (provision E R) unrestricted"
proof -
  have ca: "safe (same_unit x) (pass_call allowed x) (resolveCABundle E rd ns src) unrestricted" for rd ns src
    by (rule safe_of_emits [OF emits_mono [OF emits_resolveCABundle] keeps_resolveCABundle]) (rule pass_call_weaken(3))
  have auth: "safe (same_unit x) (pass_call allowed x) (ensureRunners E (rec_GitlabApiClient R) ca) unrestricted"
    if "all_allowed allowed x" for ca
    by (rule safe_weaken [OF object_ensureRunners [OF assms(1,2)]]) (simp_all add: pass_call_weaken(4) that)
  have conv: "safe (same_unit x) (pass_call allowed x) (converge_workload E tokens d ca) unrestricted"
    if "all_allowed allowed x" for tokens d ca
    by (rule safe_converge) (erule pass_call_weaken(6,7) [OF that])+
  note steps = safe_bind_permitted [OF safe_enforce] pass_call_weaken(1) safe_case_prod safe_case_option safe_if
    safe_return safe_bind_get_obj safe_bind [OF ca] safe_case_sum safe_fail_pass safe_bind [OF auth]
    safe_bind [OF safe_CreateRBAC] conv safe_bind [OF safe_modify_same_unit] same_unit_setters
  show ?thesis
    unfolding provision_def assms(3) [symmetric] by (intro steps; simp)
qed

section \<open>A whole pass\<close>

text \<open>What the two fetch functions do: one read, with the status maps allocated afterwards.\<close>

definition fetch_spec :: "bool \<Rightarrow> (NSName \<Rightarrow> (goerr + RunnerInfo) go) \<Rightarrow> bool" where
  "fetch_spec m fetch =
     (fetches fetch \<and>
      (\<forall>k w. runs (fetch k) w (\<lambda>r es w'. \<exists>a. es = [GetObject m k a] \<and> r = map_sum id with_status_maps a)))"

lemma fetch_spec_SingleRunner: "fetch_spec False (SingleRunner E)"
proof -
  have "map_sum id with_status_maps (map_sum id RunnerObj a) = map_sum id RunnerObj a" for a :: "goerr + Runner"
    by (cases a) simp_all
  then show ?thesis
    unfolding fetch_spec_def
    by (intro conjI fetches_SingleRunner allI) (auto simp: SingleRunner_def call_defs intro!: runs_issue)
qed

lemma fetch_spec_MultiRunner: "fetch_spec True (MultiRunner_fetch E)"
  unfolding fetch_spec_def
  by (intro conjI fetches_MultiRunner allI)
     (auto simp: MultiRunner_fetch_def call_defs intro!: runs_bind runs_issue runs_return)

lemma with_status_maps_meta [simp]:
  "GetMeta (with_status_maps x) = GetMeta x" "is_multi (with_status_maps x) = is_multi x"
  "ExecutorConfigs (with_status_maps x) = ExecutorConfigs x"
  by (cases x; simp add: is_multi_def MultiRunner_ExecutorConfigs_def)+

lemma with_status_maps_auth: "unit_view (with_status_maps x) = unit_view x"
  by (cases x) (simp_all add: unit_view_def MultiRunner_RegistrationConfig_def comp_def)

lemma with_status_maps_same: "same_unit x (with_status_maps x)"
  by (rule same_unit_intro) (simp_all add: with_status_maps_auth entry_view_def entry_namespace_def GetNamespace_meta)

lemma with_status_maps_finalizer: "HasFinalizer L (with_status_maps x) = HasFinalizer L x"
  by (cases x) (simp_all add: MultiRunner_HasFinalizer_def)

lemma with_status_maps_deleted: "IsBeingDeleted (with_status_maps x) = IsBeingDeleted x"
  by (cases x) (simp_all add: MultiRunner_IsBeingDeleted_def)

lemma safe_runs:
  "safe I P m R \<Longrightarrow> I (obj w) \<Longrightarrow> runs m w (\<lambda>r es w'. I (obj w') \<and> (\<forall>e \<in> set es. P e) \<and> R r)"
  by (simp add: safe_def)

text \<open>\<open>adds_finalizer x e\<close>: the request stores the fetched object with the finalizer and nothing else.\<close>

fun adds_finalizer :: "env \<Rightarrow> RunnerInfo \<Rightarrow> event \<Rightarrow> bool" where
  "adds_finalizer E x (UpdateObject y r) = (y = AddFinalizer E (with_status_maps x))"
| "adds_finalizer E x e = False"

definition pass_calls :: "env \<Rightarrow> string list \<Rightarrow> RunnerInfo \<Rightarrow> event list \<Rightarrow> bool" where
  "pass_calls E allowed x es =
     (if IsBeingDeleted x then \<forall>e \<in> set es. cleanup_call e \<and> (gitlab_call e \<longrightarrow> has_managed x)
      else if \<not> HasFinalizer E x then \<forall>e \<in> set es. adds_finalizer E x e \<or> status_call e
      else \<forall>e \<in> set es. pass_call allowed x e)"

lemma pass_call_same: "same_unit x y \<Longrightarrow> pass_call allowed y e = pass_call allowed x e"
  by (cases e) (simp_all add: same_unit_allowed same_unit_wanted same_unit_managed)

lemma runs_reconcile_live:
  assumes "update_laws E" and "client_ok (rec_GitlabApiClient R)" and "obj w = with_status_maps x"
    and "\<not> IsBeingDeleted x"
  shows "runs (reconcile_live E R) w (\<lambda>r es w'. pass_calls E (rec_AllowedBuildNamespaces R) x es)"
proof -
  have "runs (provision E R) w (\<lambda>r es w'. \<forall>e \<in> set es. pass_call (rec_AllowedBuildNamespaces R) x e)"
    by (rule runs_conseq [OF safe_runs [OF safe_provision [OF assms(1,2) refl, of x]]])
       (simp_all add: assms(3) with_status_maps_same)
  moreover have "runs (do { _ \<leftarrow> modify_obj (AddFinalizer E); err \<leftarrow> UpdateObj E; ret (f err) }) w
      (\<lambda>r es w'. \<forall>e \<in> set es. adds_finalizer E x e)" for f :: "goerr option \<Rightarrow> Result \<times> goerr option"
    unfolding UpdateObj_def by (intro runs_rules) (simp_all add: assms(3))
  ultimately show ?thesis
    unfolding reconcile_live_def
    by - (rule runs_bind, rule runs_get_obj, unfold append_Nil, rule runs_if;
          rule runs_conseq, assumption, auto simp: pass_calls_def assms(3,4) with_status_maps_finalizer)
qed

lemma runs_finalize_calls:
  assumes "update_laws E" and "client_ok injected" and "same_unit x (obj w)"
  shows "runs (finalizeDeletion E injected) w
    (\<lambda>r es w'. \<forall>e \<in> set es. cleanup_call e \<and> (gitlab_call e \<longrightarrow> has_managed x))"
proof -
  have "runs (finalizeDeletion E injected) w (\<lambda>r es w'. \<forall>e \<in> set es. cleanup_call e)"
    by (rule emitsD [OF emits_finalizeDeletion [OF assms(2)]])
  moreover have "runs (finalizeDeletion E injected) w (\<lambda>r es w'. \<forall>e \<in> set es. gitlab_call e \<longrightarrow> has_managed x)"
  proof (cases "has_managed x")
    case True
    then show ?thesis
      by (intro runs_conseq [OF emitsD [OF emits_finalizeDeletion [OF assms(2)]]]) simp
  next
    case False
    show ?thesis
      by (rule runs_conseq [OF safe_runs [OF provided_finalizeDeletion [OF False assms(1)] assms(3)]]) simp
  qed
  ultimately have "runs (finalizeDeletion E injected) w
      (\<lambda>r es w'. (\<forall>e \<in> set es. cleanup_call e) \<and> (\<forall>e \<in> set es. gitlab_call e \<longrightarrow> has_managed x))"
    by (rule runs_conj)
  then show ?thesis by (rule runs_conseq) simp
qed

lemma runs_reconcile_object:
  assumes "update_laws E" and "retry_laws E" and "client_ok (rec_GitlabApiClient R)" and "fetches fetch"
  shows "runs (reconcile_object E R fetch (with_status_maps x)) w
    (\<lambda>r es w'. pass_calls E (rec_AllowedBuildNamespaces R) x es)"
proof (cases "IsBeingDeleted x")
  case True
  then show ?thesis
    unfolding reconcile_object_def
    by (intro runs_bind runs_modify_obj runs_if runs_conseq [OF runs_finalize_calls [OF assms(1,3)]])
       (simp_all add: with_status_maps_deleted with_status_maps_same pass_calls_def)
next
  case False
  have "runs (do { res \<leftarrow> reconcile_live E R; _ \<leftarrow> write_status E fetch; ret res })
      (w\<lparr>obj := with_status_maps x\<rparr>) (\<lambda>r es w'. pass_calls E (rec_AllowedBuildNamespaces R) x es)"
    by (rule runs_bind, rule runs_conseq [OF runs_reconcile_live [OF assms(1,3) _ False]], simp, rule runs_bind,
        rule runs_conseq [OF emitsD [OF emits_write_status [OF assms(2,4)]]], rule runs_return)
       (auto simp: False pass_calls_def pass_call_weaken(2))
  with False show ?thesis
    unfolding reconcile_object_def
    by - (rule runs_bind, rule runs_modify_obj, unfold append_Nil, rule runs_if; simp add: with_status_maps_deleted)
qed

text \<open>A pass reads its object once; a read that fails ends it.\<close>

lemma runs_pass:
  assumes "fetch_spec m fetch"
    and "\<And>x w. runs (reconcile_object E R fetch (with_status_maps x)) w (\<lambda>r es w'. Q x r es)"
  shows "runs (reconcile_with E R fetch req) w
    (\<lambda>r es w'. \<exists>a rest. es = GetObject m req a # rest \<and>
       (case a of Inl err \<Rightarrow> rest = [] \<and> r = (Result_zero, IgnoreNotFound err) | Inr x \<Rightarrow> Q x r rest))"
  unfolding reconcile_with_def
proof (rule runs_bind, rule runs_conseq)
  show "runs (fetch req) w (\<lambda>r es w'. \<exists>a. es = [GetObject m req a] \<and> r = map_sum id with_status_maps a)"
    using assms(1) by (simp add: fetch_spec_def)
next
  fix r es1 and w1 :: world
  assume "\<exists>a. es1 = [GetObject m req a] \<and> r = map_sum id with_status_maps a"
  then obtain b where b: "es1 = [GetObject m req b]" "r = map_sum id with_status_maps b" by blast
  show "runs (case r of Inl err \<Rightarrow> ret (deref_result DontRequeue (IgnoreNotFound err))
                      | Inr x \<Rightarrow> reconcile_object E R fetch x) w1
      (\<lambda>r es w'. \<exists>a rest. es1 @ es = GetObject m req a # rest \<and>
         (case a of Inl err \<Rightarrow> rest = [] \<and> r = (Result_zero, IgnoreNotFound err) | Inr x \<Rightarrow> Q x r rest))"
    unfolding b
    by (cases b) (auto simp: deref_result_def DontRequeue_def Result_zero_def intro!: runs_return runs_conseq [OF assms(2)])
qed

section \<open>Trace properties of a whole pass\<close>

text \<open>
  A property of the trace that only bindings and new GitLab runners can break holds of a whole pass
  once it holds of the two steps that make those.
\<close>

fun plain :: "event \<Rightarrow> bool" where
  "plain (CreateRoleBinding b r) = False"
| "plain (SdkCreateUserRunner g opts r) = False"
| "plain e = True"

lemma plain_weaken:
  "secret_read e \<Longrightarrow> plain e" "ca_read e \<Longrightarrow> plain e" "status_call e \<Longrightarrow> plain e"
  "rbac_call (\<lambda>b. False) e \<Longrightarrow> plain e" "cleanup_call e \<Longrightarrow> plain e"
  "deployment_call D e \<Longrightarrow> plain e"
  by (cases e; simp)+

locale pass_property = trace_property +
  fixes E :: env and injected :: "GitlabClient option"
  assumes plain_event: "plain e \<Longrightarrow> P [e]"
    and rbac: "traces P (CreateRBACIfMissing E x)"
    and runners: "traces P (ensureRunners E injected ca)"
    and client: "client_ok injected"
begin

lemma plain_events: "\<forall>e \<in> set es. plain e \<Longrightarrow> P es"
proof (induction es)
  case (Cons e es)
  then show ?case using append [of "[e]" es] plain_event [of e] by simp
qed (simp add: nil)

lemma of_emits: "emits plain m \<Longrightarrow> traces P m"
  unfolding traces_def emits_def by (blast intro: runs_conseq plain_events)

lemma ready_condition: "traces P (set_ready_condition E b r m)"
  unfolding set_ready_condition_def by (intro bind observe modify_obj)

lemma enforce: "traces P (enforceAllowedBuildNamespaces E rd allowed)"
  unfolding enforceAllowedBuildNamespaces_def BuildNamespaces_def range_keys_def Let_def
  by (intro bind get_obj observe case_prod if_branch return modify_obj ready_condition
        of_emits [OF emits_mono [OF emits_DeleteRBACExcept plain_weaken(4)]])

lemma failure: "traces P (fail_pass E msg reason err)"
  unfolding fail_pass_def by (intro bind modify_obj ready_condition return)

lemma validate: "traces P step \<Longrightarrow> traces P rest \<Longrightarrow> traces P (validate_step E reason step rest)"
  unfolding validate_step_def by (intro bind case_prod if_branch case_option ready_condition return)

lemma secret: "traces P (validate_Secret E toml tokens ca)"
  unfolding validate_Secret_def call_defs Let_def by (intro rules plain_event; simp)

lemma deployment: "traces P (do { y \<leftarrow> get_obj; validate_Deployment E y })"
  by (intro bind get_obj of_emits [OF emits_mono [OF emits_Deployment plain_weaken(6)]])

lemma converge: "traces P (converge_workload E tokens d ca)"
  unfolding converge_workload_def mark_ready_def Let_def
  by (intro bind get_obj case_prod modify_obj case_sum failure validate secret deployment return ready_condition)

lemma pass:
  assumes "rec_GitlabApiClient R = injected" and "retry_laws E" and "fetches fetch"
  shows "traces P (reconcile_with E R fetch req)"
proof -
  have provision: "traces P (provision E R)"
    unfolding provision_def assms(1)
    by (intro bind modify_obj enforce case_prod case_option return if_branch get_obj case_sum failure
          of_emits [OF emits_mono [OF emits_resolveCABundle plain_weaken(2)]] runners rbac converge)
  have update: "traces P (UpdateObj E)"
    unfolding UpdateObj_def by (intro rules plain_event; simp)
  have status: "traces P (write_status E fetch)"
    by (rule of_emits [OF emits_mono [OF emits_write_status [OF assms(2,3)] plain_weaken(3)]])
  have "traces P (fetch k)" for k
    by (rule of_emits) (use assms(3) in \<open>auto simp: fetches_def intro: emits_mono plain_weaken(3)\<close>)
  then show ?thesis
    unfolding reconcile_with_def reconcile_object_def reconcile_live_def
    by (intro bind case_sum return modify_obj if_branch get_obj update provision status
          of_emits [OF emits_mono [OF emits_finalizeDeletion plain_weaken(5)]])
       (simp_all add: assms(1) client)
qed

end

lemma client_ok_None [simp]: "client_ok None"
  by (simp add: client_ok_def)

interpretation persisted_pass: pass_property persisted E None for E
proof unfold_locales
  show "persisted [e]" if "plain e" for e
    using that by (cases e) simp_all
  show "traces persisted (CreateRBACIfMissing E x)" for x
    by (rule persisted_of_emits [OF emits_mono [OF emits_CreateRBAC]]) (auto elim: rbac_call.elims)
qed (simp_all add: persisted_ensureRunners)

lemma roles_first_join: "roles_first es \<Longrightarrow> roles_first fs \<Longrightarrow> roles_first (es @ fs)"
  unfolding roles_first_def by (fastforce simp: append_eq_append_conv2 append_eq_Cons_conv)

lemma no_auth_binding: "auth_event e \<Longrightarrow> e \<noteq> CreateRoleBinding b r"
  by auto

interpretation roles_pass: pass_property roles_first E None for E
proof unfold_locales
  show "roles_first []" by (simp add: roles_first_def)
  show "roles_first (es @ fs)" if "roles_first es" "roles_first fs" for es fs
    using that by (rule roles_first_join)
  show "roles_first [e]" if "plain e" for e
    using that by (intro roles_first_no_bindings) auto
  show "traces roles_first (CreateRBACIfMissing E x)" for x
    by (rule CreateRBAC_roles_first)
  show "traces roles_first (ensureRunners E None ca)" for ca
  proof -
    have "emits auth_event (ensureRunners E None ca)"
      unfolding emits_iff_safe by (rule any_object.safe_ensureRunners) simp
    then show ?thesis
      unfolding traces_def emits_def by (blast intro: runs_conseq roles_first_no_bindings dest: no_auth_binding)
  qed
qed simp

end
