(* ===== verification/Operator_Flags.thy ===== *)
theory Operator_Flags
  imports Auth_Types
begin

text \<open>
  \<open>splitAndTrim\<close> of \<open>cmd/main.go\<close>, which turns the flag \<open>--allowed-build-namespaces\<close> into the
  allow-list of the reconcilers, and \<open>internal/discovery/discovery.go\<close>. A Go string is a byte
  list, so \<open>strings.TrimSpace\<close> strips the UTF-8 encodings of the white-space runes.
\<close>

section \<open>Splitting\<close>

text \<open>\<open>strings.Split(s, ",")\<close>.\<close>

fun split_comma :: "string \<Rightarrow> string list" where
  "split_comma [] = [[]]"
| "split_comma (c # cs) =
     (if c = CHR '','' then [] # split_comma cs
      else case split_comma cs of [] \<Rightarrow> [[c]] | p # ps \<Rightarrow> (c # p) # ps)"

definition bytes :: "int list \<Rightarrow> string" where
  "bytes bs = map (\<lambda>b. char_of b) bs"

text \<open>The encodings of the runes for which \<open>unicode.IsSpace\<close> holds.\<close>

definition white_space :: "string list" where
  "white_space =
     map bytes ([[9], [10], [11], [12], [13], [32], [194, 133], [194, 160], [225, 154, 128]]
       @ map (\<lambda>k. [226, 128, k]) [128..138]
       @ [[226, 128, 168], [226, 128, 169], [226, 128, 175], [226, 129, 159], [227, 128, 128]])"

definition strip_one :: "string list \<Rightarrow> string \<Rightarrow> string option" where
  "strip_one ws s =
     (case List.map_filter (cut_prefix s) ws of [] \<Rightarrow> None | r # rs \<Rightarrow> Some r)"

lemma white_space_nonempty: "[] \<notin> set white_space"
  by (simp add: white_space_def bytes_def)

lemma strip_one_shorter:
  "[] \<notin> set ws \<Longrightarrow> strip_one ws s = Some r \<Longrightarrow> length r < length s"
proof -
  assume ne: "[] \<notin> set ws" and "strip_one ws s = Some r"
  then have "r \<in> set (List.map_filter (cut_prefix s) ws)"
    by (auto simp: strip_one_def split: list.splits)
  then obtain w where "w \<in> set ws" "cut_prefix s w = Some r"
    by (auto simp: List.map_filter_def)
  with ne show ?thesis by (auto simp: cut_prefix_Some)
qed

function strip_front :: "string list \<Rightarrow> string \<Rightarrow> string" where
  "strip_front ws s =
     (if [] \<in> set ws then s
      else case strip_one ws s of None \<Rightarrow> s | Some r \<Rightarrow> strip_front ws r)"
  by pat_completeness auto
termination
  by (relation "measure (\<lambda>(ws, s). length s)") (auto simp: strip_one_shorter)

declare strip_front.simps [simp del]

definition TrimSpace :: "string \<Rightarrow> string" where
  "TrimSpace s = rev (strip_front (map rev white_space) (rev (strip_front white_space s)))"

definition splitAndTrim :: "string \<Rightarrow> string list" where
  "splitAndTrim raw = filter (\<lambda>t. t \<noteq> '''') (map TrimSpace (split_comma raw))"

section \<open>Properties\<close>

definition starts_blank :: "string \<Rightarrow> bool" where
  "starts_blank s = (\<exists>w \<in> set white_space. has_prefix s w)"

definition ends_blank :: "string \<Rightarrow> bool" where
  "ends_blank s = (\<exists>w \<in> set white_space. has_prefix (rev s) (rev w))"

lemma strip_one_None: "strip_one ws s = None \<longleftrightarrow> (\<forall>w \<in> set ws. \<not> has_prefix s w)"
  by (auto simp: strip_one_def List.map_filter_def has_prefix_def split: list.splits)
     (auto simp: filter_eq_Cons_iff filter_empty_conv)

lemma strip_front_done: "[] \<notin> set ws \<Longrightarrow> strip_one ws (strip_front ws s) = None"
proof (induction ws s rule: strip_front.induct)
  case (1 ws s)
  then show ?case
    by (subst strip_front.simps) (auto split: option.splits)
qed

lemma strip_front_id: "strip_one ws s = None \<Longrightarrow> strip_front ws s = s"
  by (subst strip_front.simps) simp

lemma TrimSpace_ends: "\<not> ends_blank (TrimSpace s)"
proof -
  have "[] \<notin> set (map rev white_space)"
    using white_space_nonempty by auto
  from strip_front_done [OF this] show ?thesis
    by (auto simp: ends_blank_def TrimSpace_def strip_one_None)
qed

lemma TrimSpace_id: "\<not> starts_blank s \<Longrightarrow> \<not> ends_blank s \<Longrightarrow> TrimSpace s = s"
  by (simp add: TrimSpace_def starts_blank_def ends_blank_def strip_front_id strip_one_None)

lemma split_comma_nonempty: "split_comma s \<noteq> []"
  by (induction s rule: split_comma.induct) (auto split: list.splits)

lemma split_comma_parts: "p \<in> set (split_comma s) \<Longrightarrow> CHR '','' \<notin> set p"
proof (induction s arbitrary: p rule: split_comma.induct)
  case (2 c cs)
  show ?case
  proof (cases "c = CHR '',''")
    case True
    with 2 show ?thesis by auto
  next
    case False
    obtain q qs where qs: "split_comma cs = q # qs"
      using split_comma_nonempty [of cs] by (cases "split_comma cs") auto
    with 2 False have "CHR '','' \<notin> set q" "\<forall>r \<in> set qs. CHR '','' \<notin> set r" by auto
    with 2 False qs show ?thesis by auto
  qed
qed simp

lemma split_comma_append:
  "CHR '','' \<notin> set p \<Longrightarrow> split_comma (p @ CHR '','' # s) = p # split_comma s"
  by (induction p) auto

lemma split_comma_plain: "CHR '','' \<notin> set p \<Longrightarrow> split_comma p = [p]"
  by (induction p) auto

lemma split_comma_join:
  "xs \<noteq> [] \<Longrightarrow> \<forall>x \<in> set xs. CHR '','' \<notin> set x \<Longrightarrow> split_comma (intercalate '','' xs) = xs"
  by (induction "'',''" xs rule: intercalate.induct) (auto simp: split_comma_append split_comma_plain)

section \<open>The operator's own namespace\<close>

text \<open>
  \<open>discovery.GetNamespace\<close>: \<open>getenv\<close> and the reading of the mounted file are arguments. The
  error it returns for a blank file is the nil error of the read, so it never fails.
\<close>

definition discovery_GetNamespace :: "string \<Rightarrow> goerr + string \<Rightarrow> string \<times> goerr option" where
  "discovery_GetNamespace pod_namespace file_content =
     (if pod_namespace \<noteq> '''' then (pod_namespace, None)
      else case file_content of
        Inr d \<Rightarrow> (let ns = TrimSpace d in if 0 < length ns then (ns, None) else ('''', None))
      | Inl err \<Rightarrow> ('''', None))"

lemma strip_front_chars: "set (strip_front ws s) \<subseteq> set s"
proof (induction ws s rule: strip_front.induct)
  case (1 ws s)
  have "set r \<subseteq> set s" if "strip_one ws s = Some r" for r
    using that by (auto simp: strip_one_def List.map_filter_def cut_prefix_Some split: list.splits if_splits)
      (auto simp: filter_eq_Cons_iff cut_prefix_Some)
  with 1 show ?case
    by (subst strip_front.simps) (auto split: option.splits)
qed

lemma TrimSpace_chars: "set (TrimSpace s) \<subseteq> set s"
  using strip_front_chars [of "map rev white_space" "rev (strip_front white_space s)"] strip_front_chars [of white_space s]
  by (auto simp: TrimSpace_def)

text \<open>Printable ASCII at both ends.\<close>

definition printable :: "char \<Rightarrow> bool" where
  "printable c = (32 < (of_char c :: nat) \<and> (of_char c :: nat) < 127)"

lemma white_space_bytes: "list_all (\<lambda>w. w \<noteq> [] \<and> \<not> printable (hd w) \<and> \<not> printable (last w)) white_space"
  by code_simp

lemma printable_ends:
  assumes "s \<noteq> []" and "printable (hd s)" and "printable (last s)"
  shows "\<not> starts_blank s \<and> \<not> ends_blank s"
proof
  have w: "w \<noteq> [] \<and> \<not> printable (hd w) \<and> \<not> printable (last w)" if "w \<in> set white_space" for w
    using white_space_bytes that by (simp add: list_all_iff)
  show "\<not> starts_blank s"
    using w assms(2) by (force simp: starts_blank_def has_prefix_iff)
  show "\<not> ends_blank s"
  proof
    assume "ends_blank s"
    then obtain u r where u: "u \<in> set white_space" and "rev s = rev u @ r"
      by (auto simp: ends_blank_def has_prefix_iff)
    then have "s = rev r @ u" by (metis rev_append rev_rev_ident)
    with w [OF u] assms(3) show False by auto
  qed
qed

end
