(* ===== verification/Sample.thy ===== *)
theory Sample
  imports Reconcile_Facts Operator_Flags
begin

text \<open>
  A concrete cluster: objects that exist, an API server and a GitLab that answer every call, and
  library functions that satisfy the laws the theorems assume. It shows that those laws can
  hold together, and the theorems are applied to it.
\<close>

section \<open>Objects\<close>

definition sample_meta :: "string \<Rightarrow> ObjectMeta" where
  "sample_meta n = ObjectMeta_zero\<lparr>om_Name := n, om_Namespace := ''ci'', om_UID := ''uid-1'',
     om_Generation := 1, om_Finalizers := [Runner_finalizer]\<rparr>"

definition sample_manager :: ManagerSpec where
  "sample_manager = \<lparr>sp_GitlabInstanceURL = ''https://gitlab.example/'', sp_LogLevel = ''info'',
     sp_Concurrent = 4, sp_CheckInterval = 5, sp_LogFormat = ''json'', sp_RunnerImage = '''',
     sp_RunnerResources = None, sp_RunnerImagePullPolicy = '''', sp_RunnerSecurityContext = None,
     sp_RunnerEnv = None, sp_RunnerNodeSelector = None, sp_RunnerTolerations = None,
     sp_RunnerAffinity = None, sp_RunnerPriorityClassName = '''',
     sp_RunnerTerminationGracePeriodSeconds = None, sp_CACertificate = None\<rparr>"

definition sample_options :: RunnerCreateOptions where
  "sample_options = \<lparr>rco_RunnerType = ''instance_type'', rco_GroupID = None, rco_ProjectID = None,
     rco_Description = ''builds'', rco_Paused = None, rco_Locked = None, rco_RunUntagged = Some True,
     rco_TagList = [''linux''], rco_AccessLevel = '''', rco_MaximumTimeout = None,
     rco_MaintenanceNote = ''''\<rparr>"

definition own_token :: GitlabAuth where
  "own_token = \<lparr>auth_Token = Some \<lparr>ts_Value = ''glrt-1'', ts_SecretKeyRef = None\<rparr>,
     auth_AccessToken = None, auth_CreateOptions = None\<rparr>"

definition managed_auth :: GitlabAuth where
  "managed_auth = \<lparr>auth_Token = None,
     auth_AccessToken = Some \<lparr>ts_Value = ''glpat-1'', ts_SecretKeyRef = None\<rparr>,
     auth_CreateOptions = Some sample_options\<rparr>"

definition no_limits :: ConcurrencyLimits where
  "no_limits = \<lparr>cl_Limit = 0, cl_RequestConcurrency = 0\<rparr>"

definition sample_spec :: "GitlabAuth \<Rightarrow> string \<Rightarrow> RunnerSpec" where
  "sample_spec auth ns = ManagerSpec.extend sample_manager
     (RunnerSpec.fields auth no_limits
        (KubernetesConfig_zero\<lparr>kc_Namespace := ns, kc_PodDisruptionBudget := Some True\<rparr>) None)"

definition sample_status :: RunnerStatus where
  "sample_status = \<lparr>st_Error = '''', st_ConfigMapVersion = '''', st_ObservedGeneration = 0, st_Conditions = [],
     st_Ready = False, rst_RunnerID = 0, rst_TokenExpiresAt = None, rst_RegistrationHash = ''''\<rparr>"

definition sample_runner :: "GitlabAuth \<Rightarrow> string \<Rightarrow> Runner" where
  "sample_runner auth ns =
     \<lparr>res_Meta = sample_meta ''builder'', res_Spec = sample_spec auth ns, res_Status = sample_status\<rparr>"

definition sample_entry :: "string \<Rightarrow> GitlabAuth \<Rightarrow> string \<Rightarrow> MultiRunnerEntry" where
  "sample_entry n auth ns = \<lparr>mre_Name = n, mre_Authentication = auth,
     mre_ExecutorConfig = KubernetesConfig_zero\<lparr>kc_Namespace := ns\<rparr>, mre_Environment = None,
     mre_ConcurrencyLimits = no_limits\<rparr>"

definition sample_multi :: "MultiRunnerEntry list \<Rightarrow> MultiRunner" where
  "sample_multi entries =
     \<lparr>res_Meta = (sample_meta ''pool'')\<lparr>om_Finalizers := [MultiRunner_finalizer]\<rparr>,
      res_Spec = ManagerSpec.extend sample_manager (MultiRunnerSpec.fields '''' entries),
      res_Status = \<lparr>st_Error = '''', st_ConfigMapVersion = '''', st_ObservedGeneration = 0,
        st_Conditions = [], st_Ready = False, mst_RunnerIDs = None, mst_RegistrationHashes = None,
        mst_TokenExpiresAt = None\<rparr>\<rparr>"

section \<open>Answers\<close>

definition not_found :: goerr where
  "not_found = ApiStatus NotFound ''not found''"

text \<open>
  Nothing but the two runner objects exists, every write succeeds, every update is answered with what
  was sent, and the clock stands still.
\<close>

definition sample_cluster :: "(Config \<Rightarrow> goerr + string) \<Rightarrow> Runner \<Rightarrow> MultiRunner \<Rightarrow> env" where
  "sample_cluster encode r m = \<lparr>
     lib_ContainsFinalizer = (\<lambda>fs f. f \<in> set fs),
     lib_AddFinalizer = (\<lambda>fs f. if f \<in> set fs then fs else fs @ [f]),
     lib_RemoveFinalizer = (\<lambda>fs f. filter (\<lambda>g. g \<noteq> f) fs),
     lib_SetStatusCondition = (\<lambda>t cs c. filter (\<lambda>d. cond_Type d \<noteq> cond_Type c) cs @ [c\<lparr>cond_LastTransitionTime := t\<rparr>]),
     toml_encode = encode,
     pem_has_certs = (\<lambda>s. True),
     sdk_new_client = (\<lambda>c. None),
     sem_eq_rules = (\<lambda>a b. a = b),
     sem_eq_shape = (\<lambda>a b. a = b),
     retry_on_conflict = retry_attempts 4,
     float_overflow = 0,
     map_order = (\<lambda>tr ks. ks),
     clock = (\<lambda>tr. 0),
     api_GetSecret = (\<lambda>tr rd k. Inl not_found),
     api_GetConfigMap = (\<lambda>tr rd k. Inl not_found),
     api_GetServiceAccount = (\<lambda>tr k. Inl not_found),
     api_GetRoleBinding = (\<lambda>tr k. Inl not_found),
     api_GetClusterRole = (\<lambda>tr rd n. Inl not_found),
     api_GetDeployment = (\<lambda>tr k. Inl not_found),
     api_GetRunner = (\<lambda>tr k. Inr r),
     api_GetMultiRunner = (\<lambda>tr k. Inr m),
     api_ListRoleBindings = (\<lambda>tr rd sel. Inr []),
     api_ListPods = (\<lambda>tr rd ns sel. Inr []),
     api_CreateSecret = (\<lambda>tr x. None),
     api_CreateServiceAccount = (\<lambda>tr x. None),
     api_CreateRoleBinding = (\<lambda>tr x. None),
     api_CreateClusterRole = (\<lambda>tr x. None),
     api_CreateDeployment = (\<lambda>tr x. None),
     api_UpdateSecret = (\<lambda>tr x. None),
     api_UpdateClusterRole = (\<lambda>tr x. None),
     api_UpdateDeployment = (\<lambda>tr x. Inr x),
     api_UpdateRunner = (\<lambda>tr x. Inr x),
     api_UpdateMultiRunner = (\<lambda>tr x. Inr x),
     api_UpdateRunnerStatus = (\<lambda>tr x. Inr x),
     api_UpdateMultiRunnerStatus = (\<lambda>tr x. Inr x),
     api_DeleteDeployment = (\<lambda>tr k. None),
     api_DeletePod = (\<lambda>tr k. None),
     api_DeleteRoleBinding = (\<lambda>tr k. None),
     sdk_CreateUserRunner = (\<lambda>tr g opts. Inr \<lparr>sdkr_ID = 7, sdkr_Token = ''glrt-7'', sdkr_TokenExpiresAt = None\<rparr>),
     sdk_DeleteRegisteredRunner = (\<lambda>tr g t. (Some 204, None)),
     sdk_RemoveRunner = (\<lambda>tr g i. (Some 204, None)),
     sdk_VerifyRegisteredRunner = (\<lambda>tr g t. (Some 200, None))\<rparr>"

definition sample_world :: "RunnerInfo \<Rightarrow> world" where
  "sample_world x = \<lparr>trace = [], obj = x\<rparr>"

definition sample_reconciler :: RunnerReconciler where
  "sample_reconciler = \<lparr>rec_GitlabApiClient = None, rec_AllowedBuildNamespaces = [''builds'']\<rparr>"

definition sample_env :: env where
  "sample_env = sample_cluster (\<lambda>c. Inr ''concurrent = 4'')
     (sample_runner own_token '''') (sample_multi [sample_entry ''a'' own_token ''''])"

text \<open>The same with a runner of its own choice and an encoder that rejects every document.\<close>

definition no_toml :: "Runner \<Rightarrow> env" where
  "no_toml r = sample_cluster (\<lambda>c. Inl (err_new ''cannot encode'')) r
     (sample_multi [sample_entry ''a'' own_token ''''])"

section \<open>The laws hold\<close>

lemma sample_finalizers [simp]: "finalizer_laws (sample_cluster e r m)"
  by (auto simp: finalizer_laws_def sample_cluster_def)

lemma sample_conditions [simp]: "condition_laws (sample_cluster e r m)"
  by (auto simp: condition_laws_def sample_cluster_def)

lemma sample_updates [simp]: "update_laws (sample_cluster e r m)"
  unfolding update_laws_def
proof (intro allI impI)
  fix tr x y
  assume "ask_update (sample_cluster e r m) x tr = Inr y \<or> ask_update_status (sample_cluster e r m) x tr = Inr y"
  then show "same_unit x y" by (cases x) (auto simp: sample_cluster_def)
qed

lemma sample_retries [simp]: "retry_laws (sample_cluster e r m)"
  by (auto simp: retry_laws_def sample_cluster_def)

lemma sample_client [simp]: "rec_GitlabApiClient sample_reconciler = None"
  by (simp add: sample_reconciler_def)

lemmas sample_defs = sample_env_def no_toml_def

end
