(* ===== verification/Rbac_Properties.thy ===== *)
theory Rbac_Properties
  imports Sample
begin

text \<open>
  The properties of the RBAC component (\<open>Crud\<close>): which bindings an object should have, what a run of
  \<open>CreateRBACIfMissing\<close> that reports no error has established, and what \<open>DeleteRBACExcept\<close> removes.
  Each is followed by its application to the concrete cluster of \<open>Sample\<close>.
\<close>

section \<open>The wanted bindings\<close>

text \<open>
  C31: least privilege of the bindings a runner should have. In each namespace its executor entries
  run builds in, and in no other, the base role is bound; the PodDisruptionBudget role is bound in
  exactly the namespaces of the entries that opted in to it.
\<close>

theorem desired_bindings_least_privilege:
  "k \<in> set (DesiredBindings x (build_namespace_keys x)) \<longleftrightarrow>
     (bk_Namespace k \<in> set (build_namespace_keys x) \<and>
        bk_ClusterRole k = executorClusterRoleName \<and> bk_Name k = ChildName x) \<or>
     (bk_ClusterRole k = executorPDBClusterRoleName \<and> bk_Name k = pdbBindingPrefix @ ChildName x \<and>
        (\<exists>cfg \<in> set (ExecutorConfigs x). entry_namespace x cfg = bk_Namespace k \<and>
           kc_PodDisruptionBudget cfg = Some True))"
proof -
  have opted: "bk_Namespace k \<in> pdbNamespaces x \<longleftrightarrow>
      (\<exists>cfg \<in> set (ExecutorConfigs x). entry_namespace x cfg = bk_Namespace k \<and> kc_PodDisruptionBudget cfg = Some True)"
    unfolding pdbNamespaces_def by force
  show ?thesis
    unfolding opted [symmetric] using pdbNamespaces_subset [of x]
    by (cases k) (auto simp: DesiredBindings_iff base_binding_def grant_binding_def)
qed

text \<open>
  A binding that is there with the right role is left as it is, whatever its subjects and its labels; so an
  edit to them is not undone by any pass.
\<close>

lemma edited_binding_stays:
  "runs (reconcileRoleBinding E x ns name role) w (\<lambda>r es w'. \<forall>b. hd es = GetRoleBinding (nsname ns name) (Inr b) \<longrightarrow>
     rb_RoleRef b = rb_RoleRef (desiredRoleBinding x ns name role) \<longrightarrow> r = None \<and> length es = 1)"
  unfolding reconcileRoleBinding_def call_defs Let_def by (intro runs_rules; simp)

section \<open>Runs of the RBAC step\<close>



text \<open>
  C23: with every RBAC object in place and nothing extra labelled as the runner's,
  \<open>CreateRBACIfMissing\<close> reports no error and writes nothing.
\<close>

theorem rbac_steady_state_writes_nothing:
  assumes "rbac_in_place E x" and "e \<in> set (new_events (CreateRBACIfMissing E x) w)"
  shows "result (CreateRBACIfMissing E x) w = None \<and> reads e"
  using clean_CreateRBAC [OF assms(1), of w] assms(2) by (simp add: clean_def runs_iff)

definition settled_env :: env where
  "settled_env = sample_env\<lparr>
     api_GetClusterRole := \<lambda>tr rd n. Inr \<lparr>cr_Meta = ObjectMeta_zero\<lparr>om_Name := n\<rparr>,
        cr_Rules = (if n = executorClusterRoleName then desiredRoleRules else desiredPDBRules)\<rparr>,
     api_GetServiceAccount := \<lambda>tr k. Inr \<lparr>sa_Meta = ObjectMeta_zero\<rparr>,
     api_GetRoleBinding := \<lambda>tr k. Inr (desiredRoleBinding (RunnerObj (sample_runner own_token '''')) ''ci'' (nn_Name k)
        (if nn_Name k = ''gitlab-runner-builder'' then executorClusterRoleName else executorPDBClusterRoleName))\<rparr>"

lemma settled_in_place: "rbac_in_place settled_env (RunnerObj (sample_runner own_token ''''))"
proof -
  have "DesiredBindings (RunnerObj (sample_runner own_token '''')) (build_namespace_keys (RunnerObj (sample_runner own_token ''''))) =
      [\<lparr>bk_Namespace = ''ci'', bk_Name = ''gitlab-runner-builder'', bk_ClusterRole = executorClusterRoleName\<rparr>,
       \<lparr>bk_Namespace = ''ci'', bk_Name = ''pdb-gitlab-runner-builder'', bk_ClusterRole = executorPDBClusterRoleName\<rparr>]"
    by code_simp
  then show ?thesis
    by (simp add: rbac_in_place_def settled_env_def sample_env_def sample_cluster_def executorClusterRoleName_def
      executorPDBClusterRoleName_def)
qed

theorem rbac_steady_state_writes_nothing_witness:
  "result (CreateRBACIfMissing settled_env (RunnerObj (sample_runner own_token '''')))
     (sample_world (RunnerObj (sample_runner own_token ''''))) = None \<and>
   reads (ListRoleBindings Uncached (rbacLabels (RunnerObj (sample_runner own_token ''''))) (Inr []))"
  by (rule rbac_steady_state_writes_nothing [OF settled_in_place]) code_simp

section \<open>The prune\<close>

definition listed_in :: "BindingKey list \<Rightarrow> RoleBinding \<Rightarrow> bool" where
  "listed_in keep item = (\<exists>k \<in> set keep. bk_Namespace k = om_Namespace (rb_Meta item) \<and> bk_Name k = om_Name (rb_Meta item))"

text \<open>
  C14: \<open>DeleteRBACExcept\<close> deletes exactly what it should. The bindings it deletes carry the
  runner's labels and are not in the keep list by namespace and name; and when it returns nil, no
  labelled binding outside the keep list is left. (A namespace contains no slash.)
\<close>

theorem prune_is_exact:
  assumes "new_events (DeleteRBACExcept E rd x keep) w = ListRoleBindings rd sel (Inr items) # dels"
    and "\<forall>item \<in> set items. CHR ''/'' \<notin> set (om_Namespace (rb_Meta item))"
    and "\<forall>k \<in> set keep. CHR ''/'' \<notin> set (bk_Namespace k)"
  shows "sel = rbacLabels x \<and>
    (\<forall>e \<in> set dels. \<exists>item \<in> set items. deletion_of item e \<and> \<not> listed_in keep item) \<and>
    (result (DeleteRBACExcept E rd x keep) w = None \<longrightarrow>
       (\<forall>item \<in> set items. listed_in keep item \<or> (\<exists>e \<in> set dels. done_deletion_of item e)))"
proof -
  have kept: "pruned_key item \<in> keep_set keep \<longleftrightarrow> listed_in keep item" if "item \<in> set items" for item
    using keep_set_iff [of "om_Namespace (rb_Meta item)" keep] assms(2,3) that
    by (simp add: pruned_key_def listed_in_def)
  show ?thesis
    using runs_DeleteRBACExcept [of E rd x keep w, unfolded runs_iff assms(1)] kept by fastforce
qed

text \<open>One stale binding is listed and removed.\<close>

definition stale_binding :: RoleBinding where
  "stale_binding = desiredRoleBinding (RunnerObj (sample_runner own_token '''')) ''old'' ''gitlab-runner-builder''
     executorClusterRoleName"

definition stale_env :: env where
  "stale_env = sample_env\<lparr>api_ListRoleBindings := \<lambda>tr rd sel. Inr [stale_binding]\<rparr>"

theorem prune_is_exact_witness:
  "\<exists>e \<in> set [DeleteRoleBinding (nsname ''old'' ''gitlab-runner-builder'') None]. done_deletion_of stale_binding e"
proof -
  let ?x = "RunnerObj (sample_runner own_token '''')"
  let ?m = "DeleteRBACExcept stale_env Uncached ?x []"
  have es: "new_events ?m (sample_world ?x) =
      ListRoleBindings Uncached (rbacLabels ?x) (Inr [stale_binding]) #
        [DeleteRoleBinding (nsname ''old'' ''gitlab-runner-builder'') None]"
    by code_simp
  have "result ?m (sample_world ?x) = None" and "CHR ''/'' \<notin> set (om_Namespace (rb_Meta stale_binding))"
    by code_simp+
  then show ?thesis
    using prune_is_exact [OF es] by (simp add: listed_in_def)
qed

end
