(* ===== verification/Rbac_Server.thy ===== *)
theory Rbac_Server
  imports Sample
begin

text \<open>
  RBAC against an API server that keeps state: which RoleBindings exist after the calls made so
  far, what an honest server answers, and the abstract specification of \<open>CreateRBACIfMissing\<close> on the
  set of existing bindings, with the proof that the code implements it. The reads of single bindings
  (\<open>cl.Get\<close> of \<open>reconcileRoleBinding\<close>) go through the manager's cache, which may lag behind the
  server: nothing is assumed of them but the name of the object. \<open>current_reads\<close> says of a run that the
  cache had caught up in it; what holds only then is stated under it.
\<close>

section \<open>The bindings on the server\<close>

definition rb_key :: "RoleBinding \<Rightarrow> NSName" where
  "rb_key b = meta_key (rb_Meta b)"

definition wanted_key :: "BindingKey \<Rightarrow> NSName" where
  "wanted_key d = nsname (bk_Namespace d) (bk_Name d)"

text \<open>The calls that succeed change the set; a server holds one binding per key.\<close>

fun rb_step :: "RoleBinding list \<Rightarrow> event \<Rightarrow> RoleBinding list" where
  "rb_step bs (CreateRoleBinding b None) = b # filter (\<lambda>c. rb_key c \<noteq> rb_key b) bs"
| "rb_step bs (DeleteRoleBinding k None) = filter (\<lambda>c. rb_key c \<noteq> k) bs"
| "rb_step bs e = bs"

definition rb_state :: "RoleBinding list \<Rightarrow> event list \<Rightarrow> RoleBinding list" where
  "rb_state bs es = foldl rb_step bs es"

text \<open>
  Whether an answer of the cached read is up to date: the binding it returns is the one on the server,
  and one it does not find is not there. \<open>current_reads bs es\<close>: all such answers of a run are that
  starts with \<open>bs\<close> on the server.
\<close>

fun current_read :: "RoleBinding list \<Rightarrow> event \<Rightarrow> bool" where
  "current_read bs (GetRoleBinding k (Inr b)) = (b \<in> set bs)"
| "current_read bs (GetRoleBinding k (Inl e)) = (IsNotFound e \<longrightarrow> k \<notin> rb_key ` set bs)"
| "current_read bs e = True"

fun current_reads :: "RoleBinding list \<Rightarrow> event list \<Rightarrow> bool" where
  "current_reads bs [] = True"
| "current_reads bs (e # es) = (current_read bs e \<and> current_reads (rb_step bs e) es)"

lemma current_reads_append:
  "current_reads bs (es @ fs) \<longleftrightarrow> current_reads bs es \<and> current_reads (rb_state bs es) fs"
  by (induction es arbitrary: bs) (simp_all add: rb_state_def)

definition matches :: "string gomap \<Rightarrow> RoleBinding \<Rightarrow> bool" where
  "matches sel b =
     (\<forall>k \<in> fmdom' (case sel of Some f \<Rightarrow> f | None \<Rightarrow> fmempty).
        map_get (om_Labels (rb_Meta b)) k = map_get sel k)"

text \<open>A namespace contains no slash, and no two bindings have the same key.\<close>

definition proper :: "RoleBinding set \<Rightarrow> bool" where
  "proper s = (inj_on rb_key s \<and> (\<forall>b \<in> s. CHR ''/'' \<notin> set (om_Namespace (rb_Meta b))))"

lemma proper_part [intro]: "proper s \<Longrightarrow> proper {c \<in> s. P c}"
  by (auto simp: proper_def inj_on_def)

lemma proper_same: "proper s \<Longrightarrow> b \<in> s \<Longrightarrow> c \<in> s \<Longrightarrow> rb_key c = rb_key b \<Longrightarrow> c = b"
  by (auto simp: proper_def inj_on_def)

lemma proper_put:
  "proper s \<Longrightarrow> CHR ''/'' \<notin> set (om_Namespace (rb_Meta b)) \<Longrightarrow> proper (insert b {c \<in> s. rb_key c \<noteq> rb_key b})"
  by (auto simp: proper_def inj_on_def)

section \<open>The abstract specification\<close>

text \<open>
  From the bindings \<open>s\<close> to \<open>u\<close>: every wanted binding exists and refers to its role; of all other
  bindings exactly those with the runner's labels are gone.
\<close>

abbreviation role_ref :: "string \<Rightarrow> RoleRef" where
  "role_ref role \<equiv> \<lparr>rr_APIGroup = ''rbac.authorization.k8s.io'', rr_Kind = ''ClusterRole'', rr_Name = role\<rparr>"

definition binds :: "BindingKey \<Rightarrow> RoleBinding \<Rightarrow> bool" where
  "binds d b = (rb_key b = wanted_key d \<and> rb_RoleRef b = role_ref (bk_ClusterRole d))"

definition rbac_spec :: "RunnerInfo \<Rightarrow> RoleBinding set \<Rightarrow> RoleBinding set \<Rightarrow> bool" where
  "rbac_spec x s u =
     (let wanted = set (DesiredBindings x (build_namespace_keys x)) in
      (\<forall>d \<in> wanted. \<exists>b \<in> u. binds d b) \<and>
      (\<forall>c. rb_key c \<notin> wanted_key ` wanted \<longrightarrow> (c \<in> u \<longleftrightarrow> c \<in> s \<and> \<not> matches (rbacLabels x) c)))"

text \<open>
  What is left of it when the cache lags: of the other bindings still exactly the labelled ones are gone,
  and no wanted binding that was there is lost; it may keep a wrong role, or a missing one be missed.
\<close>

definition rbac_clean :: "RunnerInfo \<Rightarrow> RoleBinding set \<Rightarrow> RoleBinding set \<Rightarrow> bool" where
  "rbac_clean x s u =
     (let wanted = wanted_key ` set (DesiredBindings x (build_namespace_keys x)) in
      wanted \<inter> rb_key ` s \<subseteq> rb_key ` u \<and>
      (\<forall>c. rb_key c \<notin> wanted \<longrightarrow> (c \<in> u \<longleftrightarrow> c \<in> s \<and> \<not> matches (rbacLabels x) c)))"

text \<open>
  The steps they are made of: one binding put in place (or, on a lagging cache, left as it is), and one
  listed binding pruned.
\<close>

definition put_binding :: "BindingKey \<Rightarrow> RoleBinding set \<Rightarrow> RoleBinding set \<Rightarrow> bool" where
  "put_binding d s u = (\<exists>b. binds d b \<and> u = insert b {c \<in> s. rb_key c \<noteq> wanted_key d})"

definition may_put_binding :: "BindingKey \<Rightarrow> RoleBinding set \<Rightarrow> RoleBinding set \<Rightarrow> bool" where
  "may_put_binding d s u = (u = s \<or> put_binding d s u)"

definition prune_binding :: "string set \<Rightarrow> RoleBinding \<Rightarrow> RoleBinding set \<Rightarrow> RoleBinding set \<Rightarrow> bool" where
  "prune_binding K item s u = (u = (if pruned_key item \<in> K then s else {c \<in> s. rb_key c \<noteq> rb_key item}))"

fun chain :: "('a \<Rightarrow> 's \<Rightarrow> 's \<Rightarrow> bool) \<Rightarrow> 'a list \<Rightarrow> 's \<Rightarrow> 's \<Rightarrow> bool" where
  "chain R [] s u = (s = u)"
| "chain R (x # xs) s u = (\<exists>t. R x s t \<and> chain R xs t u)"

lemma chain_prune:
  "chain (prune_binding K) items s u \<longleftrightarrow>
     u = {c \<in> s. \<not> (\<exists>item \<in> set items. pruned_key item \<notin> K \<and> rb_key item = rb_key c)}"
  by (induction items arbitrary: s) (auto simp: prune_binding_def)

lemma chain_mono: "chain R xs s u \<Longrightarrow> (\<And>x s u. R x s u \<Longrightarrow> R' x s u) \<Longrightarrow> chain R' xs s u"
  by (induction xs arbitrary: s) (simp, fastforce)

lemma chain_may_other:
  "chain may_put_binding ds s u \<Longrightarrow> rb_key c \<notin> wanted_key ` set ds \<Longrightarrow> c \<in> u \<longleftrightarrow> c \<in> s"
  by (induction ds arbitrary: s) (auto simp: may_put_binding_def put_binding_def binds_def)

lemma chain_put_other:
  "chain put_binding ds s u \<Longrightarrow> rb_key c \<notin> wanted_key ` set ds \<Longrightarrow> c \<in> u \<longleftrightarrow> c \<in> s"
  using chain_may_other chain_mono [of put_binding ds s u may_put_binding] may_put_binding_def by blast

lemma chain_may_keys: "chain may_put_binding ds s u \<Longrightarrow> rb_key ` s \<subseteq> rb_key ` u"
proof (induction ds arbitrary: s)
  case (Cons d ds)
  then obtain t where t: "may_put_binding d s t" "chain may_put_binding ds t u" by auto
  from t(1) have "rb_key ` s \<subseteq> rb_key ` t" by (auto simp: may_put_binding_def put_binding_def binds_def)
  with Cons.IH [OF t(2)] show ?case by blast
qed simp

lemma put_binding_key: "rb_key (desiredRoleBinding x (bk_Namespace d) (bk_Name d) role) = wanted_key d"
  by (simp add: rb_key_def meta_key_def wanted_key_def)

text \<open>Two wanted bindings with the same key are the same, so a later one never undoes an earlier one.\<close>

lemma wanted_key_inj:
  assumes "d \<in> set (DesiredBindings x nss)" and "d' \<in> set (DesiredBindings x nss)" and "wanted_key d = wanted_key d'"
  shows "d = d'"
proof -
  have "pdbBindingPrefix @ ChildName x \<noteq> ChildName x" by (simp add: pdbBindingPrefix_def)
  with assms show ?thesis
    by (auto simp: DesiredBindings_iff base_binding_def grant_binding_def wanted_key_def)
qed

lemma chain_put_wanted:
  assumes "chain (put_binding) ds s u" and "d \<in> set ds"
    and "\<forall>d \<in> set ds. \<forall>d' \<in> set ds. wanted_key d = wanted_key d' \<longrightarrow> d = d'"
  shows "\<exists>b \<in> u. binds d b"
  using assms
proof (induction ds arbitrary: s)
  case (Cons e ds)
  then obtain t where t: "put_binding e s t" "chain (put_binding) ds t u" by auto
  show ?case
  proof (cases "d \<in> set ds")
    case True
    with Cons t show ?thesis by (intro Cons.IH [OF t(2)]) auto
  next
    case False
    with Cons.prems(2) have e: "e = d" by simp
    with t(1) obtain b where b: "b \<in> t" "binds d b"
      by (auto simp: put_binding_def)
    have "wanted_key d \<notin> wanted_key ` set ds" using False e Cons.prems(3) by fastforce
    with b show ?thesis using chain_put_other [OF t(2), of b] by (auto simp: binds_def)
  qed
qed simp

section \<open>An honest server\<close>

text \<open>
  The server may fail any call with an error of its own; what it says about the existence of a
  binding when it refuses a write or answers the uncached list is true of its state, which only the
  operator's calls change. A read from the cache returns an object of the name it was asked for; its
  content and its age are free.
\<close>

definition binding_laws :: "env \<Rightarrow> RoleBinding list \<Rightarrow> bool" where
  "binding_laws E s0 =
     ((\<forall>tr k b. api_GetRoleBinding E tr k = Inr b \<longrightarrow> rb_key b = k) \<and>
      (\<forall>tr b e. api_CreateRoleBinding E tr b = Some e \<longrightarrow> IsAlreadyExists e \<longrightarrow>
         rb_key b \<in> rb_key ` set (rb_state s0 tr)) \<and>
      (\<forall>tr k e. api_DeleteRoleBinding E tr k = Some e \<longrightarrow> IsNotFound e \<longrightarrow> k \<notin> rb_key ` set (rb_state s0 tr)) \<and>
      (\<forall>tr sel items. api_ListRoleBindings E tr Uncached sel = Inr items \<longrightarrow>
         set items = {b \<in> set (rb_state s0 tr). matches sel b}))"

lemma binding_answers:
  assumes "binding_laws E s0"
  shows "api_GetRoleBinding E tr k = Inr b \<Longrightarrow> rb_key b = k"
    and "api_CreateRoleBinding E tr b = Some e \<Longrightarrow> IsAlreadyExists e \<Longrightarrow> rb_key b \<in> rb_key ` set (rb_state s0 tr)"
    and "api_DeleteRoleBinding E tr k = Some e \<Longrightarrow> IsNotFound e \<Longrightarrow> k \<notin> rb_key ` set (rb_state s0 tr)"
    and "api_ListRoleBindings E tr Uncached sel = Inr items \<Longrightarrow> set items = {b \<in> set (rb_state s0 tr). matches sel b}"
proof -
  note laws = assms [unfolded binding_laws_def]
  show "api_GetRoleBinding E tr k = Inr b \<Longrightarrow> rb_key b = k"
    by (rule laws [THEN conjunct1, rule_format])
  note laws = laws [THEN conjunct2]
  show "api_CreateRoleBinding E tr b = Some e \<Longrightarrow> IsAlreadyExists e \<Longrightarrow> rb_key b \<in> rb_key ` set (rb_state s0 tr)"
    by (rule laws [THEN conjunct1, rule_format])
  note laws = laws [THEN conjunct2]
  show "api_DeleteRoleBinding E tr k = Some e \<Longrightarrow> IsNotFound e \<Longrightarrow> k \<notin> rb_key ` set (rb_state s0 tr)"
    by (rule laws [THEN conjunct1, rule_format])
  show "api_ListRoleBindings E tr Uncached sel = Inr items \<Longrightarrow> set items = {b \<in> set (rb_state s0 tr). matches sel b}"
    by (rule laws [THEN conjunct2, rule_format])
qed

definition held :: "RoleBinding list \<Rightarrow> world \<Rightarrow> RoleBinding set" where
  "held s0 w = set (rb_state s0 (trace w))"

lemma rb_state_append [simp]: "rb_state s0 (tr @ es) = rb_state (rb_state s0 tr) es"
  "rb_state bs [] = bs" "rb_state bs (e # es) = rb_state (rb_step bs e) es"
  by (simp_all add: rb_state_def)

text \<open>
  \<open>steps s0 m C R\<close>: a run of \<open>m\<close> that reports no error takes the set of bindings along \<open>C\<close>, and along
  \<open>R\<close> if the cache was up to date in it.
\<close>

abbreviation caught_up :: "RoleBinding list \<Rightarrow> world \<Rightarrow> event list \<Rightarrow> bool" where
  "caught_up s0 w \<equiv> current_reads (rb_state s0 (trace w))"

type_synonym set_step = "RoleBinding set \<Rightarrow> RoleBinding set \<Rightarrow> bool"

definition steps :: "RoleBinding list \<Rightarrow> goerr option go \<Rightarrow> set_step \<Rightarrow> set_step \<Rightarrow> bool" where
  "steps s0 m C R = (\<forall>w. proper (held s0 w) \<longrightarrow>
     runs m w (\<lambda>r es w'. r = None \<longrightarrow> proper (held s0 w') \<and> C (held s0 w) (held s0 w') \<and>
       (caught_up s0 w es \<longrightarrow> R (held s0 w) (held s0 w'))))"

lemma steps_weaken:
  "steps s0 m C R \<Longrightarrow> (\<And>s u. proper s \<Longrightarrow> C s u \<Longrightarrow> C' s u) \<Longrightarrow> (\<And>s u. proper s \<Longrightarrow> R s u \<Longrightarrow> R' s u) \<Longrightarrow>
     steps s0 m C' R'"
  unfolding steps_def by (blast intro: runs_conseq)

definition composed :: "set_step \<Rightarrow> set_step \<Rightarrow> set_step" where
  "composed R R' s u = (\<exists>t. proper t \<and> R s t \<and> R' t u)"

lemma steps_and_then:
  assumes "steps s0 m C R" and "steps s0 m' C' R'"
  shows "steps s0 (and_then m m') (composed C C') (composed R R')"
  unfolding steps_def
proof (intro allI impI, rule runs_and_then, rule runs_conseq [OF runs_traced])
  fix w assume "proper (held s0 w)"
  with assms(1) show "runs m w (\<lambda>r es w'. r = None \<longrightarrow> proper (held s0 w') \<and> C (held s0 w) (held s0 w') \<and>
      (caught_up s0 w es \<longrightarrow> R (held s0 w) (held s0 w')))"
    by (simp add: steps_def)
next
  fix w w1 :: world and r es1
  let ?Q = "\<lambda>r es w'. r = None \<longrightarrow> proper (held s0 w') \<and> composed C C' (held s0 w) (held s0 w') \<and>
      (caught_up s0 w es \<longrightarrow> composed R R' (held s0 w) (held s0 w'))"
  assume 1: "trace w1 = trace w @ es1 \<and> (r = None \<longrightarrow> proper (held s0 w1) \<and> C (held s0 w) (held s0 w1) \<and>
      (caught_up s0 w es1 \<longrightarrow> R (held s0 w) (held s0 w1)))"
  have "runs m' w1 (\<lambda>r' es2 w2. ?Q r' (es1 @ es2) w2)" if "r = None"
  proof (rule runs_conseq)
    show "runs m' w1 (\<lambda>r es w'. r = None \<longrightarrow> proper (held s0 w') \<and> C' (held s0 w1) (held s0 w') \<and>
        (caught_up s0 w1 es \<longrightarrow> R' (held s0 w1) (held s0 w')))"
      by (rule assms(2) [unfolded steps_def, rule_format]) (use 1 that in simp)
  next
    fix r' es2 w2
    assume "r' = None \<longrightarrow> proper (held s0 w2) \<and> C' (held s0 w1) (held s0 w2) \<and>
        (caught_up s0 w1 es2 \<longrightarrow> R' (held s0 w1) (held s0 w2))"
    with 1 that show "?Q r' (es1 @ es2) w2"
      by (auto simp: composed_def current_reads_append)
  qed
  then show "case r of
        None \<Rightarrow> runs m' w1 (\<lambda>r' es2 w2. ?Q r' (es1 @ es2) w2)
      | Some e \<Rightarrow> ?Q (Some e) es1 w1"
    by (simp split: option.split)
qed

lemma each_and_then: "each f (x # xs) = and_then (f x) (each f xs)"
  by (simp add: and_then_def)

lemma steps_each:
  assumes "\<And>x. x \<in> set xs \<Longrightarrow> steps s0 (f x) (C x) (R x)"
  shows "steps s0 (each f xs) (chain C xs) (chain R xs)"
  using assms
proof (induction xs)
  case (Cons x xs)
  have "steps s0 (each f (x # xs)) (composed (C x) (chain C xs)) (composed (R x) (chain R xs))"
    unfolding each_and_then by (rule steps_and_then) (use Cons in auto)
  then show ?case by (rule steps_weaken) (auto simp: composed_def)
qed (simp add: steps_def runs_return)

fun writes_binding :: "event \<Rightarrow> bool" where
  "writes_binding (CreateRoleBinding b r) = True"
| "writes_binding (DeleteRoleBinding k r) = True"
| "writes_binding e = False"

lemma writes_nothing: "\<not> writes_binding e \<Longrightarrow> rb_step bs e = bs"
  by (cases e) simp_all

lemma held_unchanged:
  assumes "\<forall>e \<in> set es. \<not> writes_binding e" and "trace w' = trace w @ es"
  shows "held s0 w' = held s0 w"
proof -
  have "foldl rb_step bs es = bs" for bs
    using assms(1) by (induction es) (auto simp: writes_nothing)
  with assms(2) show ?thesis by (simp add: held_def rb_state_def)
qed

lemma runs_unwritten:
  assumes "emits (\<lambda>e. \<not> writes_binding e) m"
  shows "runs m w (\<lambda>r es w'. (\<forall>e \<in> set es. \<not> writes_binding e) \<and> held s0 w' = held s0 w)"
  by (rule runs_conseq [OF runs_traced [OF emitsD [OF assms]]]) (elim conjE, intro conjI held_unchanged, assumption+)

lemma steps_emits:
  assumes "emits (\<lambda>e. \<not> writes_binding e) m"
  shows "steps s0 m (=) (=)"
  unfolding steps_def by (intro allI impI runs_conseq [OF runs_unwritten [OF assms, where ?s0.0 = s0]]) simp

text \<open>What one call does to a set with one binding per key.\<close>

lemma put_present: "proper s \<Longrightarrow> b \<in> s \<Longrightarrow> binds d b \<Longrightarrow> put_binding d s s"
  unfolding put_binding_def by (rule exI [of _ b]) (auto simp: binds_def dest: proper_same)

lemma binds_desired: "binds d (desiredRoleBinding x (bk_Namespace d) (bk_Name d) (bk_ClusterRole d))"
  by (simp add: binds_def put_binding_key)

lemma steps_RoleBinding:
  assumes laws: "binding_laws E s0" and "CHR ''/'' \<notin> set (bk_Namespace d)"
  shows "steps s0 (reconcileRoleBinding E x (bk_Namespace d) (bk_Name d) (bk_ClusterRole d)) (may_put_binding d) (put_binding d)"
proof -
  let ?k = "nsname (bk_Namespace d) (bk_Name d)"
  let ?b = "desiredRoleBinding x (bk_Namespace d) (bk_Name d) (bk_ClusterRole d)"
  have key: "rb_key ?b = ?k" "meta_key (rb_Meta b) = rb_key b" for b by (simp_all add: rb_key_def meta_key_def)
  have put: "put_binding d s (insert ?b {c \<in> s. rb_key c \<noteq> ?k})" for s
    using binds_desired [of d x] unfolding put_binding_def wanted_key_def by blast
  then have may: "may_put_binding d s (insert ?b {c \<in> s. rb_key c \<noteq> ?k})" "may_put_binding d s s" for s
    by (simp_all add: may_put_binding_def)
  have ok: "proper (insert ?b {c \<in> s. rb_key c \<noteq> ?k})" if "proper s" for s
    using proper_put [OF that, of ?b] assms(2) by (simp add: key)
  have here: "put_binding d s s" if "proper s" and "b \<in> s" and "rb_key b = ?k" and "rb_RoleRef b = role_ref (bk_ClusterRole d)" for s b
    using put_present [OF that(1,2)] that(3,4) by (simp add: binds_def wanted_key_def)
  note answers = binding_answers [OF laws]
  show ?thesis
    unfolding steps_def reconcileRoleBinding_def call_defs Let_def held_def
    by (intro allI impI runs_rules; simp add: key tolerate_def split: if_splits option.splits)
       (fastforce simp: key ok put may dest: answers intro: here)+
qed

lemma steps_prune_item:
  assumes laws: "binding_laws E s0"
  shows "steps s0 (prune_item E K item) (prune_binding K item) (prune_binding K item)"
proof -
  have key: "meta_key (rb_Meta b) = rb_key b" for b by (simp add: rb_key_def)
  have gone: "s = {c \<in> s. rb_key c \<noteq> k}" if "k \<notin> rb_key ` s" for s k
    using that by auto
  show ?thesis
    unfolding steps_def prune_item_def call_defs held_def
    by (intro allI impI runs_rules; simp add: key tolerate_def pruned_key_def prune_binding_def split: if_splits option.splits)
       (fastforce dest: binding_answers [OF laws] intro!: gone)+
qed

text \<open>The prune as a step on the whole set: the labelled bindings that are not kept are gone.\<close>

definition prune_all :: "RunnerInfo \<Rightarrow> BindingKey list \<Rightarrow> set_step" where
  "prune_all x keep s u = (u = {c \<in> s. \<not> (matches (rbacLabels x) c \<and> pruned_key c \<notin> keep_set keep)})"

lemma steps_DeleteRBACExcept:
  assumes laws: "binding_laws E s0"
  shows "steps s0 (DeleteRBACExcept E Uncached x keep) (prune_all x keep) (prune_all x keep)"
  unfolding steps_def DeleteRBACExcept_def cl_ListRoleBindings_def
proof (intro allI impI runs_let runs_bind runs_issue runs_case_sum)
  fix w :: world and items
  let ?w = "w\<lparr>trace := trace w @ [ListRoleBindings Uncached (rbacLabels x) (api_ListRoleBindings E (trace w) Uncached (rbacLabels x))]\<rparr>"
  assume one: "proper (held s0 w)" and ans: "api_ListRoleBindings E (trace w) Uncached (rbacLabels x) = Inr items"
  have items: "set items = {b \<in> held s0 w. matches (rbacLabels x) b}" using binding_answers(4) [OF laws ans] by (simp add: held_def)
  have eq: "held s0 ?w = held s0 w" by (simp add: held_def ans)
  have "steps s0 (each (prune_item E (keep_set keep)) items) (chain (prune_binding (keep_set keep)) items)
      (chain (prune_binding (keep_set keep)) items)"
    by (rule steps_each) (rule steps_prune_item [OF laws])
  note r = this [unfolded steps_def, rule_format, of ?w, unfolded eq, OF one]
  have "{c \<in> held s0 w. \<not> (\<exists>item \<in> set items. pruned_key item \<notin> keep_set keep \<and> rb_key item = rb_key c)} =
      {c \<in> held s0 w. \<not> (matches (rbacLabels x) c \<and> pruned_key c \<notin> keep_set keep)}"
    using one by (auto simp: items dest: proper_same)
  with one show "runs (each (prune_item E (keep_set keep)) items) ?w
      (\<lambda>r es w'. r = None \<longrightarrow> proper (held s0 w') \<and> prune_all x keep (held s0 w) (held s0 w') \<and>
        (caught_up s0 w ([ListRoleBindings Uncached (rbacLabels x)
            (api_ListRoleBindings E (trace w) Uncached (rbacLabels x))] @ es) \<longrightarrow>
          prune_all x keep (held s0 w) (held s0 w')))"
    by (intro runs_conseq [OF r]) (simp add: chain_prune prune_all_def proper_part)
qed (simp add: runs_return)

text \<open>The other steps leave the bindings alone.\<close>

lemma steps_ClusterRole: "steps s0 (reconcileClusterRole E name desired converge) (=) (=)"
  unfolding reconcileClusterRole_def call_defs by (intro steps_emits emits_rules; simp)

lemma steps_Sa: "steps s0 (CreateSaIfMissing E x) (=) (=)"
  unfolding CreateSaIfMissing_def call_defs by (intro steps_emits emits_rules; simp)

lemma steps_optional_roles: "steps s0 (ensureOptionalClusterRoles E) (=) (=)"
  unfolding ensure_role_defs reconcileClusterRole_def call_defs
  by (intro steps_emits emits_each emits_rules; simp)

lemma steps_range_keys:
  "(\<And>ys. mset ys = mset ks \<Longrightarrow> steps s0 (f ys) C R) \<Longrightarrow> steps s0 (State_Monad.bind (range_keys E ks) f) C R"
  unfolding steps_def by (intro allI impI runs_range_keys_bind) auto

lemma steps_then: "steps s0 m (=) (=) \<Longrightarrow> steps s0 m' C R \<Longrightarrow> steps s0 (and_then m m') C R"
  by (drule steps_and_then, assumption) (auto simp: composed_def elim: steps_weaken)

lemma rb_key_kept:
  assumes "rb_key b = wanted_key d" and "d \<in> set ds"
  shows "pruned_key b \<in> keep_set ds"
  using assms by (auto simp: pruned_key_def keep_set_def rb_key_def meta_key_def wanted_key_def)

lemma kept_rb_key:
  assumes "pruned_key c \<in> keep_set ds" and "CHR ''/'' \<notin> set (om_Namespace (rb_Meta c))"
    and "\<forall>k \<in> set ds. CHR ''/'' \<notin> set (bk_Namespace k)"
  shows "rb_key c \<in> wanted_key ` set ds"
proof -
  obtain k where "k \<in> set ds" "bk_Namespace k = om_Namespace (rb_Meta c)" "bk_Name k = om_Name (rb_Meta c)"
    using keep_set_iff [OF assms(2,3)] assms(1) by (auto simp: pruned_key_def)
  then show ?thesis by (intro image_eqI [of _ _ k]) (simp_all add: rb_key_def meta_key_def wanted_key_def)
qed

text \<open>Putting all wanted bindings in place and pruning the rest gives the specification.\<close>

lemma bound_no_slash:
  "\<forall>ns \<in> set (build_namespace_keys x). CHR ''/'' \<notin> set ns \<Longrightarrow> d \<in> set (DesiredBindings x (build_namespace_keys x)) \<Longrightarrow>
     CHR ''/'' \<notin> set (bk_Namespace d)"
  using pdbNamespaces_subset [of x] by (auto simp: DesiredBindings_iff base_binding_def grant_binding_def)

lemma rbac_clean_intro:
  assumes ds: "set ds = set (DesiredBindings x (build_namespace_keys x))"
    and slash: "\<forall>ns \<in> set (build_namespace_keys x). CHR ''/'' \<notin> set ns"
    and put: "composed (chain may_put_binding ds) (prune_all x ds) s u"
  shows "rbac_clean x s u"
proof -
  from put obtain t where t: "proper t" "chain may_put_binding ds s t" "prune_all x ds t u"
    unfolding composed_def by blast
  have ns: "\<forall>k \<in> set ds. CHR ''/'' \<notin> set (bk_Namespace k)"
    using bound_no_slash [OF slash] unfolding ds by blast
  have others: "c \<in> u \<longleftrightarrow> c \<in> s \<and> \<not> matches (rbacLabels x) c" if "rb_key c \<notin> wanted_key ` set ds" for c
    using chain_may_other [OF t(2) that] kept_rb_key [OF _ _ ns, of c] t(1,3) that
    unfolding prune_all_def proper_def by auto
  have kept: "wanted_key ` set ds \<inter> rb_key ` s \<subseteq> rb_key ` u"
  proof
    fix k assume k: "k \<in> wanted_key ` set ds \<inter> rb_key ` s"
    then have "k \<in> rb_key ` t" using chain_may_keys [OF t(2)] by (rule subsetD [rotated, OF IntD2])
    then obtain c where c: "c \<in> t" "rb_key c = k" by (rule imageE) simp
    from k obtain d where "d \<in> set ds" "k = wanted_key d" by (elim IntE imageE) simp
    with c have "pruned_key c \<in> keep_set ds" by (intro rb_key_kept) simp_all
    with c t(3) show "k \<in> rb_key ` u" by (auto simp: prune_all_def)
  qed
  show ?thesis
    unfolding rbac_clean_def Let_def ds [symmetric] by (intro conjI allI impI kept others)
qed

lemma rbac_spec_intro:
  assumes ds: "set ds = set (DesiredBindings x (build_namespace_keys x))"
    and slash: "\<forall>ns \<in> set (build_namespace_keys x). CHR ''/'' \<notin> set ns"
    and put: "composed (chain put_binding ds) (prune_all x ds) s u"
  shows "rbac_spec x s u"
proof -
  from put obtain t where t: "proper t" "chain put_binding ds s t" "prune_all x ds t u"
    unfolding composed_def by blast
  have inj: "\<forall>d \<in> set ds. \<forall>d' \<in> set ds. wanted_key d = wanted_key d' \<longrightarrow> d = d'"
    using wanted_key_inj unfolding ds by blast
  have "\<exists>b \<in> u. binds d b" if "d \<in> set ds" for d
    using chain_put_wanted [OF t(2) that inj] rb_key_kept [OF _ that] t(3)
    unfolding prune_all_def binds_def by blast
  moreover have "composed (chain may_put_binding ds) (prune_all x ds) s u"
    unfolding composed_def
    by (intro exI [of _ t] conjI t chain_mono [OF t(2)]) (simp add: may_put_binding_def)
  from rbac_clean_intro [OF ds slash this]
  have "\<forall>c. rb_key c \<notin> wanted_key ` set ds \<longrightarrow> (c \<in> u \<longleftrightarrow> c \<in> s \<and> \<not> matches (rbacLabels x) c)"
    unfolding rbac_clean_def Let_def ds by blast
  ultimately show ?thesis unfolding rbac_spec_def Let_def ds [symmetric] by blast
qed

lemma steps_bind_and_prune:
  assumes laws: "binding_laws E s0" and slash: "\<forall>ns \<in> set (build_namespace_keys x). CHR ''/'' \<notin> set ns"
  shows "steps s0 (bind_and_prune E x) (rbac_clean x) (rbac_spec x)"
  unfolding bind_and_prune_def BuildNamespaces_def
proof (rule steps_range_keys)
  fix ys assume "mset ys = mset (build_namespace_keys x)"
  then have ds: "set (DesiredBindings x ys) = set (DesiredBindings x (build_namespace_keys x))"
    by (rule DesiredBindings_perm)
  then have ok: "d \<in> set (DesiredBindings x ys) \<Longrightarrow> CHR ''/'' \<notin> set (bk_Namespace d)" for d
    using bound_no_slash [OF slash] by simp
  have "steps s0 (and_then (each (\<lambda>key. reconcileRoleBinding E x (bk_Namespace key) (bk_Name key) (bk_ClusterRole key))
      (DesiredBindings x ys)) (and_then (ensureBaseClusterRole E) (DeleteRBACExcept E Uncached x (DesiredBindings x ys))))
      (rbac_clean x) (rbac_spec x)"
    unfolding ensure_role_defs
    by (rule steps_weaken [OF steps_and_then [OF steps_each [OF steps_RoleBinding [OF laws ok]]
          steps_then [OF steps_ClusterRole steps_DeleteRBACExcept [OF laws]]]])
       (assumption, rule rbac_clean_intro [OF ds slash], assumption, rule rbac_spec_intro [OF ds slash], assumption)
  then show "steps s0 (let desired = DesiredBindings x ys in and_then (each (\<lambda>key. reconcileRoleBinding E x
      (bk_Namespace key) (bk_Name key) (bk_ClusterRole key)) desired)
      (and_then (ensureBaseClusterRole E) (DeleteRBACExcept E Uncached x desired))) (rbac_clean x) (rbac_spec x)"
    by (simp add: Let_def)
qed

text \<open>The whole operation.\<close>

lemma steps_CreateRBAC:
  assumes "binding_laws E s0" and "\<forall>ns \<in> set (build_namespace_keys x). CHR ''/'' \<notin> set ns"
  shows "steps s0 (CreateRBACIfMissing E x) (rbac_clean x) (rbac_spec x)"
  unfolding CreateRBACIfMissing_phases ensureClusterRoleExists_def
  by (intro steps_then steps_optional_roles steps_ClusterRole steps_Sa steps_bind_and_prune [OF assms])

section \<open>A settled set is left alone\<close>

text \<open>Every wanted binding is there, and only those carry the runner's labels.\<close>

definition rbac_settled :: "RunnerInfo \<Rightarrow> RoleBinding set \<Rightarrow> bool" where
  "rbac_settled x s =
     (let wanted = set (DesiredBindings x (build_namespace_keys x)) in
      (\<forall>d \<in> wanted. \<exists>b \<in> s. binds d b) \<and>
      (\<forall>c \<in> s. matches (rbacLabels x) c \<longrightarrow> rb_key c \<in> wanted_key ` wanted))"

lemma rbac_spec_settles: "rbac_spec x s u \<Longrightarrow> rbac_settled x u"
  unfolding rbac_spec_def rbac_settled_def Let_def by blast

lemma rbac_clean_labelled:
  "rbac_clean x s u \<Longrightarrow> \<forall>c \<in> u. matches (rbacLabels x) c \<longrightarrow>
     rb_key c \<in> wanted_key ` set (DesiredBindings x (build_namespace_keys x))"
  unfolding rbac_clean_def Let_def by blast

definition idle :: "RoleBinding list \<Rightarrow> RoleBinding set \<Rightarrow> 'a go \<Rightarrow> bool" where
  "idle s0 s m = (\<forall>w. runs m w (\<lambda>r es w'. held s0 w = s \<longrightarrow> caught_up s0 w es \<longrightarrow>
     (\<forall>e \<in> set es. \<not> writes_binding e) \<and> held s0 w' = s))"

lemma idle_emits: "emits (\<lambda>e. \<not> writes_binding e) m \<Longrightarrow> idle s0 s m"
  unfolding idle_def by (intro allI, rule runs_conseq [OF runs_unwritten [where ?s0.0 = s0]]) auto

lemma idle_and_then:
  assumes "idle s0 s m" and "idle s0 s m'"
  shows "idle s0 s (and_then m m')"
  unfolding idle_def
proof (intro allI runs_and_then, rule runs_conseq [OF runs_traced [OF assms(1) [unfolded idle_def, rule_format]]])
  fix w w1 :: world and r es1
  let ?Q = "\<lambda>es w'. held s0 w = s \<longrightarrow> caught_up s0 w es \<longrightarrow> (\<forall>e \<in> set es. \<not> writes_binding e) \<and> held s0 w' = s"
  assume 1: "trace w1 = trace w @ es1 \<and> ?Q es1 w1"
  have "runs m' w1 (\<lambda>r' es2 w2. ?Q (es1 @ es2) w2)"
    by (rule runs_conseq [OF assms(2) [unfolded idle_def, rule_format]]) (use 1 in \<open>auto simp: current_reads_append\<close>)
  with 1 show "case r of
        None \<Rightarrow> runs m' w1 (\<lambda>r' es2 w2. ?Q (es1 @ es2) w2)
      | Some e \<Rightarrow> ?Q es1 w1"
    by (simp split: option.split)
qed

lemma idle_each: "(\<And>y. y \<in> set ys \<Longrightarrow> idle s0 s (f y)) \<Longrightarrow> idle s0 s (each f ys)"
proof (induction ys)
  case (Cons y ys)
  then show ?case unfolding each_and_then by (intro idle_and_then) auto
qed (simp add: idle_def runs_return)

lemma idle_range_keys:
  "(\<And>ys. mset ys = mset ks \<Longrightarrow> idle s0 s (f ys)) \<Longrightarrow> idle s0 s (State_Monad.bind (range_keys E ks) f)"
  unfolding idle_def by (intro allI runs_range_keys_bind) auto

lemma idle_RoleBinding:
  assumes laws: "binding_laws E s0" and "proper s" and "b \<in> s" and "binds d b"
  shows "idle s0 s (reconcileRoleBinding E x (bk_Namespace d) (bk_Name d) (bk_ClusterRole d))"
proof -
  let ?k = "nsname (bk_Namespace d) (bk_Name d)"
  have "b' = b" if "api_GetRoleBinding E (trace w) ?k = Inr b'" "b' \<in> s" for w b'
    using binding_answers(1) [OF laws that(1)] that(2) assms(2-4) proper_same [of s b b']
    by (auto simp: binds_def wanted_key_def)
  moreover have "?k \<in> rb_key ` s"
    using assms(4) imageI [OF assms(3), of rb_key] by (simp add: binds_def wanted_key_def)
  moreover have "rb_RoleRef b = role_ref (bk_ClusterRole d)" using assms(4) by (simp add: binds_def)
  ultimately show ?thesis
    unfolding idle_def reconcileRoleBinding_def call_defs Let_def held_def
    by (intro allI runs_rules; simp; blast)
qed

lemma idle_prune_item: "pruned_key item \<in> K \<Longrightarrow> idle s0 s (prune_item E K item)"
  by (simp add: prune_item_def pruned_key_def idle_def runs_return)

lemma idle_DeleteRBACExcept:
  assumes laws: "binding_laws E s0" and "\<forall>c \<in> s. matches (rbacLabels x) c \<longrightarrow> pruned_key c \<in> keep_set keep"
  shows "idle s0 s (DeleteRBACExcept E Uncached x keep)"
  unfolding idle_def DeleteRBACExcept_def cl_ListRoleBindings_def
proof (intro allI runs_let runs_bind runs_issue runs_case_sum)
  fix w :: world and items
  let ?e = "ListRoleBindings Uncached (rbacLabels x) (api_ListRoleBindings E (trace w) Uncached (rbacLabels x))"
  let ?w = "w\<lparr>trace := trace w @ [?e]\<rparr>"
  assume ans: "api_ListRoleBindings E (trace w) Uncached (rbacLabels x) = Inr items"
  have eq: "held s0 ?w = held s0 w" by (simp add: held_def ans)
  have "runs (each (prune_item E (keep_set keep)) items) ?w (\<lambda>r es w'. held s0 w = s \<longrightarrow> caught_up s0 ?w es \<longrightarrow>
      (\<forall>e \<in> set es. \<not> writes_binding e) \<and> held s0 w' = s)"
  proof (cases "held s0 w = s")
    case True
    then have "idle s0 s (each (prune_item E (keep_set keep)) items)"
      using binding_answers(4) [OF laws ans] assms(2) by (intro idle_each idle_prune_item) (auto simp: held_def)
    then show ?thesis unfolding idle_def eq [symmetric] by blast
  next
    case False
    have "emits unrestricted (each (prune_item E (keep_set keep)) items)"
      unfolding prune_item_def call_defs by (intro emits_each emits_rules; simp)
    with False show ?thesis by (auto dest: emitsD intro: runs_conseq)
  qed
  then show "runs (each (prune_item E (keep_set keep)) items) ?w
      (\<lambda>r es w'. held s0 w = s \<longrightarrow> caught_up s0 w ([?e] @ es) \<longrightarrow> (\<forall>e \<in> set ([?e] @ es). \<not> writes_binding e) \<and> held s0 w' = s)"
    by (rule runs_conseq) simp
qed (auto simp: held_def intro: runs_return)

lemma idle_CreateRBAC:
  assumes laws: "binding_laws E s0" and s: "proper s" "rbac_settled x s"
  shows "idle s0 s (CreateRBACIfMissing E x)"
proof -
  have role: "idle s0 s (reconcileClusterRole E name rules converge)" for name rules converge
    unfolding reconcileClusterRole_def call_defs by (intro idle_emits emits_rules; simp)
  have sa: "idle s0 s (CreateSaIfMissing E x)"
    unfolding CreateSaIfMissing_def call_defs by (intro idle_emits emits_rules; simp)
  have "idle s0 s (bind_and_prune E x)"
    unfolding bind_and_prune_def BuildNamespaces_def Let_def ensure_role_defs
  proof (intro idle_range_keys idle_and_then idle_each role)
    fix ys d
    assume ys: "mset ys = mset (build_namespace_keys x)"
    note ds = DesiredBindings_perm [OF ys, of x]
    show "idle s0 s (DeleteRBACExcept E Uncached x (DesiredBindings x ys))"
      using s(2) rb_key_kept unfolding rbac_settled_def Let_def ds [symmetric]
      by (intro idle_DeleteRBACExcept [OF laws]) blast
    assume "d \<in> set (DesiredBindings x ys)"
    with s(2) obtain b where "b \<in> s" "binds d b" unfolding rbac_settled_def Let_def ds [symmetric] by blast
    then show "idle s0 s (reconcileRoleBinding E x (bk_Namespace d) (bk_Name d) (bk_ClusterRole d))"
      by (rule idle_RoleBinding [OF laws s(1)])
  qed
  then show ?thesis
    unfolding CreateRBACIfMissing_phases ensure_role_defs by (intro idle_and_then idle_each role sa)
qed

lemma CreateRBAC_outcome:
  assumes "binding_laws E s0" and "proper (held s0 w)"
    and "\<forall>ns \<in> set (build_namespace_keys x). CHR ''/'' \<notin> set ns"
    and "result (CreateRBACIfMissing E x) w = None"
  shows "proper (held s0 (after (CreateRBACIfMissing E x) w))"
    and "rbac_clean x (held s0 w) (held s0 (after (CreateRBACIfMissing E x) w))"
    and "caught_up s0 w (new_events (CreateRBACIfMissing E x) w) \<Longrightarrow>
      rbac_spec x (held s0 w) (held s0 (after (CreateRBACIfMissing E x) w))"
  using steps_CreateRBAC [OF assms(1,3)] assms(2,4) by (simp_all add: steps_def runs_iff)

text \<open>
  C15: \<open>CreateRBACIfMissing\<close> implements the specification \<open>rbac_spec\<close>. Against a server that is honest
  about its bindings, and may fail any call, a run that returns nil leads from the set of bindings
  before to one where, of all bindings the runner should not have, exactly those labelled as its own are
  gone, those of anyone else are untouched, and none it should have is lost: that much whatever the
  cache answers. If the cache had caught up with the server in this run, every binding the runner
  should have also exists and refers to its role.
\<close>

theorem rbac_implements_spec:
  assumes "binding_laws E s0" and "proper (held s0 w)"
    and "\<forall>ns \<in> set (build_namespace_keys x). CHR ''/'' \<notin> set ns"
    and "result (CreateRBACIfMissing E x) w = None"
  shows "rbac_clean x (held s0 w) (held s0 (after (CreateRBACIfMissing E x) w)) \<and>
    (current_reads (rb_state s0 (trace w)) (new_events (CreateRBACIfMissing E x) w) \<longrightarrow>
       rbac_spec x (held s0 w) (held s0 (after (CreateRBACIfMissing E x) w)))"
  using CreateRBAC_outcome [OF assms] by blast

text \<open>
  C16: the RBAC step is idempotent once the cache has caught up. After a run that returned nil and was
  answered from an up-to-date cache, as long as nobody else changes the bindings, every further run
  that is answered from an up-to-date cache creates and deletes none, whatever other calls fail: from the
  settled set there is nothing left to do.
\<close>

theorem rbac_runs_once:
  assumes "binding_laws E s0" and "proper (held s0 w)"
    and "\<forall>ns \<in> set (build_namespace_keys x). CHR ''/'' \<notin> set ns"
    and "result (CreateRBACIfMissing E x) w = None"
    and "current_reads (rb_state s0 (trace w)) (new_events (CreateRBACIfMissing E x) w)"
    and "held s0 w' = held s0 (after (CreateRBACIfMissing E x) w)"
    and "current_reads (rb_state s0 (trace w')) (new_events (CreateRBACIfMissing E x) w')"
  shows "\<not> (\<exists>e \<in> set (new_events (CreateRBACIfMissing E x) w'). writes_binding e)"
proof -
  have "proper (held s0 w')" "rbac_settled x (held s0 w')"
    using CreateRBAC_outcome [OF assms(1-4)] assms(5,6) by (simp_all add: rbac_spec_settles)
  from idle_CreateRBAC [OF assms(1) this] assms(7) show ?thesis by (auto simp: idle_def runs_iff)
qed

section \<open>A server that keeps the laws\<close>

definition serving :: "env \<Rightarrow> RoleBinding list \<Rightarrow> env" where
  "serving E s0 = E\<lparr>
     api_GetRoleBinding := \<lambda>tr k. case filter (\<lambda>b. rb_key b = k) (rb_state s0 tr) of
        [] \<Rightarrow> Inl not_found | b # _ \<Rightarrow> Inr b,
     api_CreateRoleBinding := \<lambda>tr b. if rb_key b \<in> set (map rb_key (rb_state s0 tr))
        then Some (ApiStatus AlreadyExists ''already exists'') else None,
     api_DeleteRoleBinding := \<lambda>tr k. if k \<in> set (map rb_key (rb_state s0 tr)) then None else Some not_found,
     api_ListRoleBindings := \<lambda>tr rd sel. Inr (filter (matches sel) (rb_state s0 tr))\<rparr>"

lemma serving_answers:
  "api_GetRoleBinding (serving E s0) tr k =
     (case filter (\<lambda>b. rb_key b = k) (rb_state s0 tr) of [] \<Rightarrow> Inl not_found | b # _ \<Rightarrow> Inr b)"
  "api_CreateRoleBinding (serving E s0) tr b =
     (if rb_key b \<in> rb_key ` set (rb_state s0 tr) then Some (ApiStatus AlreadyExists ''already exists'') else None)"
  "api_DeleteRoleBinding (serving E s0) tr k = (if k \<in> rb_key ` set (rb_state s0 tr) then None else Some not_found)"
  "api_ListRoleBindings (serving E s0) tr rd sel = Inr (filter (matches sel) (rb_state s0 tr))"
  by (simp_all add: serving_def)

lemma serving_finds:
  "api_GetRoleBinding (serving E s0) tr k = Inr b \<Longrightarrow> b \<in> set (rb_state s0 tr) \<and> rb_key b = k"
  "api_GetRoleBinding (serving E s0) tr k = Inl e \<Longrightarrow> k \<notin> rb_key ` set (rb_state s0 tr)"
proof -
  assume "api_GetRoleBinding (serving E s0) tr k = Inr b"
  then obtain cs where "filter (\<lambda>b. rb_key b = k) (rb_state s0 tr) = b # cs"
    unfolding serving_answers by (simp split: list.splits)
  from Cons_eq_filterD [OF this [symmetric]] show "b \<in> set (rb_state s0 tr) \<and> rb_key b = k"
    by auto
next
  assume "api_GetRoleBinding (serving E s0) tr k = Inl e"
  then have "filter (\<lambda>b. rb_key b = k) (rb_state s0 tr) = []"
    unfolding serving_answers by (simp split: list.splits)
  then show "k \<notin> rb_key ` set (rb_state s0 tr)" by (auto simp: filter_empty_conv)
qed

lemma serving_laws: "binding_laws (serving E s0) s0"
  unfolding binding_laws_def
proof (intro conjI allI impI)
  fix tr k and b :: RoleBinding and e sel items
  show "api_GetRoleBinding (serving E s0) tr k = Inr b \<Longrightarrow> rb_key b = k"
    using serving_finds by blast
  show "api_CreateRoleBinding (serving E s0) tr b = Some e \<Longrightarrow> rb_key b \<in> rb_key ` set (rb_state s0 tr)"
    "api_DeleteRoleBinding (serving E s0) tr k = Some e \<Longrightarrow> k \<notin> rb_key ` set (rb_state s0 tr)"
    unfolding serving_answers by (simp_all split: if_splits)
  show "api_ListRoleBindings (serving E s0) tr Uncached sel = Inr items \<Longrightarrow>
      set items = {b \<in> set (rb_state s0 tr). matches sel b}"
    unfolding serving_answers by auto
qed

text \<open>
  The runner \<open>builder\<close> of the namespace \<open>ci\<close>: a binding left over in \<open>old\<close>, one of its own with a wrong
  role, and a binding of somebody else.
\<close>

definition builder :: RunnerInfo where
  "builder = RunnerObj (sample_runner own_token '''')"

definition bindings_before :: "RoleBinding list" where
  "bindings_before =
     [desiredRoleBinding builder ''old'' ''gitlab-runner-builder'' executorClusterRoleName,
      desiredRoleBinding builder ''ci'' ''gitlab-runner-builder'' executorPDBClusterRoleName,
      (desiredRoleBinding builder ''ci'' ''admin'' ''edit'')\<lparr>rb_Meta := ObjectMeta_zero\<lparr>om_Namespace := ''ci'', om_Name := ''admin''\<rparr>\<rparr>]"

abbreviation serving_run :: "goerr option go" where
  "serving_run \<equiv> CreateRBACIfMissing (serving sample_env bindings_before) builder"

lemma serving_run_facts:
  "held bindings_before (sample_world builder) = set bindings_before"
  "proper (set bindings_before)" "\<forall>ns \<in> set (build_namespace_keys builder). CHR ''/'' \<notin> set ns"
  "result serving_run (sample_world builder) = None"
  "current_reads (rb_state bindings_before (trace (sample_world builder))) (new_events serving_run (sample_world builder))"
proof -
  show "held bindings_before (sample_world builder) = set bindings_before"
    by (simp add: held_def rb_state_def sample_world_def)
qed code_simp+

theorem rbac_implements_spec_witness:
  "rbac_spec builder (set bindings_before) (held bindings_before (after serving_run (sample_world builder)))"
  using rbac_implements_spec [OF serving_laws _ serving_run_facts(3,4)] serving_run_facts(1,2,5) by simp

theorem rbac_runs_once_witness:
  "\<not> (\<exists>e \<in> set (new_events serving_run (after serving_run (sample_world builder))). writes_binding e)"
proof -
  have "current_reads (rb_state bindings_before (trace (after serving_run (sample_world builder))))
      (new_events serving_run (after serving_run (sample_world builder)))" by code_simp
  then show ?thesis
    using rbac_runs_once [OF serving_laws _ serving_run_facts(3,4,5) refl] serving_run_facts(1,2) by simp
qed

text \<open>
  A lagging cache: right after the server created the binding, the read does not find it yet. The run
  succeeds all the same (the creation is answered "already exists"), and the binding is not lost.
\<close>

definition lagging :: env where
  "lagging = (serving sample_env bindings_before)\<lparr>api_GetRoleBinding := \<lambda>tr k. Inl not_found\<rparr>"

lemma lagging_run:
  "result (CreateRBACIfMissing lagging builder) (sample_world builder) = None"
  "\<not> current_reads bindings_before (new_events (CreateRBACIfMissing lagging builder) (sample_world builder))"
  by code_simp+

end
