(* ===== verification/Grants.thy ===== *)
theory Grants
  imports Rbac_Server
begin

text \<open>
  What a whole pass leaves behind on a server that keeps state (Rbac_Server): no binding with the
  runner's labels in a namespace the operator does not permit, whether the pass provisions the runner or
  stops at a forbidden namespace and prunes.
\<close>

section \<open>Steps that leave the bindings alone\<close>

lemma idle_calls:
  "secret_read e \<Longrightarrow> \<not> writes_binding e" "gitlab_call e \<Longrightarrow> \<not> writes_binding e" "ca_read e \<Longrightarrow> \<not> writes_binding e"
  "auth_call x e \<Longrightarrow> \<not> writes_binding e" "secret_call d e \<Longrightarrow> \<not> writes_binding e"
  "deployment_call D e \<Longrightarrow> \<not> writes_binding e" "status_call e \<Longrightarrow> \<not> writes_binding e"
  by (cases e; simp)+

lemma runs_held:
  assumes "safe I (\<lambda>e. \<not> writes_binding e) m S" and "I (obj w)"
  shows "runs m w (\<lambda>r es w'. S r \<and> I (obj w') \<and> held s0 w' = held s0 w)"
  using safe_runs [OF assms] held_unchanged by (auto simp: runs_iff)

section \<open>Permitted grants\<close>

definition granted_permitted :: "string list \<Rightarrow> RunnerInfo \<Rightarrow> RoleBinding set \<Rightarrow> bool" where
  "granted_permitted allowed x s =
     (\<forall>c \<in> s. matches (rbacLabels x) c \<longrightarrow> BuildNamespaceAllowed (om_Namespace (rb_Meta c)) (GetNamespace x) allowed)"

lemma same_unit_labels: "same_unit x y \<Longrightarrow> rbacLabels x = rbacLabels y"
  by (simp add: rbacLabels_def same_unit_def)

lemma bound_namespace: "d \<in> set (DesiredBindings x nss) \<Longrightarrow> bk_Namespace d \<in> set nss"
  by (auto simp: DesiredBindings_iff base_binding_def grant_binding_def)

lemma settled_granted:
  assumes "rbac_clean x s u" and "all_allowed allowed x"
  shows "granted_permitted allowed x u"
  unfolding granted_permitted_def
proof (intro ballI impI)
  fix c assume "c \<in> u" "matches (rbacLabels x) c"
  with rbac_clean_labelled [OF assms(1)]
  obtain d where d: "d \<in> set (DesiredBindings x (build_namespace_keys x))" "rb_key c = wanted_key d"
    by blast
  then have "om_Namespace (rb_Meta c) \<in> set (build_namespace_keys x)"
    using bound_namespace by (fastforce simp: rb_key_def meta_key_def wanted_key_def)
  with assms(2) show "BuildNamespaceAllowed (om_Namespace (rb_Meta c)) (GetNamespace x) allowed"
    by (simp add: all_allowed_def)
qed

lemma pruned_granted:
  assumes s: "proper s" and keep: "\<forall>ns \<in> set keep. BuildNamespaceAllowed ns (GetNamespace x) allowed \<and> CHR ''/'' \<notin> set ns"
    and u: "u = {c \<in> s. \<not> (matches (rbacLabels x) c \<and> pruned_key c \<notin> keep_set (DesiredBindings x keep))}"
  shows "granted_permitted allowed x u"
  unfolding granted_permitted_def
proof (intro ballI impI)
  fix c assume c: "c \<in> u" "matches (rbacLabels x) c"
  have "\<forall>k \<in> set (DesiredBindings x keep). CHR ''/'' \<notin> set (bk_Namespace k)"
    using keep bound_namespace by blast
  from kept_rb_key [OF _ _ this, of c] c s u obtain d where "d \<in> set (DesiredBindings x keep)" "rb_key c = wanted_key d"
    by (auto simp: proper_def)
  then show "BuildNamespaceAllowed (om_Namespace (rb_Meta c)) (GetNamespace x) allowed"
    using keep bound_namespace by (fastforce simp: rb_key_def meta_key_def wanted_key_def)
qed

section \<open>The allow-list check\<close>

lemma runs_prune_held:
  assumes "binding_laws E s0" and "proper (held s0 w)"
  shows "runs (DeleteRBACExcept E Uncached y keep) w (\<lambda>r es w'. obj w' = obj w \<and>
    (r = None \<longrightarrow> proper (held s0 w') \<and>
       held s0 w' = {c \<in> held s0 w. \<not> (matches (rbacLabels y) c \<and> pruned_key c \<notin> keep_set keep)}))"
proof -
  have "runs (DeleteRBACExcept E Uncached y keep) w (\<lambda>r es w'. r = None \<longrightarrow> proper (held s0 w') \<and> proper (held s0 w) \<and>
      held s0 w' = {c \<in> held s0 w. \<not> (matches (rbacLabels y) c \<and> pruned_key c \<notin> keep_set keep)})"
    by (rule runs_conseq [OF steps_DeleteRBACExcept [OF assms(1), of y keep, unfolded steps_def prune_all_def, rule_format, OF assms(2)]])
       (use assms(2) in \<open>simp add: proper_part\<close>)
  from runs_keeps [OF keeps_DeleteRBACExcept this] show ?thesis by (rule runs_conseq) (simp add: proper_part)
qed

definition enforced :: "string list \<Rightarrow> RunnerInfo \<Rightarrow> RoleBinding list \<Rightarrow> bool \<times> goerr option \<Rightarrow> world \<Rightarrow> bool" where
  "enforced allowed x s0 r w =
     (same_unit x (obj w) \<and> (snd r = None \<longrightarrow> proper (held s0 w) \<and>
        (if fst r then all_allowed allowed x else granted_permitted allowed x (held s0 w))))"

lemma prune_enforced:
  assumes laws: "binding_laws E s0" and x: "same_unit x (obj w)" and s: "proper (held s0 w)"
    and keep: "\<forall>ns \<in> set keep. BuildNamespaceAllowed ns (GetNamespace x) allowed \<and> CHR ''/'' \<notin> set ns"
  shows "runs (do { x' \<leftarrow> get_obj; err \<leftarrow> DeleteRBACExcept E Uncached x' (DesiredBindings x' keep); ret (False, err) }) w
    (\<lambda>r es w'. enforced allowed x s0 r w')"
proof (rule runs_bind, rule runs_get_obj, rule runs_bind, rule runs_conseq [OF runs_prune_held [OF laws s]], rule runs_return)
  fix r :: "goerr option" and es w'
  assume "obj w' = obj w \<and> (r = None \<longrightarrow> proper (held s0 w') \<and>
      held s0 w' = {c \<in> held s0 w. \<not> (matches (rbacLabels (obj w)) c \<and> pruned_key c \<notin> keep_set (DesiredBindings (obj w) keep))})"
  then show "enforced allowed x s0 (False, r) w'"
    using x pruned_granted [OF s keep refl] same_unit_labels [OF x] same_unit_DesiredBindings [OF x]
    by (simp add: enforced_def proper_part [OF s])
qed

lemma enforce_granted:
  assumes laws: "binding_laws E s0" and x: "same_unit x (obj w)" and s: "proper (held s0 w)"
    and slash: "\<forall>ns \<in> set (build_namespace_keys x). CHR ''/'' \<notin> set ns"
  shows "runs (enforceAllowedBuildNamespaces E Uncached allowed) w (\<lambda>r es w'. enforced allowed x s0 r w')"
  unfolding enforceAllowedBuildNamespaces_def BuildNamespaces_def Let_def
proof (rule runs_bind, rule runs_get_obj, rule runs_range_keys_bind, rule runs_case_prod, rule runs_if)
  fix ys keep bad
  assume ys: "mset ys = mset (build_namespace_keys (obj w))"
    and split: "split_allowed (GetNamespace (obj w)) allowed ys [] '''' = (keep, bad)"
  have own: "GetNamespace (obj w) = GetNamespace x" using x by (simp add: same_unit_def)
  have keys: "set ys = set (build_namespace_keys x)"
    using mset_eq_setD [OF ys] same_unit_keys [OF x] by simp
  show "runs (ret (True, None)) w (\<lambda>r es w'. enforced allowed x s0 r w')" if "bad = ''''"
    using that split split_allowed_bad [of "GetNamespace x" allowed ys "[]" "''''"] own keys x s
    by (intro runs_return) (simp add: enforced_def all_allowed_def)
  have "keep = filter (\<lambda>ns. BuildNamespaceAllowed ns (GetNamespace x) allowed) ys"
    using split_allowed_keep [of "GetNamespace x" allowed ys "[]" "''''"] split own by simp
  with slash keys have keep: "\<forall>ns \<in> set keep. BuildNamespaceAllowed ns (GetNamespace x) allowed \<and> CHR ''/'' \<notin> set ns"
    by simp
  let ?msg = "not_permitted_message bad (GetNamespace (obj w))"
  have 1: "same_unit x (SetStatusError ?msg (obj w))"
    using x same_unit_setters(1) by (rule same_unit_trans)
  show "runs (do { _ \<leftarrow> modify_obj (SetStatusError ?msg);
                _ \<leftarrow> set_ready_condition E False ''ExecutorNamespaceNotAllowed'' ?msg;
                x' \<leftarrow> get_obj;
                err \<leftarrow> DeleteRBACExcept E Uncached x' (DesiredBindings x' keep);
                ret (False, err) }) w (\<lambda>r es w'. enforced allowed x s0 r w')"
    by (rule runs_bind, rule runs_modify_obj, rule runs_bind, rule runs_conseq [OF runs_held [where ?s0.0 = s0, OF safe_set_ready_condition [of x]]],
        simp add: 1, rule prune_enforced [OF laws _ _ keep]) (use s in \<open>simp_all add: held_def\<close>)
qed

section \<open>A whole pass\<close>

definition granted_after :: "string list \<Rightarrow> RunnerInfo \<Rightarrow> RoleBinding list \<Rightarrow> Result \<times> goerr option \<Rightarrow> world \<Rightarrow> bool" where
  "granted_after allowed x s0 r w = (snd r = None \<longrightarrow> granted_permitted allowed x (held s0 w))"

lemma fail_granted: "runs (fail_pass E msg reason err) w (\<lambda>r es w'. granted_after allowed x s0 r w')"
  unfolding fail_pass_def set_ready_condition_def by (intro runs_rules) (simp add: granted_after_def)

lemma rbac_granted:
  assumes laws: "binding_laws E s0" and x: "same_unit x (obj w)" and s: "proper (held s0 w)"
    and slash: "\<forall>ns \<in> set (build_namespace_keys x). CHR ''/'' \<notin> set ns" and ok: "all_allowed allowed x"
  shows "runs (do { y \<leftarrow> get_obj; rb \<leftarrow> CreateRBACIfMissing E y;
      case rb of Some e \<Rightarrow> fail_pass E msg reason e | None \<Rightarrow> converge_workload E tokens d ca }) w
    (\<lambda>r es w'. granted_after allowed x s0 r w')"
proof (rule runs_bind, rule runs_get_obj, rule runs_bind, rule runs_conseq)
  have "runs (CreateRBACIfMissing E (obj w)) w (\<lambda>r es w1. r = None \<longrightarrow> proper (held s0 w1) \<and> rbac_clean (obj w) (held s0 w) (held s0 w1))"
    by (rule runs_conseq [OF steps_CreateRBAC [OF laws, of "obj w", unfolded steps_def, rule_format, OF _ s]])
       (use slash same_unit_keys [OF x] in simp_all)
  from runs_keeps [OF keeps_CreateRBAC this]
  show "runs (CreateRBACIfMissing E (obj w)) w (\<lambda>r es w1.
      (r = None \<longrightarrow> proper (held s0 w1) \<and> rbac_clean (obj w) (held s0 w) (held s0 w1)) \<and> obj w1 = obj w)" .
next
  fix rb :: "goerr option" and es and w1 :: world
  assume 1: "(rb = None \<longrightarrow> proper (held s0 w1) \<and> rbac_clean (obj w) (held s0 w) (held s0 w1)) \<and> obj w1 = obj w"
  have "all_allowed allowed (obj w)" using ok same_unit_allowed [OF x] by simp
  with 1 have g: "granted_permitted allowed x (held s0 w1)" if "rb = None"
    using that settled_granted same_unit_labels [OF x] x
    by (fastforce simp: granted_permitted_def same_unit_def)
  have "runs (converge_workload E tokens d ca) w1 (\<lambda>r es w'. True \<and> same_unit x (obj w') \<and> held s0 w' = held s0 w1)"
    by (rule runs_held [OF safe_converge]) (use x 1 in \<open>auto dest: idle_calls\<close>)
  then have "runs (converge_workload E tokens d ca) w1 (\<lambda>r es w'. granted_after allowed x s0 r w')" if "rb = None"
    by (rule runs_conseq) (use g that in \<open>simp add: granted_after_def\<close>)
  then show "runs (case rb of None \<Rightarrow> converge_workload E tokens d ca | Some e \<Rightarrow> fail_pass E msg reason e) w1
      (\<lambda>r es w'. granted_after allowed x s0 r w')"
    by (cases rb) (simp_all add: fail_granted)
qed

lemma auth_granted:
  assumes laws: "binding_laws E s0" and upd: "update_laws E" and cl: "client_ok injected"
    and x: "same_unit x (obj w)" and s: "proper (held s0 w)"
    and slash: "\<forall>ns \<in> set (build_namespace_keys x). CHR ''/'' \<notin> set ns" and ok: "all_allowed allowed x"
  shows "runs (do { rs \<leftarrow> ensureRunners E injected ca;
      case rs of
        Inl e \<Rightarrow> fail_pass E (err_text e) ''AuthFailed'' e
      | Inr (tokens, requeueAfter) \<Rightarrow>
          do { y \<leftarrow> get_obj; rb \<leftarrow> CreateRBACIfMissing E y;
               case rb of Some e \<Rightarrow> fail_pass E ''Cannot create the rbac objects'' ''RBACFailed'' e
                        | None \<Rightarrow> converge_workload E tokens requeueAfter ca } }) w
    (\<lambda>r es w'. granted_after allowed x s0 r w')"
proof (rule runs_bind, rule runs_conseq, rule runs_held)
  show "safe (same_unit x) (\<lambda>e. \<not> writes_binding e) (ensureRunners E injected ca) unrestricted"
    by (rule safe_weaken [OF object_ensureRunners [OF upd cl]]) (auto dest: idle_calls)
  fix rs :: "goerr + string gomap \<times> duration" and es and w1 :: world
  assume "True \<and> same_unit x (obj w1) \<and> held s0 w1 = held s0 w"
  then show "runs (case rs of
        Inl e \<Rightarrow> fail_pass E (err_text e) ''AuthFailed'' e
      | Inr (tokens, requeueAfter) \<Rightarrow>
          do { y \<leftarrow> get_obj; rb \<leftarrow> CreateRBACIfMissing E y;
               case rb of Some e \<Rightarrow> fail_pass E ''Cannot create the rbac objects'' ''RBACFailed'' e
                        | None \<Rightarrow> converge_workload E tokens requeueAfter ca }) w1
      (\<lambda>r es w'. granted_after allowed x s0 r w')"
    using s by (intro runs_case_sum runs_case_prod fail_granted rbac_granted [OF laws _ _ slash ok]) simp_all
qed (rule x)

lemma provision_granted:
  assumes laws: "binding_laws E s0" and upd: "update_laws E" and cl: "client_ok (rec_GitlabApiClient R)"
    and x: "same_unit x (obj w)" and s: "proper (held s0 w)"
    and slash: "\<forall>ns \<in> set (build_namespace_keys x). CHR ''/'' \<notin> set ns"
  shows "runs (provision E R) w (\<lambda>r es w'. granted_after (rec_AllowedBuildNamespaces R) x s0 r w')"
proof -
  let ?al = "rec_AllowedBuildNamespaces R"
  let ?start = "do { _ \<leftarrow> modify_obj (SetStatusError ''''); _ \<leftarrow> modify_obj (SetStatusReady False);
    modify_obj (\<lambda>x. SetObservedGeneration (GetGeneration x) x) }"
  let ?y = "SetObservedGeneration (GetGeneration (SetStatusReady False (SetStatusError '''' (obj w)))) (SetStatusReady False (SetStatusError '''' (obj w)))"
  have y: "same_unit x ?y"
    by (rule same_unit_trans [OF same_unit_trans [OF same_unit_trans [OF x same_unit_setters(1)] same_unit_setters(2)] same_unit_setters(4)])
  have ca: "safe (same_unit x) (\<lambda>e. \<not> writes_binding e) (resolveCABundle E Uncached ns src) unrestricted" for ns src
    by (rule safe_of_emits [OF emits_mono [OF emits_resolveCABundle] keeps_resolveCABundle]) (rule idle_calls)
  have rest: "runs (do { x \<leftarrow> get_obj; ca \<leftarrow> resolveCABundle E Uncached (GetNamespace x) (CACertificate x);
        case ca of Inl e \<Rightarrow> fail_pass E (err_text e) ''CAResolveFailed'' e | Inr caPEM \<Rightarrow> f caPEM }) w1
      (\<lambda>r es w'. granted_after ?al x s0 r w')"
    if "same_unit x (obj w1)" and "proper (held s0 w1)"
      and "\<And>ca w2. same_unit x (obj w2) \<Longrightarrow> proper (held s0 w2) \<Longrightarrow> runs (f ca) w2 (\<lambda>r es w'. granted_after ?al x s0 r w')"
    for f w1
    by (rule runs_bind, rule runs_get_obj, rule runs_bind, rule runs_conseq [OF runs_held [where ?s0.0 = s0, OF ca that(1)]])
       (use that in \<open>intro runs_case_sum fail_granted; simp\<close>)
  have enf: "runs (enforceAllowedBuildNamespaces E Uncached ?al) (w\<lparr>obj := ?y\<rparr>) (\<lambda>r es w'. enforced ?al x s0 r w')"
    by (rule enforce_granted [OF laws _ _ slash]) (use y s in \<open>simp_all add: held_def\<close>)
  show ?thesis
    unfolding provision_def
    by (rule runs_bind, rule runs_modify_obj, rule runs_bind, rule runs_modify_obj, rule runs_bind, rule runs_modify_obj, simp,
        rule runs_bind, rule runs_conseq [OF enf],
        intro runs_case_prod runs_case_option runs_if runs_return rest auth_granted [OF laws upd cl _ _ slash])
       (simp_all add: enforced_def granted_after_def deref_result_def DontRequeue_def)
qed

lemma pass_granted:
  assumes laws: "binding_laws E s0" and upd: "update_laws E" and retry: "retry_laws E"
    and cl: "client_ok (rec_GitlabApiClient R)" and f: "fetch_spec m fetch" and s: "proper (held s0 w)"
  shows "runs (reconcile_with E R fetch req) w (\<lambda>r es w'. \<forall>x rest. es = GetObject m req (Inr x) # rest \<longrightarrow>
    \<not> IsBeingDeleted x \<longrightarrow> HasFinalizer E x \<longrightarrow> (\<forall>ns \<in> set (build_namespace_keys x). CHR ''/'' \<notin> set ns) \<longrightarrow>
    granted_after (rec_AllowedBuildNamespaces R) x s0 r w')"
  unfolding reconcile_with_def
proof (rule runs_bind, rule runs_conseq)
  have spec: "runs (fetch req) w (\<lambda>r es w'. \<exists>a. es = [GetObject m req a] \<and> r = map_sum id with_status_maps a)"
    using f by (simp add: fetch_spec_def)
  then show "runs (fetch req) w (\<lambda>r es w'. held s0 w' = held s0 w \<and>
      (\<exists>a. es = [GetObject m req a] \<and> r = map_sum id with_status_maps a))"
    using held_unchanged [of "new_events (fetch req) w" "after (fetch req) w" w s0] by (auto simp: runs_iff)
next
  fix r es1 and w1 :: world
  assume "held s0 w1 = held s0 w \<and> (\<exists>a. es1 = [GetObject m req a] \<and> r = map_sum id with_status_maps a)"
  then obtain a where s1: "proper (held s0 w1)" and a: "es1 = [GetObject m req a]" "r = map_sum id with_status_maps a"
    using s by auto
  let ?al = "rec_AllowedBuildNamespaces R"
  have fetches: "fetches fetch" using f by (simp add: fetch_spec_def)
  have "runs (reconcile_object E R fetch (with_status_maps x)) w1 (\<lambda>r es w'. granted_after ?al x s0 r w')"
    if a: "a = Inr x" and x: "\<not> IsBeingDeleted x" "HasFinalizer E x"
      and slash: "\<forall>ns \<in> set (build_namespace_keys x). CHR ''/'' \<notin> set ns" for x
  proof -
    have 1: "runs (provision E R) (w1\<lparr>obj := with_status_maps x\<rparr>) (\<lambda>r es w'. granted_after ?al x s0 r w')"
      by (rule provision_granted [OF laws upd cl _ _ slash]) (use s1 in \<open>simp_all add: with_status_maps_same held_def\<close>)
    have 2: "runs (write_status E fetch) w2 (\<lambda>_ es w'. held s0 w' = held s0 w2)" for w2
    proof -
      have "emits (\<lambda>e. \<not> writes_binding e) (write_status E fetch)"
        by (rule emits_mono [OF emits_write_status [OF retry]]) (use f idle_calls(7) in \<open>simp_all add: fetch_spec_def\<close>)
      from runs_unwritten [OF this] show ?thesis by (rule runs_conseq) (rule conjunct2)
    qed
    show ?thesis
      unfolding reconcile_object_def reconcile_live_def
      by (rule runs_bind, rule runs_modify_obj)
         (use x in \<open>simp add: with_status_maps_deleted with_status_maps_finalizer, intro runs_bind runs_get_obj;
            simp add: with_status_maps_finalizer, intro runs_conseq [OF 1] runs_bind runs_conseq [OF 2] runs_return;
            simp add: granted_after_def\<close>)
  qed
  moreover have "runs (ret v) w1 (\<lambda>r es w'. True)" for v :: "Result \<times> goerr option"
    by (simp add: runs_return)
  ultimately show "runs (case r of Inl err \<Rightarrow> ret (deref_result DontRequeue (IgnoreNotFound err))
                      | Inr x \<Rightarrow> reconcile_object E R fetch x) w1
      (\<lambda>r es w'. \<forall>x rest. es1 @ es = GetObject m req (Inr x) # rest \<longrightarrow>
         \<not> IsBeingDeleted x \<longrightarrow> HasFinalizer E x \<longrightarrow> (\<forall>ns \<in> set (build_namespace_keys x). CHR ''/'' \<notin> set ns) \<longrightarrow>
         granted_after ?al x s0 r w')"
    using runs_conseq [OF runs_reconcile_object [OF upd retry cl fetches, of _ w1], of _ "\<lambda>r es w'. True"]
    unfolding a by (cases a) (auto simp: runs_return runs_iff)
qed

lemma serving_keeps_laws:
  "update_laws E \<Longrightarrow> update_laws (serving E s0)" "retry_laws E \<Longrightarrow> retry_laws (serving E s0)"
proof -
  have "ask_update (serving E s0) x = ask_update E x" "ask_update_status (serving E s0) x = ask_update_status E x" for x
    by (cases x; simp add: serving_def fun_eq_iff)+
  then show "update_laws E \<Longrightarrow> update_laws (serving E s0)" by (simp add: update_laws_def)
  show "retry_laws E \<Longrightarrow> retry_laws (serving E s0)" by (simp add: retry_laws_def serving_def)
qed

end
