(* ===== verification/Auth_Properties.thy ===== *)
theory Auth_Properties
  imports Sample
begin

text \<open>
  The properties of the authentication step: what it does on GitLab, what it records, and which
  tokens it hands to the rendering of the configuration. They are stated for the production client
  (\<open>injected = None\<close>), which is what \<open>cmd/main.go\<close> sets up.
\<close>

definition managed_reg :: "int \<Rightarrow> string \<Rightarrow> GitlabRegInfo" where
  "managed_reg i h = \<lparr>reg_Name = ''builder'', reg_Auth = managed_auth, reg_GitlabUrl = '''',
     reg_CACertificate = None, reg_RunnerID = i, reg_AuthToken = '''', reg_TokenExpiresAt = None,
     reg_RegistrationHash = h\<rparr>"

abbreviation managed_world :: world where
  "managed_world \<equiv> sample_world (RunnerObj (sample_runner managed_auth ''''))"

section \<open>Replacing a runner\<close>

text \<open>
  C6: a stale runner is deleted before its replacement is created. When \<open>recreateManagedRunner\<close>
  knows the old token, every creation it requests comes after a deletion of that token or of that
  runner id which GitLab confirmed (or answered with "not known").
\<close>

theorem stale_runner_deleted_first:
  assumes "t \<noteq> ''''"
    and "new_events (recreateManagedRunner E (managed_client E None reg ca) reg t h) w = pre @ e # post"
    and "gitlab_create e"
  shows "\<exists>d \<in> set pre. stale_deleted t (reg_RunnerID reg) d"
  using recreate_deletes_first [of E reg ca t h w] assms by (simp add: runs_iff preceded_def)

theorem stale_runner_deleted_first_witness:
  "\<exists>d \<in> set [SdkDeleteRegisteredRunner
              \<lparr>gc_Token = ''glpat-1'', gc_BaseURL = defaultGitlabURL, gc_CA = ''''\<rparr> ''glrt-old'' (Some 204, None)].
     stale_deleted ''glrt-old'' (reg_RunnerID (managed_reg 7 '''')) d"
proof (rule stale_runner_deleted_first)
  let ?g = "\<lparr>gc_Token = ''glpat-1'', gc_BaseURL = defaultGitlabURL, gc_CA = ''''\<rparr>"
  let ?s = "\<lparr>sdkr_ID = 7, sdkr_Token = ''glrt-7'', sdkr_TokenExpiresAt = None\<rparr>"
  let ?m = "recreateManagedRunner sample_env (managed_client sample_env None (managed_reg 7 '''') '''') (managed_reg 7 '''')
      ''glrt-old'' ''h''"
  show "new_events ?m managed_world =
      [SdkDeleteRegisteredRunner ?g ''glrt-old'' (Some 204, None)] @
      SdkCreateUserRunner ?g (sdk_create_options sample_options) (Inr ?s) #
      tl (tl (new_events ?m managed_world))"
    by code_simp
  show "gitlab_create (SdkCreateUserRunner ?g (sdk_create_options sample_options) (Inr ?s))" by simp
qed simp

section \<open>Leaving a runner alone\<close>

text \<open>
  C17: no churn. When the runner is registered, its create options are unchanged, its token is known
  and not within a day of its end, the step neither creates, deletes nor writes anything, and it either
  hands on the known token or ends with an error, unless GitLab rejected that token.
\<close>

theorem steady_runner_left_alone:
  assumes "reg_RunnerID reg \<noteq> 0"
    and "reg_RegistrationHash reg = RunnerCreateOptions_Hash (auth_CreateOptions (reg_Auth reg))"
    and "t \<noteq> ''''" and "token_fresh E reg"
    and "\<not> (\<exists>e \<in> set (new_events (ensureManagedRunner E None reg t ca) w). rejected t e)"
  shows "\<not> (\<exists>e \<in> set (new_events (ensureManagedRunner E None reg t ca) w). replaces e) \<and>
    obj (after (ensureManagedRunner E None reg t ca) w) = obj w \<and>
    (isl (result (ensureManagedRunner E None reg t ca) w) \<or>
     result (ensureManagedRunner E None reg t ca) w = Inr (t, reg_TokenExpiresAt reg))"
  using steady_leaves_alone [OF assms(1-4), of ca w, unfolded runs_iff] assms(5)
  by (cases "result (ensureManagedRunner E None reg t ca) w") auto

definition steady_reg :: GitlabRegInfo where
  "steady_reg = managed_reg 7 (RunnerCreateOptions_Hash (Some sample_options))"

lemma steady_run:
  "run_state (ensureManagedRunner sample_env None steady_reg ''glrt-7'' '''') managed_world =
     (Inr (''glrt-7'', None),
      managed_world\<lparr>trace := [SdkVerifyRegisteredRunner
         \<lparr>gc_Token = ''glpat-1'', gc_BaseURL = defaultGitlabURL, gc_CA = ''''\<rparr> ''glrt-7'' (Some 200, None)]\<rparr>)"
  by (simp add: ensureManagedRunner_def steady_reg_def managed_reg_def managed_auth_def verifyManagedRunner_def
    managed_client_def resolveTokenSource_def NewGitlabClient_def gitlabApi_VerifyToken_def sample_env_def
    sample_cluster_def sample_world_def Let_def split_def)

theorem steady_runner_left_alone_witness:
  "\<not> (\<exists>e \<in> set (new_events (ensureManagedRunner sample_env None steady_reg ''glrt-7'' '''') managed_world). replaces e)"
proof -
  have "\<not> (\<exists>e \<in> set (new_events (ensureManagedRunner sample_env None steady_reg ''glrt-7'' '''') managed_world).
      rejected ''glrt-7'' e)"
    by (simp only: new_events_def after_def steady_run snd_conv) (simp add: sample_world_def)
  moreover have "reg_RunnerID steady_reg \<noteq> 0" "token_fresh sample_env steady_reg"
    "reg_RegistrationHash steady_reg = RunnerCreateOptions_Hash (auth_CreateOptions (reg_Auth steady_reg))"
    by (simp_all add: steady_reg_def managed_reg_def managed_auth_def token_fresh_def)
  ultimately show ?thesis using steady_runner_left_alone by blast
qed

section \<open>Recording a new runner\<close>

text \<open>
  C33: a pass creates no more runners than there are managed units. One run of \<open>ensureRunners\<close> creates at
  most as many GitLab runners, in total, as the object has managed units; with none, it creates nothing.
\<close>

theorem one_creation_per_managed_unit:
  "length (filter gitlab_create (new_events (ensureRunners E None ca) w)) \<le>
     length (filter (\<lambda>g. IsManaged (Some (reg_Auth g))) (RegistrationConfig (obj w)))"
  using ensureRunners_creates [of E ca w] by (simp add: runs_iff creates_def managed_units_def)

section \<open>Tokens and the next pass\<close>

text \<open>
  C24: a successful authentication has a token for every unit of the object and for nothing else.
  None of them is empty, unless GitLab itself answered a creation of this very run with an empty
  token; so the rendered configuration lacks none. And the next pass is either not scheduled or
  due in between one minute and one hour.
\<close>

theorem every_unit_has_a_token:
  assumes "result (ensureRunners E None ca) w = Inr (tokens, d)"
  shows "(\<exists>f. tokens = Some f \<and> fmdom' f = reg_Name ` set (RegistrationConfig (obj w)) \<and>
      ((\<exists>n. fmlookup f n = Some '''') \<longrightarrow>
         (\<exists>e \<in> set (new_events (ensureRunners E None ca) w). blank_creation e))) \<and>
    (d = 0 \<or> (minute \<le> d \<and> d \<le> hour))"
  using runs_ensureRunners_result [of E ca w] assms by (auto simp: runs_iff)

theorem every_unit_has_a_token_witness:
  "fmdom' (fmap_of_list [(''builder'', ''glrt-1'')]) =
      reg_Name ` set (RegistrationConfig (RunnerObj (sample_runner own_token ''''))) \<and>
   result (ensureRunners sample_env None '''') (sample_world (RunnerObj (sample_runner own_token ''''))) =
      Inr (Some (fmap_of_list [(''builder'', ''glrt-1'')]), 0)"
proof -
  let ?x = "RunnerObj (sample_runner own_token '''')"
  have res: "result (ensureRunners sample_env None '''') (sample_world ?x) =
      Inr (Some (fmap_of_list [(''builder'', ''glrt-1'')]), 0)" by code_simp
  from every_unit_has_a_token [OF res] res show ?thesis by (simp add: sample_world_def)
qed

end
