(* ===== verification/Render_Properties.thy ===== *)
theory Render_Properties
  imports Sample
begin

text \<open>
  The properties of what a pass writes: the rendered \<open>config.toml\<close>, the Secret that stores it with
  the tokens, and the Deployment of the manager.
\<close>

section \<open>The rendered configuration\<close>

text \<open>
  C28: the namespaces in the rendered configuration are exactly the ones the RBAC step grants
  access in and the allow-list was checked against, for a Runner and for a MultiRunner with entries.
\<close>

theorem config_namespaces_are_build_namespaces:
  "set (config_namespaces (rendered_config E x tokens)) = entry_namespace x ` set (ExecutorConfigs x) \<and>
   set (config_namespaces (rendered_config E x tokens)) \<subseteq> set (build_namespace_keys x) \<and>
   (config_namespaces (rendered_config E x tokens) = [] \<or>
    set (config_namespaces (rendered_config E x tokens)) = set (build_namespace_keys x))"
  unfolding rendered_namespaces build_namespace_keys_set
  by (auto simp: entry_namespace_def)

text \<open>
  C29: a runner of the rendered configuration carries its own unit's token, in the order of the
  spec, and no other unit's.
\<close>

theorem config_carries_own_tokens:
  "map rcfg_Name (cfg_Runners (rendered_config E x tokens)) = map reg_Name (RegistrationConfig x) \<and>
   map (\<lambda>r. rc_Token (rcfg_RunnerCredentials r)) (cfg_Runners (rendered_config E x tokens)) =
     map (\<lambda>g. map_get_or '''' tokens (reg_Name g)) (RegistrationConfig x)"
proof -
  note pairs = rendered_tokens [of E x tokens]
  show ?thesis
    using arg_cong [OF pairs, of "map fst"] arg_cong [OF pairs, of "map snd"] by (simp add: comp_def)
qed

text \<open>
  C37: the limits GitLab Runner would reject are lifted: \<open>concurrent\<close> is at least 1 and
  \<open>check_interval\<close> at least 3, and a larger value is kept. The code computes the maximum over
  \<open>float64\<close>, so this is stated for values below 2 to the 53.
\<close>

theorem config_limits:
  assumes "\<bar>sp_Concurrent (res_Spec r)\<bar> < 2 ^ 53" and "\<bar>sp_CheckInterval (res_Spec r)\<bar> < 2 ^ 53"
    and "\<bar>sp_Concurrent (res_Spec m)\<bar> < 2 ^ 53" and "\<bar>sp_CheckInterval (res_Spec m)\<bar> < 2 ^ 53"
  shows "cfg_Concurrent (rendered_config E (RunnerObj r) tokens) = max 1 (sp_Concurrent (res_Spec r)) \<and>
    cfg_CheckInterval (rendered_config E (RunnerObj r) tokens) = max 3 (sp_CheckInterval (res_Spec r)) \<and>
    cfg_Concurrent (rendered_config E (MultiRunnerObj m) tokens) = max 1 (sp_Concurrent (res_Spec m)) \<and>
    cfg_CheckInterval (rendered_config E (MultiRunnerObj m) tokens) = max 3 (sp_CheckInterval (res_Spec m))"
  by (simp only: rendered_limits RunnerInfo.case) (use assms in \<open>simp add: at_least_exact\<close>)

theorem config_limits_witness:
  "cfg_Concurrent (rendered_config sample_env (RunnerObj (sample_runner own_token '''')) None) = max 1 4"
proof -
  have r: "sp_Concurrent (res_Spec (sample_runner own_token '''')) = 4"
    "sp_CheckInterval (res_Spec (sample_runner own_token '''')) = 5"
    and m: "sp_Concurrent (res_Spec (sample_multi [])) = 4" "sp_CheckInterval (res_Spec (sample_multi [])) = 5"
    by code_simp+
  show ?thesis
    using config_limits [of "sample_runner own_token ''''" "sample_multi []" sample_env None] by (simp add: r m)
qed

section \<open>The config Secret\<close>

text \<open>
  C20: the Secret is a faithful store. What \<open>validate.Secret\<close> writes for a configuration, a token map
  and a CA bundle is what \<open>crud.ExistingConfigTokens\<close>, \<open>crud.ExistingConfigCA\<close> and the manager read
  back, token by token; so two different inputs never give the same data.
\<close>

theorem secret_round_trip:
  "map_get (config_tokens (desired_secret_data toml tokens ca)) n = map_get tokens n \<and>
   config_ca (desired_secret_data toml tokens ca) = ca \<and>
   map_get (desired_secret_data toml tokens ca) ConfigMapKeyName = Some toml"
  using config_secret.tokens_render config_secret.ca_render config_secret.config_render by blast

text \<open>
  C25: the Secret step lets the pass go on only when the API server returned a Secret with exactly
  the wanted data, and then it has written nothing; whatever it writes is the wanted data.
\<close>

theorem secret_step_settles:
  "(fst (result (validate_Secret E toml tokens ca) w) = None \<longrightarrow>
      snd (result (validate_Secret E toml tokens ca) w) = None \<and>
      (\<exists>s. new_events (validate_Secret E toml tokens ca) w =
             [GetSecret Cached (nsname (GetNamespace (obj w)) (ChildName (obj w))) (Inr s)] \<and>
           sec_Data s = desired_secret_data toml tokens ca)) \<and>
   (\<forall>e \<in> set (new_events (validate_Secret E toml tokens ca) w).
      secret_call (desired_secret_data toml tokens ca) e)"
  using runs_Secret_settled [of E toml tokens ca w] emits_Secret [of toml tokens ca E]
  by (simp add: runs_iff emits_def)

theorem secret_step_settles_witness:
  "sec_Data \<lparr>sec_Meta = ObjectMeta_zero, sec_Type = ''Opaque'', sec_Data = desired_secret_data ''t'' None ''''\<rparr> =
     desired_secret_data ''t'' None ''''"
proof -
  let ?s = "\<lparr>sec_Meta = ObjectMeta_zero, sec_Type = ''Opaque'', sec_Data = desired_secret_data ''t'' None ''''\<rparr>"
  let ?E = "sample_env\<lparr>api_GetSecret := \<lambda>tr rd k. Inr ?s\<rparr>"
  let ?w = "sample_world (RunnerObj (sample_runner own_token ''''))"
  have "run_state (validate_Secret ?E ''t'' None '''') ?w =
      ((None, None), ?w\<lparr>trace := [GetSecret Cached
          (nsname (GetNamespace (obj ?w)) (ChildName (obj ?w))) (Inr ?s)]\<rparr>)"
    by (simp add: validate_Secret_def cl_GetSecret_def Let_def sample_world_def)
  then show ?thesis
    using secret_step_settles [of ?E "''t''" None "''''" ?w]
    by (simp add: result_def new_events_def after_def sample_world_def)
qed

section \<open>The Deployment\<close>

text \<open>
  C26: the Deployment step, its exact calls and its exact result on every answer of the API server.
  A missing Deployment is created as wanted, and a created one asks for another pass at once. Any
  other failed read writes nothing and hands its error on. A changed Deployment is updated to the
  wanted one at the version that was read; the pass goes on only when the object the server stored
  still differs from the wanted one, and otherwise another pass is asked for at once. An unchanged
  one is left alone and the pass goes on. A refused write is handed on as the error it is.
\<close>

theorem deployment_step_outcomes:
  "\<exists>ans writes.
     new_events (validate_Deployment E x) w = GetDeployment (nsname (GetNamespace x) (ChildName x)) ans # writes \<and>
     (case ans of
        Inl e \<Rightarrow>
          (if IsNotFound e
           then \<exists>a. writes = [CreateDeployment (wantedDeployment x) a] \<and>
                result (validate_Deployment E x) w =
                  (case a of Some e' \<Rightarrow> (RequeueWithDefaultTimeout, Some e') | None \<Rightarrow> (RequeueNow, None))
           else writes = [] \<and> result (validate_Deployment E x) w = (RequeueWithDefaultTimeout, Some e))
      | Inr live \<Rightarrow>
          (if deployment_changed E x live
           then \<exists>a. writes = [UpdateDeployment (at_version (om_ResourceVersion (dep_Meta live)) (wantedDeployment x)) a] \<and>
                result (validate_Deployment E x) w =
                  (case a of
                     Inl e \<Rightarrow> (RequeueWithDefaultTimeout, Some e)
                   | Inr stored \<Rightarrow>
                       (if sem_eq_shape E (ManagerPodShape (wanted_template x)) (ManagerPodShape (dep_Template stored))
                        then (RequeueNow, None) else (None, None)))
           else writes = [] \<and> result (validate_Deployment E x) w = (None, None)))"
  using runs_Deployment [of E x w] unfolding runs_iff by blast

text \<open>
  C32: no write loop with an admission webhook. A Deployment that differs from the wanted one only by
  containers a webhook added, in front of the manager container or behind it, counts as unchanged.
\<close>

theorem injected_sidecars_ignored:
  assumes "\<forall>s. sem_eq_shape E s s"
    and "map_get (om_Annotations (dep_Meta live)) ConfigVersionAnnotationKey = Some (ConfigMapVersion x)"
    and "dep_Template live = (wanted_template x)\<lparr>pt_Spec := (pt_Spec (wanted_template x))\<lparr>
                ps_Containers := pre @ manager_container x # post\<rparr>\<rparr>"
    and "\<forall>c \<in> set pre. con_Name c \<noteq> RunnerContainerName"
  shows "\<not> deployment_changed E x live"
  using assms by (intro sidecars_not_a_change) auto

definition sidecar :: Container where
  "sidecar = (manager_container (RunnerObj (sample_runner own_token '''')))\<lparr>con_Name := ''istio-proxy''\<rparr>"

definition meshed_deployment :: Deployment where
  "meshed_deployment = (let x = RunnerObj (sample_runner own_token '''') in
     (wantedDeployment x)\<lparr>dep_Template := (wanted_template x)\<lparr>pt_Spec := (pt_Spec (wanted_template x))\<lparr>
        ps_Containers := [sidecar] @ manager_container x # [sidecar]\<rparr>\<rparr>\<rparr>)"

theorem injected_sidecars_ignored_witness:
  "\<not> deployment_changed sample_env (RunnerObj (sample_runner own_token '''')) meshed_deployment"
proof (rule injected_sidecars_ignored)
  show "\<forall>s. sem_eq_shape sample_env s s"
    by (simp add: sample_env_def sample_cluster_def)
  show "dep_Template meshed_deployment = (wanted_template (RunnerObj (sample_runner own_token '''')))\<lparr>
      pt_Spec := (pt_Spec (wanted_template (RunnerObj (sample_runner own_token ''''))))\<lparr>ps_Containers :=
        [sidecar] @ manager_container (RunnerObj (sample_runner own_token '''')) # [sidecar]\<rparr>\<rparr>"
    by (simp add: meshed_deployment_def Let_def)
  show "map_get (om_Annotations (dep_Meta meshed_deployment)) ConfigVersionAnnotationKey =
      Some (ConfigMapVersion (RunnerObj (sample_runner own_token '''')))"
    by (simp add: meshed_deployment_def wantedDeployment_def manager_annotations_def map_get_def Let_def
      ConfigVersionAnnotationKey_def SystemIDAnnotationKey_def)
  show "\<forall>c \<in> set [sidecar]. con_Name c \<noteq> RunnerContainerName"
    by (simp add: sidecar_def RunnerContainerName_def)
qed

end
