(* ===== verification/Finalize_Properties.thy ===== *)
theory Finalize_Properties
  imports Sample
begin

text \<open>
  The properties of the deletion of a runner: the drain, the removal of its GitLab runners, the
  bounded number of attempts, and when the finalizer goes.
\<close>

section \<open>Draining\<close>

text \<open>
  C30: which pods a drain touches. Every call of \<open>drainManager\<close> deletes the runner's own Deployment,
  lists the pods with the manager's labels in its namespace, or deletes a listed pod that is owned
  by a ReplicaSet of that Deployment and is not terminating yet; build pods are never deleted.
\<close>

theorem drain_touches_only_managers:
  assumes "e \<in> set (new_events (drainManager E x now) w)"
  shows "(\<exists>a. e = DeleteDeployment (nsname (GetNamespace x) (ChildName x)) a) \<or>
    (\<exists>ans. e = ListPods Uncached (GetNamespace x) (ManagerPodLabels x) ans) \<or>
    (\<exists>pods p. ListPods Uncached (GetNamespace x) (ManagerPodLabels x) (Inr pods) \<in> set (new_events (drainManager E x now) w) \<and>
       p \<in> set pods \<and> isManagerPod p (ChildName x) \<and> om_DeletionTimestamp (pod_Meta p) = None \<and>
       (\<exists>a. e = DeletePod (meta_key (pod_Meta p)) a))"
proof -
  have del: "\<exists>a. e = DeletePod (meta_key (pod_Meta p)) a" if "pod_deletion p e" for p
    using that by (cases e) auto
  have "drain_calls x (new_events (drainManager E x now) w)"
    using runs_drain [of E x now w] by (simp add: runs_iff)
  with assms show ?thesis
    by (fastforce simp: drain_calls_def pods_listed_def managers_def stop_time_def dest: del)
qed

definition manager_pod :: "string \<Rightarrow> time option \<Rightarrow> Pod" where
  "manager_pod n stop = \<lparr>pod_Meta = ObjectMeta_zero\<lparr>om_Name := n, om_Namespace := ''ci'',
     om_DeletionTimestamp := stop,
     om_OwnerReferences := [\<lparr>or_APIVersion = ''apps/v1'', or_Kind = ''ReplicaSet'',
       or_Name = ''gitlab-runner-builder-6f'', or_UID = '''', or_Controller = Some True,
       or_BlockOwnerDeletion = None\<rparr>]\<rparr>\<rparr>"

definition build_pod :: Pod where
  "build_pod = \<lparr>pod_Meta = ObjectMeta_zero\<lparr>om_Name := ''build'', om_Namespace := ''ci''\<rparr>\<rparr>"

definition drain_env :: "Pod list \<Rightarrow> env" where
  "drain_env pods = sample_env\<lparr>api_ListPods := \<lambda>tr rd ns sel. Inr pods\<rparr>"

abbreviation own_runner :: RunnerInfo where
  "own_runner \<equiv> RunnerObj (sample_runner own_token '''')"

theorem drain_touches_only_managers_witness:
  "\<exists>p. isManagerPod p ''gitlab-runner-builder'' \<and> DeletePod (nsname ''ci'' ''m'') None = DeletePod (meta_key (pod_Meta p)) None"
proof -
  have "DeletePod (nsname ''ci'' ''m'') None
      \<in> set (new_events (drainManager (drain_env [build_pod, manager_pod ''m'' None]) own_runner 0) (sample_world own_runner))"
    by code_simp
  moreover have "ChildName own_runner = ''gitlab-runner-builder''" by code_simp
  ultimately show ?thesis
    using drain_touches_only_managers by fastforce
qed

text \<open>
  C21: when the drain counts as finished. \<open>drainManager\<close> answers true exactly when the listing has no
  manager pod left, or all of them are terminating and the latest of their deadlines is more than
  a minute past.
\<close>

theorem drain_finished_iff:
  assumes "result (drainManager E x now) w = Inr b"
  shows "\<exists>pods. ListPods Uncached (GetNamespace x) (ManagerPodLabels x) (Inr pods) \<in> set (new_events (drainManager E x now) w) \<and>
    (b \<longleftrightarrow> managers (ChildName x) pods = [] \<or>
       ((\<forall>p \<in> set (managers (ChildName x) pods). stop_time p \<noteq> None) \<and>
        last_stop zero_time (managers (ChildName x) pods) + drainMargin < now))"
proof -
  let ?es = "new_events (drainManager E x now) w" and ?r = "result (drainManager E x now) w"
  let ?d = "DeleteDeployment (nsname (GetNamespace x) (ChildName x))"
  let ?l = "ListPods Uncached (GetNamespace x) (ManagerPodLabels x)"
  have "\<exists>a. ?es = [?d a] \<and> (\<exists>e. ?r = Inl e) \<or> (\<exists>ans dels. ?es = ?d a # ?l ans # dels \<and>
      (case ans of Inl e \<Rightarrow> ?r = Inl e \<and> dels = []
       | Inr pods \<Rightarrow> (\<forall>e \<in> set dels. \<exists>p \<in> set (managers (ChildName x) pods). stop_time p = None \<and> pod_deletion p e) \<and>
          (\<forall>b. ?r = Inr b \<longrightarrow> b = drained_spec (ChildName x) pods now)))"
    using runs_drainManager [of E x now w] unfolding runs_iff by blast
  then obtain a ans dels where es: "?es = ?d a # ?l ans # dels"
    and ans: "case ans of Inl e \<Rightarrow> ?r = Inl e \<and> dels = []
       | Inr pods \<Rightarrow> (\<forall>e \<in> set dels. \<exists>p \<in> set (managers (ChildName x) pods). stop_time p = None \<and> pod_deletion p e) \<and>
          (\<forall>b. ?r = Inr b \<longrightarrow> b = drained_spec (ChildName x) pods now)"
    using assms by auto
  show ?thesis
    using es ans assms by (cases ans) (auto simp: drained_spec_def)
qed

theorem drain_finished_iff_witness:
  "\<exists>pods. ListPods Uncached ''ci'' (ManagerPodLabels own_runner) (Inr pods)
      \<in> set (new_events (drainManager (drain_env [build_pod, manager_pod ''m'' (Some 5)]) own_runner 0) (sample_world own_runner)) \<and>
    (False \<longleftrightarrow> managers ''gitlab-runner-builder'' pods = [] \<or>
       ((\<forall>p \<in> set (managers ''gitlab-runner-builder'' pods). stop_time p \<noteq> None) \<and>
        last_stop zero_time (managers ''gitlab-runner-builder'' pods) + drainMargin < 0))"
proof -
  have "ChildName own_runner = ''gitlab-runner-builder''" "GetNamespace own_runner = ''ci''" by code_simp+
  moreover have "result (drainManager (drain_env [build_pod, manager_pod ''m'' (Some 5)]) own_runner 0) (sample_world own_runner) = Inr False"
    by code_simp
  ultimately show ?thesis using drain_finished_iff by metis
qed

section \<open>The order of a deletion\<close>



text \<open>
  C12: a removal that reports success has deleted the GitLab runner of every managed unit that had
  one, by the token in the config Secret or by its id, and has made no other kind of call.
\<close>

theorem removal_deletes_all:
  assumes "result (removeManagedRunners E None) w = None"
  shows "all_deleted (obj w) (new_events (removeManagedRunners E None) w) \<and>
    (\<forall>e \<in> set (new_events (removeManagedRunners E None) w). removal_call e)"
  using runs_removeManagedRunners [of E w] assms by (simp add: runs_iff)

definition registered_runner :: RunnerInfo where
  "registered_runner = StoreRunnerRegistration
     \<lparr>reg_Name = ''builder'', reg_Auth = managed_auth, reg_GitlabUrl = '''', reg_CACertificate = None,
      reg_RunnerID = 7, reg_AuthToken = '''', reg_TokenExpiresAt = None, reg_RegistrationHash = ''h''\<rparr>
     (RunnerObj (sample_runner managed_auth ''''))"

theorem removal_deletes_all_witness:
  "all_deleted registered_runner (new_events (removeManagedRunners sample_env None) (sample_world registered_runner))"
proof -
  have "result (removeManagedRunners sample_env None) (sample_world registered_runner) = None" by code_simp
  moreover have "obj (sample_world registered_runner) = registered_runner" by (simp add: sample_world_def)
  ultimately show ?thesis using removal_deletes_all by metis
qed

section \<open>Deleting one runner on GitLab\<close>







section \<open>Counting attempts\<close>

text \<open>
  C36: the attempt counter survives the annotation: a 64-bit count written by \<open>setDeleteAttempts\<close>
  is the count \<open>deleteAttempts\<close> reads, and writing it leaves the finalizer where it is. An annotation
  that is missing, or that is no number (an optional sign and decimal digits), reads as 0; and
  whatever the annotation holds, the count that is read fits 64 bits.
\<close>

theorem attempts_round_trip:
  assumes "in_int64 n"
  shows "deleteAttempts (setDeleteAttempts n x) = n \<and>
    HasFinalizer L (setDeleteAttempts n x) = HasFinalizer L x \<and>
    (map_get (GetAnnotations x) deleteAttemptsAnnotation = None \<longrightarrow> deleteAttempts x = 0) \<and>
    (\<forall>v. map_get (GetAnnotations x) deleteAttemptsAnnotation = Some v \<longrightarrow> \<not> numeral_text v \<longrightarrow>
       deleteAttempts x = 0) \<and>
    in_int64 (deleteAttempts x)"
  using assms deleteAttempts_default [of x] deleteAttempts_range [of x] by (simp add: deleteAttempts_set)

definition garbled_runner :: RunnerInfo where
  "garbled_runner = SetAnnotations (Some (fmap_of_list [(deleteAttemptsAnnotation, ''4x'')])) own_runner"

theorem attempts_round_trip_witness:
  "deleteAttempts (setDeleteAttempts (- 12) garbled_runner) = - 12 \<and> deleteAttempts garbled_runner = 0"
proof -
  have "in_int64 (- 12)" by (simp add: in_int64_def int64_min_def int64_max_def)
  moreover have "map_get (GetAnnotations garbled_runner) deleteAttemptsAnnotation = Some ''4x''" by code_simp
  moreover have "\<not> numeral_text ''4x''" by code_simp
  ultimately show ?thesis using attempts_round_trip [of "- 12" garbled_runner sample_env] by blast
qed

end
