(* ===== verification/Deletion_Progress.thy ===== *)
theory Deletion_Progress
  imports Finalize_Properties
begin

text \<open>
  Deletion over several passes: what the API server stores between two passes, the passes as a
  transition system, and the proof that a deletion ends however often GitLab refuses.
\<close>

section \<open>What is stored between two passes\<close>

text \<open>The object a later pass reads: the answer to the last successful update.\<close>

fun store_event :: "RunnerInfo \<Rightarrow> event \<Rightarrow> RunnerInfo" where
  "store_event x (UpdateObject y (Inr z)) = z"
| "store_event x e = x"

definition stored :: "RunnerInfo \<Rightarrow> event list \<Rightarrow> RunnerInfo" where
  "stored x es = foldl store_event x es"

lemma stored_append [simp]: "stored x (es @ fs) = stored (stored x es) fs"
  by (simp add: stored_def)

lemma stored_simps [simp]:
  "stored x [] = x" "stored x (e # es) = stored (store_event x e) es"
  by (simp_all add: stored_def)

lemma stored_kept:
  assumes "\<forall>e \<in> set es. \<forall>y. store_event y e = y"
  shows "stored x es = x"
  using assms by (induction es) (simp_all add: stored_def)

lemma store_event_calls:
  "removal_call e \<Longrightarrow> store_event x e = x" "rbac_call (\<lambda>b. False) e \<Longrightarrow> store_event x e = x"
  by (cases e; simp)+

text \<open>The API server accepts the updates of a pass and stores annotations and finalizers as sent.\<close>

fun accepted :: "env \<Rightarrow> event \<Rightarrow> bool" where
  "accepted E (UpdateObject y (Inl e)) = False"
| "accepted E (UpdateObject y (Inr z)) =
     (GetAnnotations z = GetAnnotations y \<and> HasFinalizer E z = HasFinalizer E y)"
| "accepted E e = (\<not> refused e)"

section \<open>One pass\<close>

lemma accepted_update: "accepted E (UpdateObject y a) \<longleftrightarrow>
    (\<exists>z. a = Inr z \<and> GetAnnotations z = GetAnnotations y \<and> HasFinalizer E z = HasFinalizer E y)"
  by (cases a) simp_all

lemma accepted_single:
  assumes "\<exists>a. es = [UpdateObject y a]" and "\<forall>e \<in> set es. accepted E e"
  shows "\<exists>z. es = [UpdateObject y (Inr z)] \<and> GetAnnotations z = GetAnnotations y"
  using assms by (auto simp: accepted_update)

lemma deleteAttempts_annotations: "GetAnnotations z = GetAnnotations y \<Longrightarrow> deleteAttempts z = deleteAttempts y"
  by (simp add: deleteAttempts_def)

lemma drop_stores:
  assumes "finalizer_laws E"
  shows "runs (dropFinalizer E) w (\<lambda>r es w'. (\<forall>e \<in> set es. accepted E e) \<longrightarrow> \<not> HasFinalizer E (stored x es))"
proof (rule runs_conseq [OF runs_dropFinalizer], elim exE conjE disjE, rule_tac [!] impI)
  fix r :: "Result \<times> goerr option" and es cleanup tl a
  assume es: "es = cleanup @ tl" "tl = [UpdateObject (RemoveFinalizer E (obj w)) a]"
    and c: "\<forall>e \<in> set cleanup. rbac_call (\<lambda>b. False) e" and ok: "\<forall>e \<in> set es. accepted E e"
  from ok es obtain z where "a = Inr z" "HasFinalizer E z = HasFinalizer E (RemoveFinalizer E (obj w))"
    by (auto simp: accepted_update)
  then show "\<not> HasFinalizer E (stored x es)"
    using HasFinalizer_RemoveFinalizer [OF assms] by (simp add: es)
next
  fix r :: "Result \<times> goerr option" and es cleanup tl and err :: goerr
  assume es: "es = cleanup @ tl" and r: "\<exists>e \<in> set cleanup. refused e"
    and ok: "\<forall>e \<in> set es. accepted E e"
  have "\<not> accepted E e" if "refused e" for e
    using that by (cases "(E, e)" rule: accepted.cases) auto
  with r ok es show "\<not> HasFinalizer E (stored x es)" by auto
qed

text \<open>After the drain, the stored object has lost its finalizer or counts one attempt more.\<close>

definition progressed :: "env \<Rightarrow> RunnerInfo \<Rightarrow> RunnerInfo \<Rightarrow> bool" where
  "progressed E x y =
     (\<not> HasFinalizer E y \<or>
      deleteAttempts y = wrap64 (deleteAttempts x + 1) \<and> deleteAttempts y < maxDeleteAttempts)"

lemma finish_progress:
  assumes laws: "finalizer_laws E"
  shows "runs (finish E) w (\<lambda>r es w'. (\<forall>e \<in> set es. accepted E e) \<longrightarrow> progressed E (obj w) (stored (obj w) es))"
  unfolding finish_def
proof (rule runs_bind, rule runs_conseq [OF runs_removeManagedRunners], rule runs_case_option)
  fix rerr es1 and w1 :: world
  show "runs (dropFinalizer E) w1
      (\<lambda>r es w'. (\<forall>e \<in> set (es1 @ es). accepted E e) \<longrightarrow> progressed E (obj w) (stored (obj w) (es1 @ es)))"
    by (rule runs_conseq [OF drop_stores [OF laws]]) (auto simp: progressed_def)
next
  fix rerr es1 err and w1 :: world
  assume 1: "obj w1 = obj w \<and> (\<forall>e \<in> set es1. removal_call e) \<and> (rerr = None \<longrightarrow> all_deleted (obj w) es1)"
  then have obj: "obj w1 = obj w" and es1: "stored (obj w) es1 = obj w"
    by (auto intro: stored_kept simp: store_event_calls)
  let ?n = "wrap64 (deleteAttempts (obj w) + 1)"
  let ?x = "setDeleteAttempts ?n (obj w)"
  let ?Q = "\<lambda>es. (\<forall>e \<in> set es. accepted E e) \<longrightarrow> progressed E (obj w) (stored (obj w) es)"
  have tail: "runs (if ?n < maxDeleteAttempts then ret (resultRequeueAfterDefaultTimeout, Some err) else dropFinalizer E) w3
      (\<lambda>r es3 w4. ?Q (es1 @ es2 @ es3))" if es2: "\<exists>a. es2 = [UpdateObject ?x a]" for es2 and w3 :: world
  proof (rule runs_if)
    assume n: "?n < maxDeleteAttempts"
    have "?Q (es1 @ es2)"
    proof
      assume "\<forall>e \<in> set (es1 @ es2). accepted E e"
      then have "\<forall>e \<in> set es2. accepted E e" by simp
      from accepted_single [OF es2 this] obtain z
        where z: "es2 = [UpdateObject ?x (Inr z)]" and "GetAnnotations z = GetAnnotations ?x" by blast
      then have "deleteAttempts z = ?n"
        using deleteAttempts_annotations deleteAttempts_set [OF wrap64_in_int64] by metis
      moreover have "stored (obj w) (es1 @ es2) = z"
        by (simp only: stored_append es1 z stored_simps store_event.simps)
      ultimately show "progressed E (obj w) (stored (obj w) (es1 @ es2))"
        unfolding progressed_def using n by metis
    qed
    then show "runs (ret (resultRequeueAfterDefaultTimeout, Some err)) w3 (\<lambda>r es3 w4. ?Q (es1 @ es2 @ es3))"
      by (intro runs_return) simp
  next
    show "runs (dropFinalizer E) w3 (\<lambda>r es3 w4. ?Q (es1 @ es2 @ es3))"
      by (rule runs_conseq [OF drop_stores [OF laws]]) (auto simp: progressed_def)
  qed
  show "runs (do { y \<leftarrow> get_obj; let attempts = wrap64 (deleteAttempts y + 1);
      _ \<leftarrow> modify_obj (setDeleteAttempts attempts); _ \<leftarrow> UpdateObj E;
      if attempts < maxDeleteAttempts then ret (resultRequeueAfterDefaultTimeout, Some err)
      else dropFinalizer E }) w1 (\<lambda>r es2 w2. ?Q (es1 @ es2))"
    by (intro runs_bind runs_get_obj runs_let runs_modify_obj; unfold append_Nil obj)
       (rule runs_conseq [OF runs_UpdateObj], rule tail, simp)
qed

section \<open>Many passes\<close>

text \<open>
  A pass over the stored object, and the world in which the next one starts. The answers of the
  environment depend on all calls so far, so \<open>E\<close> covers every course of events over the passes.
\<close>

definition deletion_pass :: "env \<Rightarrow> world \<Rightarrow> world" where
  "deletion_pass E w =
     (after (finalizeDeletion E None) w)\<lparr>obj := stored (obj w) (new_events (finalizeDeletion E None) w)\<rparr>"

text \<open>
  A pass on which the cluster does not stand in the way: the drain has come to its end, and the
  API server refuses no call. GitLab may refuse every one.
\<close>

definition drain_done :: "env \<Rightarrow> world \<Rightarrow> bool" where
  "drain_done E w =
     (let now = clock E (trace w) in
      result (drainManager E (obj w) now) (w\<lparr>trace := trace w @ [ReadClock now]\<rparr>) = Inr True)"

definition unhindered :: "env \<Rightarrow> world \<Rightarrow> bool" where
  "unhindered E w =
     (drain_done E w \<and> (\<forall>e \<in> set (new_events (finalizeDeletion E None) w). accepted E e))"

lemma deletion_pass_code [code]:
  "deletion_pass E w = (case run_state (finalizeDeletion E None) w of (r, w') \<Rightarrow>
     w'\<lparr>obj := stored (obj w) (drop (length (trace w)) (trace w'))\<rparr>)"
  by (simp add: deletion_pass_def after_def new_events_def split: prod.split)

inductive deleting :: "env \<Rightarrow> world \<Rightarrow> nat \<Rightarrow> world \<Rightarrow> bool" for E w where
  start: "deleting E w 0 w"
| pass: "deleting E w n v \<Longrightarrow> HasFinalizer E (obj v) \<Longrightarrow> unhindered E v \<Longrightarrow>
         deleting E w (Suc n) (deletion_pass E v)"

lemma drain_calls_keep:
  assumes "drain_calls x es"
  shows "stored y es = y"
proof (rule stored_kept, intro ballI allI)
  fix e y assume "e \<in> set es"
  with assms consider k a where "e = DeleteDeployment k a" | n l a where "e = ListPods Uncached n l a"
    | p where "pod_deletion p e"
    unfolding drain_calls_def by blast
  then show "store_event y e = y"
    by cases (auto elim: pod_deletion.elims)
qed

lemma pass_progress:
  assumes laws: "finalizer_laws E" and u: "unhindered E w"
  shows "progressed E (obj w) (obj (deletion_pass E w))"
proof -
  let ?now = "clock E (trace w)"
  let ?w = "w\<lparr>trace := trace w @ [ReadClock ?now]\<rparr>"
  from u have d: "result (drainManager E (obj w) ?now) ?w = Inr True"
    by (simp add: unhindered_def drain_done_def Let_def)
  have drain: "runs (drainManager E (obj w) ?now) ?w
      (\<lambda>r es w'. r = Inr True \<and> obj w' = obj w \<and> stored (obj w) es = obj w)"
    using runs_drain [of E "obj w" ?now ?w] d by (auto simp: runs_iff drain_calls_keep)
  have "runs (finalizeDeletion E None) w
      (\<lambda>r es w'. (\<forall>e \<in> set es. accepted E e) \<longrightarrow> progressed E (obj w) (stored (obj w) es))"
    unfolding finalizeDeletion_phases Now_def
  proof (rule runs_bind, rule runs_get_obj, rule runs_bind, rule runs_issue, rule runs_bind,
      rule runs_conseq [OF drain], unfold append_Nil)
    fix r :: "goerr + bool" and es1 and w1 :: world
    assume 1: "r = Inr True \<and> obj w1 = obj w \<and> stored (obj w) es1 = obj w"
    then have "runs (finish E) w1 (\<lambda>r es w'. (\<forall>e \<in> set ([ReadClock ?now] @ es1 @ es). accepted E e) \<longrightarrow>
        progressed E (obj w) (stored (obj w) ([ReadClock ?now] @ es1 @ es)))"
      using finish_progress [OF laws, of w1] by (auto elim: runs_conseq)
    with 1 show "runs (case r of Inl err \<Rightarrow> ret (resultRequeueAfterDefaultTimeout, Some err)
          | Inr drained \<Rightarrow> if \<not> drained then ret (resultRequeueAfterDefaultTimeout, None) else finish E) w1
        (\<lambda>r es w'. (\<forall>e \<in> set ([ReadClock ?now] @ es1 @ es). accepted E e) \<longrightarrow>
          progressed E (obj w) (stored (obj w) ([ReadClock ?now] @ es1 @ es)))"
      by simp
  qed
  with u show ?thesis by (simp add: runs_iff unhindered_def deletion_pass_def)
qed

lemma deleting_attempts:
  assumes "deleting E w n v" and "finalizer_laws E" and "0 \<le> deleteAttempts (obj w)"
    and "deleteAttempts (obj w) < int64_max" and "HasFinalizer E (obj v)" and "n \<noteq> 0"
  shows "deleteAttempts (obj v) = deleteAttempts (obj w) + int n \<and> deleteAttempts (obj v) < maxDeleteAttempts"
  using assms
proof (induction rule: deleting.induct)
  case (pass n v)
  from pass_progress [OF pass.prems(1) pass.hyps(3)] pass.prems(4)
  have p: "deleteAttempts (obj (deletion_pass E v)) = wrap64 (deleteAttempts (obj v) + 1)"
    and l: "deleteAttempts (obj (deletion_pass E v)) < maxDeleteAttempts" by (auto simp: progressed_def)
  show ?case
  proof (cases n)
    case 0
    with pass.hyps(1) have "v = w" by (auto elim: deleting.cases)
    moreover have "wrap64 (deleteAttempts (obj w) + 1) = deleteAttempts (obj w) + 1"
      using pass.prems(2,3) by (intro wrap64_id) (simp add: in_int64_def int64_min_def)
    ultimately show ?thesis using p l 0 by simp
  next
    case (Suc m)
    with pass.IH pass.prems pass.hyps have
      i: "deleteAttempts (obj v) = deleteAttempts (obj w) + int n" "deleteAttempts (obj v) < maxDeleteAttempts" by auto
    then have "wrap64 (deleteAttempts (obj v) + 1) = deleteAttempts (obj v) + 1"
      using pass.prems(2) by (intro wrap64_id) (simp add: in_int64_def int64_min_def int64_max_def maxDeleteAttempts_def)
    with p l i show ?thesis by simp
  qed
qed simp

lemma deleting_passes:
  assumes "\<forall>k < n. HasFinalizer E (obj ((deletion_pass E ^^ k) w)) \<and> unhindered E ((deletion_pass E ^^ k) w)"
  shows "deleting E w n ((deletion_pass E ^^ n) w)"
  using assms
proof (induction n)
  case (Suc n)
  then have "deleting E w (Suc n) (deletion_pass E ((deletion_pass E ^^ n) w))"
    by (intro deleting.pass) simp_all
  then show ?case by simp
qed (simp add: deleting.start)

text \<open>
  C10: a deletion ends. From any object whose attempt counter is not negative and is not the largest
  64-bit integer (where the next failure would wrap around), five passes suffice: as long as the manager pods are gone and the API server accepts the calls, the stored object loses its
  finalizer within five passes, even when GitLab refuses every deletion.
\<close>

theorem deletion_ends:
  assumes "finalizer_laws E" and "0 \<le> deleteAttempts (obj w)" and "deleteAttempts (obj w) < int64_max"
    and "\<forall>k < 5. (\<forall>j \<le> k. HasFinalizer E (obj ((deletion_pass E ^^ j) w))) \<longrightarrow> unhindered E ((deletion_pass E ^^ k) w)"
  shows "\<exists>n \<le> 5. \<not> HasFinalizer E (obj ((deletion_pass E ^^ n) w))"
proof (rule ccontr)
  assume "\<not> ?thesis"
  then have "deleting E w 5 ((deletion_pass E ^^ 5) w)" and f: "HasFinalizer E (obj ((deletion_pass E ^^ 5) w))"
    using assms(4) by (auto intro!: deleting_passes)
  from deleting_attempts [OF this(1) assms(1-3) f] assms(2) show False
    by (simp add: maxDeleteAttempts_def)
qed

text \<open>A GitLab that refuses every deletion, and a runner with three failed attempts behind it.\<close>

definition stubborn :: env where
  "stubborn = sample_env\<lparr>
     sdk_DeleteRegisteredRunner := (\<lambda>tr g t. (Some 500, Some (err_new ''server error''))),
     sdk_RemoveRunner := (\<lambda>tr g i. (Some 500, Some (err_new ''server error'')))\<rparr>"

abbreviation deletion_world :: "nat \<Rightarrow> world" where
  "deletion_world k \<equiv> (deletion_pass stubborn ^^ k) (sample_world (setDeleteAttempts 3 registered_runner))"

theorem deletion_ends_witness:
  "\<exists>n \<le> 5. \<not> HasFinalizer stubborn (obj (deletion_world n))"
proof -
  let ?p = "deletion_pass stubborn" and ?w = "sample_world (setDeleteAttempts 3 registered_runner)"
  have "unhindered stubborn ?w" "unhindered stubborn (?p ?w)" "\<not> HasFinalizer stubborn (obj (?p (?p ?w)))"
    and start: "0 \<le> deleteAttempts (obj ?w)" "deleteAttempts (obj ?w) < int64_max" by code_simp+
  then have u: "unhindered stubborn (deletion_world 0)" "unhindered stubborn (deletion_world 1)"
    "\<not> HasFinalizer stubborn (obj (deletion_world 2))" by (simp_all add: eval_nat_numeral)
  have "\<forall>k < 5. (\<forall>j \<le> k. HasFinalizer stubborn (obj (deletion_world j))) \<longrightarrow> unhindered stubborn (deletion_world k)"
  proof (intro allI impI)
    fix k :: nat
    assume "\<forall>j \<le> k. HasFinalizer stubborn (obj (deletion_world j))"
    with u(3) have "k < 2" by (metis not_less)
    with u(1,2) show "unhindered stubborn (deletion_world k)" by (auto simp: less_2_cases_iff)
  qed
  moreover have "finalizer_laws stubborn"
    by (auto simp: stubborn_def sample_env_def finalizer_laws_def sample_cluster_def)
  ultimately show ?thesis using start by (intro deletion_ends)
qed

end
