(* ===== verification/Type_Properties.thy ===== *)
theory Type_Properties
  imports Sample
begin

text \<open>
  The properties of the object types and of the helpers: names, recorded registrations
  and operator flags.
\<close>

section \<open>Names\<close>

text \<open>
  C38: the system id is always in the format GitLab Runner accepts (\<open>[sr]_\<close> and twelve letters or
  digits), for every UID, so the manager never replaces it with one of its own.
\<close>

theorem system_id_accepted: "system_id_format (SystemID uid)"
proof -
  obtain t where "SystemID uid = ''r_'' @ t" "length t = 12" "list_all hex_char t"
    using SystemID_split by blast
  then show ?thesis
    by (auto simp: system_id_format_def list_all_iff hex_char_alnum)
qed

section \<open>Recorded registrations\<close>

text \<open>
  C27: what \<open>StoreRunnerRegistration\<close> records for a unit is what \<open>RegistrationConfig\<close> returns for it
  afterwards (without the token, which status never holds), and every other unit is as before; for
  both kinds of object.
\<close>

theorem registration_round_trip:
  assumes "reg_Name info \<in> reg_Name ` set (RegistrationConfig x)"
  shows "RegistrationConfig (StoreRunnerRegistration info x) =
    map (\<lambda>g. if reg_Name g = reg_Name info
             then g\<lparr>reg_RunnerID := reg_RunnerID info, reg_TokenExpiresAt := reg_TokenExpiresAt info,
                    reg_RegistrationHash := reg_RegistrationHash info\<rparr>
             else g) (RegistrationConfig x)"
  using runner_info.regs_store [OF assms] by (simp add: recorded_def cong: if_cong)

definition pool :: RunnerInfo where
  "pool = MultiRunnerObj (sample_multi [sample_entry ''a'' own_token '''', sample_entry ''b'' own_token ''''])"

definition pool_info :: GitlabRegInfo where
  "pool_info = (hd (RegistrationConfig pool))\<lparr>reg_RunnerID := 7\<rparr>"

theorem registration_round_trip_witness:
  "map reg_RunnerID (RegistrationConfig (StoreRunnerRegistration pool_info pool)) = [7, 0]"
proof -
  have "reg_Name pool_info \<in> reg_Name ` set (RegistrationConfig pool)" by code_simp
  from registration_round_trip [OF this] show ?thesis
    by (simp only:) code_simp
qed

section \<open>Operator flags\<close>

text \<open>
  C40: the entries of \<open>--allowed-build-namespaces\<close>. Whatever the flag, no entry is empty, contains a
  comma or ends in white space; and a list of plain names joined by commas comes back as it was.
\<close>

theorem allow_list_flag:
  assumes "\<forall>x \<in> set xs. CHR '','' \<notin> set x \<and> x \<noteq> '''' \<and> \<not> starts_blank x \<and> \<not> ends_blank x"
  shows "splitAndTrim (intercalate '','' xs) = xs \<and>
    (\<forall>e \<in> set (splitAndTrim raw). e \<noteq> '''' \<and> CHR '','' \<notin> set e \<and> \<not> ends_blank e)"
proof (intro conjI ballI)
  fix e assume "e \<in> set (splitAndTrim raw)"
  then obtain p where p: "p \<in> set (split_comma raw)" "e = TrimSpace p" "e \<noteq> ''''"
    by (auto simp: splitAndTrim_def)
  show "e \<noteq> ''''" by (rule p(3))
  show "CHR '','' \<notin> set e"
    using split_comma_parts [OF p(1)] TrimSpace_chars [of p] p(2) by auto
  show "\<not> ends_blank e" unfolding p(2) by (rule TrimSpace_ends)
next
  show "splitAndTrim (intercalate '','' xs) = xs"
  proof (cases "xs = []")
    case True
    have "splitAndTrim '''' = []" by code_simp
    with True show ?thesis by simp
  next
    case False
    moreover have "map TrimSpace xs = xs"
      using assms by (intro map_idI) (simp add: TrimSpace_id)
    ultimately show ?thesis
      using assms by (simp add: splitAndTrim_def split_comma_join filter_id_conv)
  qed
qed

theorem allow_list_flag_witness:
  "splitAndTrim (intercalate '','' [''ci'', ''builds'']) = [''ci'', ''builds'']"
proof -
  have "list_all (\<lambda>x. CHR '','' \<notin> set x \<and> x \<noteq> '''' \<and> printable (hd x) \<and> printable (last x)) [''ci'', ''builds'']"
    by code_simp
  then have "\<forall>x \<in> set [''ci'', ''builds'']. CHR '','' \<notin> set x \<and> x \<noteq> '''' \<and> \<not> starts_blank x \<and> \<not> ends_blank x"
    unfolding list_all_iff by (blast dest: printable_ends)
  from conjunct1 [OF allow_list_flag [OF this]] show ?thesis .
qed

end
