(* ===== verification/Manager.thy ===== *)
theory Manager
  imports Sample
begin

text \<open>
  \<open>cmd/main.go\<close>, the two \<open>SetupWithManager\<close> methods of \<open>internal/controller\<close> and \<open>addKnownTypes\<close> of
  \<open>api/v1beta2/groupversion_info.go\<close>: what the operator sets
  up before it serves, in which order, and with which exit status it ends. The manager is
  controller-runtime's: every call into it is a step that is answered with an error or without one. The
  command line has been parsed by the \<open>flag\<close> package.
\<close>

section \<open>The steps\<close>

record Flags =
  fl_MetricsAddr :: string
  fl_ProbeAddr :: string
  fl_AllowedBuildNamespaces :: string
  fl_LeaderElect :: bool

text \<open>The values of the flags that are not on the command line.\<close>

definition default_flags :: Flags where
  "default_flags = \<lparr>fl_MetricsAddr = '':8080'', fl_ProbeAddr = '':8081'', fl_AllowedBuildNamespaces = '''', fl_LeaderElect = False\<rparr>"

record ManagerOptions =
  mo_MetricsBindAddress :: string
  mo_HealthProbeBindAddress :: string
  mo_LeaderElection :: bool
  mo_LeaderElectionID :: string

datatype watched = WatchSecret | WatchDeployment | WatchServiceAccount | WatchRoleBinding

text \<open>
  A controller as the builder gets it: the kind of the primary object with the predicates on its events,
  and the owned kinds, with \<open>True\<close> where \<open>GenerationChangedPredicate\<close> filters the updates.
\<close>

record Controller =
  ctl_For :: string
  ctl_UpdateFunc :: "RunnerInfo option \<Rightarrow> RunnerInfo option \<Rightarrow> bool"
  ctl_DeleteFunc :: "RunnerInfo option \<Rightarrow> bool"
  ctl_Owns :: "(watched \<times> bool) list"

datatype boot_step =
    AddClientGoTypes
  | AddKnownTypes string "string list"
  | AddToGroupVersion string
  | GetConfig
  | NewManager ManagerOptions
  | IndexField watched string "ObjectMeta \<Rightarrow> string list"
  | CompleteController Controller RunnerReconciler
  | AddHealthzCheck string
  | AddReadyzCheck string
  | StartManager

text \<open>How the process ends, if the manager ever stops.\<close>

datatype ending = Returned | Exited int | Panicked

type_synonym manager = "boot_step list \<Rightarrow> boot_step \<Rightarrow> goerr option"
type_synonym 'a boot = "(boot_step list, 'a) state"

definition attempt :: "manager \<Rightarrow> boot_step \<Rightarrow> goerr option boot" where
  "attempt M s = State (\<lambda>done. (M done s, done @ [s]))"

text \<open>\<open>if err := step; err != nil\<close> with what follows either way.\<close>

definition on_error :: "goerr option boot \<Rightarrow> 'a \<Rightarrow> 'a boot \<Rightarrow> 'a boot" where
  "on_error step fail rest =
     do { err \<leftarrow> step; case err of Some e \<Rightarrow> State_Monad.return fail | None \<Rightarrow> rest }"

definition return_error :: "goerr option boot \<Rightarrow> goerr option boot \<Rightarrow> goerr option boot" where
  "return_error step rest =
     do { err \<leftarrow> step; case err of Some e \<Rightarrow> State_Monad.return (Some e) | None \<Rightarrow> rest }"

section \<open>The controllers\<close>

definition owned_kinds :: "(watched \<times> bool) list" where
  "owned_kinds = [(WatchSecret, False), (WatchDeployment, True), (WatchServiceAccount, False), (WatchRoleBinding, False)]"

definition runner_controller :: Controller where
  "runner_controller =
     \<lparr>ctl_For = ''Runner'', ctl_UpdateFunc = primary_UpdateFunc, ctl_DeleteFunc = primary_DeleteFunc, ctl_Owns = owned_kinds\<rparr>"

definition multirunner_controller :: Controller where
  "multirunner_controller = runner_controller\<lparr>ctl_For := ''MultiRunner''\<rparr>"

type_synonym controller_of = "OwnerReference list \<Rightarrow> OwnerReference option"

definition RunnerReconciler_SetupWithManager :: "manager \<Rightarrow> controller_of \<Rightarrow> RunnerReconciler \<Rightarrow> goerr option boot" where
  "RunnerReconciler_SetupWithManager M get_controller_of R =
     return_error (attempt M (IndexField WatchSecret ''.metadata.secretcontroller'' (runner_index get_controller_of)))
       (return_error (attempt M (IndexField WatchDeployment ''.metadata.dpcontroller'' (runner_index get_controller_of)))
          (attempt M (CompleteController runner_controller R)))"

definition MultiRunnerReconciler_SetupWithManager :: "manager \<Rightarrow> controller_of \<Rightarrow> RunnerReconciler \<Rightarrow> goerr option boot" where
  "MultiRunnerReconciler_SetupWithManager M get_controller_of R =
     return_error (attempt M (IndexField WatchSecret ''.metadata.secretmrcontroller'' (multirunner_index get_controller_of)))
       (return_error (attempt M (IndexField WatchDeployment ''.metadata.dpmrcontroller'' (multirunner_index get_controller_of)))
          (attempt M (CompleteController multirunner_controller R)))"

section \<open>The process\<close>

definition manager_options :: "Flags \<Rightarrow> ManagerOptions" where
  "manager_options fl =
     \<lparr>mo_MetricsBindAddress = fl_MetricsAddr fl, mo_HealthProbeBindAddress = fl_ProbeAddr fl,
      mo_LeaderElection = fl_LeaderElect fl, mo_LeaderElectionID = ''e47991d1.k8s.alekc.dev''\<rparr>"

text \<open>The reconcilers that \<open>main\<close> makes; \<open>GitlabApiClient\<close> is left nil.\<close>

definition new_reconciler :: "Flags \<Rightarrow> RunnerReconciler" where
  "new_reconciler fl =
     \<lparr>rec_GitlabApiClient = None, rec_AllowedBuildNamespaces = splitAndTrim (fl_AllowedBuildNamespaces fl)\<rparr>"

definition operator_main :: "manager \<Rightarrow> controller_of \<Rightarrow> Flags \<Rightarrow> ending boot" where
  "operator_main M get_controller_of fl =
     on_error (attempt M GetConfig) (Exited 1)
       (on_error (attempt M (NewManager (manager_options fl))) (Exited 1)
          (on_error (RunnerReconciler_SetupWithManager M get_controller_of (new_reconciler fl)) (Exited 1)
             (on_error (MultiRunnerReconciler_SetupWithManager M get_controller_of (new_reconciler fl)) (Exited 1)
                (on_error (attempt M (AddHealthzCheck ''healthz'')) (Exited 1)
                   (on_error (attempt M (AddReadyzCheck ''readyz'')) (Exited 1)
                      (on_error (attempt M StartManager) (Exited 1) (State_Monad.return Returned)))))))"

text \<open>
  \<open>addKnownTypes\<close> of \<open>api/v1beta2/groupversion_info.go\<close>, the one function of \<open>SchemeBuilder\<close>. The two
  calls have no error result: an error answer stands for the panic of the library.
\<close>

definition addKnownTypes :: "manager \<Rightarrow> goerr option boot" where
  "addKnownTypes M =
     return_error (attempt M (AddKnownTypes GroupVersion [''Runner'', ''RunnerList'', ''MultiRunner'', ''MultiRunnerList'']))
       (return_error (attempt M (AddToGroupVersion GroupVersion))
          (State_Monad.return None))"

text \<open>\<open>init\<close> runs before \<open>main\<close>; \<open>utilruntime.Must\<close> panics on an error.\<close>

definition operator_init :: "manager \<Rightarrow> ending boot \<Rightarrow> ending boot" where
  "operator_init M rest =
     on_error (attempt M AddClientGoTypes) Panicked
       (on_error (addKnownTypes M) Panicked rest)"

definition operator_process :: "manager \<Rightarrow> controller_of \<Rightarrow> Flags \<Rightarrow> ending boot" where
  "operator_process M get_controller_of fl = operator_init M (operator_main M get_controller_of fl)"

section \<open>Running the steps\<close>

text \<open>All the steps of the process, in their order; the first three are those of \<open>init\<close>.\<close>

definition boot_sequence :: "controller_of \<Rightarrow> Flags \<Rightarrow> boot_step list" where
  "boot_sequence get_controller_of fl =
     [AddClientGoTypes, AddKnownTypes GroupVersion [''Runner'', ''RunnerList'', ''MultiRunner'', ''MultiRunnerList''],
      AddToGroupVersion GroupVersion] @
     [GetConfig, NewManager (manager_options fl),
      IndexField WatchSecret ''.metadata.secretcontroller'' (runner_index get_controller_of),
      IndexField WatchDeployment ''.metadata.dpcontroller'' (runner_index get_controller_of),
      CompleteController runner_controller (new_reconciler fl),
      IndexField WatchSecret ''.metadata.secretmrcontroller'' (multirunner_index get_controller_of),
      IndexField WatchDeployment ''.metadata.dpmrcontroller'' (multirunner_index get_controller_of),
      CompleteController multirunner_controller (new_reconciler fl),
      AddHealthzCheck ''healthz'', AddReadyzCheck ''readyz'', StartManager]"

text \<open>Steps in a row, up to the first error.\<close>

fun try_all :: "manager \<Rightarrow> boot_step list \<Rightarrow> goerr option boot" where
  "try_all M [] = State_Monad.return None"
| "try_all M (s # ss) = return_error (attempt M s) (try_all M ss)"

lemma run_attempt [simp]: "run_state (attempt M s) before = (M before s, before @ [s])"
  by (simp add: attempt_def)

lemma run_on_error [simp]:
  "run_state (on_error step fail rest) before =
     (case run_state step before of (err, before') \<Rightarrow>
        (case err of Some e \<Rightarrow> (fail, before') | None \<Rightarrow> run_state rest before'))"
  by (simp add: on_error_def split: prod.split option.split)

lemma run_return_error [simp]:
  "run_state (return_error step rest) before =
     (case run_state step before of (err, before') \<Rightarrow>
        (case err of Some e \<Rightarrow> (Some e, before') | None \<Rightarrow> run_state rest before'))"
  by (simp add: return_error_def split: prod.split option.split)

lemma attempt_try_all: "attempt M s = try_all M [s]"
  by (rule state_ext) (simp split: option.split)

lemma run_try_append:
  "run_state (try_all M (ss @ ts)) before = run_state (return_error (try_all M ss) (try_all M ts)) before"
  by (induction ss arbitrary: before) (auto split: option.split)

lemma return_error_try_all: "return_error (try_all M ss) (try_all M ts) = try_all M (ss @ ts)"
  by (rule state_ext) (simp only: run_try_append)

lemma on_error_try_all:
  "on_error (try_all M ss) fail (on_error (try_all M ts) fail rest) = on_error (try_all M (ss @ ts)) fail rest"
  by (rule state_ext) (simp add: return_error_try_all [symmetric] split: prod.split option.split)

lemma addKnownTypes_try_all:
  "addKnownTypes M =
     try_all M [AddKnownTypes GroupVersion [''Runner'', ''RunnerList'', ''MultiRunner'', ''MultiRunnerList''], AddToGroupVersion GroupVersion]"
  by (simp add: addKnownTypes_def)

lemmas boot_rules = addKnownTypes_try_all attempt_try_all on_error_try_all return_error_try_all

lemma operator_steps:
  "operator_process M g fl =
     on_error (try_all M (take 3 (boot_sequence g fl))) Panicked
       (on_error (try_all M (drop 3 (boot_sequence g fl))) (Exited 1) (State_Monad.return Returned))"
  unfolding operator_process_def operator_main_def operator_init_def RunnerReconciler_SetupWithManager_def
    MultiRunnerReconciler_SetupWithManager_def boot_rules boot_sequence_def
  by (simp del: try_all.simps)

text \<open>A row of steps with the same exit: the first step that fails ends it, or all of them are taken.\<close>

lemma run_phase:
  "(\<exists>k < length ss. run_state (on_error (try_all M ss) fail rest) before = (fail, before @ take (Suc k) ss) \<and>
      (\<forall>i < k. M (before @ take i ss) (ss ! i) = None) \<and> M (before @ take k ss) (ss ! k) \<noteq> None) \<or>
   (\<forall>i < length ss. M (before @ take i ss) (ss ! i) = None) \<and>
      run_state (on_error (try_all M ss) fail rest) before = run_state rest (before @ ss)"
proof (induction ss arbitrary: before)
  case (Cons s ss)
  show ?case
  proof (cases "M before s")
    case (Some e)
    then show ?thesis by (intro disjI1 exI [of _ 0]) simp
  next
    case None
    have step: "run_state (on_error (try_all M (s # ss)) fail rest) before = run_state (on_error (try_all M ss) fail rest) (before @ [s])"
      using None by (simp split: prod.split option.split)
    show ?thesis
      using Cons.IH [of "before @ [s]"]
    proof (elim disjE exE conjE)
      fix k assume "k < length ss" "run_state (on_error (try_all M ss) fail rest) (before @ [s]) = (fail, (before @ [s]) @ take (Suc k) ss)"
        "\<forall>i < k. M ((before @ [s]) @ take i ss) (ss ! i) = None" "M ((before @ [s]) @ take k ss) (ss ! k) \<noteq> None"
      with None show ?thesis
        unfolding step by (intro disjI1 exI [of _ "Suc k"]) (auto simp: nth_Cons less_Suc_eq_0_disj)
    next
      assume "\<forall>i < length ss. M ((before @ [s]) @ take i ss) (ss ! i) = None"
        "run_state (on_error (try_all M ss) fail rest) (before @ [s]) = run_state rest ((before @ [s]) @ ss)"
      with None show ?thesis
        unfolding step by (intro disjI2) (auto simp: nth_Cons less_Suc_eq_0_disj)
    qed
  qed
qed simp

section \<open>How the operator starts\<close>

text \<open>
  \<open>k\<close> is the last step taken: those before it succeeded, and the ending is that of its answer. The
  first three steps are those of \<open>init\<close>.
\<close>

definition stopped_at :: "manager \<Rightarrow> boot_step list \<Rightarrow> nat \<Rightarrow> ending \<Rightarrow> bool" where
  "stopped_at M steps k how =
     ((\<forall>i < k. M (take i steps) (steps ! i) = None) \<and>
      (if M (take k steps) (steps ! k) = None then Suc k = length steps \<and> how = Returned
       else how = (if k < 3 then Panicked else Exited 1)))"

lemma run_operator:
  obtains k where "k < length (boot_sequence g fl)" and "stopped_at M (boot_sequence g fl) k (fst (run_state (operator_process M g fl) []))"
    and "snd (run_state (operator_process M g fl) []) = take (Suc k) (boot_sequence g fl)"
proof -
  let ?ss = "boot_sequence g fl" let ?main = "on_error (try_all M (drop 3 ?ss)) (Exited 1) (State_Monad.return Returned)"
  have len: "length ?ss = 14" by (simp add: boot_sequence_def)
  have nth: "drop 3 ?ss ! i = ?ss ! (3 + i)" for i by (rule nth_drop) (simp add: len)
  have take: "take 3 ?ss @ take i (drop 3 ?ss) = take (3 + i) ?ss" for i by (simp only: take_add)
  note init = run_phase [where M = M and ss = "take 3 ?ss" and fail = Panicked and rest = ?main and before = "[]", folded operator_steps]
  note main = run_phase [where M = M and ss = "drop 3 ?ss" and fail = "Exited 1" and rest = "State_Monad.return Returned" and before = "take 3 ?ss",
      unfolded nth take]
  from init show thesis
  proof (elim disjE exE conjE)
    fix k assume k: "k < length (take 3 ?ss)" "\<forall>i < k. M ([] @ take i (take 3 ?ss)) (take 3 ?ss ! i) = None"
      "M ([] @ take k (take 3 ?ss)) (take 3 ?ss ! k) \<noteq> None"
      and run: "run_state (operator_process M g fl) [] = (Panicked, [] @ take (Suc k) (take 3 ?ss))"
    show thesis by (rule that [of k]) (use k len in \<open>simp_all add: run stopped_at_def min_def\<close>)
  next
    assume ok: "\<forall>i < length (take 3 ?ss). M ([] @ take i (take 3 ?ss)) (take 3 ?ss ! i) = None"
      and run: "run_state (operator_process M g fl) [] = run_state ?main ([] @ take 3 ?ss)"
    have before: "M (take i ?ss) (?ss ! i) = None" if "i < 3 + k" "\<forall>i < k. M (take (3 + i) ?ss) (?ss ! (3 + i)) = None" for i k
      using that ok len le_Suc_ex [of 3 i] by (cases "i < 3") (auto simp: min_def not_less)
    from main show thesis
    proof (elim disjE exE conjE)
      fix k assume k: "k < length (drop 3 ?ss)" "\<forall>i < k. M (take (3 + i) ?ss) (?ss ! (3 + i)) = None"
        "M (take (3 + k) ?ss) (?ss ! (3 + k)) \<noteq> None"
        and run': "run_state ?main (take 3 ?ss) = (Exited 1, take (3 + Suc k) ?ss)"
      have "stopped_at M ?ss (3 + k) (Exited 1)" using k before [OF _ k(2)] by (simp add: stopped_at_def)
      with k(1) len run run' show thesis by (intro that [of "3 + k"]) simp_all
    next
      assume k: "\<forall>i < length (drop 3 ?ss). M (take (3 + i) ?ss) (?ss ! (3 + i)) = None"
        and run': "run_state ?main (take 3 ?ss) = run_state (State_Monad.return Returned) (take 3 ?ss @ drop 3 ?ss)"
      have "stopped_at M ?ss 13 Returned" using before [OF _ k] len by (simp add: stopped_at_def)
      with len run run' show thesis by (intro that [of 13]) simp_all
    qed
  qed
qed

lemma controller_made:
  assumes "CompleteController c R \<in> set (snd (run_state (operator_process M g fl) []))"
  shows "R = new_reconciler fl"
proof (rule run_operator [of g fl M])
  fix k assume "snd (run_state (operator_process M g fl) []) = take (Suc k) (boot_sequence g fl)"
  with assms have "CompleteController c R \<in> set (boot_sequence g fl)" by (auto dest: in_set_takeD)
  then show ?thesis by (auto simp: boot_sequence_def)
qed

lemma known_first:
  assumes "CompleteController c R \<in> set (snd (run_state (operator_process M g fl) []))" (is "_ \<in> set ?steps")
  shows "\<exists>before rest kinds. ?steps = before @ CompleteController c R # rest \<and>
    AddKnownTypes GroupVersion kinds \<in> set before \<and> {ctl_For c, ctl_For c @ ''List''} \<subseteq> set kinds"
proof -
  let ?ss = "boot_sequence g fl" let ?kinds = "[''Runner'', ''RunnerList'', ''MultiRunner'', ''MultiRunnerList'']"
  obtain k where k: "?steps = take (Suc k) ?ss" by (rule run_operator [of g fl M])
  from assms obtain before rest where split: "?steps = before @ CompleteController c R # rest"
    by (meson split_list)
  have "CompleteController c R \<in> set ?ss" using assms by (auto simp: k dest: in_set_takeD)
  then have "{ctl_For c, ctl_For c @ ''List''} \<subseteq> set ?kinds"
    by (auto simp: boot_sequence_def runner_controller_def multirunner_controller_def)
  moreover have "AddKnownTypes GroupVersion ?kinds \<in> set before"
    using split unfolding k by (cases before; cases "tl before"; cases k; cases "k - 1") (auto simp: boot_sequence_def)
  ultimately show ?thesis using split by blast
qed

text \<open>
  C11: the operator starts completely or not at all. Whatever the manager answers, the process takes its
  steps in one order: the schemes, the configuration, the manager, the indexes and the controller of
  Runner, those of MultiRunner, the two checks, the start. It stops at the first error, with a panic for a
  scheme and with exit status 1 for anything else; so the manager is only started after both controllers
  are registered, each for its own kind, which the scheme knows by then, with the allow-list of the flag
  and without an injected GitLab client.
\<close>

theorem operator_starts:
  assumes "run_state (operator_process M g fl) [] = (how, steps)"
  shows "(\<exists>k. steps = take (Suc k) (boot_sequence g fl) \<and> stopped_at M (boot_sequence g fl) k how) \<and>
     (StartManager \<in> set steps \<longrightarrow>
       {runner_controller, multirunner_controller} = {c. CompleteController c (new_reconciler fl) \<in> set steps}) \<and>
     (\<forall>c R. CompleteController c R \<in> set steps \<longrightarrow> R = new_reconciler fl \<and>
       (\<exists>before rest kinds. steps = before @ CompleteController c R # rest \<and>
          AddKnownTypes GroupVersion kinds \<in> set before \<and> {ctl_For c, ctl_For c @ ''List''} \<subseteq> set kinds))"
proof (rule run_operator [of g fl M], intro conjI allI impI)
  let ?ss = "boot_sequence g fl"
  fix k assume k: "k < length ?ss" "stopped_at M ?ss k (fst (run_state (operator_process M g fl) []))"
    "snd (run_state (operator_process M g fl) []) = take (Suc k) ?ss"
  then have steps: "steps = take (Suc k) ?ss" and how: "stopped_at M ?ss k how" using assms by simp_all
  then show "\<exists>k. steps = take (Suc k) ?ss \<and> stopped_at M ?ss k how" by blast
  show "{runner_controller, multirunner_controller} = {c. CompleteController c (new_reconciler fl) \<in> set steps}"
    if started: "StartManager \<in> set steps"
  proof -
    have "steps = ?ss"
    proof (rule ccontr)
      assume "steps \<noteq> ?ss"
      then have "Suc k \<le> 13" using k(1) by (auto simp: steps boot_sequence_def)
      then have "set steps \<subseteq> set (take 13 ?ss)" unfolding steps by (rule set_take_subset_set_take)
      with started show False by (auto simp: boot_sequence_def)
    qed
    then show ?thesis by (auto simp: boot_sequence_def)
  qed
  fix c R assume c: "CompleteController c R \<in> set steps"
  then show "R = new_reconciler fl" using controller_made [of c R M g fl] assms by simp
  show "\<exists>before rest kinds. steps = before @ CompleteController c R # rest \<and>
      AddKnownTypes GroupVersion kinds \<in> set before \<and> {ctl_For c, ctl_For c @ ''List''} \<subseteq> set kinds"
    using known_first [of c R M g fl] c assms by simp
qed

text \<open>A manager that takes every step and then loses its leadership.\<close>

definition deposed :: manager where
  "deposed before s = (case s of StartManager \<Rightarrow> Some (err_new ''leader election lost'') | _ \<Rightarrow> None)"

theorem operator_starts_witness:
  "fst (run_state (operator_process deposed (\<lambda>os. None) default_flags) []) = Exited 1 \<and>
   {runner_controller, multirunner_controller} =
     {c. CompleteController c (new_reconciler default_flags) \<in> set (snd (run_state (operator_process deposed (\<lambda>os. None) default_flags) []))}"
proof -
  have "fst (run_state (operator_process deposed (\<lambda>os. None) default_flags) []) = Exited 1"
    and "StartManager \<in> set (snd (run_state (operator_process deposed (\<lambda>os. None) default_flags) []))"
    by (simp_all add: operator_steps boot_sequence_def deposed_def)
  then show ?thesis using operator_starts [OF prod.collapse [symmetric], of deposed "\<lambda>os. None" default_flags] by blast
qed

end
