(* ===== verification/Helpers.thy ===== *)
theory Helpers
  imports Prelude
begin

text \<open>
  Three small helpers that the reconcilers do not call: \<open>internal/errors\<close>, \<open>internal/file\<close> and
  \<open>internal/generate/random.go\<close>. The file system and the random source are parameters.
\<close>

section \<open>Stale updates\<close>

text \<open>\<open>strings.Contains\<close>.\<close>

fun strings_Contains :: "string \<Rightarrow> string \<Rightarrow> bool" where
  "strings_Contains [] substr = (substr = [])"
| "strings_Contains (c # cs) substr = (has_prefix (c # cs) substr \<or> strings_Contains cs substr)"

lemma strings_Contains_iff: "strings_Contains s substr \<longleftrightarrow> (\<exists>p r. s = p @ substr @ r)"
proof (induction s)
  case (Cons c cs)
  show ?case
  proof
    assume "strings_Contains (c # cs) substr"
    then consider "has_prefix (c # cs) substr" | "strings_Contains cs substr" by auto
    then show "\<exists>p r. c # cs = p @ substr @ r"
    proof cases
      case 1
      then obtain r where "c # cs = [] @ substr @ r" by (auto simp: has_prefix_iff)
      then show ?thesis by blast
    next
      case 2
      with Cons.IH obtain p r where "c # cs = (c # p) @ substr @ r" by auto
      then show ?thesis by blast
    qed
  next
    assume "\<exists>p r. c # cs = p @ substr @ r"
    then obtain p r where p: "c # cs = p @ substr @ r" by blast
    then show "strings_Contains (c # cs) substr"
    proof (cases p)
      case Nil
      with p have "has_prefix (c # cs) substr" by (simp add: has_prefix_iff)
      then show ?thesis by simp
    qed (use p Cons.IH in auto)
  qed
qed simp

text \<open>\<open>code\<close> is the field \<open>Code\<close> of the status; the type switch does not look through wrapped errors.\<close>

definition IsStale :: "(goerr \<Rightarrow> int) \<Rightarrow> goerr option \<Rightarrow> bool" where
  "IsStale code err =
     (case err of
        Some (ApiStatus reason message) \<Rightarrow>
          (if code (ApiStatus reason message) = 409 \<and> strings_Contains message ''please apply your changes to the latest version''
           then True else False)
      | _ \<Rightarrow> False)"

lemma IsStale_wrapped: "\<not> IsStale code (Some (err_wrap m e))"
  by (simp add: IsStale_def err_wrap_def)

section \<open>Files\<close>

definition Exist :: "('path \<Rightarrow> goerr + 'info) \<Rightarrow> 'path \<Rightarrow> bool" where
  "Exist stat path = (case stat path of Inl err \<Rightarrow> False | Inr info \<Rightarrow> True)"

section \<open>Random strings\<close>

definition letterRunes :: string where
  "letterRunes = ''abcdefghijklmnopqrstuvwxyz1234567890''"

text \<open>
  The loop from index \<open>i\<close> with \<open>n\<close> runes to go; \<open>intn i m\<close> is the answer of the call of \<open>rand.Intn(m)\<close> for
  index \<open>i\<close>. A rune outside the alphabet would be a panic.
\<close>

fun random_runes :: "(nat \<Rightarrow> int \<Rightarrow> int) \<Rightarrow> nat \<Rightarrow> nat \<Rightarrow> goerr + string" where
  "random_runes intn i 0 = Inr []"
| "random_runes intn i (Suc n) =
     (let k = intn i (int (length letterRunes))
      in if k < 0 \<or> int (length letterRunes) \<le> k then Inl (Panic ''index out of range'')
         else case random_runes intn (Suc i) n of Inl e \<Rightarrow> Inl e | Inr s \<Rightarrow> Inr (letterRunes ! nat k # s))"

definition RandomString :: "(nat \<Rightarrow> int \<Rightarrow> int) \<Rightarrow> int \<Rightarrow> goerr + string" where
  "RandomString intn n =
     (if n < 0 then Inl (Panic ''makeslice: len out of range'') else random_runes intn 0 (nat n))"

lemma random_runes_drawn:
  "\<forall>i m. 0 < m \<longrightarrow> 0 \<le> intn i m \<and> intn i m < m \<Longrightarrow>
     \<exists>s. random_runes intn i n = Inr s \<and> length s = n \<and> set s \<subseteq> set letterRunes"
proof (induction n arbitrary: i)
  case (Suc n)
  then obtain s where s: "random_runes intn (Suc i) n = Inr s" "length s = n" "set s \<subseteq> set letterRunes" by blast
  have "0 \<le> intn i (int (length letterRunes))" "intn i (int (length letterRunes)) < int (length letterRunes)"
    using Suc.prems by (simp_all add: letterRunes_def)
  with s show ?case by (auto simp: Let_def nat_less_iff)
qed simp

text \<open>With a source that keeps the contract of \<open>Intn\<close>, a string of the length asked for over the alphabet.\<close>

lemma RandomString_drawn:
  assumes "\<forall>i m. 0 < m \<longrightarrow> 0 \<le> intn i m \<and> intn i m < m" and "0 \<le> n"
  shows "\<exists>s. RandomString intn n = Inr s \<and> int (length s) = n \<and> set s \<subseteq> set letterRunes"
  using random_runes_drawn [OF assms(1), of 0 "nat n"] assms(2) by (auto simp: RandomString_def)

end
