(* ===== verification/Readiness.thy ===== *)
theory Readiness
  imports Sample
begin

text \<open>
  What a runner that is reported ready has: which calls of the pass stand behind the flag. The
  pass clears the flag before it does anything, and sets it again only at its end.
\<close>

section \<open>The flag\<close>

fun ready_status :: "StatusAny \<Rightarrow> bool" where
  "ready_status (AnyRunnerStatus s) = st_Ready s"
| "ready_status (AnyMultiRunnerStatus s) = st_Ready s"

definition is_ready :: "RunnerInfo \<Rightarrow> bool" where
  "is_ready x = ready_status (GetStatus x)"

lemma is_ready_cases [simp]:
  "is_ready (RunnerObj r) = st_Ready (res_Status r)" "is_ready (MultiRunnerObj m) = st_Ready (res_Status m)"
  by (simp_all add: is_ready_def Runner_GetStatus_def MultiRunner_GetStatus_def)

lemma is_ready_setters [simp]:
  "is_ready (SetStatusReady b x) = b" "is_ready (SetStatusError e x) = is_ready x"
  "is_ready (SetObservedGeneration n x) = is_ready x" "is_ready (SetConfigMapVersion v x) = is_ready x"
  "is_ready (SetReadyCondition L t b r m x) = is_ready x"
  by (cases x; simp add: Runner_SetStatusReady_def MultiRunner_SetStatusReady_def Runner_SetStatusError_def
      MultiRunner_SetStatusError_def Runner_SetObservedGeneration_def MultiRunner_SetObservedGeneration_def
      Runner_SetConfigMapVersion_def MultiRunner_SetConfigMapVersion_def Runner_SetReadyCondition_def
      MultiRunner_SetReadyCondition_def)+

lemma is_ready_store [simp]: "is_ready (StoreRunnerRegistration g x) = is_ready x"
  by (cases x) (simp_all add: Runner_StoreRunnerRegistration_def MultiRunner_StoreRunnerRegistration_def Let_def)

lemma is_ready_TomlConfig: "is_ready (fst (TomlConfig E x tokens ca)) = is_ready x"
  by (simp add: is_ready_def TomlConfig_keeps)

lemma is_ready_SetStatus: "SetStatus (GetStatus x) y = Some z \<Longrightarrow> is_ready z = is_ready x"
  by (cases x; cases y)
     (auto simp: Runner_SetStatus_def MultiRunner_SetStatus_def Runner_GetStatus_def MultiRunner_GetStatus_def)

text \<open>The API server answers a status update with the status it was sent.\<close>

definition status_laws :: "env \<Rightarrow> bool" where
  "status_laws E = (\<forall>tr x y. ask_update_status E x tr = Inr y \<longrightarrow> GetStatus y = GetStatus x)"

fun ready_write :: "event \<Rightarrow> bool" where
  "ready_write (UpdateObjectStatus y r) = is_ready y"
| "ready_write e = False"

section \<open>The steps that leave the flag cleared\<close>

definition unready :: "RunnerInfo \<Rightarrow> RunnerInfo \<Rightarrow> bool" where
  "unready x y = (same_unit x y \<and> \<not> is_ready y)"

abbreviation silent :: "event \<Rightarrow> bool" where
  "silent e \<equiv> \<not> ready_write e"

lemma silent_calls:
  "secret_read e \<Longrightarrow> silent e" "gitlab_call e \<Longrightarrow> silent e" "ca_read e \<Longrightarrow> silent e"
  "rbac_call P e \<Longrightarrow> silent e" "secret_call d e \<Longrightarrow> silent e" "deployment_call D e \<Longrightarrow> silent e"
  by (cases e; simp)+

lemma unready_modify:
  "(\<And>y. same_unit y (f y)) \<Longrightarrow> (\<And>y. is_ready (f y) = is_ready y) \<Longrightarrow>
     safe (unready x) P (modify_obj f) unrestricted"
  by (intro safe_modify_obj) (auto simp: unready_def intro: same_unit_trans)

lemma unready_condition: "safe (unready x) P (set_ready_condition E b r m) unrestricted"
  unfolding set_ready_condition_def by (intro safe_bind safe_observe unready_modify) simp_all

lemma unready_fail: "safe (unready x) P (fail_pass E msg reason err) unrestricted"
  unfolding fail_pass_def by (intro safe_bind unready_modify unready_condition safe_return) simp_all

lemma unready_enforce: "safe (unready x) silent (enforceAllowedBuildNamespaces E rd allowed) unrestricted"
  unfolding enforceAllowedBuildNamespaces_def BuildNamespaces_def range_keys_def Let_def
  by (intro safe_bind_get_obj safe_bind safe_observe safe_case_prod safe_if safe_return unready_modify
        unready_condition safe_of_emits [OF emits_mono [OF emits_DeleteRBACExcept] keeps_DeleteRBACExcept]
        silent_calls) simp_all

lemma unready_steps:
  assumes "update_laws E" and "status_laws E"
  shows "auth_steps E (unready x) silent"
proof
  show "unready x (StoreRunnerRegistration g y)" if "unready x y" for g y
    using that by (auto simp: unready_def intro: same_unit_trans)
  show "safe (unready x) silent (UpdateStatusObj E) unrestricted"
    unfolding safe_def UpdateStatusObj_def
    using assms unfolding update_laws_def status_laws_def
    by (intro allI impI runs_rules) (auto simp: unready_def is_ready_def intro: same_unit_trans)
qed (simp_all add: silent_calls)

lemma unready_runners:
  assumes "update_laws E" and "status_laws E"
  shows "safe (unready x) silent (ensureRunners E None ca) unrestricted"
  by (rule auth_steps.safe_ensureRunners [OF unready_steps [OF assms]]) simp

section \<open>What stands behind the flag\<close>

text \<open>
  The Secret was read with exactly the rendered data, and the Deployment was read as wanted; or it
  was updated to the wanted one and the cluster stored another pod shape than it was sent.
\<close>

definition secret_settled :: "RunnerInfo \<Rightarrow> string gomap \<Rightarrow> event list \<Rightarrow> bool" where
  "secret_settled x d es =
     (\<exists>s. GetSecret Cached (nsname (GetNamespace x) (ChildName x)) (Inr s) \<in> set es \<and> sec_Data s = d)"

definition deployment_settled :: "env \<Rightarrow> RunnerInfo \<Rightarrow> event list \<Rightarrow> bool" where
  "deployment_settled E z es =
     (\<exists>live. GetDeployment (nsname (GetNamespace z) (ChildName z)) (Inr live) \<in> set es \<and>
        (\<not> deployment_changed E z live \<or>
         (\<exists>d. UpdateDeployment (at_version (om_ResourceVersion (dep_Meta live)) (wantedDeployment z)) (Inr d) \<in> set es \<and>
              \<not> sem_eq_shape E (ManagerPodShape (wanted_template z)) (ManagerPodShape (dep_Template d)))))"

definition converged :: "env \<Rightarrow> RunnerInfo \<Rightarrow> string gomap \<Rightarrow> string \<Rightarrow> event list \<Rightarrow> bool" where
  "converged E x tokens ca es =
     (\<exists>y z toml. same_unit x y \<and> same_unit x z \<and> toml_encode E (rendered_config E y tokens) = Inr toml \<and>
        ConfigMapVersion z = StringToSHA1 (hash_input toml ca) \<and>
        secret_settled x (desired_secret_data toml tokens ca) es \<and> deployment_settled E z es)"

definition bound :: "RunnerInfo \<Rightarrow> event list \<Rightarrow> bool" where
  "bound x es =
     (\<forall>k \<in> set (DesiredBindings x (build_namespace_keys x)). \<exists>e \<in> set es. binding_present x k e)"

definition earned :: "env \<Rightarrow> RunnerInfo \<Rightarrow> event list \<Rightarrow> bool" where
  "earned E x es =
     (\<exists>f ca. fmdom' f = reg_Name ` set (RegistrationConfig x) \<and> bound x es \<and> converged E x (Some f) ca es)"

lemma secret_settled_mono: "secret_settled x d es \<Longrightarrow> set es \<subseteq> set fs \<Longrightarrow> secret_settled x d fs"
  unfolding secret_settled_def by blast

lemma deployment_settled_mono: "deployment_settled E z es \<Longrightarrow> set es \<subseteq> set fs \<Longrightarrow> deployment_settled E z fs"
  unfolding deployment_settled_def by blast

lemma converged_mono: "converged E x tokens ca es \<Longrightarrow> set es \<subseteq> set fs \<Longrightarrow> converged E x tokens ca fs"
  unfolding converged_def
  by (elim exE conjE, intro exI conjI) (assumption | erule (1) secret_settled_mono deployment_settled_mono)+

lemma bound_mono: "bound x es \<Longrightarrow> set es \<subseteq> set fs \<Longrightarrow> bound x fs"
  unfolding bound_def by blast

lemma earned_mono: "earned E x es \<Longrightarrow> set es \<subseteq> set fs \<Longrightarrow> earned E x fs"
  unfolding earned_def
  by (elim exE conjE, intro exI conjI) (assumption | erule (1) bound_mono converged_mono)+

text \<open>A step that leaves the flag cleared, in front of one that may set it.\<close>

definition flag_spec :: "env \<Rightarrow> RunnerInfo \<Rightarrow> 'a \<Rightarrow> event list \<Rightarrow> world \<Rightarrow> bool" where
  "flag_spec E x r es w' = ((\<forall>e \<in> set es. silent e) \<and> (is_ready (obj w') \<longrightarrow> earned E x es))"

lemma flag_after:
  "runs m w (flag_spec E x) \<Longrightarrow> \<forall>e \<in> set fs. silent e \<Longrightarrow>
     runs m w (\<lambda>r es w'. flag_spec E x r (fs @ es) w')"
  by (erule runs_conseq) (auto simp: flag_spec_def elim: earned_mono)

lemma flag_step:
  assumes "safe (unready x) silent m unrestricted" and "unready x (obj w)"
    and "\<And>a w1. unready x (obj w1) \<Longrightarrow> runs (f a) w1 (flag_spec E x)"
  shows "runs (State_Monad.bind m f) w (flag_spec E x)"
proof (rule runs_bind, rule runs_conseq [OF safe_runs [OF assms(1,2)]])
  fix a es1 and w1 :: world
  assume 1: "unready x (obj w1) \<and> (\<forall>e \<in> set es1. silent e) \<and> unrestricted a"
  then show "runs (f a) w1 (\<lambda>y es2 w2. flag_spec E x y (es1 @ es2) w2)"
    by (intro flag_after assms(3)) simp_all
qed

lemma flag_last: "safe (unready x) silent m unrestricted \<Longrightarrow> unready x (obj w) \<Longrightarrow> runs m w (flag_spec E x)"
  by (drule (1) safe_runs) (auto simp: flag_spec_def unready_def elim: runs_conseq)

lemma flag_return: "unready x (obj w) \<Longrightarrow> runs (ret r) w (flag_spec E x)"
  by (intro runs_return) (simp add: flag_spec_def unready_def)

lemma unready_Secret: "safe (unready x) silent (validate_Secret E toml tokens ca) unrestricted"
  unfolding validate_Secret_def call_defs Let_def
  by (intro safe_bind_get_obj safe_bind safe_issue safe_case_sum safe_case_option safe_if safe_return
        unready_modify) simp_all

lemma unready_Deployment: "safe (unready x) silent (validate_Deployment E y) unrestricted"
  by (rule safe_of_emits [OF emits_mono [OF emits_Deployment] keeps_Deployment]) (rule silent_calls)

lemma mark_ready_silent: "runs (mark_ready E d) w (\<lambda>r es w'. es = [])"
  unfolding mark_ready_def set_ready_condition_def
  by (intro runs_bind runs_modify_obj runs_observe runs_return) simp

section \<open>The end of a pass\<close>

lemma runs_validate_step:
  assumes "runs step w (\<lambda>r es w1. unready x (obj w1) \<and> (\<forall>e \<in> set es. silent e) \<and> (r = (None, None) \<longrightarrow> A es w1))"
    and "\<And>es w1. unready x (obj w1) \<Longrightarrow> A es w1 \<Longrightarrow>
      runs rest w1 (\<lambda>r fs w2. (\<forall>e \<in> set fs. silent e) \<and> (is_ready (obj w2) \<longrightarrow> C (es @ fs)))"
  shows "runs (validate_step E reason step rest) w
    (\<lambda>r es w'. (\<forall>e \<in> set es. silent e) \<and> (is_ready (obj w') \<longrightarrow> C es))"
  unfolding validate_step_def
proof (rule runs_bind, rule runs_conseq [OF assms(1)], rule runs_case_prod, rule runs_if)
  fix r :: "Result option \<times> goerr option" and es res err and w1 :: world
  assume 1: "unready x (obj w1) \<and> (\<forall>e \<in> set es. silent e) \<and> (r = (None, None) \<longrightarrow> A es w1)"
  have "safe (unready x) silent (do { _ \<leftarrow> (case err of
            Some e \<Rightarrow> set_ready_condition E False reason (err_text e) | None \<Rightarrow> ret ());
          ret (deref_result res err) }) unrestricted"
    by (intro safe_bind safe_case_option unready_condition safe_return) simp_all
  from safe_runs [OF this, of w1] 1
  show "runs (do { _ \<leftarrow> (case err of
            Some e \<Rightarrow> set_ready_condition E False reason (err_text e) | None \<Rightarrow> ret ());
          ret (deref_result res err) }) w1
      (\<lambda>y fs w2. (\<forall>e \<in> set (es @ fs). silent e) \<and> (is_ready (obj w2) \<longrightarrow> C (es @ fs)))"
    by (auto simp: unready_def elim: runs_conseq)
next
  fix r :: "Result option \<times> goerr option" and es res err and w1 :: world
  assume 1: "unready x (obj w1) \<and> (\<forall>e \<in> set es. silent e) \<and> (r = (None, None) \<longrightarrow> A es w1)"
    and "r = (res, err)" "\<not> (res \<noteq> None \<or> err \<noteq> None)"
  then show "runs rest w1 (\<lambda>y fs w2. (\<forall>e \<in> set (es @ fs). silent e) \<and> (is_ready (obj w2) \<longrightarrow> C (es @ fs)))"
    by (intro runs_conseq [OF assms(2)]) auto
qed

lemma secret_step_settled:
  assumes "unready x (obj w)"
  shows "runs (validate_Secret E toml tokens ca) w (\<lambda>r es w1. unready x (obj w1) \<and> (\<forall>e \<in> set es. silent e) \<and>
    (r = (None, None) \<longrightarrow> obj w1 = obj w \<and> secret_settled x (desired_secret_data toml tokens ca) es))"
proof -
  have "GetNamespace (obj w) = GetNamespace x" "ChildName (obj w) = ChildName x"
    using assms same_unit_ChildName [of x "obj w"] by (simp_all add: unready_def same_unit_def)
  then show ?thesis
    using runs_conj [OF safe_runs [OF unready_Secret assms, of E toml tokens ca]
        runs_Secret_settled [of E toml tokens ca w]]
    by (auto simp: secret_settled_def elim!: runs_conseq)
qed

lemma runs_Deployment_settled:
  "runs (validate_Deployment E z) w (\<lambda>r es w'. r = (None, None) \<longrightarrow> deployment_settled E z es)"
proof (rule runs_conseq [OF runs_Deployment], elim exE conjE)
  fix r es ans writes
  assume es: "es = GetDeployment (nsname (GetNamespace z) (ChildName z)) ans # writes"
  show "r = (None, None) \<longrightarrow> deployment_settled E z es"
    if "case ans of
         Inl e \<Rightarrow>
           (if IsNotFound e
            then \<exists>a. writes = [CreateDeployment (wantedDeployment z) a] \<and>
                 r = (case a of Some e' \<Rightarrow> (RequeueWithDefaultTimeout, Some e') | None \<Rightarrow> (RequeueNow, None))
            else writes = [] \<and> r = (RequeueWithDefaultTimeout, Some e))
       | Inr live \<Rightarrow>
           (if deployment_changed E z live
            then \<exists>a. writes = [UpdateDeployment (at_version (om_ResourceVersion (dep_Meta live)) (wantedDeployment z)) a] \<and>
                 r = (case a of
                        Inl e \<Rightarrow> (RequeueWithDefaultTimeout, Some e)
                      | Inr stored \<Rightarrow>
                          (if sem_eq_shape E (ManagerPodShape (wanted_template z)) (ManagerPodShape (dep_Template stored))
                           then (RequeueNow, None) else (None, None)))
            else writes = [] \<and> r = (None, None))"
  proof
    assume r: "r = (None, None)"
    with that obtain live where live: "ans = Inr live"
      by (cases ans) (auto simp: RequeueWithDefaultTimeout_def RequeueNow_def split: if_splits option.splits)
    have "\<exists>d. UpdateDeployment (at_version (om_ResourceVersion (dep_Meta live)) (wantedDeployment z)) (Inr d) \<in> set es \<and>
        \<not> sem_eq_shape E (ManagerPodShape (wanted_template z)) (ManagerPodShape (dep_Template d))"
      if changed: "deployment_changed E z live"
    proof -
      from \<open>case ans of Inl _ \<Rightarrow> _ | Inr _ \<Rightarrow> _\<close> r changed live obtain u where
        "writes = [UpdateDeployment (at_version (om_ResourceVersion (dep_Meta live)) (wantedDeployment z)) u]"
        and "(None, None) = (case u of
               Inl e \<Rightarrow> (RequeueWithDefaultTimeout, Some e)
             | Inr stored \<Rightarrow>
                 (if sem_eq_shape E (ManagerPodShape (wanted_template z)) (ManagerPodShape (dep_Template stored))
                  then (RequeueNow, None) else (None, None)))"
        by auto
      then show ?thesis
        by (cases u) (auto simp: es RequeueNow_def split: if_splits)
    qed
    with live es show "deployment_settled E z es" unfolding deployment_settled_def by auto
  qed
qed

lemma deployment_step:
  assumes "unready x (obj w)"
  shows "runs (do { y \<leftarrow> get_obj; validate_Deployment E y }) w
    (\<lambda>r es w1. unready x (obj w1) \<and> (\<forall>e \<in> set es. silent e) \<and>
      (r = (None, None) \<longrightarrow> deployment_settled E (obj w) es))"
  by (rule runs_bind, rule runs_get_obj,
      rule runs_conseq [OF runs_conj [OF safe_runs [OF unready_Deployment assms] runs_Deployment_settled]]) simp

lemma runs_converge:
  assumes "unready x (obj w)"
  shows "runs (converge_workload E tokens d ca) w
    (\<lambda>r es w'. (\<forall>e \<in> set es. silent e) \<and> (is_ready (obj w') \<longrightarrow> converged E x tokens ca es))"
  unfolding converge_workload_def Let_def
proof (rule runs_bind, rule runs_get_obj, rule runs_case_prod, rule runs_bind, rule runs_modify_obj,
    unfold append_Nil, rule runs_case_sum)
  fix x' rendered err
  assume r: "TomlConfig E (obj w) tokens ca = (x', rendered)"
  have u: "unready x x'"
    using assms r same_unit_TomlConfig [of "obj w" E tokens ca] is_ready_TomlConfig [of E "obj w" tokens ca]
    by (auto simp: unready_def intro: same_unit_trans)
  show "runs (fail_pass E (err_text err) ''ConfigRenderFailed'' err) (w\<lparr>obj := x'\<rparr>)
      (\<lambda>r es w'. (\<forall>e \<in> set es. silent e) \<and> (is_ready (obj w') \<longrightarrow> converged E x tokens ca es))"
    by (rule runs_conseq [OF safe_runs [OF unready_fail [of x silent]]]) (simp add: u, simp add: unready_def)
next
  fix x' rendered v
  assume r: "TomlConfig E (obj w) tokens ca = (x', rendered)" and v: "rendered = Inr v"
  obtain toml ver where tv: "v = (toml, ver)" by (cases v)
  let ?z = "SetConfigMapVersion ver x'"
  have u: "unready x ?z"
    using assms r same_unit_TomlConfig [of "obj w" E tokens ca] is_ready_TomlConfig [of E "obj w" tokens ca]
    by (auto simp: unready_def intro: same_unit_trans)
  have "render_config E (rendered_config E (obj w) tokens) ca = Inr (toml, ver)"
    by (simp only: TomlConfig_renders [of E "obj w" tokens ca, symmetric] r v tv snd_conv)
  note enc = render_config_ok [OF this, THEN conjunct1] render_config_ok [OF this, THEN conjunct2]
  let ?S = "secret_settled x (desired_secret_data toml tokens ca)"
  have ready: "runs (mark_ready E d) w2 (\<lambda>r es w'. (\<forall>e \<in> set es. silent e) \<and> (is_ready (obj w') \<longrightarrow> D (fs @ es)))"
    if "D fs" for D fs w2
    by (rule runs_conseq [OF mark_ready_silent]) (simp add: that)
  have dep: "runs (validate_step E ''DeploymentFailed'' (do { y \<leftarrow> get_obj; validate_Deployment E y }) (mark_ready E d)) w1
      (\<lambda>r fs w2. (\<forall>e \<in> set fs. silent e) \<and> (is_ready (obj w2) \<longrightarrow> ?S (es @ fs) \<and> deployment_settled E ?z (es @ fs)))"
    if "unready x (obj w1)" "obj w1 = ?z" "?S es" for es w1
  proof -
    have "runs (validate_step E ''DeploymentFailed'' (do { y \<leftarrow> get_obj; validate_Deployment E y }) (mark_ready E d)) w1
        (\<lambda>r fs w2. (\<forall>e \<in> set fs. silent e) \<and> (is_ready (obj w2) \<longrightarrow> deployment_settled E ?z fs))"
      by (rule runs_validate_step [OF deployment_step [OF that(1)]]) (rule ready, simp add: that(2))
    then show ?thesis
      by (rule runs_conseq)
         (use secret_settled_mono [OF that(3)] deployment_settled_mono in \<open>simp, metis set_append Un_upper1 Un_upper2\<close>)
  qed
  have "runs (validate_step E ''ConfigSecretFailed'' (validate_Secret E toml tokens ca)
        (validate_step E ''DeploymentFailed'' (do { y \<leftarrow> get_obj; validate_Deployment E y }) (mark_ready E d)))
      (w\<lparr>obj := ?z\<rparr>)
      (\<lambda>r es w'. (\<forall>e \<in> set es. silent e) \<and> (is_ready (obj w') \<longrightarrow> ?S es \<and> deployment_settled E ?z es))"
    by (rule runs_validate_step [OF secret_step_settled [of x]]) (simp add: u, rule dep, simp_all)
  moreover have "converged E x tokens ca es" if "?S es \<and> deployment_settled E ?z es" for es
    unfolding converged_def
    by (rule exI [of _ "obj w"], rule exI [of _ ?z], rule exI [of _ toml])
       (use that assms u enc in \<open>simp add: unready_def\<close>)
  ultimately have "runs (validate_step E ''ConfigSecretFailed'' (validate_Secret E toml tokens ca)
        (validate_step E ''DeploymentFailed'' (do { y \<leftarrow> get_obj; validate_Deployment E y }) (mark_ready E d)))
      (w\<lparr>obj := ?z\<rparr>)
      (\<lambda>r es w'. (\<forall>e \<in> set es. silent e) \<and> (is_ready (obj w') \<longrightarrow> converged E x tokens ca es))"
    by - (erule runs_conseq, simp)
  then show "runs (case v of (toml, ver) \<Rightarrow> do { _ \<leftarrow> modify_obj (SetConfigMapVersion ver);
        validate_step E ''ConfigSecretFailed'' (validate_Secret E toml tokens ca)
          (validate_step E ''DeploymentFailed'' (do { y \<leftarrow> get_obj; validate_Deployment E y }) (mark_ready E d)) })
      (w\<lparr>obj := x'\<rparr>)
      (\<lambda>r es w'. (\<forall>e \<in> set es. silent e) \<and> (is_ready (obj w') \<longrightarrow> converged E x tokens ca es))"
    unfolding tv by (simp del: append_Nil) (rule runs_bind, rule runs_modify_obj, simp)
qed

section \<open>The whole pass\<close>

lemma same_unit_bound:
  assumes "same_unit x y"
  shows "bound y es = bound x es"
proof -
  have "binding_present y k e = binding_present x k e" for k e
    using same_unit_binding [OF assms] by (cases "(x, k, e)" rule: binding_present.cases) simp_all
  then show ?thesis
    using same_unit_DesiredBindings [OF assms] same_unit_keys [OF assms] by (simp add: bound_def)
qed

lemma same_unit_names:
  "same_unit x y \<Longrightarrow> reg_Name ` set (RegistrationConfig y) = reg_Name ` set (RegistrationConfig x)"
proof -
  assume "same_unit x y"
  then have "fst ` set (unit_view y) = fst ` set (unit_view x)" by (simp add: same_unit_def)
  then show ?thesis by (simp add: unit_view_def image_image)
qed

lemma flag_rbac:
  assumes "unready x (obj w)" and "fmdom' f = reg_Name ` set (RegistrationConfig x)"
  shows "runs (do { y \<leftarrow> get_obj; rb \<leftarrow> CreateRBACIfMissing E y;
      case rb of
        Some e \<Rightarrow> fail_pass E ''Cannot create the rbac objects'' ''RBACFailed'' e
      | None \<Rightarrow> converge_workload E (Some f) d ca }) w (flag_spec E x)"
proof (rule runs_bind, rule runs_get_obj, unfold append_Nil, rule runs_bind,
    rule runs_conseq [OF runs_conj [OF runs_keeps [OF keeps_CreateRBAC emitsD [OF emits_CreateRBAC]] runs_CreateRBAC]],
    rule runs_case_option)
  fix rb es1 and w1 :: world
  assume 1: "((\<forall>e \<in> set es1. rbac_call (wanted_binding (obj w)) e) \<and> obj w1 = obj w) \<and>
    (rb = None \<longrightarrow> (\<forall>k \<in> set (DesiredBindings (obj w) (build_namespace_keys (obj w))).
       \<exists>e \<in> set es1. binding_present (obj w) k e))" and "rb = None"
  with assms(1) have b: "bound x es1" and u: "unready x (obj w1)"
    using same_unit_bound [of x "obj w" es1] by (simp_all add: bound_def unready_def)
  have s: "\<forall>e \<in> set es1. silent e"
    using 1 silent_calls(4) [of "wanted_binding (obj w)"] by blast
  have e: "earned E x (es1 @ es2)" if "converged E x (Some f) ca es2" for es2
    unfolding earned_def
    by (rule exI [of _ f], rule exI [of _ ca])
       (use assms(2) bound_mono [OF b] converged_mono [OF that] in simp)
  show "runs (converge_workload E (Some f) d ca) w1 (\<lambda>r es2 w2. flag_spec E x r (es1 @ es2) w2)"
    by (rule runs_conseq [OF runs_converge [OF u]]) (use s e in \<open>simp add: flag_spec_def ball_Un\<close>)
next
  fix rb es1 v and w1 :: world
  assume 1: "((\<forall>e \<in> set es1. rbac_call (wanted_binding (obj w)) e) \<and> obj w1 = obj w) \<and>
    (rb = None \<longrightarrow> (\<forall>k \<in> set (DesiredBindings (obj w) (build_namespace_keys (obj w))).
       \<exists>e \<in> set es1. binding_present (obj w) k e))"
  then have s: "\<forall>e \<in> set es1. silent e" and u: "unready x (obj w1)"
    using assms(1) silent_calls(4) [of "wanted_binding (obj w)"] by auto
  show "runs (fail_pass E ''Cannot create the rbac objects'' ''RBACFailed'' v) w1
      (\<lambda>r es2 w2. flag_spec E x r (es1 @ es2) w2)"
    by (rule runs_conseq [OF safe_runs [OF unready_fail [of x silent]]])
       (simp add: u, use s in \<open>simp add: flag_spec_def unready_def ball_Un\<close>)
qed

lemma flag_auth:
  assumes "update_laws E" and "status_laws E" and "unready x (obj w)"
  shows "runs (do { rs \<leftarrow> ensureRunners E None ca;
      case rs of
        Inl e \<Rightarrow> fail_pass E (err_text e) ''AuthFailed'' e
      | Inr (tokens, requeueAfter) \<Rightarrow>
          do { y \<leftarrow> get_obj; rb \<leftarrow> CreateRBACIfMissing E y;
               case rb of
                 Some e \<Rightarrow> fail_pass E ''Cannot create the rbac objects'' ''RBACFailed'' e
               | None \<Rightarrow> converge_workload E tokens requeueAfter ca } }) w (flag_spec E x)"
proof (rule runs_bind, rule runs_conseq [OF runs_conj [OF safe_runs [OF unready_runners [OF assms(1,2)] assms(3)]
      runs_ensureRunners_result]], rule runs_case_sum)
  fix rs :: "goerr + string gomap \<times> duration" and es1 e and w1 :: world
  assume "(unready x (obj w1) \<and> (\<forall>e \<in> set es1. silent e) \<and> unrestricted rs) \<and>
    (\<forall>tokens d. rs = Inr (tokens, d) \<longrightarrow>
       (\<exists>f. tokens = Some f \<and> fmdom' f = reg_Name ` set (RegistrationConfig (obj w)) \<and>
          ((\<exists>n. fmlookup f n = Some '''') \<longrightarrow> (\<exists>e \<in> set es1. blank_creation e))) \<and>
       (d = 0 \<or> minute \<le> d \<and> d \<le> hour))"
  then show "runs (fail_pass E (err_text e) ''AuthFailed'' e) w1 (\<lambda>r es2 w2. flag_spec E x r (es1 @ es2) w2)"
    by (intro runs_conseq [OF safe_runs [OF unready_fail [of x silent]]]) (auto simp: flag_spec_def unready_def)
next
  fix rs :: "goerr + string gomap \<times> duration" and es1 v and w1 :: world
  assume 1: "(unready x (obj w1) \<and> (\<forall>e \<in> set es1. silent e) \<and> unrestricted rs) \<and>
    (\<forall>tokens d. rs = Inr (tokens, d) \<longrightarrow>
       (\<exists>f. tokens = Some f \<and> fmdom' f = reg_Name ` set (RegistrationConfig (obj w)) \<and>
          ((\<exists>n. fmlookup f n = Some '''') \<longrightarrow> (\<exists>e \<in> set es1. blank_creation e))) \<and>
       (d = 0 \<or> minute \<le> d \<and> d \<le> hour))" and rs: "rs = Inr v"
  obtain tokens d where v: "v = (tokens, d)" by (cases v)
  with 1 rs obtain f where f: "tokens = Some f" "fmdom' f = reg_Name ` set (RegistrationConfig (obj w))" by blast
  moreover have "same_unit x (obj w)" using assms(3) by (simp add: unready_def)
  ultimately have "fmdom' f = reg_Name ` set (RegistrationConfig x)"
    using same_unit_names by simp
  from flag_rbac [OF _ this, of w1 E d ca] 1
  show "runs (case v of (tokens, requeueAfter) \<Rightarrow>
        do { y \<leftarrow> get_obj; rb \<leftarrow> CreateRBACIfMissing E y;
             case rb of
               Some e \<Rightarrow> fail_pass E ''Cannot create the rbac objects'' ''RBACFailed'' e
             | None \<Rightarrow> converge_workload E tokens requeueAfter ca }) w1
      (\<lambda>r es2 w2. flag_spec E x r (es1 @ es2) w2)"
    unfolding v f(1) prod.case by (intro flag_after) simp_all
qed

lemma runs_provision:
  assumes "update_laws E" and "status_laws E" and "rec_GitlabApiClient R = None" and "same_unit x (obj w)"
  shows "runs (provision E R) w (flag_spec E x)"
proof -
  have ca: "safe (unready x) silent (resolveCABundle E rd ns src) unrestricted" for rd ns src
    by (rule safe_of_emits [OF emits_mono [OF emits_resolveCABundle] keeps_resolveCABundle]) (rule silent_calls)
  have generation: "safe (unready x) silent (modify_obj (\<lambda>y. SetObservedGeneration (GetGeneration y) y)) unrestricted"
    by (rule unready_modify) simp_all
  let ?w = "w\<lparr>obj := SetStatusReady False (SetStatusError '''' (obj w))\<rparr>"
  have "same_unit x (SetStatusReady False (SetStatusError '''' (obj w)))"
    by (rule same_unit_trans [OF same_unit_trans [OF assms(4) same_unit_setters(1)] same_unit_setters(2)])
  then have u: "unready x (obj ?w)" by (simp add: unready_def)
  show ?thesis
    unfolding provision_def assms(3)
    by (rule runs_bind, rule runs_modify_obj, unfold append_Nil, rule runs_bind, rule runs_modify_obj, unfold append_Nil,
        rule flag_step [OF generation], use u in simp, rule flag_step [OF unready_enforce], assumption,
        rule runs_case_prod, rule runs_case_option, rule runs_if, rule flag_return, assumption,
        rule runs_bind, rule runs_get_obj, unfold append_Nil, rule flag_step [OF ca], assumption,
        rule runs_case_sum, rule flag_last [OF unready_fail], assumption, rule flag_auth [OF assms(1,2)], assumption,
        rule flag_return, assumption)
qed

text \<open>The deferred write stores the status of the pass's object.\<close>

fun flag_write :: "bool \<Rightarrow> event \<Rightarrow> bool" where
  "flag_write b (UpdateObjectStatus y r) = (is_ready y = b)"
| "flag_write b e = True"

lemma flag_write_ready: "flag_write b e \<Longrightarrow> ready_write e \<Longrightarrow> b"
  by (cases e) simp_all

lemma status_write_flag:
  assumes "retry_laws E" and "fetch_spec m fetch"
  shows "runs (write_status E fetch) w (\<lambda>r es w'. \<forall>e \<in> set es. flag_write (is_ready (obj w)) e)"
proof -
  have fetch: "emits (flag_write b) (fetch k)" for b k
    unfolding emits_def
  proof
    fix w
    have "runs (fetch k) w (\<lambda>r es w'. \<exists>a. es = [GetObject m k a] \<and> r = map_sum id with_status_maps a)"
      using assms(2) by (simp add: fetch_spec_def)
    then show "runs (fetch k) w (\<lambda>r es w'. \<forall>e \<in> set es. flag_write b e)"
      by (rule runs_conseq) auto
  qed
  have "emits (flag_write (is_ready x)) (write_status_once E fetch x)" for x
    unfolding write_status_once_def cl_UpdateStatusOf_def
    by (intro emits_bind fetch emits_case_sum emits_return emits_if emits_case_option emits_issue)
       (simp add: is_ready_SetStatus)
  then show ?thesis
    unfolding write_status_def
    by - (rule runs_bind, rule runs_get_obj, unfold append_Nil, rule runs_bind,
      rule runs_conseq [OF emitsD [OF emits_retry [OF assms(1)]]], assumption, rule runs_return, simp)
qed

definition ready_earned :: "env \<Rightarrow> RunnerInfo \<Rightarrow> event list \<Rightarrow> bool" where
  "ready_earned E x es = (\<forall>e \<in> set es. ready_write e \<longrightarrow> earned E x es)"

lemma runs_ready_pass:
  assumes "update_laws E" and "status_laws E" and "retry_laws E" and "rec_GitlabApiClient R = None"
    and "fetch_spec m fetch"
  shows "runs (reconcile_object E R fetch (with_status_maps x)) w
    (\<lambda>r es w'. \<not> IsBeingDeleted x \<longrightarrow> HasFinalizer E x \<longrightarrow> ready_earned E x es)"
proof (cases "IsBeingDeleted x \<or> \<not> HasFinalizer E x")
  case True
  moreover have "fetches fetch" using assms(5) by (simp add: fetch_spec_def)
  ultimately show ?thesis
    by (intro runs_conseq [OF runs_reconcile_object [OF assms(1,3) _ \<open>fetches fetch\<close>, of R x w]]) (auto simp: assms(4))
next
  case False
  let ?w = "w\<lparr>obj := with_status_maps x\<rparr>"
  have "runs (provision E R) ?w (flag_spec E x)"
    by (rule runs_provision [OF assms(1,2,4)]) (simp add: with_status_maps_same)
  then have live: "runs (reconcile_live E R) ?w (flag_spec E x)"
    unfolding reconcile_live_def
    by - (rule runs_bind, rule runs_get_obj, use False in \<open>simp add: with_status_maps_finalizer\<close>)
  have "runs (do { res \<leftarrow> reconcile_live E R; _ \<leftarrow> write_status E fetch; ret res }) ?w
      (\<lambda>r es w'. ready_earned E x es)"
  proof (rule runs_bind, rule runs_conseq [OF live], rule runs_bind,
      rule runs_conseq [OF status_write_flag [OF assms(3,5)]], rule runs_return)
    fix r es1 es2 and w1 :: world
    assume 1: "flag_spec E x r es1 w1" and 2: "\<forall>e \<in> set es2. flag_write (is_ready (obj w1)) e"
    have "is_ready (obj w1)" if "e \<in> set (es1 @ es2)" "ready_write e" for e
      using that 1 2 by (auto simp: flag_spec_def dest: flag_write_ready)
    with 1 show "ready_earned E x (es1 @ es2 @ [])"
      by (auto simp: ready_earned_def flag_spec_def elim: earned_mono)
  qed
  with False show ?thesis
    unfolding reconcile_object_def
    by - (rule runs_bind, rule runs_modify_obj, unfold append_Nil, rule runs_if; simp add: with_status_maps_deleted)
qed

section \<open>A converged cluster\<close>

text \<open>
  The cluster of \<open>Sample\<close> with the Secret and the Deployment of a Runner in place that has not been
  reported ready yet. The version of the configuration is a digest, which is left as it stands.
\<close>

definition ready_version :: string where
  "ready_version = StringToSHA1 ''concurrent = 4''"

definition ready_runner :: Runner where
  "ready_runner = (sample_runner own_token '''')\<lparr>res_Status := sample_status\<lparr>st_ConfigMapVersion := ready_version\<rparr>\<rparr>"

definition ready_secret :: Secret where
  "ready_secret = \<lparr>sec_Meta = ObjectMeta_zero, sec_Type = ''Opaque'',
     sec_Data = desired_secret_data ''concurrent = 4'' (Some (fmap_of_list [(''builder'', ''glrt-1'')])) ''''\<rparr>"

definition ready_env :: env where
  "ready_env = sample_env\<lparr>
     api_GetRunner := (\<lambda>tr k. Inr ready_runner),
     api_GetSecret := (\<lambda>tr rd k. Inr ready_secret),
     api_GetDeployment := (\<lambda>tr k. Inr (wantedDeployment (RunnerObj ready_runner)))\<rparr>"

lemma ready_laws: "update_laws ready_env" "status_laws ready_env" "retry_laws ready_env"
proof -
  have "ask_update ready_env x tr = Inr x" "ask_update_status ready_env x tr = Inr x" for x tr
    by (cases x; simp add: ready_env_def sample_env_def sample_cluster_def)+
  then show "update_laws ready_env" "status_laws ready_env"
    by (simp_all add: update_laws_def status_laws_def)
  show "retry_laws ready_env"
    by (auto simp: retry_laws_def ready_env_def sample_env_def sample_cluster_def)
qed

end
