(* ===== verification/Cached_Reads.thy ===== *)
theory Cached_Reads
  imports Reconcile_Facts
begin

text \<open>
  The reads that go through the manager's cache: \<open>cl.Get\<close> of Secrets, Deployments, service accounts,
  RoleBindings and of the objects themselves on the controller's client (\<open>cmd/main.go\<close> makes one with the
  manager, so its reads are served by informers that lag behind the API server). A whole pass is compared
  with the same pass on another cache: where the answers recorded in the run are those the other cache
  gives as well, the two runs are the same, call by call. The relation \<open>agrees\<close> goes along the syntax
  of a program, one rule per construct.
\<close>

named_theorems agrees_rules "rules for agrees"

section \<open>What is recorded of a cached read\<close>

text \<open>\<open>along P tr es\<close>: each of the calls \<open>es\<close> made after \<open>tr\<close> satisfies \<open>P\<close> at its own history.\<close>

fun along :: "(event list \<Rightarrow> event \<Rightarrow> bool) \<Rightarrow> event list \<Rightarrow> event list \<Rightarrow> bool" where
  "along P tr [] = True"
| "along P tr (e # es) = (P tr e \<and> along P (tr @ [e]) es)"

lemma along_append: "along P tr (es @ fs) \<longleftrightarrow> along P tr es \<and> along P (tr @ es) fs"
  by (induction es arbitrary: tr) simp_all

lemma along_mono: "along P tr es \<Longrightarrow> (\<And>tr e. P tr e \<Longrightarrow> Q tr e) \<Longrightarrow> along Q tr es"
  by (induction es arbitrary: tr) simp_all

definition ask_object :: "env \<Rightarrow> bool \<Rightarrow> event list \<Rightarrow> NSName \<Rightarrow> goerr + RunnerInfo" where
  "ask_object E multi tr k =
     (if multi then map_sum id MultiRunnerObj (api_GetMultiRunner E tr k)
      else map_sum id RunnerObj (api_GetRunner E tr k))"

text \<open>The trace holds what the environment answered.\<close>

fun told :: "env \<Rightarrow> event list \<Rightarrow> event \<Rightarrow> bool" where
  "told E tr (GetSecret rd k r) = (r = api_GetSecret E tr rd k)"
| "told E tr (GetDeployment k r) = (r = api_GetDeployment E tr k)"
| "told E tr (GetServiceAccount k r) = (r = api_GetServiceAccount E tr k)"
| "told E tr (GetRoleBinding k r) = (r = api_GetRoleBinding E tr k)"
| "told E tr (GetObject multi k r) = (r = ask_object E multi tr k)"
| "told E tr e = True"

section \<open>Another cache\<close>

record cache =
  in_secrets :: "(NSName \<Rightarrow> goerr + Secret) answer"
  in_deployments :: "(NSName \<Rightarrow> goerr + Deployment) answer"
  in_accounts :: "(NSName \<Rightarrow> goerr + ServiceAccount) answer"
  in_bindings :: "(NSName \<Rightarrow> goerr + RoleBinding) answer"
  in_runners :: "(NSName \<Rightarrow> goerr + Runner) answer"
  in_multi_runners :: "(NSName \<Rightarrow> goerr + MultiRunner) answer"

text \<open>The environment with the reads through the cache served by \<open>C\<close>, and all else as it is.\<close>

definition with_cache :: "env \<Rightarrow> cache \<Rightarrow> env" where
  "with_cache E C = E\<lparr>
     api_GetSecret := \<lambda>tr rd k. if rd = Cached then in_secrets C tr k else api_GetSecret E tr rd k,
     api_GetDeployment := in_deployments C,
     api_GetServiceAccount := in_accounts C,
     api_GetRoleBinding := in_bindings C,
     api_GetRunner := in_runners C,
     api_GetMultiRunner := in_multi_runners C\<rparr>"

lemma with_cache_fields [simp]:
  "lib_ContainsFinalizer (with_cache E C) = lib_ContainsFinalizer E" "lib_AddFinalizer (with_cache E C) = lib_AddFinalizer E"
  "lib_RemoveFinalizer (with_cache E C) = lib_RemoveFinalizer E"
  "lib_SetStatusCondition (with_cache E C) = lib_SetStatusCondition E"
  "toml_encode (with_cache E C) = toml_encode E" "pem_has_certs (with_cache E C) = pem_has_certs E"
  "sdk_new_client (with_cache E C) = sdk_new_client E" "sem_eq_rules (with_cache E C) = sem_eq_rules E"
  "sem_eq_shape (with_cache E C) = sem_eq_shape E" "retry_on_conflict (with_cache E C) = retry_on_conflict E"
  "float_overflow (with_cache E C) = float_overflow E" "map_order (with_cache E C) = map_order E"
  "clock (with_cache E C) = clock E"
  "api_GetConfigMap (with_cache E C) = api_GetConfigMap E" "api_GetClusterRole (with_cache E C) = api_GetClusterRole E"
  "api_ListRoleBindings (with_cache E C) = api_ListRoleBindings E" "api_ListPods (with_cache E C) = api_ListPods E"
  "api_CreateSecret (with_cache E C) = api_CreateSecret E"
  "api_CreateServiceAccount (with_cache E C) = api_CreateServiceAccount E"
  "api_CreateRoleBinding (with_cache E C) = api_CreateRoleBinding E"
  "api_CreateClusterRole (with_cache E C) = api_CreateClusterRole E"
  "api_CreateDeployment (with_cache E C) = api_CreateDeployment E"
  "api_UpdateSecret (with_cache E C) = api_UpdateSecret E"
  "api_UpdateClusterRole (with_cache E C) = api_UpdateClusterRole E"
  "api_UpdateDeployment (with_cache E C) = api_UpdateDeployment E"
  "api_UpdateRunner (with_cache E C) = api_UpdateRunner E" "api_UpdateMultiRunner (with_cache E C) = api_UpdateMultiRunner E"
  "api_UpdateRunnerStatus (with_cache E C) = api_UpdateRunnerStatus E"
  "api_UpdateMultiRunnerStatus (with_cache E C) = api_UpdateMultiRunnerStatus E"
  "api_DeleteDeployment (with_cache E C) = api_DeleteDeployment E" "api_DeletePod (with_cache E C) = api_DeletePod E"
  "api_DeleteRoleBinding (with_cache E C) = api_DeleteRoleBinding E"
  "sdk_CreateUserRunner (with_cache E C) = sdk_CreateUserRunner E"
  "sdk_DeleteRegisteredRunner (with_cache E C) = sdk_DeleteRegisteredRunner E"
  "sdk_RemoveRunner (with_cache E C) = sdk_RemoveRunner E"
  "sdk_VerifyRegisteredRunner (with_cache E C) = sdk_VerifyRegisteredRunner E"
  by (simp_all add: with_cache_def)

lemma with_cache_reads [simp]:
  "api_GetSecret (with_cache E C) tr rd k = (if rd = Cached then in_secrets C tr k else api_GetSecret E tr rd k)"
  "api_GetDeployment (with_cache E C) = in_deployments C" "api_GetServiceAccount (with_cache E C) = in_accounts C"
  "api_GetRoleBinding (with_cache E C) = in_bindings C" "api_GetRunner (with_cache E C) = in_runners C"
  "api_GetMultiRunner (with_cache E C) = in_multi_runners C"
  by (simp_all add: with_cache_def)

text \<open>What does not read through the cache is the same.\<close>

lemma with_cache_object [simp]:
  "HasFinalizer (with_cache E C) x = HasFinalizer E x" "AddFinalizer (with_cache E C) x = AddFinalizer E x"
  "RemoveFinalizer (with_cache E C) x = RemoveFinalizer E x"
  "SetReadyCondition (with_cache E C) t b reason msg x = SetReadyCondition E t b reason msg x"
proof -
  show "HasFinalizer (with_cache E C) x = HasFinalizer E x"
    by (cases x) (simp_all only: HasFinalizer.simps Runner_HasFinalizer_def MultiRunner_HasFinalizer_def with_cache_fields)
  show "AddFinalizer (with_cache E C) x = AddFinalizer E x"
    by (cases x) (simp_all only: AddFinalizer.simps Runner_AddFinalizer_def MultiRunner_AddFinalizer_def with_cache_fields)
  show "RemoveFinalizer (with_cache E C) x = RemoveFinalizer E x"
    by (cases x) (simp_all only: RemoveFinalizer.simps Runner_RemoveFinalizer_def MultiRunner_RemoveFinalizer_def with_cache_fields)
  show "SetReadyCondition (with_cache E C) t b reason msg x = SetReadyCondition E t b reason msg x"
    by (cases x) (simp_all only: SetReadyCondition.simps Runner_SetReadyCondition_def MultiRunner_SetReadyCondition_def
      setReadyCondition_def with_cache_fields)
qed

lemma with_cache_updates [simp]:
  "ask_update (with_cache E C) x = ask_update E x" "ask_update_status (with_cache E C) x = ask_update_status E x"
  by (rule ext, cases x; simp)+

lemma with_cache_root [simp]: "root_config (with_cache E C) spec rs = root_config E spec rs"
  by (simp add: root_config_def at_least_def int_of_float_def)

lemma with_cache_render [simp]: "TomlConfig (with_cache E C) x tokens ca = TomlConfig E x tokens ca"
  by (cases x) (simp_all add: SingleRunnerConfig_def MultiRunnerConfig_def single_root_config_def multi_root_config_def
    render_config_def)

lemma with_cache_api [simp]: "gitlabApi (with_cache E C) = gitlabApi E"
proof -
  have "gitlabApi_CreateRunner (with_cache E C) = gitlabApi_CreateRunner E"
    "gitlabApi_DeleteRunner (with_cache E C) = gitlabApi_DeleteRunner E"
    "gitlabApi_DeleteRunnerByID (with_cache E C) = gitlabApi_DeleteRunnerByID E"
    "gitlabApi_VerifyToken (with_cache E C) = gitlabApi_VerifyToken E"
    by (intro ext; simp add: gitlabApi_defs)+
  then show ?thesis by (intro ext) (simp add: gitlabApi_def)
qed

lemma with_cache_client [simp]: "NewGitlabClient (with_cache E C) token url ca = NewGitlabClient E token url ca"
  by (simp add: NewGitlabClient_def Let_def cong: option.case_cong)

lemma with_cache_changed [simp]: "deployment_changed (with_cache E C) x d = deployment_changed E x d"
  by (simp add: deployment_changed_def)

section \<open>Two runs, one on another cache\<close>

text \<open>
  \<open>F tr e\<close> is to say that the cached read \<open>e\<close>, answered after \<open>tr\<close>, got the answer that \<open>C\<close> gives.
\<close>

locale cache_swap =
  fixes E :: env and C :: cache and F :: "event list \<Rightarrow> event \<Rightarrow> bool"
  assumes secrets: "F tr (GetSecret Cached k (api_GetSecret E tr Cached k)) \<Longrightarrow> in_secrets C tr k = api_GetSecret E tr Cached k"
    and deployments: "F tr (GetDeployment k (api_GetDeployment E tr k)) \<Longrightarrow> in_deployments C tr k = api_GetDeployment E tr k"
    and accounts: "F tr (GetServiceAccount k (api_GetServiceAccount E tr k)) \<Longrightarrow> in_accounts C tr k = api_GetServiceAccount E tr k"
    and bindings: "F tr (GetRoleBinding k (api_GetRoleBinding E tr k)) \<Longrightarrow> in_bindings C tr k = api_GetRoleBinding E tr k"
    and runners: "F tr (GetObject False k (ask_object E False tr k)) \<Longrightarrow> in_runners C tr k = api_GetRunner E tr k"
    and multi_runners:
      "F tr (GetObject True k (ask_object E True tr k)) \<Longrightarrow> in_multi_runners C tr k = api_GetMultiRunner E tr k"
begin

abbreviation swapped :: env where
  "swapped \<equiv> with_cache E C"

text \<open>
  A run of \<open>m\<close> records what \<open>E\<close> answers, and if all of it is what \<open>C\<close> answers, then \<open>m'\<close> runs the same.
\<close>

definition agrees :: "'a go \<Rightarrow> 'a go \<Rightarrow> bool" where
  "agrees m m' = (\<forall>w. runs m w (\<lambda>r es w'. along (told E) (trace w) es \<and>
     (along F (trace w) es \<longrightarrow> run_state m' w = (r, w'))))"

lemma agrees_return [agrees_rules]: "agrees (ret x) (ret x)"
  by (auto simp: agrees_def intro: runs_return)

lemma agrees_get_obj [agrees_rules]: "agrees get_obj get_obj"
  by (auto simp: agrees_def intro: runs_get_obj)

lemma agrees_modify_obj [agrees_rules]: "agrees (modify_obj f) (modify_obj f)"
  by (auto simp: agrees_def intro: runs_modify_obj)

lemma agrees_observe [agrees_rules]: "agrees (observe ask) (observe ask)"
  by (auto simp: agrees_def intro: runs_observe)

lemma agrees_issue:
  assumes "\<And>tr. told E tr (ev (ask tr))" and "\<And>tr. F tr (ev (ask tr)) \<Longrightarrow> ask' tr = ask tr"
  shows "agrees (issue ask ev) (issue ask' ev)"
  using assms by (auto simp: agrees_def intro: runs_issue)

lemma agrees_bind_result:
  assumes m: "agrees m m'" and R: "\<And>w. runs m w (\<lambda>r es w'. R r)" and f: "\<And>x. R x \<Longrightarrow> agrees (f x) (f' x)"
  shows "agrees (State_Monad.bind m f) (State_Monad.bind m' f')"
  unfolding agrees_def
proof (intro allI runs_bind, rule runs_conseq [OF runs_traced [OF runs_conj [OF m [unfolded agrees_def, rule_format] R]]])
  fix w w1 :: world and x es1
  assume 1: "trace w1 = trace w @ es1 \<and> (along (told E) (trace w) es1 \<and> (along F (trace w) es1 \<longrightarrow> run_state m' w = (x, w1))) \<and> R x"
  then have "agrees (f x) (f' x)" by (simp add: f)
  then have "runs (f x) w1 (\<lambda>r es2 w2. along (told E) (trace w1) es2 \<and> (along F (trace w1) es2 \<longrightarrow> run_state (f' x) w1 = (r, w2)))"
    by (simp add: agrees_def)
  then show "runs (f x) w1 (\<lambda>y es2 w2. along (told E) (trace w) (es1 @ es2) \<and>
      (along F (trace w) (es1 @ es2) \<longrightarrow> run_state (State_Monad.bind m' f') w = (y, w2)))"
    by (rule runs_conseq) (use 1 in \<open>auto simp: along_append\<close>)
qed

lemma agrees_runs: "agrees m m' \<Longrightarrow> runs m w (\<lambda>r es w'. True)"
  unfolding agrees_def by (elim allE [of _ w] runs_conseq) simp

lemma agrees_bind [agrees_rules]:
  "agrees m m' \<Longrightarrow> (\<And>x. agrees (f x) (f' x)) \<Longrightarrow> agrees (State_Monad.bind m f) (State_Monad.bind m' f')"
  by (rule agrees_bind_result [OF _ agrees_runs])

lemma agrees_if [agrees_rules]:
  "(b \<Longrightarrow> agrees m m') \<Longrightarrow> (\<not> b \<Longrightarrow> agrees n n') \<Longrightarrow> agrees (if b then m else n) (if b then m' else n')"
  by simp

lemma agrees_case_sum [agrees_rules]:
  "(\<And>e. x = Inl e \<Longrightarrow> agrees (f e) (f' e)) \<Longrightarrow> (\<And>v. x = Inr v \<Longrightarrow> agrees (g v) (g' v)) \<Longrightarrow>
     agrees (case x of Inl e \<Rightarrow> f e | Inr v \<Rightarrow> g v) (case x of Inl e \<Rightarrow> f' e | Inr v \<Rightarrow> g' v)"
  by (simp split: sum.split)

lemma agrees_case_option [agrees_rules]:
  "(x = None \<Longrightarrow> agrees m m') \<Longrightarrow> (\<And>v. x = Some v \<Longrightarrow> agrees (g v) (g' v)) \<Longrightarrow>
     agrees (case x of None \<Rightarrow> m | Some v \<Rightarrow> g v) (case x of None \<Rightarrow> m' | Some v \<Rightarrow> g' v)"
  by (simp split: option.split)

lemma agrees_case_prod [agrees_rules]:
  "(\<And>a b. x = (a, b) \<Longrightarrow> agrees (f a b) (f' a b)) \<Longrightarrow>
     agrees (case x of (a, b) \<Rightarrow> f a b) (case x of (a, b) \<Rightarrow> f' a b)"
  by (simp split: prod.split)

lemma agrees_and_then [agrees_rules]: "agrees m m' \<Longrightarrow> agrees n n' \<Longrightarrow> agrees (and_then m n) (and_then m' n')"
  unfolding and_then_def by (intro agrees_rules)

lemma agrees_each [agrees_rules]: "(\<And>x. agrees (f x) (f' x)) \<Longrightarrow> agrees (each f xs) (each f' xs)"
  by (induction xs) (auto intro!: agrees_rules)

lemma agrees_retry:
  assumes "retry_laws E" and "agrees m m'"
  shows "agrees (retry_on_conflict E m) (retry_on_conflict swapped m')"
proof -
  have "agrees (retry_attempts n m) (retry_attempts n m')" for n
    by (induction n) (auto intro!: agrees_rules assms(2))
  with assms(1) show ?thesis by (auto simp: retry_laws_def)
qed

section \<open>The calls\<close>

lemma agrees_cached [agrees_rules]:
  "agrees (cl_GetSecret E rd k) (cl_GetSecret swapped rd k)"
  "agrees (cl_GetDeployment E k) (cl_GetDeployment swapped k)"
  "agrees (cl_GetServiceAccount E k) (cl_GetServiceAccount swapped k)"
  "agrees (cl_GetRoleBinding E k) (cl_GetRoleBinding swapped k)"
  "agrees (cl_GetRunner E k) (cl_GetRunner swapped k)"
  "agrees (cl_GetMultiRunner E k) (cl_GetMultiRunner swapped k)"
proof -
  show "agrees (cl_GetSecret E rd k) (cl_GetSecret swapped rd k)"
    unfolding cl_GetSecret_def by (rule agrees_issue) (cases rd; simp add: secrets)+
qed (unfold call_defs,
  (rule agrees_issue; simp add: deployments accounts bindings runners [unfolded ask_object_def, simplified]
    multi_runners [unfolded ask_object_def, simplified] ask_object_def)+)

lemma agrees_calls [agrees_rules]:
  "agrees (cl_GetConfigMap E rd k) (cl_GetConfigMap swapped rd k)"
  "agrees (cl_GetClusterRole E rd n) (cl_GetClusterRole swapped rd n)"
  "agrees (cl_ListRoleBindings E rd sel) (cl_ListRoleBindings swapped rd sel)"
  "agrees (cl_ListPods E rd ns sel) (cl_ListPods swapped rd ns sel)"
  "agrees (cl_CreateSecret E s) (cl_CreateSecret swapped s)"
  "agrees (cl_CreateServiceAccount E a) (cl_CreateServiceAccount swapped a)"
  "agrees (cl_CreateRoleBinding E b) (cl_CreateRoleBinding swapped b)"
  "agrees (cl_CreateClusterRole E r) (cl_CreateClusterRole swapped r)"
  "agrees (cl_CreateDeployment E d) (cl_CreateDeployment swapped d)"
  "agrees (cl_UpdateSecret E s) (cl_UpdateSecret swapped s)"
  "agrees (cl_UpdateClusterRole E r) (cl_UpdateClusterRole swapped r)"
  "agrees (cl_UpdateDeployment E d) (cl_UpdateDeployment swapped d)"
  "agrees (cl_DeleteDeployment E k) (cl_DeleteDeployment swapped k)"
  "agrees (cl_DeletePod E k) (cl_DeletePod swapped k)"
  "agrees (cl_DeleteRoleBinding E k) (cl_DeleteRoleBinding swapped k)"
  "agrees (Now E) (Now swapped)"
  unfolding call_defs by (rule agrees_issue; simp)+

lemma agrees_updates [agrees_rules]:
  "agrees (cl_UpdateStatusOf E x) (cl_UpdateStatusOf swapped x)" "agrees (UpdateObj E) (UpdateObj swapped)"
  "agrees (UpdateStatusObj E) (UpdateStatusObj swapped)"
  unfolding cl_UpdateStatusOf_def UpdateObj_def UpdateStatusObj_def
  by (intro agrees_rules agrees_issue; simp)+

lemma agrees_others [agrees_rules]:
  "agrees (Until E t) (Until swapped t)"
  "agrees (set_ready_condition E b reason msg) (set_ready_condition swapped b reason msg)"
  "agrees (range_keys E ks) (range_keys swapped ks)"
  unfolding Until_def set_ready_condition_def range_keys_def with_cache_fields with_cache_object
  by (intro agrees_rules)+

lemma agrees_gitlab [agrees_rules]:
  "agrees (gitlabApi_CreateRunner E g opts) (gitlabApi_CreateRunner E g opts)"
  "agrees (gitlabApi_DeleteRunner E g t) (gitlabApi_DeleteRunner E g t)"
  "agrees (gitlabApi_DeleteRunnerByID E g i) (gitlabApi_DeleteRunnerByID E g i)"
  "agrees (gitlabApi_VerifyToken E g t) (gitlabApi_VerifyToken E g t)"
  unfolding gitlabApi_defs by (intro agrees_rules agrees_issue; simp)+

section \<open>RBAC\<close>

lemma agrees_ClusterRole [agrees_rules]:
  "agrees (reconcileClusterRole E n rules converge) (reconcileClusterRole swapped n rules converge)"
  unfolding reconcileClusterRole_def with_cache_fields by (intro agrees_rules)

lemma agrees_Sa [agrees_rules]: "agrees (CreateSaIfMissing E x) (CreateSaIfMissing swapped x)"
  unfolding CreateSaIfMissing_def by (intro agrees_rules)

lemma agrees_RoleBinding [agrees_rules]:
  "agrees (reconcileRoleBinding E x ns n role) (reconcileRoleBinding swapped x ns n role)"
  unfolding reconcileRoleBinding_def Let_def by (intro agrees_rules)

lemma agrees_prune [agrees_rules]:
  "agrees (DeleteRBACExcept E rd x keep) (DeleteRBACExcept swapped rd x keep)"
  unfolding DeleteRBACExcept_def prune_item_def Let_def by (intro agrees_rules)

lemma agrees_namespaces [agrees_rules]: "agrees (BuildNamespaces E x) (BuildNamespaces swapped x)"
  unfolding BuildNamespaces_def by (intro agrees_rules)

lemma agrees_CreateRBAC [agrees_rules]: "agrees (CreateRBACIfMissing E x) (CreateRBACIfMissing swapped x)"
  unfolding CreateRBACIfMissing_def ensure_role_defs Let_def by (intro agrees_rules)

section \<open>The config Secret and the Deployment\<close>

lemma agrees_existing [agrees_rules]:
  "agrees (ExistingConfigTokens E ns n) (ExistingConfigTokens swapped ns n)"
  "agrees (ExistingConfigCA E ns n) (ExistingConfigCA swapped ns n)"
  unfolding ExistingConfigTokens_def ExistingConfigCA_def by (intro agrees_rules)+

lemma agrees_Secret [agrees_rules]:
  "agrees (validate_Secret E toml tokens ca) (validate_Secret swapped toml tokens ca)"
  unfolding validate_Secret_def Let_def by (intro agrees_rules)

lemma agrees_Deployment [agrees_rules]: "agrees (validate_Deployment E x) (validate_Deployment swapped x)"
  unfolding validate_Deployment_def Let_def with_cache_changed with_cache_fields by (intro agrees_rules)

section \<open>Tokens and managed runners\<close>

lemma agrees_sources [agrees_rules]:
  "agrees (resolveTokenSource E ns src) (resolveTokenSource swapped ns src)"
  "agrees (resolveCABundle E rd ns ca) (resolveCABundle swapped rd ns ca)"
  unfolding resolveTokenSource_def resolveCABundle_def Let_def by (intro agrees_rules)+

lemma agrees_enforce [agrees_rules]:
  "agrees (enforceAllowedBuildNamespaces E rd allowed) (enforceAllowedBuildNamespaces swapped rd allowed)"
  unfolding enforceAllowedBuildNamespaces_def Let_def by (intro agrees_rules)

lemma agrees_create [agrees_rules]:
  "agrees (create_and_persist E (gitlabApi E g) reg h verb) (create_and_persist swapped (gitlabApi E g) reg h verb)"
  unfolding create_and_persist_def persistRunner_def gitlabApi_fields Let_def by (intro agrees_rules)

lemma agrees_client:
  assumes "\<And>e. agrees (f (Inl e)) (f' (Inl e))" and "\<And>g. agrees (f (Inr (gitlabApi E g))) (f' (Inr (gitlabApi E g)))"
  shows "agrees (State_Monad.bind (managed_client E None reg ca) f) (State_Monad.bind (managed_client swapped None reg ca) f')"
proof (rule agrees_bind_result [where R = "production_result E"])
  show "agrees (managed_client E None reg ca) (managed_client swapped None reg ca)"
    unfolding managed_client_def option.case with_cache_client by (intro agrees_rules)
  show "runs (managed_client E None reg ca) w (\<lambda>r es w'. production_result E r)" for w
    by (rule runs_conseq [OF runs_managed_client]) simp
  show "agrees (f r) (f' r)" if "production_result E r" for r
    using that assms by (cases r) (auto simp: production_result_def)
qed

lemma agrees_stale [agrees_rules]: "agrees (delete_stale (gitlabApi E g) reg t) (delete_stale (gitlabApi E g) reg t)"
  unfolding delete_stale_def gitlabApi_fields by (intro agrees_rules)

lemma agrees_recreate [agrees_rules]:
  "agrees (recreateManagedRunner E (managed_client E None reg ca) reg t h)
     (recreateManagedRunner swapped (managed_client swapped None reg ca) reg t h)"
  unfolding recreateManagedRunner_def by (rule agrees_client; unfold sum.case) (intro agrees_rules)+

lemma agrees_verify [agrees_rules]:
  "agrees (verifyManagedRunner E (managed_client E None reg ca) reg t h)
     (verifyManagedRunner swapped (managed_client swapped None reg ca) reg t h)"
  unfolding verifyManagedRunner_def
  by (intro agrees_if agrees_recreate agrees_client; unfold sum.case gitlabApi_fields) (intro agrees_rules)+

lemma agrees_managed [agrees_rules]:
  "agrees (ensureManagedRunner E None reg t ca) (ensureManagedRunner swapped None reg t ca)"
  unfolding ensureManagedRunner_def Let_def
  by (intro agrees_if agrees_case_option agrees_bind agrees_others(1) agrees_recreate agrees_verify agrees_client;
      unfold sum.case)
     (intro agrees_rules)+

lemma agrees_unit [agrees_rules]:
  "agrees (ensure_unit E None ns ex ca reg) (ensure_unit swapped None ns ex ca reg)"
  unfolding ensure_unit_def by (intro agrees_rules)

lemma agrees_units [agrees_rules]:
  "agrees (ensure_units E None ns ex ca regs toks s) (ensure_units swapped None ns ex ca regs toks s)"
  by (induction regs arbitrary: toks s) (auto intro!: agrees_rules)

lemma agrees_runners [agrees_rules]: "agrees (ensureRunners E None ca) (ensureRunners swapped None ca)"
  unfolding ensureRunners_def resyncAfter_def Let_def by (intro agrees_rules)

section \<open>Deletion\<close>

lemma agrees_by_id [agrees_rules]:
  "agrees (delete_by_id E None ns reg ca) (delete_by_id swapped None ns reg ca)"
  unfolding delete_by_id_def
proof (rule agrees_bind_result [where R = "from_api E"])
  show "agrees (by_id_client E None ns reg ca) (by_id_client swapped None ns reg ca)"
    unfolding by_id_client_def option.case with_cache_client by (intro agrees_rules)
  show "runs (by_id_client E None ns reg ca) w (\<lambda>r es w'. from_api E r)" for w
    by (rule runs_conseq [OF runs_by_id_client]) simp
qed (auto simp: from_api_def split: sum.split intro!: agrees_rules)

lemma agrees_deleteManaged [agrees_rules]:
  "agrees (deleteManagedRunner E None ns reg t ca) (deleteManagedRunner swapped None ns reg t ca)"
  unfolding deleteManagedRunner_def option.case with_cache_client
  by (intro agrees_if agrees_case_sum agrees_return agrees_by_id)
     (auto dest!: NewGitlabClient_ok intro!: agrees_rules)

lemma agrees_remove_units [agrees_rules]:
  "agrees (remove_units E None tokens ca regs err) (remove_units swapped None tokens ca regs err)"
  by (induction regs arbitrary: err) (auto intro!: agrees_rules)

lemma agrees_removeManaged [agrees_rules]: "agrees (removeManagedRunners E None) (removeManagedRunners swapped None)"
  unfolding removeManagedRunners_def by (intro agrees_rules)

lemma agrees_drain_pods [agrees_rules]: "agrees (drain_pods E n pods c) (drain_pods swapped n pods c)"
  by (induction pods arbitrary: c) (auto intro!: agrees_rules)

lemma agrees_drain [agrees_rules]: "agrees (drainManager E x now) (drainManager swapped x now)"
  unfolding drainManager_def by (intro agrees_rules)

lemma agrees_drop [agrees_rules]: "agrees (dropFinalizer E) (dropFinalizer swapped)"
  unfolding dropFinalizer_def with_cache_object by (intro agrees_rules)

lemma agrees_finalize [agrees_rules]: "agrees (finalizeDeletion E None) (finalizeDeletion swapped None)"
  unfolding finalizeDeletion_def Let_def by (intro agrees_rules)

section \<open>The pass\<close>

lemma agrees_fail [agrees_rules]: "agrees (fail_pass E msg reason err) (fail_pass swapped msg reason err)"
  unfolding fail_pass_def by (intro agrees_rules)

lemma agrees_validate [agrees_rules]:
  "agrees m m' \<Longrightarrow> agrees n n' \<Longrightarrow> agrees (validate_step E reason m n) (validate_step swapped reason m' n')"
  unfolding validate_step_def by (intro agrees_rules)

lemma agrees_ready [agrees_rules]: "agrees (mark_ready E d) (mark_ready swapped d)"
  unfolding mark_ready_def by (intro agrees_rules)

lemma agrees_converge [agrees_rules]:
  "agrees (converge_workload E tokens d ca) (converge_workload swapped tokens d ca)"
  unfolding converge_workload_def Let_def with_cache_render by (intro agrees_rules)

lemma agrees_provision [agrees_rules]:
  "rec_GitlabApiClient R = None \<Longrightarrow> agrees (provision E R) (provision swapped R)"
  unfolding provision_def by (simp only:) (intro agrees_rules)

lemma agrees_live [agrees_rules]:
  "rec_GitlabApiClient R = None \<Longrightarrow> agrees (reconcile_live E R) (reconcile_live swapped R)"
  unfolding reconcile_live_def with_cache_object by (intro agrees_rules)

lemma agrees_write_status:
  assumes "retry_laws E" and "\<And>k. agrees (fetch k) (fetch' k)"
  shows "agrees (write_status E fetch) (write_status swapped fetch')"
  unfolding write_status_def write_status_once_def by (intro agrees_rules agrees_retry [OF assms(1)] assms(2))

lemma agrees_pass:
  assumes "retry_laws E" and "rec_GitlabApiClient R = None" and "\<And>k. agrees (fetch k) (fetch' k)"
  shows "agrees (reconcile_with E R fetch req) (reconcile_with swapped R fetch' req)"
  unfolding reconcile_with_def reconcile_object_def assms(2)
  by (intro agrees_rules agrees_write_status assms)

lemma agrees_fetch: "agrees (SingleRunner E k) (SingleRunner swapped k)" "agrees (MultiRunner_fetch E k) (MultiRunner_fetch swapped k)"
  unfolding SingleRunner_def MultiRunner_fetch_def by (intro agrees_rules)+

lemma agreesD:
  assumes "agrees m m'"
  shows "trace (after m w) = trace w @ new_events m w" and "along (told E) (trace w) (new_events m w)"
    and "along F (trace w) (new_events m w) \<Longrightarrow> run_state m' w = run_state m w"
proof -
  have "runs m w (\<lambda>r es w'. along (told E) (trace w) es \<and> (along F (trace w) es \<longrightarrow> run_state m' w = (r, w')))"
    using assms by (simp add: agrees_def)
  then show "trace (after m w) = trace w @ new_events m w" "along (told E) (trace w) (new_events m w)"
    "along F (trace w) (new_events m w) \<Longrightarrow> run_state m' w = run_state m w"
    by (simp_all add: runs_iff result_def after_def)
qed

end

text \<open>What a run records is what the environment answered: the comparison with any other cache shows it.\<close>

interpretation any_cache: cache_swap E C "\<lambda>tr e. False" for E C
  by unfold_locales simp_all

lemma told_CreateRBAC: "runs (CreateRBACIfMissing E x) w (\<lambda>r es w'. along (told E) (trace w) es)"
  using any_cache.agreesD(1,2) [OF any_cache.agrees_CreateRBAC [where E = E and x = x]] by (simp add: runs_iff)

end
