(* ===== verification/Cluster_Model.thy ===== *)
theory Cluster_Model
  imports Rbac_Server Readiness Cached_Reads
begin

text \<open>
  A cluster and a GitLab that work: what they hold after the calls made so far, and the locale
  \<open>working_server\<close> of the environments that answer by it, while the operator is the only one that changes
  anything. Reads through the manager's cache (\<open>cl.Get\<close> on the controller's client) are not part of that
  contract, since the cache may lag: \<open>fresh_read\<close> says of one such answer that it is up to date. The locale
  \<open>working_cluster\<close> extends the contract by a cache that never lags; it is the ideal that the runs with an
  up-to-date cache are compared with (theory Cached_Reads). In it the RBAC step (\<open>internal/crud\<close>) always
  succeeds, puts in place what the object should have, and only reads once it is there.
\<close>

section \<open>What is held\<close>

text \<open>
  The runner object, Secrets and config maps by key, Deployments as they were sent, the RBAC objects,
  and the runner tokens that GitLab accepts.
\<close>

record cluster =
  held_object :: RunnerInfo
  held_secret :: "NSName \<Rightarrow> string gomap option"
  held_config_map :: "NSName \<Rightarrow> ConfigMap option"
  held_deployment :: "NSName \<Rightarrow> Deployment option"
  held_account :: "NSName \<Rightarrow> bool"
  held_role :: "string \<Rightarrow> PolicyRule list option"
  held_bindings :: "RoleBinding list"
  valid_tokens :: "string set"

fun change :: "cluster \<Rightarrow> event \<Rightarrow> cluster" where
  "change c (CreateSecret s r) =
     (if r = None then c\<lparr>held_secret := (held_secret c)(meta_key (sec_Meta s) := Some (sec_Data s))\<rparr> else c)"
| "change c (UpdateSecret s r) =
     (if r = None then c\<lparr>held_secret := (held_secret c)(meta_key (sec_Meta s) := Some (sec_Data s))\<rparr> else c)"
| "change c (CreateServiceAccount s r) =
     (if r = None then c\<lparr>held_account := (held_account c)(meta_key (sa_Meta s) := True)\<rparr> else c)"
| "change c (CreateClusterRole s r) =
     (if r = None then c\<lparr>held_role := (held_role c)(om_Name (cr_Meta s) := Some (cr_Rules s))\<rparr> else c)"
| "change c (UpdateClusterRole s r) =
     (if r = None then c\<lparr>held_role := (held_role c)(om_Name (cr_Meta s) := Some (cr_Rules s))\<rparr> else c)"
| "change c (CreateDeployment d r) =
     (if r = None then c\<lparr>held_deployment := (held_deployment c)(meta_key (dep_Meta d) := Some d)\<rparr> else c)"
| "change c (UpdateDeployment d r) =
     (if isl r then c else c\<lparr>held_deployment := (held_deployment c)(meta_key (dep_Meta d) := Some d)\<rparr>)"
| "change c (DeleteDeployment k r) =
     (if r = None then c\<lparr>held_deployment := (held_deployment c)(k := None)\<rparr> else c)"
| "change c (CreateRoleBinding b r) = c\<lparr>held_bindings := rb_step (held_bindings c) (CreateRoleBinding b r)\<rparr>"
| "change c (DeleteRoleBinding k r) = c\<lparr>held_bindings := rb_step (held_bindings c) (DeleteRoleBinding k r)\<rparr>"
| "change c (UpdateObject y r) = (case r of Inl e \<Rightarrow> c | Inr z \<Rightarrow> c\<lparr>held_object := z\<rparr>)"
| "change c (UpdateObjectStatus y r) = (case r of Inl e \<Rightarrow> c | Inr z \<Rightarrow> c\<lparr>held_object := z\<rparr>)"
| "change c (SdkCreateUserRunner g opts r) =
     (case r of Inl e \<Rightarrow> c | Inr s \<Rightarrow> c\<lparr>valid_tokens := insert (sdkr_Token s) (valid_tokens c)\<rparr>)"
| "change c (SdkDeleteRegisteredRunner g t r) = c\<lparr>valid_tokens := valid_tokens c - {t}\<rparr>"
| "change c (SdkRemoveRunner g i r) = c\<lparr>valid_tokens := {}\<rparr>"
| "change c e = c"

definition cluster_after :: "cluster \<Rightarrow> event list \<Rightarrow> cluster" where
  "cluster_after c es = foldl change c es"

lemma cluster_after_append [simp]: "cluster_after c (es @ fs) = cluster_after (cluster_after c es) fs"
  by (simp add: cluster_after_def)

lemma cluster_after_simps [simp]: "cluster_after c [] = c" "cluster_after c (e # es) = cluster_after (change c e) es"
  by (simp_all add: cluster_after_def)

text \<open>The calls that change nothing: reads, and asking GitLab about a token.\<close>

fun quiet_call :: "event \<Rightarrow> bool" where
  "quiet_call (SdkVerifyRegisteredRunner g t r) = True"
| "quiet_call e = reads e"

abbreviation calm :: "event list \<Rightarrow> bool" where
  "calm es \<equiv> \<forall>e \<in> set es. quiet_call e"

lemma quiet_change: "quiet_call e \<Longrightarrow> change c e = c"
  by (cases e) simp_all

lemma calm_state: "calm es \<Longrightarrow> cluster_after c es = c"
  by (induction es arbitrary: c) (simp_all add: quiet_change)

lemma reads_quiet: "reads e \<Longrightarrow> quiet_call e"
  by (cases e) simp_all

lemma held_bindings_state: "held_bindings (cluster_after c es) = rb_state (held_bindings c) es"
proof -
  have "held_bindings (change c e) = rb_step (held_bindings c) e" for c e
    by (cases e) (simp_all split: sum.split)
  then show ?thesis by (induction es arbitrary: c) (simp_all add: rb_state_def)
qed

section \<open>The object\<close>

text \<open>Everything of an object but its status, its resource version and its annotations.\<close>

definition spec_of :: "RunnerInfo \<Rightarrow> RunnerSpec + MultiRunnerSpec" where
  "spec_of x = (case x of RunnerObj r \<Rightarrow> Inl (res_Spec r) | MultiRunnerObj m \<Rightarrow> Inr (res_Spec m))"

definition core :: "RunnerInfo \<Rightarrow> RunnerInfo \<Rightarrow> bool" where
  "core x y =
     (spec_of x = spec_of y \<and> GetName x = GetName y \<and> GetNamespace x = GetNamespace y \<and> GetUID x = GetUID y \<and>
      GetGeneration x = GetGeneration y \<and> IsBeingDeleted x = IsBeingDeleted y)"

text \<open>A status as a pass sees it: an empty map and no map are the same.\<close>

definition status_view :: "RunnerInfo \<Rightarrow> StatusAny" where
  "status_view x = GetStatus (with_status_maps x)"

definition object_key :: "RunnerInfo \<Rightarrow> NSName" where
  "object_key x = nsname (GetNamespace x) (GetName x)"

definition child_key :: "RunnerInfo \<Rightarrow> NSName" where
  "child_key x = nsname (GetNamespace x) (ChildName x)"

text \<open>
  A stored Deployment: the server may add to what was sent, but neither to the annotations the
  operator compares nor to the shape of the manager container.
\<close>

definition stored_as :: "env \<Rightarrow> Deployment \<Rightarrow> Deployment \<Rightarrow> bool" where
  "stored_as E d live =
     (map_get (om_Annotations (dep_Meta live)) ConfigVersionAnnotationKey =
        map_get (om_Annotations (dep_Meta d)) ConfigVersionAnnotationKey \<and>
      map_get (pt_Annotations (dep_Template live)) SystemIDAnnotationKey =
        map_get (pt_Annotations (dep_Template d)) SystemIDAnnotationKey \<and>
      (\<forall>s. sem_eq_shape E (ManagerPodShape (dep_Template live)) s = sem_eq_shape E (ManagerPodShape (dep_Template d)) s \<and>
           sem_eq_shape E s (ManagerPodShape (dep_Template live)) = sem_eq_shape E s (ManagerPodShape (dep_Template d))))"

text \<open>A token without an end, or with one that is always more than a day away.\<close>

definition lasting :: "env \<Rightarrow> time option \<Rightarrow> bool" where
  "lasting E expiry = (\<forall>t tr. expiry = Some t \<longrightarrow> tokenRefreshThreshold \<le> time_sub t (clock E tr))"

section \<open>Reads from the cache\<close>

text \<open>
  An answer of a read through the cache is up to date when it is true of what is held; the reads with the
  uncached reader are not concerned.
\<close>

fun fresh_read :: "env \<Rightarrow> cluster \<Rightarrow> event \<Rightarrow> bool" where
  "fresh_read E c (GetSecret rd k r) =
     (rd = Cached \<longrightarrow>
        (case held_secret c k of
           Some data \<Rightarrow> (case r of Inr s \<Rightarrow> sec_Data s = data \<and> meta_key (sec_Meta s) = k | Inl e \<Rightarrow> False)
         | None \<Rightarrow> (case r of Inr s \<Rightarrow> False | Inl e \<Rightarrow> IsNotFound e)))"
| "fresh_read E c (GetDeployment k r) =
     (case held_deployment c k of
        Some d \<Rightarrow> (case r of Inr live \<Rightarrow> stored_as E d live | Inl e \<Rightarrow> False)
      | None \<Rightarrow> (case r of Inr live \<Rightarrow> False | Inl e \<Rightarrow> IsNotFound e))"
| "fresh_read E c (GetServiceAccount k r) =
     (case r of Inr a \<Rightarrow> held_account c k | Inl e \<Rightarrow> IsNotFound e \<and> \<not> held_account c k)"
| "fresh_read E c (GetRoleBinding k r) =
     (case r of
        Inr b \<Rightarrow> b \<in> set (held_bindings c)
      | Inl e \<Rightarrow> IsNotFound e \<and> k \<notin> rb_key ` set (held_bindings c))"
| "fresh_read E c (GetObject multi k r) =
     (is_multi (held_object c) = multi \<longrightarrow> object_key (held_object c) = k \<longrightarrow> r = Inr (held_object c))"
| "fresh_read E c e = True"

text \<open>\<open>up_to_date E c0 tr es\<close>: all cached reads of the calls \<open>es\<close>, made after \<open>tr\<close>, are.\<close>

definition up_to_date :: "env \<Rightarrow> cluster \<Rightarrow> event list \<Rightarrow> event list \<Rightarrow> bool" where
  "up_to_date E c0 = along (\<lambda>tr. fresh_read E (cluster_after c0 tr))"

lemma fresh_current: "fresh_read E c e \<Longrightarrow> current_read (held_bindings c) e"
  by (cases "(held_bindings c, e)" rule: current_read.cases) simp_all

lemma up_to_date_current: "up_to_date E c0 tr es \<Longrightarrow> current_reads (rb_state (held_bindings c0) tr) es"
proof (induction es arbitrary: tr)
  case (Cons e es)
  then have "current_read (held_bindings (cluster_after c0 tr)) e" "current_reads (rb_state (held_bindings c0) (tr @ [e])) es"
    using Cons.IH [of "tr @ [e]"] by (auto simp: up_to_date_def simp del: rb_state_append dest: fresh_current)
  then show ?case by (simp add: held_bindings_state del: rb_state_append) (simp add: rb_state_def)
qed simp

section \<open>An environment that works\<close>

locale working_server =
  fixes E :: env and c0 :: cluster
  assumes live_secret_found:
      "held_secret (cluster_after c0 tr) k = Some data \<Longrightarrow>
         \<exists>s. api_GetSecret E tr Uncached k = Inr s \<and> sec_Data s = data \<and> meta_key (sec_Meta s) = k"
    and live_secret_missing:
      "held_secret (cluster_after c0 tr) k = None \<Longrightarrow> \<exists>e. api_GetSecret E tr Uncached k = Inl e \<and> IsNotFound e"
    and secret_created: "held_secret (cluster_after c0 tr) (meta_key (sec_Meta secret)) = None \<Longrightarrow> api_CreateSecret E tr secret = None"
    and secret_updated: "held_secret (cluster_after c0 tr) (meta_key (sec_Meta secret)) \<noteq> None \<Longrightarrow> api_UpdateSecret E tr secret = None"
    and config_map_found: "held_config_map (cluster_after c0 tr) k = Some m \<Longrightarrow> api_GetConfigMap E tr Uncached k = Inr m"
    and deployment_created:
      "held_deployment (cluster_after c0 tr) (meta_key (dep_Meta d)) = None \<Longrightarrow> api_CreateDeployment E tr d = None"
    and deployment_updated:
      "held_deployment (cluster_after c0 tr) (meta_key (dep_Meta d)) \<noteq> None \<Longrightarrow>
         \<exists>live. api_UpdateDeployment E tr d = Inr live \<and> stored_as E d live"
    and shapes_equal: "sem_eq_shape E shape shape"
    and account_created:
      "\<not> held_account (cluster_after c0 tr) (meta_key (sa_Meta a)) \<Longrightarrow> api_CreateServiceAccount E tr a = None"
    and role_found:
      "held_role (cluster_after c0 tr) n = Some rules \<Longrightarrow>
         \<exists>r. api_GetClusterRole E tr Uncached n = Inr r \<and> cr_Rules r = rules \<and> om_Name (cr_Meta r) = n"
    and role_missing: "held_role (cluster_after c0 tr) n = None \<Longrightarrow> \<exists>e. api_GetClusterRole E tr Uncached n = Inl e \<and> IsNotFound e"
    and role_created: "held_role (cluster_after c0 tr) (om_Name (cr_Meta role)) = None \<Longrightarrow> api_CreateClusterRole E tr role = None"
    and role_updated: "held_role (cluster_after c0 tr) (om_Name (cr_Meta role)) \<noteq> None \<Longrightarrow> api_UpdateClusterRole E tr role = None"
    and rules_equal: "sem_eq_rules E rs rs"
    and bindings: "binding_laws E (held_bindings c0)"
    and binding_created: "api_CreateRoleBinding E tr binding = Some e \<Longrightarrow> IsAlreadyExists e"
    and binding_deleted: "api_DeleteRoleBinding E tr k = Some e \<Longrightarrow> IsNotFound e"
    and bindings_listed: "\<exists>items. api_ListRoleBindings E tr Uncached sel = Inr items"
    and object_updated:
      "core y (held_object (cluster_after c0 tr)) \<Longrightarrow>
         \<exists>z. ask_update E y tr = Inr z \<and> core z y \<and> HasFinalizer E z = HasFinalizer E y \<and>
             status_view z = status_view (held_object (cluster_after c0 tr))"
    and status_updated:
      "core y (held_object (cluster_after c0 tr)) \<Longrightarrow>
         \<exists>z. ask_update_status E y tr = Inr z \<and> core z (held_object (cluster_after c0 tr)) \<and>
             HasFinalizer E z = HasFinalizer E (held_object (cluster_after c0 tr)) \<and> status_view z = status_view y"
    and client_made: "sdk_new_client E g = None"
    and runner_created:
      "\<exists>s. sdk_CreateUserRunner E tr g opts = Inr s \<and> sdkr_ID s \<noteq> 0 \<and> sdkr_Token s \<noteq> '''' \<and>
           lasting E (sdkr_TokenExpiresAt s)"
    and token_verified:
      "token \<in> valid_tokens (cluster_after c0 tr) \<Longrightarrow> snd (sdk_VerifyRegisteredRunner E tr g token) = None"
    and finalizers: "finalizer_laws E"
    and condition_set_once:
      "lib_SetStatusCondition E t' (lib_SetStatusCondition E t cs c) c = lib_SetStatusCondition E t cs c"
    and retries: "retry_laws E"
    and encodes: "\<exists>text. toml_encode E cfg = Inr text"

text \<open>The same with a cache that never lags.\<close>

locale working_cluster = working_server +
  assumes cached_secret: "fresh_read E (cluster_after c0 tr) (GetSecret Cached k (api_GetSecret E tr Cached k))"
    and cached_deployment: "fresh_read E (cluster_after c0 tr) (GetDeployment k (api_GetDeployment E tr k))"
    and cached_account: "fresh_read E (cluster_after c0 tr) (GetServiceAccount k (api_GetServiceAccount E tr k))"
    and cached_binding: "fresh_read E (cluster_after c0 tr) (GetRoleBinding k (api_GetRoleBinding E tr k))"
    and cached_object: "fresh_read E (cluster_after c0 tr) (GetObject multi k (ask_object E multi tr k))"
begin

lemma secret_found:
  "held_secret (cluster_after c0 tr) k = Some data \<Longrightarrow>
     \<exists>s. api_GetSecret E tr rd k = Inr s \<and> sec_Data s = data \<and> meta_key (sec_Meta s) = k"
  using cached_secret [of tr k] live_secret_found [of tr k] by (cases rd) (auto split: sum.splits)

lemma secret_missing: "held_secret (cluster_after c0 tr) k = None \<Longrightarrow> \<exists>e. api_GetSecret E tr rd k = Inl e \<and> IsNotFound e"
  using cached_secret [of tr k] live_secret_missing [of tr k] by (cases rd) (auto split: sum.splits)

lemma deployment_found:
  "held_deployment (cluster_after c0 tr) k = Some d \<Longrightarrow> \<exists>live. api_GetDeployment E tr k = Inr live \<and> stored_as E d live"
  and deployment_missing:
  "held_deployment (cluster_after c0 tr) k = None \<Longrightarrow> \<exists>e. api_GetDeployment E tr k = Inl e \<and> IsNotFound e"
  using cached_deployment [of tr k] by (auto split: sum.splits)

lemma account_found: "held_account (cluster_after c0 tr) k \<Longrightarrow> \<exists>a. api_GetServiceAccount E tr k = Inr a"
  and account_missing:
  "\<not> held_account (cluster_after c0 tr) k \<Longrightarrow> \<exists>e. api_GetServiceAccount E tr k = Inl e \<and> IsNotFound e"
  using cached_account [of tr k] by (auto split: sum.splits)

lemma binding_read: "api_GetRoleBinding E tr k = Inl e \<Longrightarrow> IsNotFound e"
  and binding_absent: "api_GetRoleBinding E tr k = Inl e \<Longrightarrow> k \<notin> rb_key ` set (held_bindings (cluster_after c0 tr))"
  and binding_present: "api_GetRoleBinding E tr k = Inr b \<Longrightarrow> b \<in> set (held_bindings (cluster_after c0 tr)) \<and> rb_key b = k"
  using cached_binding [of tr k] binding_answers(1) [OF bindings] by (auto split: sum.splits)

lemma told_fresh:
  assumes "told E tr e"
  shows "fresh_read E (cluster_after c0 tr) e"
proof (cases e)
  case (GetSecret rd k r)
  with assms cached_secret [of tr k] show ?thesis by (cases rd) (simp_all split: option.splits)
next
  case (GetDeployment k r)
  with assms cached_deployment [of tr k] show ?thesis by (simp only: told.simps)
next
  case (GetServiceAccount k r)
  with assms cached_account [of tr k] show ?thesis by (simp only: told.simps)
next
  case (GetRoleBinding k r)
  with assms cached_binding [of tr k] show ?thesis by (simp only: told.simps)
next
  case (GetObject multi k r)
  with assms cached_object [of tr multi k] show ?thesis by (simp only: told.simps)
qed simp_all

lemma told_up_to_date: "along (told E) tr es \<Longrightarrow> up_to_date E c0 tr es"
  unfolding up_to_date_def by (erule along_mono) (rule told_fresh)

lemma object_read:
  "ask_object E (is_multi (held_object (cluster_after c0 tr))) tr (object_key (held_object (cluster_after c0 tr))) =
     Inr (held_object (cluster_after c0 tr))"
  using cached_object by simp

abbreviation st :: "world \<Rightarrow> cluster" where
  "st w \<equiv> cluster_after c0 (trace w)"


text \<open>Steps that never fail, that keep a fact about what is held, that establish one, and that do nothing.\<close>

definition fine :: "goerr option go \<Rightarrow> bool" where
  "fine m = (\<forall>w. runs m w (\<lambda>r es w'. r = None))"

definition stable :: "(cluster \<Rightarrow> bool) \<Rightarrow> 'a go \<Rightarrow> bool" where
  "stable P m = (\<forall>w. P (st w) \<longrightarrow> runs m w (\<lambda>r es w'. P (st w')))"

definition achieves :: "(cluster \<Rightarrow> bool) \<Rightarrow> 'a go \<Rightarrow> bool" where
  "achieves P m = (\<forall>w. runs m w (\<lambda>r es w'. P (st w')))"

definition still :: "cluster \<Rightarrow> goerr option go \<Rightarrow> bool" where
  "still c m = (\<forall>w. st w = c \<longrightarrow> runs m w (\<lambda>r es w'. r = None \<and> calm es \<and> st w' = c))"

lemma runs_then:
  assumes "runs m w (\<lambda>r es w'. r = None \<and> R es w')"
    and "\<And>es w1. R es w1 \<Longrightarrow> runs m' w1 (\<lambda>r fs w2. Q r (es @ fs) w2)"
  shows "runs (and_then m m') w Q"
  by (rule runs_and_then, rule runs_conseq [OF assms(1)]) (simp add: assms(2))

lemma fineD: "fine m \<Longrightarrow> runs m w (\<lambda>r es w'. r = None \<and> True)"
  by (simp add: fine_def)

lemma fine_and_then: "fine m \<Longrightarrow> fine m' \<Longrightarrow> fine (and_then m m')"
  unfolding fine_def [of "and_then m m'"]
  by (intro allI runs_then [OF fineD]) (auto simp: fine_def)

lemma fine_each: "(\<And>y. y \<in> set ys \<Longrightarrow> fine (f y)) \<Longrightarrow> fine (each f ys)"
proof (induction ys)
  case Nil
  show ?case by (auto simp: fine_def intro: runs_return)
next
  case (Cons y ys)
  then show ?case unfolding each_and_then by (intro fine_and_then) auto
qed

lemma stable_emits: "emits (\<lambda>e. \<forall>c. P c \<longrightarrow> P (change c e)) m \<Longrightarrow> stable P m"
  unfolding stable_def
proof (intro allI impI)
  fix w assume m: "emits (\<lambda>e. \<forall>c. P c \<longrightarrow> P (change c e)) m" and "P (st w)"
  moreover have "P (cluster_after c es)" if "P c" "\<forall>e \<in> set es. \<forall>c. P c \<longrightarrow> P (change c e)" for c es
    using that by (induction es arbitrary: c) simp_all
  ultimately show "runs m w (\<lambda>r es w'. P (st w'))"
    using emitsD [OF m, of w] by (simp add: runs_iff)
qed

lemma achieves_first:
  assumes "fine m" and "achieves P m" and "stable P m'"
  shows "achieves P (and_then m m')"
  unfolding achieves_def
proof (intro allI runs_then)
  fix w
  show "runs m w (\<lambda>r es w'. r = None \<and> P (st w'))"
    using assms(1,2) by (simp add: fine_def achieves_def runs_iff)
next
  fix w1 assume "P (st w1)"
  with assms(3) show "runs m' w1 (\<lambda>r es w'. P (st w'))" by (simp add: stable_def)
qed

lemma achieves_rest:
  assumes "fine m" and "achieves P m'"
  shows "achieves P (and_then m m')"
  unfolding achieves_def
  by (intro allI runs_then [OF fineD [OF assms(1)]]) (use assms(2) in \<open>simp add: achieves_def\<close>)

lemma runs_calm:
  assumes "runs m w (\<lambda>r es w'. Q r es w' \<and> calm es)"
  shows "runs m w (\<lambda>r es w'. Q r es w' \<and> calm es \<and> st w' = st w)"
  using assms by (simp add: runs_iff calm_state)

lemma still_and_then:
  assumes "still c m" and "still c m'"
  shows "still c (and_then m m')"
  unfolding still_def
proof (intro allI impI, rule runs_then)
  fix w assume "st w = c"
  with assms(1) show "runs m w (\<lambda>r es w'. r = None \<and> calm es \<and> st w' = c)" by (simp add: still_def)
next
  fix es and w1 :: world
  assume 1: "calm es \<and> st w1 = c"
  with assms(2) have "runs m' w1 (\<lambda>r es w'. r = None \<and> calm es \<and> st w' = c)" by (simp add: still_def)
  then show "runs m' w1 (\<lambda>r fs w2. r = None \<and> calm (es @ fs) \<and> st w2 = c)"
    by (rule runs_conseq) (use 1 in auto)
qed

lemma still_each: "(\<And>y. y \<in> set ys \<Longrightarrow> still c (f y)) \<Longrightarrow> still c (each f ys)"
proof (induction ys)
  case Nil
  show ?case by (auto simp: still_def intro: runs_return)
next
  case (Cons y ys)
  then show ?case unfolding each_and_then by (intro still_and_then) auto
qed

lemma still_range_keys:
  "(\<And>ys. mset ys = mset ks \<Longrightarrow> still c (f ys)) \<Longrightarrow> still c (State_Monad.bind (range_keys E ks) f)"
  unfolding still_def by (auto intro: runs_range_keys_bind)

lemma fine_range_keys:
  "(\<And>ys. mset ys = mset ks \<Longrightarrow> fine (f ys)) \<Longrightarrow> fine (State_Monad.bind (range_keys E ks) f)"
  unfolding fine_def by (auto intro: runs_range_keys_bind)

lemma still_clean:
  assumes "\<And>w. st w = c \<Longrightarrow> clean m w"
  shows "still c m"
  unfolding still_def
proof (intro allI impI)
  fix w assume w: "st w = c"
  from assms [OF this] have "runs m w (\<lambda>r es w'. r = None \<and> calm es)"
    unfolding clean_def by (rule runs_conseq) (simp add: reads_quiet)
  from runs_calm [OF this] w show "runs m w (\<lambda>r es w'. r = None \<and> calm es \<and> st w' = c)" by simp
qed

end

section \<open>RBAC in a working cluster\<close>

text \<open>The RBAC objects of \<open>x\<close> are there, and no other binding carries its labels.\<close>

definition rbac_here :: "env \<Rightarrow> RunnerInfo \<Rightarrow> cluster \<Rightarrow> bool" where
  "rbac_here E x c =
     ((\<exists>rs. held_role c executorClusterRoleName = Some rs \<and> sem_eq_rules E rs desiredRoleRules) \<and>
      (\<exists>rs. held_role c executorPDBClusterRoleName = Some rs \<and> sem_eq_rules E rs desiredPDBRules) \<and>
      held_account c (child_key x) \<and> rbac_settled x (set (held_bindings c)))"

context working_cluster
begin

lemma role_step:
  "runs (reconcileClusterRole E n rules converge) w (\<lambda>r es w'. r = None \<and>
     (\<exists>rs. held_role (st w') n = Some rs \<and> (converge \<longrightarrow> sem_eq_rules E rs rules)) \<and>
     (\<forall>m. m \<noteq> n \<longrightarrow> held_role (st w') m = held_role (st w) m))"
proof (cases "held_role (st w) n")
  case None
  with role_missing obtain e where e: "api_GetClusterRole E (trace w) Uncached n = Inl e" "IsNotFound e" by blast
  let ?r = "\<lparr>cr_Meta = ObjectMeta_zero\<lparr>om_Name := n, om_Labels := Some (fmap_of_list [(managedByLabel, managedByValue)])\<rparr>,
      cr_Rules = rules\<rparr>"
  have "api_CreateClusterRole E (trace w @ [GetClusterRole Uncached n (Inl e)]) ?r = None"
    by (rule role_created) (simp add: None)
  with e show ?thesis
    unfolding reconcileClusterRole_def call_defs
    by (auto simp: rules_equal intro!: runs_bind runs_issue runs_return)
next
  case (Some rs)
  with role_found obtain r where r: "api_GetClusterRole E (trace w) Uncached n = Inr r" "cr_Rules r = rs" "om_Name (cr_Meta r) = n"
    by blast
  have "api_UpdateClusterRole E (trace w @ [GetClusterRole Uncached n (Inr r)]) (r\<lparr>cr_Rules := rules\<rparr>) = None"
    by (rule role_updated) (simp add: Some r)
  with r Some show ?thesis
    unfolding reconcileClusterRole_def call_defs
    by (auto simp: rules_equal intro!: runs_bind runs_issue runs_return)
qed

lemma fine_role: "fine (reconcileClusterRole E n rules converge)"
  unfolding fine_def by (intro allI runs_conseq [OF role_step]) simp

lemma account_step:
  "runs (CreateSaIfMissing E x) w (\<lambda>r es w'. r = None \<and> held_account (st w') (child_key x))"
proof (cases "held_account (st w) (child_key x)")
  case True
  with account_found obtain a where "api_GetServiceAccount E (trace w) (child_key x) = Inr a" by blast
  with True show ?thesis
    unfolding CreateSaIfMissing_def call_defs child_key_def by (intro runs_bind runs_issue) (auto intro!: runs_return)
next
  case False
  with account_missing obtain e where e: "api_GetServiceAccount E (trace w) (child_key x) = Inl e" "IsNotFound e" by blast
  let ?a = "\<lparr>sa_Meta = ObjectMeta_zero\<lparr>om_Name := ChildName x, om_Namespace := GetNamespace x,
      om_OwnerReferences := GenerateOwnerReference x\<rparr>\<rparr>"
  have "api_CreateServiceAccount E (trace w @ [GetServiceAccount (child_key x) (Inl e)]) ?a = None"
    by (rule account_created) (use False in \<open>simp add: child_key_def meta_key_def\<close>)
  with e show ?thesis
    unfolding CreateSaIfMissing_def call_defs child_key_def
    by (auto simp: meta_key_def intro!: runs_bind runs_issue)
qed

lemma fine_account: "fine (CreateSaIfMissing E x)"
  unfolding fine_def by (intro allI runs_conseq [OF account_step]) simp

lemma binding_writes_tolerated:
  "tolerate IsAlreadyExists (api_CreateRoleBinding E tr b) = None"
  "tolerate IsNotFound (api_DeleteRoleBinding E tr k) = None"
  using binding_created [of tr b] binding_deleted [of tr k]
  by (cases "api_CreateRoleBinding E tr b"; cases "api_DeleteRoleBinding E tr k"; simp add: tolerate_def)+

lemma fine_binding: "fine (reconcileRoleBinding E x ns n role)"
  unfolding fine_def reconcileRoleBinding_def call_defs Let_def
  by (intro allI runs_rules) (auto simp: binding_writes_tolerated dest: binding_read)

lemma fine_prune_item: "fine (prune_item E K item)"
  unfolding fine_def prune_item_def call_defs
  by (intro allI runs_rules) (simp_all add: binding_writes_tolerated)

lemma fine_DeleteRBACExcept: "fine (DeleteRBACExcept E Uncached x keep)"
  unfolding fine_def DeleteRBACExcept_def cl_ListRoleBindings_def Let_def
proof (intro allI runs_bind runs_issue runs_case_sum)
  fix w :: world and e
  assume "api_ListRoleBindings E (trace w) Uncached (rbacLabels x) = Inl e"
  with bindings_listed [of "trace w" "rbacLabels x"] show "runs (ret (Some e)) w' (\<lambda>r es w'. r = None)" for w' :: world
    by simp
next
  fix w' :: world and items
  have "fine (each (prune_item E (keep_set keep)) items)" by (intro fine_each fine_prune_item)
  then show "runs (each (prune_item E (keep_set keep)) items) w' (\<lambda>r es w'. r = None)"
    by (simp add: fine_def)
qed

lemma stable_emits_eq: "emits (\<lambda>e. \<forall>c. f (change c e) = f c) m \<Longrightarrow> stable (\<lambda>c. P (f c)) m"
  by (rule stable_emits, erule emits_mono) simp

lemma stable_other_role:
  "n \<noteq> n' \<Longrightarrow> stable (\<lambda>c. P (held_role c n)) (reconcileClusterRole E n' rules converge)"
  unfolding stable_def by (intro allI impI runs_conseq [OF role_step]) simp

lemma achieves_role:
  "achieves (\<lambda>c. \<exists>rs. held_role c n = Some rs \<and> sem_eq_rules E rs rules) (reconcileClusterRole E n rules True)"
  unfolding achieves_def by (intro allI runs_conseq [OF role_step]) simp

lemma stable_and_then: "stable P m \<Longrightarrow> stable P m' \<Longrightarrow> stable P (and_then m m')"
  unfolding stable_def
  by (intro allI impI runs_and_then, drule spec, drule (1) mp, erule runs_conseq) (simp split: option.split)

lemma stable_each: "(\<And>y. y \<in> set ys \<Longrightarrow> stable P (f y)) \<Longrightarrow> stable P (each f ys)"
proof (induction ys)
  case Nil
  show ?case by (auto simp: stable_def intro: runs_return)
next
  case (Cons y ys)
  then show ?case unfolding each_and_then by (intro stable_and_then) auto
qed

lemma range_keys_rules:
  "(\<And>ys. mset ys = mset ks \<Longrightarrow> stable P (f ys)) \<Longrightarrow> stable P (State_Monad.bind (range_keys E ks) f)"
  "(\<And>ys. mset ys = mset ks \<Longrightarrow> achieves P (f ys)) \<Longrightarrow> achieves P (State_Monad.bind (range_keys E ks) f)"
  unfolding stable_def achieves_def by (auto intro: runs_range_keys_bind)

lemma stable_binding_steps:
  "stable (\<lambda>c. P (held_role c, held_account c)) (reconcileRoleBinding E x ns n role)"
  "stable (\<lambda>c. P (held_role c, held_account c)) (DeleteRBACExcept E Uncached x keep)"
  "stable (\<lambda>c. Q (held_role c)) (CreateSaIfMissing E x)"
  "stable (\<lambda>c. R (held_account c)) (reconcileClusterRole E n rules converge)"
proof -
  have "emits (\<lambda>e. \<forall>c. (held_role (change c e), held_account (change c e)) = (held_role c, held_account c))
      (reconcileRoleBinding E x ns n role)"
    "emits (\<lambda>e. \<forall>c. (held_role (change c e), held_account (change c e)) = (held_role c, held_account c))
      (DeleteRBACExcept E Uncached x keep)"
    "emits (\<lambda>e. \<forall>c. held_role (change c e) = held_role c) (CreateSaIfMissing E x)"
    "emits (\<lambda>e. \<forall>c. held_account (change c e) = held_account c) (reconcileClusterRole E n rules converge)"
    unfolding reconcileRoleBinding_def DeleteRBACExcept_def prune_item_def CreateSaIfMissing_def
      reconcileClusterRole_def call_defs Let_def
    by (intro emits_rules; simp)+
  from this [THEN stable_emits_eq] show
    "stable (\<lambda>c. P (held_role c, held_account c)) (reconcileRoleBinding E x ns n role)"
    "stable (\<lambda>c. P (held_role c, held_account c)) (DeleteRBACExcept E Uncached x keep)"
    "stable (\<lambda>c. Q (held_role c)) (CreateSaIfMissing E x)"
    "stable (\<lambda>c. R (held_account c)) (reconcileClusterRole E n rules converge)" .
qed

lemma fine_tail:
  "fine (and_then (ensureBaseClusterRole E) (DeleteRBACExcept E Uncached x ds))"
  "fine (each (\<lambda>d. reconcileRoleBinding E x (bk_Namespace d) (bk_Name d) (bk_ClusterRole d)) ds)"
  unfolding ensure_role_defs by (intro fine_and_then fine_role fine_DeleteRBACExcept fine_each fine_binding)+

lemma fine_bind_and_prune: "fine (bind_and_prune E x)"
  unfolding bind_and_prune_def BuildNamespaces_def Let_def
  by (intro fine_range_keys fine_and_then fine_tail)

lemma fine_CreateRBAC: "fine (CreateRBACIfMissing E x)"
  unfolding CreateRBACIfMissing_phases ensure_role_defs
  by (intro fine_and_then fine_each fine_role fine_account fine_bind_and_prune)

lemma achieves_roles:
  "achieves (\<lambda>c. \<exists>rs. held_role c executorClusterRoleName = Some rs \<and> sem_eq_rules E rs desiredRoleRules) (CreateRBACIfMissing E x)"
  "achieves (\<lambda>c. \<exists>rs. held_role c executorPDBClusterRoleName = Some rs \<and> sem_eq_rules E rs desiredPDBRules) (CreateRBACIfMissing E x)"
  "achieves (\<lambda>c. held_account c (child_key x)) (CreateRBACIfMissing E x)"
proof -
  let ?exec = "\<lambda>c. \<exists>rs. held_role c executorClusterRoleName = Some rs \<and> sem_eq_rules E rs desiredRoleRules"
  let ?pdb = "\<lambda>c. \<exists>rs. held_role c executorPDBClusterRoleName = Some rs \<and> sem_eq_rules E rs desiredPDBRules"
  let ?sa = "\<lambda>c. held_account c (child_key x)"
  have other: "executorPDBClusterRoleName \<noteq> executorClusterRoleName"
    by (simp add: executorPDBClusterRoleName_def executorClusterRoleName_def)
  note split = stable_binding_steps(1) [where P = "\<lambda>(r, a). Q r" for Q, simplified]
    stable_binding_steps(2) [where P = "\<lambda>(r, a). Q r" for Q, simplified]
    stable_binding_steps(1) [where P = "\<lambda>(r, a). Q a" for Q, simplified]
    stable_binding_steps(2) [where P = "\<lambda>(r, a). Q a" for Q, simplified]
  have tail: "achieves ?exec (bind_and_prune E x)" "stable ?pdb (bind_and_prune E x)" "stable ?sa (bind_and_prune E x)"
    unfolding bind_and_prune_def BuildNamespaces_def Let_def ensure_role_defs
    by (intro range_keys_rules achieves_rest achieves_first achieves_role fine_each fine_binding fine_role
          stable_and_then stable_each stable_other_role [OF other] split stable_binding_steps(4))+
  have sa: "achieves ?sa (CreateSaIfMissing E x)"
    unfolding achieves_def by (intro allI runs_conseq [OF account_step]) simp
  have opt: "fine (ensureOptionalClusterRoles E)"
    unfolding ensure_role_defs by (intro fine_each fine_role)
  have "stable ?pdb (each f [])" for f :: "optionalGrant \<Rightarrow> goerr option go"
    by (intro stable_each) simp
  then have pdb: "achieves ?pdb (ensureOptionalClusterRoles E)"
    unfolding ensure_role_defs optionalGrants_def each_and_then
    by (intro achieves_first fine_role) (simp_all add: achieves_role)
  show "achieves ?exec (CreateRBACIfMissing E x)"
    unfolding CreateRBACIfMissing_phases ensureClusterRoleExists_def
    by (intro achieves_rest opt fine_role fine_account tail)
  show "achieves ?pdb (CreateRBACIfMissing E x)"
    unfolding CreateRBACIfMissing_phases ensureClusterRoleExists_def
    by (rule achieves_first [OF opt pdb]) (intro stable_and_then stable_other_role [OF other] stable_binding_steps(3) tail)
  show "achieves ?sa (CreateRBACIfMissing E x)"
    unfolding CreateRBACIfMissing_phases ensureClusterRoleExists_def
    by (rule achieves_rest [OF opt achieves_rest [OF fine_role achieves_first [OF fine_account sa tail(3)]]])
qed

lemma rbac_step:
  assumes "proper (set (held_bindings (st w)))" and "\<forall>ns \<in> set (build_namespace_keys x). CHR ''/'' \<notin> set ns"
  shows "runs (CreateRBACIfMissing E x) w (\<lambda>r es w'. r = None \<and> rbac_here E x (st w') \<and> proper (set (held_bindings (st w'))))"
proof -
  let ?m = "CreateRBACIfMissing E x"
  have fine: "runs ?m w (\<lambda>r es w'. r = None)" using fine_CreateRBAC by (simp add: fine_def)
  then have r: "result ?m w = None" by (simp add: runs_iff)
  have held: "held (held_bindings c0) v = set (held_bindings (st v))" for v
    by (simp add: held_def held_bindings_state)
  note out = CreateRBAC_outcome [OF bindings _ assms(2) r, unfolded held, OF assms(1)]
  have "along (told E) (trace w) (new_events ?m w)" using told_CreateRBAC [of E x w] by (simp add: runs_iff)
  then have "current_reads (rb_state (held_bindings c0) (trace w)) (new_events ?m w)"
    by (rule up_to_date_current [OF told_up_to_date])
  note settled = rbac_spec_settles [OF out(3) [OF this]]
  have "runs ?m w (\<lambda>r es w'. proper (set (held_bindings (st w'))) \<and> rbac_settled x (set (held_bindings (st w'))))"
    using fine out(1) settled unfolding runs_iff by (simp only: simp_thms)
  note parts = fine this achieves_roles [unfolded achieves_def, rule_format, of x w]
  show ?thesis
    by (rule runs_conseq [OF runs_conj [OF parts(1) runs_conj [OF parts(2) runs_conj [OF parts(3) runs_conj [OF parts(4,5)]]]]])
       (simp add: rbac_here_def)
qed

lemma rbac_still:
  assumes "rbac_here E x c" and "proper (set (held_bindings c))"
  shows "still c (CreateRBACIfMissing E x)"
proof -
  let ?s = "set (held_bindings c)"
  have roles: "still c (reconcileClusterRole E executorClusterRoleName desiredRoleRules converge)"
    "still c (reconcileClusterRole E executorPDBClusterRoleName desiredPDBRules converge)" for converge
    using assms(1) by (auto simp: rbac_here_def dest!: role_found intro!: still_clean clean_role)
  have sa: "still c (CreateSaIfMissing E x)"
    using assms(1) by (auto simp: rbac_here_def child_key_def dest!: account_found intro!: still_clean clean_sa)
  have bind: "still c (reconcileRoleBinding E x (bk_Namespace d) (bk_Name d) (bk_ClusterRole d))"
    if d: "d \<in> set (DesiredBindings x (build_namespace_keys x))" for d
  proof (rule still_clean, rule clean_binding)
    fix w assume w: "st w = c"
    from assms(1) d obtain b where b: "b \<in> ?s" "binds d b"
      unfolding rbac_here_def rbac_settled_def Let_def by blast
    then have key: "rb_key b = nsname (bk_Namespace d) (bk_Name d)" by (simp add: binds_def wanted_key_def)
    show "\<exists>b. api_GetRoleBinding E (trace w) (nsname (bk_Namespace d) (bk_Name d)) = Inr b \<and>
        rb_RoleRef b = rb_RoleRef (desiredRoleBinding x (bk_Namespace d) (bk_Name d) (bk_ClusterRole d))"
    proof (cases "api_GetRoleBinding E (trace w) (nsname (bk_Namespace d) (bk_Name d))")
      case (Inl e)
      from binding_absent [OF Inl] b(1) key show ?thesis unfolding w by (metis imageI)
    next
      case (Inr b')
      from binding_present [OF Inr] have "b' = b"
        unfolding w using proper_same [OF assms(2) b(1)] key by metis
      with Inr b(2) show ?thesis by (simp add: binds_def)
    qed
  qed
  have prune: "still c (DeleteRBACExcept E Uncached x ds)" if ds: "set ds = set (DesiredBindings x (build_namespace_keys x))" for ds
  proof (rule still_clean, rule clean_prune)
    fix w assume w: "st w = c"
    have held: "set (rb_state (held_bindings c0) (trace w)) = ?s"
      using w held_bindings_state [of c0 "trace w"] by simp
    from bindings_listed obtain items where items: "api_ListRoleBindings E (trace w) Uncached (rbacLabels x) = Inr items" by blast
    have "pruned_key item \<in> keep_set ds" if "item \<in> set items" for item
      using binding_answers(4) [OF bindings items] that assms(1) rb_key_kept
      unfolding held rbac_here_def rbac_settled_def Let_def ds [symmetric] by blast
    with items show "\<exists>items. api_ListRoleBindings E (trace w) Uncached (rbacLabels x) = Inr items \<and>
        (\<forall>item \<in> set items. pruned_key item \<in> keep_set ds)" by blast
  qed
  have tail: "still c (bind_and_prune E x)"
    unfolding bind_and_prune_def BuildNamespaces_def Let_def ensure_role_defs
  proof (rule still_range_keys)
    fix ys assume "mset ys = mset (build_namespace_keys x)"
    note ds = DesiredBindings_perm [OF this, of x]
    show "still c (and_then (each (\<lambda>d. reconcileRoleBinding E x (bk_Namespace d) (bk_Name d) (bk_ClusterRole d)) (DesiredBindings x ys))
        (and_then (reconcileClusterRole E executorClusterRoleName desiredRoleRules True)
          (DeleteRBACExcept E Uncached x (DesiredBindings x ys))))"
      by (intro still_and_then still_each roles(1) prune [OF ds] bind) (simp add: ds)
  qed
  have "still c (ensureOptionalClusterRoles E)"
    unfolding ensure_role_defs by (rule still_each) (simp add: roles(2))
  then show ?thesis
    unfolding CreateRBACIfMissing_phases ensureClusterRoleExists_def
    by (intro still_and_then roles(1) sa tail)
qed

end

end
