(* ===== verification/Object_Core.thy ===== *)
theory Object_Core
  imports Cluster_Model
begin

text \<open>
  What the steps of a pass read of an object: its core, which is all but the status, the resource version
  and the annotations. Keys, units, rendered configuration and wanted Deployment depend on it only.
\<close>

section \<open>What depends on the core\<close>

lemma core_refl [simp]: "core x x"
  by (simp add: core_def)

lemma core_sym: "core x y \<Longrightarrow> core y x"
  by (simp add: core_def)

lemma core_trans: "core x y \<Longrightarrow> core y z \<Longrightarrow> core x z"
  by (simp add: core_def)

lemma core_cases:
  assumes "core x y"
  obtains r s where "x = RunnerObj r" "y = RunnerObj s" "res_Spec r = res_Spec s"
  | r s where "x = MultiRunnerObj r" "y = MultiRunnerObj s" "res_Spec r = res_Spec s"
  using assms by (cases x; cases y) (auto simp: core_def spec_of_def)

lemma core_multi: "core x y \<Longrightarrow> is_multi x = is_multi y"
  by (erule core_cases) (simp_all add: is_multi_def)

lemma core_meta:
  assumes "core x y"
  shows "om_Name (GetMeta x) = om_Name (GetMeta y)" "om_Namespace (GetMeta x) = om_Namespace (GetMeta y)"
    "om_UID (GetMeta x) = om_UID (GetMeta y)" "om_Generation (GetMeta x) = om_Generation (GetMeta y)"
  using assms by (simp_all add: core_def GetName_def GetNamespace_meta GetUID_def GetGeneration_def)

lemma core_executors: "core x y \<Longrightarrow> ExecutorConfigs x = ExecutorConfigs y"
  by (erule core_cases) (simp_all add: Runner_ExecutorConfigs_def MultiRunner_ExecutorConfigs_def)

lemma core_same_unit: "core x y \<Longrightarrow> same_unit x y"
proof (rule same_unit_intro)
  assume c: "core x y"
  show "is_multi x = is_multi y" using c by (rule core_multi)
  show "entry_view x = entry_view y"
    using c core_executors [OF c] by (simp add: entry_view_def entry_namespace_def core_def)
  show "unit_view x = unit_view y"
    using c core_meta(1) [OF c]
    by (elim core_cases) (simp_all add: unit_view_def Runner_RegistrationConfig_def MultiRunner_RegistrationConfig_def)
qed (rule core_meta; assumption)+

lemma core_keys:
  assumes "core x y"
  shows "object_key x = object_key y" "child_key x = child_key y" "ChildName x = ChildName y"
    "GetNamespace x = GetNamespace y" "CACertificate x = CACertificate y"
proof -
  show "CACertificate x = CACertificate y"
    using assms by (rule core_cases) (simp_all add: Runner_CACertificate_def MultiRunner_CACertificate_def)
  show "ChildName x = ChildName y" by (rule same_unit_ChildName [OF core_same_unit [OF assms]])
  with assms show "object_key x = object_key y" "child_key x = child_key y" "GetNamespace x = GetNamespace y"
    by (simp_all add: object_key_def child_key_def core_def)
qed

lemma core_rendered:
  assumes "core x y"
  shows "rendered_config E x tokens = rendered_config E y tokens"
  using assms core_meta(1,2) [OF assms]
  by (elim core_cases) (simp_all add: single_root_config_def multi_root_config_def)

lemma core_fetched [simp]: "core (with_status_maps x) x"
  by (cases x) (simp_all add: core_def spec_of_def GetName_def GetUID_def GetGeneration_def GetNamespace_meta
    Runner_IsBeingDeleted_def MultiRunner_IsBeingDeleted_def)

lemma core_setters [simp]:
  "core (SetStatusError e x) x" "core (SetStatusReady b x) x" "core (SetConfigMapVersion v x) x"
  "core (SetObservedGeneration n x) x" "core (SetReadyCondition L t b r m x) x"
  "core (AddFinalizer L x) x" "core (StoreRunnerRegistration g x) x"
  by (cases x; simp add: core_def spec_of_def GetName_def GetUID_def GetGeneration_def GetNamespace_meta
    Runner_IsBeingDeleted_def MultiRunner_IsBeingDeleted_def Runner_AddFinalizer_def MultiRunner_AddFinalizer_def
    Runner_StoreRunnerRegistration_def MultiRunner_StoreRunnerRegistration_def Let_def
    Runner_SetReadyCondition_def MultiRunner_SetReadyCondition_def status_setter_defs)+

text \<open>The wanted Deployment depends on the core and the configuration hash.\<close>

lemma wanted_core:
  assumes "core x y" and "ConfigMapVersion x = ConfigMapVersion y"
  shows "wantedDeployment x = wantedDeployment y" and "deployment_changed E x live = deployment_changed E y live"
proof -
  have "ChildName x = ChildName y" "GenerateOwnerReference x = GenerateOwnerReference y"
    using core_same_unit [OF assms(1)] by (simp_all add: same_unit_ChildName same_unit_owner)
  moreover have "RunnerImage x = RunnerImage y" "RunnerResources x = RunnerResources y"
    "RunnerImagePullPolicy x = RunnerImagePullPolicy y" "RunnerSecurityContext x = RunnerSecurityContext y"
    "RunnerEnv x = RunnerEnv y" "RunnerNodeSelector x = RunnerNodeSelector y" "RunnerTolerations x = RunnerTolerations y"
    "RunnerAffinity x = RunnerAffinity y" "RunnerPriorityClassName x = RunnerPriorityClassName y"
    "RunnerTerminationGracePeriodSeconds x = RunnerTerminationGracePeriodSeconds y"
    using assms(1)
    by (elim core_cases; simp add: Runner_RunnerImage_def MultiRunner_RunnerImage_def Runner_RunnerResources_def
      MultiRunner_RunnerResources_def Runner_RunnerImagePullPolicy_def MultiRunner_RunnerImagePullPolicy_def
      Runner_RunnerSecurityContext_def MultiRunner_RunnerSecurityContext_def Runner_RunnerEnv_def MultiRunner_RunnerEnv_def
      Runner_RunnerNodeSelector_def MultiRunner_RunnerNodeSelector_def Runner_RunnerTolerations_def
      MultiRunner_RunnerTolerations_def Runner_RunnerAffinity_def MultiRunner_RunnerAffinity_def
      Runner_RunnerPriorityClassName_def MultiRunner_RunnerPriorityClassName_def
      Runner_RunnerTerminationGracePeriodSeconds_def MultiRunner_RunnerTerminationGracePeriodSeconds_def)+
  ultimately show "wantedDeployment x = wantedDeployment y" "deployment_changed E x live = deployment_changed E y live"
    using assms by (simp_all add: wantedDeployment_def deployment_changed_def wanted_template_def manager_container_def manager_annotations_def
      ManagerPodLabels_def core_def)
qed

text \<open>Rendering the configuration changes nothing that the Deployment or the status depend on.\<close>

lemma rendered_object:
  "wantedDeployment (SetConfigMapVersion v (fst (TomlConfig E x tokens ca))) = wantedDeployment (SetConfigMapVersion v x)"
  "deployment_changed E (SetConfigMapVersion v (fst (TomlConfig E x tokens ca))) live =
     deployment_changed E (SetConfigMapVersion v x) live"
proof (atomize (full), cases x)
  case (MultiRunnerObj r)
  then show "wantedDeployment (SetConfigMapVersion v (fst (TomlConfig E x tokens ca))) = wantedDeployment (SetConfigMapVersion v x) \<and>
      deployment_changed E (SetConfigMapVersion v (fst (TomlConfig E x tokens ca))) live =
        deployment_changed E (SetConfigMapVersion v x) live" by simp
next
  case (RunnerObj r)
  then show "wantedDeployment (SetConfigMapVersion v (fst (TomlConfig E x tokens ca))) = wantedDeployment (SetConfigMapVersion v x) \<and>
      deployment_changed E (SetConfigMapVersion v (fst (TomlConfig E x tokens ca))) live =
        deployment_changed E (SetConfigMapVersion v x) live"
    by (simp add: SingleRunnerConfig_def Let_def wantedDeployment_def deployment_changed_def wanted_template_def
      manager_container_def manager_annotations_def ManagerPodLabels_def GetName_def GetUID_def Runner_SetConfigMapVersion_def
      Runner_ConfigMapVersion_def Runner_ChildName_def Runner_GetNamespace_def Runner_GenerateOwnerReference_def
      Runner_RunnerImage_def Runner_RunnerResources_def Runner_RunnerImagePullPolicy_def Runner_RunnerSecurityContext_def
      Runner_RunnerEnv_def Runner_RunnerNodeSelector_def Runner_RunnerTolerations_def Runner_RunnerAffinity_def
      Runner_RunnerPriorityClassName_def Runner_RunnerTerminationGracePeriodSeconds_def)
qed

lemma regs_status:
  assumes "core x y" and "GetStatus x = GetStatus y"
  shows "RegistrationConfig x = RegistrationConfig y"
  using assms core_meta(1) [OF assms(1)]
  by (elim core_cases) (simp_all add: Runner_RegistrationConfig_def MultiRunner_RegistrationConfig_def Runner_GetStatus_def
    MultiRunner_GetStatus_def)

lemma regs_fetched [simp]: "RegistrationConfig (with_status_maps x) = RegistrationConfig x"
  by (cases x) (simp_all add: MultiRunner_RegistrationConfig_def init_status_maps_def map_get_or_def map_get_def non_nil_def
    split: option.split)

lemma regs_view:
  assumes "core x y" and "status_view x = status_view y"
  shows "RegistrationConfig x = RegistrationConfig y"
proof -
  have "core (with_status_maps x) (with_status_maps y)"
    using assms(1) by (meson core_fetched core_sym core_trans)
  from regs_status [OF this assms(2) [unfolded status_view_def]] show ?thesis by simp
qed

end
