(* ===== verification/Token_Supply.thy ===== *)
theory Token_Supply
  imports Object_Core
begin

text \<open>
  The authentication flow (\<open>internal/controller/shared.go\<close>) in a working cluster: credentials and CA bundles
  are read from where they are held, a unit that is served keeps its token without a write, and a managed
  unit that was never registered is created and recorded. Once the tokens are in the config Secret, every
  unit is served by the same tokens again.
\<close>

section \<open>What the sources of an object hold\<close>

definition known_token :: "cluster \<Rightarrow> string \<Rightarrow> TokenSource option \<Rightarrow> string" where
  "known_token c ns src =
     (case src of
        None \<Rightarrow> ''''
      | Some s \<Rightarrow>
          (if ts_Value s \<noteq> '''' then ts_Value s
           else case ts_SecretKeyRef s of
             None \<Rightarrow> ''''
           | Some ref \<Rightarrow>
               (case held_secret c (nsname ns (sks_Name ref)) of
                  None \<Rightarrow> ''''
                | Some data \<Rightarrow>
                    map_get_or '''' data (if sks_Key ref = '''' then defaultSecretTokenKey else sks_Key ref))))"

definition known_ca :: "cluster \<Rightarrow> string \<Rightarrow> CASource option \<Rightarrow> string option" where
  "known_ca c ns src =
     (case src of
        None \<Rightarrow> Some ''''
      | Some s \<Rightarrow>
          (if \<not> CASource_IsSet src then Some ''''
           else if ca_Value s \<noteq> '''' then Some (ca_Value s)
           else case ca_SecretKeyRef s of
             Some ref \<Rightarrow>
               (case held_secret c (nsname ns (car_Name ref)) of
                  None \<Rightarrow> None | Some data \<Rightarrow> map_get data (ca_data_key ref))
           | None \<Rightarrow>
               (case ca_ConfigMapKeyRef s of
                  Some ref \<Rightarrow>
                    (case held_config_map c (nsname ns (car_Name ref)) of
                       None \<Rightarrow> None
                     | Some cm \<Rightarrow>
                         (case map_get (cm_Data cm) (ca_data_key ref) of
                            Some d \<Rightarrow> Some d
                          | None \<Rightarrow> map_get (cm_BinaryData cm) (ca_data_key ref)))
                | None \<Rightarrow> Some '''')))"

text \<open>A source is not the Secret the operator writes itself.\<close>

definition token_apart :: "string \<Rightarrow> TokenSource option \<Rightarrow> bool" where
  "token_apart child src =
     (\<forall>s ref. src = Some s \<longrightarrow> ts_SecretKeyRef s = Some ref \<longrightarrow> sks_Name ref \<noteq> child)"

definition ca_apart :: "string \<Rightarrow> CASource option \<Rightarrow> bool" where
  "ca_apart child src =
     (\<forall>s ref. src = Some s \<longrightarrow> ca_SecretKeyRef s = Some ref \<longrightarrow> car_Name ref \<noteq> child)"

definition same_sources :: "NSName \<Rightarrow> cluster \<Rightarrow> cluster \<Rightarrow> bool" where
  "same_sources k c c' =
     ((\<forall>j. j \<noteq> k \<longrightarrow> held_secret c' j = held_secret c j) \<and> held_config_map c' = held_config_map c)"

lemma known_token_same:
  "same_sources (nsname ns child) c c' \<Longrightarrow> token_apart child src \<Longrightarrow> known_token c' ns src = known_token c ns src"
  by (auto simp: known_token_def same_sources_def token_apart_def split: option.split)

lemma known_ca_same:
  "same_sources (nsname ns child) c c' \<Longrightarrow> ca_apart child src \<Longrightarrow> known_ca c' ns src = known_ca c ns src"
  by (auto simp: known_ca_def same_sources_def ca_apart_def split: option.split)

context working_cluster
begin

lemma runs_source_read:
  assumes "held_secret (st w) k = Some data"
    and "\<And>s. sec_Data s = data \<Longrightarrow> Q (Inr s) [GetSecret rd k (Inr s)] (w\<lparr>trace := trace w @ [GetSecret rd k (Inr s)]\<rparr>)"
  shows "runs (cl_GetSecret E rd k) w Q"
  using secret_found [OF assms(1), of rd] assms(2) unfolding cl_GetSecret_def by (auto intro!: runs_issue)

lemma runs_known_token:
  assumes "known_token (st w) ns src \<noteq> ''''"
  shows "runs (resolveTokenSource E ns src) w
    (\<lambda>r es w'. r = Inr (known_token (st w) ns src) \<and> calm es \<and> obj w' = obj w)"
proof -
  from assms obtain s where s: "src = Some s" by (auto simp: known_token_def split: option.splits)
  show ?thesis
  proof (cases "ts_Value s = ''''")
    case False
    with s show ?thesis by (auto simp: resolveTokenSource_def known_token_def intro: runs_return)
  next
    case True
    with assms s obtain ref data where r: "ts_SecretKeyRef s = Some ref" "held_secret (st w) (nsname ns (sks_Name ref)) = Some data"
      by (auto simp: known_token_def split: option.splits)
    with assms s True show ?thesis
      by (auto simp: resolveTokenSource_def known_token_def Let_def map_get_or_def split: option.split
          intro!: runs_bind runs_source_read runs_return)
  qed
qed

lemma runs_known_ca:
  assumes "known_ca (st w) ns src = Some ca"
  shows "runs (resolveCABundle E Uncached ns src) w (\<lambda>r es w'. r = Inr ca \<and> calm es \<and> obj w' = obj w)"
proof (cases "CASource_IsSet src")
  case False
  with assms show ?thesis by (auto simp: resolveCABundle_def known_ca_def intro!: runs_return split: option.splits)
next
  case True
  then obtain s where s: "src = Some s" by (cases src) (auto simp: CASource_IsSet_def)
  show ?thesis
  proof (cases "ca_Value s = ''''")
    case False
    with s assms True show ?thesis by (auto simp: resolveCABundle_def known_ca_def intro: runs_return)
  next
    case unset: True
    show ?thesis
    proof (cases "ca_SecretKeyRef s")
      case (Some ref)
      with assms s True unset obtain data where "held_secret (st w) (nsname ns (car_Name ref)) = Some data"
        "map_get data (ca_data_key ref) = Some ca" by (auto simp: known_ca_def split: option.splits)
      with assms s True unset Some show ?thesis
        by (auto simp: resolveCABundle_def intro!: runs_bind runs_source_read runs_return)
    next
      case None
      show ?thesis
      proof (cases "ca_ConfigMapKeyRef s")
        case (Some ref)
        with assms s True unset None obtain cm where cm: "held_config_map (st w) (nsname ns (car_Name ref)) = Some cm"
          "(case map_get (cm_Data cm) (ca_data_key ref) of Some d \<Rightarrow> Some d
             | None \<Rightarrow> map_get (cm_BinaryData cm) (ca_data_key ref)) = Some ca"
          by (auto simp: known_ca_def split: option.splits)
        with assms s True unset None Some config_map_found [OF cm(1)] show ?thesis
          by (auto simp: resolveCABundle_def cl_GetConfigMap_def intro!: runs_bind runs_issue runs_return split: option.splits)
      qed (use assms s True unset None in \<open>auto simp: resolveCABundle_def known_ca_def intro: runs_return\<close>)
    qed
  qed
qed

end

section \<open>The units of an object\<close>

text \<open>
  A unit that can be served: its credential is known, and a managed one has create options. A unit that
  is served by the token \<open>t\<close>: the credential itself, or a registered runner whose token GitLab accepts.
\<close>

definition unit_possible :: "cluster \<Rightarrow> string \<Rightarrow> GitlabRegInfo \<Rightarrow> bool" where
  "unit_possible c ns g =
     (if IsManaged (Some (reg_Auth g))
      then auth_CreateOptions (reg_Auth g) \<noteq> None \<and> known_token c ns (auth_AccessToken (reg_Auth g)) \<noteq> ''''
      else known_token c ns (auth_Token (reg_Auth g)) \<noteq> '''')"

definition unit_served :: "env \<Rightarrow> cluster \<Rightarrow> string \<Rightarrow> GitlabRegInfo \<Rightarrow> string \<Rightarrow> bool" where
  "unit_served E c ns g t =
     (t \<noteq> '''' \<and>
      (if IsManaged (Some (reg_Auth g))
       then reg_RunnerID g \<noteq> 0 \<and> reg_RegistrationHash g = RunnerCreateOptions_Hash (auth_CreateOptions (reg_Auth g)) \<and>
            lasting E (reg_TokenExpiresAt g) \<and> t \<in> valid_tokens c
       else t = known_token c ns (auth_Token (reg_Auth g))))"

definition unit_new :: "GitlabRegInfo \<Rightarrow> bool" where
  "unit_new g = (IsManaged (Some (reg_Auth g)) \<and> reg_RunnerID g = 0)"

text \<open>What a unit's token is known to be, given the tokens recovered from the config Secret.\<close>

definition unit_token :: "cluster \<Rightarrow> string \<Rightarrow> string gomap \<Rightarrow> GitlabRegInfo \<Rightarrow> string" where
  "unit_token c ns existing g =
     (if IsManaged (Some (reg_Auth g)) then map_get_or '''' existing (reg_Name g)
      else known_token c ns (auth_Token (reg_Auth g)))"

context working_cluster
begin

lemma client_here:
  assumes "unit_possible (st w) (GetNamespace (obj w)) g" and "IsManaged (Some (reg_Auth g))"
    and "ca \<noteq> '''' \<longrightarrow> pem_has_certs E ca"
  shows "runs (managed_client E None g ca) w
    (\<lambda>r es w'. (\<exists>conn. r = Inr (gitlabApi E conn)) \<and> calm es \<and> obj w' = obj w \<and> st w' = st w)"
proof -
  have t: "known_token (st w) (GetNamespace (obj w)) (auth_AccessToken (reg_Auth g)) \<noteq> ''''"
    using assms(1,2) by (simp add: unit_possible_def)
  have "runs (managed_client E None g ca) w
      (\<lambda>r es w'. ((\<exists>conn. r = Inr (gitlabApi E conn)) \<and> obj w' = obj w) \<and> calm es)"
    unfolding managed_client_def option.case
    by (rule runs_bind, rule runs_get_obj, rule runs_bind, rule runs_conseq [OF runs_known_token [OF t]],
        rule runs_return) (use t assms(3) in \<open>auto simp: NewGitlabClient_def Let_def client_made\<close>)
  from runs_calm [OF this] show ?thesis by (rule runs_conseq) blast
qed

lemma runs_verify:
  assumes "t \<in> valid_tokens (st w)"
  shows "runs (gitlabApi_VerifyToken E g t) w (\<lambda>r es w'. r = Inr True \<and> calm es \<and> obj w' = obj w)"
  unfolding gitlabApi_VerifyToken_def
  using token_verified [OF assms, of g] by (intro runs_bind runs_issue) (auto intro: runs_return split: prod.split)

lemma served_step:
  assumes "unit_served E (st w) (GetNamespace (obj w)) g t" and "unit_possible (st w) (GetNamespace (obj w)) g"
    and "ca \<noteq> '''' \<longrightarrow> pem_has_certs E ca" and "IsManaged (Some (reg_Auth g)) \<longrightarrow> map_get_or '''' existing (reg_Name g) = t"
  shows "runs (ensure_unit E None (GetNamespace (obj w)) existing ca g) w
    (\<lambda>r es w'. (\<exists>e. r = Inr (t, e)) \<and> calm es \<and> obj w' = obj w)"
proof (cases "IsManaged (Some (reg_Auth g))")
  case False
  with assms(1) have t: "known_token (st w) (GetNamespace (obj w)) (auth_Token (reg_Auth g)) = t" "t \<noteq> ''''"
    by (auto simp: unit_served_def)
  with runs_known_token [of w "GetNamespace (obj w)" "auth_Token (reg_Auth g)"] False show ?thesis
    unfolding ensure_unit_def by (auto intro!: runs_bind elim!: runs_conseq intro: runs_return)
next
  case True
  with assms(1) have u: "reg_RunnerID g \<noteq> 0" "t \<in> valid_tokens (st w)" "t \<noteq> ''''"
    "reg_RegistrationHash g = RunnerCreateOptions_Hash (auth_CreateOptions (reg_Auth g))" "lasting E (reg_TokenExpiresAt g)"
    by (auto simp: unit_served_def)
  let ?client = "managed_client E None g ca" and ?hash = "reg_RegistrationHash g"
  have verify: "runs (verifyManagedRunner E ?client g t ?hash) v
      (\<lambda>r es w'. (\<exists>e. r = Inr (t, e)) \<and> calm es \<and> obj w' = obj w)" if v: "obj v = obj w" "st v = st w" for v
    unfolding verifyManagedRunner_def
  proof (simp only: u(3) if_False, rule runs_bind, rule runs_conseq [OF client_here [OF _ True assms(3)]])
    show "unit_possible (st v) (GetNamespace (obj v)) g" using assms(2) v by simp
    fix r :: "goerr + GitlabClient" and es1 and w1 :: world
    assume "(\<exists>conn. r = Inr (gitlabApi E conn)) \<and> calm es1 \<and> obj w1 = obj v \<and> st w1 = st v"
    then obtain conn where r: "r = Inr (gitlabApi E conn)" and 1: "calm es1" "obj w1 = obj w" "st w1 = st w"
      using v by auto
    have "runs (gitlabApi_VerifyToken E conn t) w1 (\<lambda>r es w'. r = Inr True \<and> calm es \<and> obj w' = obj w1)"
      by (rule runs_verify) (simp add: 1 u)
    then show "runs (case r of Inl err \<Rightarrow> ret (Inl err)
        | Inr gc \<Rightarrow> do { v \<leftarrow> gl_VerifyToken gc t;
            case v of Inl err \<Rightarrow> ret (Inl (err_wrap (''cannot verify token for runner '' @ quote (reg_Name g)) err))
            | Inr valid \<Rightarrow> if \<not> valid then recreateManagedRunner E ?client g t ?hash
                           else ret (Inr (t, reg_TokenExpiresAt g)) }) w1
        (\<lambda>(r :: goerr + token_expiry) es w'. (\<exists>e. r = Inr (t, e)) \<and> calm (es1 @ es) \<and> obj w' = obj w)"
      unfolding r by (auto simp: 1 intro!: runs_bind runs_return elim!: runs_conseq)
  qed
  have "\<not> time_sub e (clock E tr) < tokenRefreshThreshold" if "reg_TokenExpiresAt g = Some e" for e tr
    using u(5) that by (auto simp: lasting_def not_less)
  note fresh = this
  have unit: "ensure_unit E None (GetNamespace (obj w)) existing ca g = ensureManagedRunner E None g t ca"
    using True assms(4) by (simp add: ensure_unit_def)
  show ?thesis
  proof (cases "reg_TokenExpiresAt g")
    case None
    with verify [of w] u(1,4) show ?thesis by (simp add: unit ensureManagedRunner_def)
  next
    case (Some e)
    with u(1,4) fresh [OF Some] show ?thesis
      by (auto simp: unit ensureManagedRunner_def Until_def Now_def Let_def intro!: runs_bind runs_issue runs_return
          runs_conseq [OF verify [unfolded u(4)]])
  qed
qed

end

section \<open>Serving the units\<close>

text \<open>What serving the units leaves alone: everything held but the status of the object, and valid tokens stay valid.\<close>

definition outside :: "cluster \<Rightarrow> _" where
  "outside c = (held_secret c, held_config_map c, held_deployment c, held_account c, held_role c, held_bindings c)"

definition auth_frame :: "env \<Rightarrow> RunnerInfo \<Rightarrow> cluster \<Rightarrow> RunnerInfo \<Rightarrow> cluster \<Rightarrow> bool" where
  "auth_frame E x c x' c' =
     (core x' x \<and> core x' (held_object c') \<and> HasFinalizer E (held_object c') = HasFinalizer E (held_object c) \<and>
      outside c' = outside c \<and> valid_tokens c \<subseteq> valid_tokens c')"

lemma auth_frame_refl: "core x (held_object c) \<Longrightarrow> auth_frame E x c x c"
  by (simp add: auth_frame_def)

lemma auth_frame_trans: "auth_frame E x c x' c' \<Longrightarrow> auth_frame E x' c' x'' c'' \<Longrightarrow> auth_frame E x c x'' c''"
  by (auto simp: auth_frame_def intro: core_trans)

lemma outside_known: "outside c' = outside c \<Longrightarrow> known_token c' = known_token c"
  by (intro ext) (simp add: known_token_def outside_def split: option.split)

lemma auth_frame_known: "auth_frame E x c x' c' \<Longrightarrow> known_token c' = known_token c"
  by (rule outside_known) (simp add: auth_frame_def)

lemma unit_possible_frame: "auth_frame E x c x' c' \<Longrightarrow> unit_possible c' ns g = unit_possible c ns g"
  by (drule auth_frame_known) (simp add: unit_possible_def)

lemma unit_served_frame: "auth_frame E x c x' c' \<Longrightarrow> unit_served E c ns g t \<Longrightarrow> unit_served E c' ns g t"
  by (frule auth_frame_known) (auto simp: unit_served_def auth_frame_def)

definition put_tokens :: "(string \<times> string) list \<Rightarrow> (string, string) fmap \<Rightarrow> (string, string) fmap" where
  "put_tokens = fold (\<lambda>(n, t). fmupd n t)"

lemma put_tokens_simps [simp]:
  "put_tokens [] f = f" "put_tokens ((n, t) # nts) f = put_tokens nts (fmupd n t f)"
  by (simp_all add: put_tokens_def)

context working_cluster
begin

lemma new_step:
  assumes new: "unit_new g" and possible: "unit_possible (st w) (GetNamespace (obj w)) g"
    and ca: "ca \<noteq> '''' \<longrightarrow> pem_has_certs E ca" and g: "g \<in> set (RegistrationConfig (obj w))"
    and c: "core (obj w) (held_object (st w))"
  shows "runs (ensure_unit E None (GetNamespace (obj w)) existing ca g) w
    (\<lambda>r es w'. \<exists>t e info. r = Inr (t, e) \<and> RegistrationConfig (obj w') = map (recorded info) (RegistrationConfig (obj w)) \<and>
       reg_Name info = reg_Name g \<and> unit_served E (st w') (GetNamespace (obj w)) (recorded info g) t \<and>
       auth_frame E (obj w) (st w) (obj w') (st w'))"
proof -
  have m: "IsManaged (Some (reg_Auth g))" "reg_RunnerID g = 0" using new by (simp_all add: unit_new_def)
  obtain opts where opts: "auth_CreateOptions (reg_Auth g) = Some opts"
    using possible m(1) by (auto simp: unit_possible_def)
  let ?hash = "RunnerCreateOptions_Hash (auth_CreateOptions (reg_Auth g))"
  have "runs (create_and_persist E (gitlabApi E conn) g ?hash verb) w1
      (\<lambda>r es w'. \<exists>t e info. r = Inr (t, e) \<and> RegistrationConfig (obj w') = map (recorded info) (RegistrationConfig (obj w)) \<and>
        reg_Name info = reg_Name g \<and> unit_served E (st w') (GetNamespace (obj w)) (recorded info g) t \<and>
        auth_frame E (obj w) (st w) (obj w') (st w'))"
    if w1: "obj w1 = obj w" "st w1 = st w" for w1 conn verb
  proof -
    from runner_created [of "trace w1" conn "sdk_create_options opts"] obtain s
      where s: "sdk_CreateUserRunner E (trace w1) conn (sdk_create_options opts) = Inr s"
        "sdkr_ID s \<noteq> 0" "sdkr_Token s \<noteq> ''''" "lasting E (sdkr_TokenExpiresAt s)" by blast
    let ?ev = "SdkCreateUserRunner conn (sdk_create_options opts) (Inr s)"
    let ?info = "g\<lparr>reg_RunnerID := sdkr_ID s, reg_AuthToken := sdkr_Token s,
        reg_TokenExpiresAt := sdkr_TokenExpiresAt s, reg_RegistrationHash := ?hash\<rparr>"
    let ?y = "StoreRunnerRegistration ?info (obj w)"
    let ?c = "change (st w) ?ev"
    have held: "held_object (cluster_after c0 (trace w1 @ [?ev])) = held_object (st w)" using w1 by simp
    have y: "core ?y (held_object (st w))" using c core_setters(7) core_trans by blast
    from status_updated [of ?y "trace w1 @ [?ev]", unfolded held, OF y] obtain z where z:
      "ask_update_status E ?y (trace w1 @ [?ev]) = Inr z" "core z (held_object (st w))"
      "HasFinalizer E z = HasFinalizer E (held_object (st w))" "status_view z = status_view ?y" by blast
    have zy: "core z ?y" using z(2) y by (blast intro: core_trans core_sym)
    have regs: "RegistrationConfig z = map (recorded ?info) (RegistrationConfig (obj w))"
      using regs_view [OF zy z(4)] runner_info.regs_store [of ?info "obj w"] g by simp
    have served: "unit_served E (?c\<lparr>held_object := z\<rparr>) (GetNamespace (obj w)) (recorded ?info g) (sdkr_Token s)"
      using s m by (simp add: unit_served_def recorded_def)
    have frame: "auth_frame E (obj w) (st w) z (?c\<lparr>held_object := z\<rparr>)"
      using z(2,3) c by (auto simp: auth_frame_def outside_def intro: core_trans core_sym)
    show ?thesis
      unfolding create_and_persist_def opts option.case gitlabApi_fields gitlabApi_CreateRunner_def persistRunner_def
        UpdateStatusObj_def Let_def
      using s z w1 regs served frame
      by (auto simp: opts intro!: runs_bind runs_issue runs_return runs_get_obj runs_modify_obj exI [of _ ?info])
  qed
  note create = this
  have "ensure_unit E None (GetNamespace (obj w)) existing ca g =
      ensureManagedRunner E None g (map_get_or '''' existing (reg_Name g)) ca"
    using m(1) by (simp add: ensure_unit_def)
  then show ?thesis
    unfolding ensureManagedRunner_def Let_def if_P [OF m(2)]
    by (simp only:) (rule runs_bind, rule runs_conseq [OF client_here [OF possible m(1) ca]],
      elim exE conjE, simp only: sum.case, rule create)
qed

lemma recorded_other: "reg_Name info \<notin> reg_Name ` set gs \<Longrightarrow> map (recorded info) gs = gs"
  by (induction gs) (auto simp: recorded_def)

lemma ensure_units_step:
  assumes "distinct (map reg_Name (RegistrationConfig (obj w)))" and "RegistrationConfig (obj w) = pre @ regs"
    and "core (obj w) (held_object (st w))" and ca: "ca \<noteq> '''' \<longrightarrow> pem_has_certs E ca"
    and "\<forall>g \<in> set regs. unit_possible (st w) (GetNamespace (obj w)) g \<and>
      (unit_new g \<or> unit_served E (st w) (GetNamespace (obj w)) g (unit_token (st w) (GetNamespace (obj w)) existing g))"
  shows "runs (ensure_units E None (GetNamespace (obj w)) existing ca regs tokens soonest) w
    (\<lambda>r es w'. \<exists>regs' ts soon. r = Inr (put_tokens (zip (map reg_Name regs') ts) tokens, soon) \<and>
       RegistrationConfig (obj w') = pre @ regs' \<and> list_all2 (unit_served E (st w') (GetNamespace (obj w))) regs' ts \<and>
       auth_frame E (obj w) (st w) (obj w') (st w'))"
  using assms
proof (induction regs arbitrary: w pre tokens soonest)
  case Nil
  then show ?case by (auto intro!: runs_return exI [of _ "[]"] simp: auth_frame_refl)
next
  case (Cons g regs)
  let ?ns = "GetNamespace (obj w)"
  let ?Q = "\<lambda>(r :: goerr + (string, string) fmap \<times> time option) w'. \<exists>regs' ts soon.
      r = Inr (put_tokens (zip (map reg_Name regs') ts) tokens, soon) \<and>
      RegistrationConfig (obj w') = pre @ regs' \<and> list_all2 (unit_served E (st w') ?ns) regs' ts \<and>
      auth_frame E (obj w) (st w) (obj w') (st w')"
  have rest: "runs (ensure_units E None ?ns existing ca regs (fmupd (reg_Name g) t tokens) s) w1
      (\<lambda>r es w'. ?Q r w')"
    if 1: "RegistrationConfig (obj w1) = pre @ g' # regs" "reg_Name g' = reg_Name g" "unit_served E (st w1) ?ns g' t"
      "auth_frame E (obj w) (st w) (obj w1) (st w1)" for w1 g' t s
  proof -
    have ns: "GetNamespace (obj w1) = ?ns" using 1(4) by (auto simp: auth_frame_def core_def)
    have tok: "unit_token (st w1) ?ns existing h = unit_token (st w) ?ns existing h" for h
      using auth_frame_known [OF 1(4)] by (simp add: unit_token_def)
    have "runs (ensure_units E None (GetNamespace (obj w1)) existing ca regs (fmupd (reg_Name g) t tokens) s) w1
        (\<lambda>r es w'. \<exists>regs' ts soon. r = Inr (put_tokens (zip (map reg_Name regs') ts) (fmupd (reg_Name g) t tokens), soon) \<and>
          RegistrationConfig (obj w') = (pre @ [g']) @ regs' \<and> list_all2 (unit_served E (st w') (GetNamespace (obj w1))) regs' ts \<and>
          auth_frame E (obj w1) (st w1) (obj w') (st w'))"
    proof (rule Cons.IH)
      show "distinct (map reg_Name (RegistrationConfig (obj w1)))" using Cons.prems(1,2) 1(1,2) by simp
      show "RegistrationConfig (obj w1) = (pre @ [g']) @ regs" using 1(1) by simp
      show "core (obj w1) (held_object (st w1))" using 1(4) by (simp add: auth_frame_def)
      show "\<forall>h \<in> set regs. unit_possible (st w1) (GetNamespace (obj w1)) h \<and>
          (unit_new h \<or> unit_served E (st w1) (GetNamespace (obj w1)) h (unit_token (st w1) (GetNamespace (obj w1)) existing h))"
        unfolding ns tok using Cons.prems(5) unit_possible_frame [OF 1(4)] unit_served_frame [OF 1(4)] by auto
    qed (rule ca)
    then show ?thesis
      unfolding ns
    proof (rule runs_conseq, elim exE conjE)
      fix r :: "goerr + (string, string) fmap \<times> time option" and es :: "event list" and regs' ts soon and w' :: world
      assume 2: "r = Inr (put_tokens (zip (map reg_Name regs') ts) (fmupd (reg_Name g) t tokens), soon)"
        "RegistrationConfig (obj w') = (pre @ [g']) @ regs'" "list_all2 (unit_served E (st w') ?ns) regs' ts"
        "auth_frame E (obj w1) (st w1) (obj w') (st w')"
      show "?Q r w'"
        by (rule exI [of _ "g' # regs'"], rule exI [of _ "t # ts"], rule exI [of _ soon])
           (use 2 1 unit_served_frame [OF 2(4) 1(3)] auth_frame_trans [OF 1(4) 2(4)] in simp)
    qed
  qed
  show ?case
  proof (cases "unit_new g")
    case True
    have fresh: "reg_Name g \<notin> reg_Name ` set pre" "reg_Name g \<notin> reg_Name ` set regs"
      using Cons.prems(1,2) by auto
    have "runs (ensure_unit E None ?ns existing ca g) w
        (\<lambda>r es w'. \<exists>t e info. r = Inr (t, e) \<and> RegistrationConfig (obj w') = map (recorded info) (RegistrationConfig (obj w)) \<and>
          reg_Name info = reg_Name g \<and> unit_served E (st w') ?ns (recorded info g) t \<and> auth_frame E (obj w) (st w) (obj w') (st w'))"
      by (rule new_step [OF True]) (use Cons.prems in auto)
    then show ?thesis
      unfolding ensure_units.simps
    proof (rule runs_bind [OF runs_conseq], elim exE conjE)
      fix r :: "goerr + token_expiry" and es1 :: "event list" and t e info and w1 :: world
      assume 1: "r = Inr (t, e)" "RegistrationConfig (obj w1) = map (recorded info) (RegistrationConfig (obj w))"
        "reg_Name info = reg_Name g" "unit_served E (st w1) ?ns (recorded info g) t" "auth_frame E (obj w) (st w) (obj w1) (st w1)"
      have "RegistrationConfig (obj w1) = pre @ recorded info g # regs"
        using 1(2,3) Cons.prems(2) recorded_other [of info] fresh by simp
      from rest [OF this _ 1(4,5)] show "runs (case r of Inl err \<Rightarrow> ret (Inl err)
          | Inr (token, expiry) \<Rightarrow> ensure_units E None ?ns existing ca regs (fmupd (reg_Name g) token tokens) (sooner soonest expiry))
          w1 (\<lambda>r es w'. ?Q r w')"
        unfolding 1(1) by simp
    qed
  next
    case False
    let ?t = "unit_token (st w) ?ns existing g"
    have served: "unit_served E (st w) ?ns g ?t" using Cons.prems(5) False by simp
    have "runs (ensure_unit E None ?ns existing ca g) w (\<lambda>r es w'. ((\<exists>e. r = Inr (?t, e)) \<and> obj w' = obj w) \<and> calm es)"
      by (rule runs_conseq [OF served_step [OF served _ ca]]) (use Cons.prems(5) in \<open>auto simp: unit_token_def\<close>)
    from runs_calm [OF this] show ?thesis
      unfolding ensure_units.simps
    proof (rule runs_bind [OF runs_conseq], elim exE conjE)
      fix r :: "goerr + token_expiry" and es1 :: "event list" and e and w1 :: world
      assume 1: "r = Inr (?t, e)" "obj w1 = obj w" "st w1 = st w"
      from rest [of w1 g ?t] 1 served Cons.prems(2,3)
      show "runs (case r of Inl err \<Rightarrow> ret (Inl err)
          | Inr (token, expiry) \<Rightarrow> ensure_units E None ?ns existing ca regs (fmupd (reg_Name g) token tokens) (sooner soonest expiry))
          w1 (\<lambda>r es w'. ?Q r w')"
        by (simp add: auth_frame_refl)
    qed
  qed
qed

end

section \<open>The tokens of an object\<close>

definition recovered :: "cluster \<Rightarrow> RunnerInfo \<Rightarrow> string gomap" where
  "recovered c x =
     (case held_secret c (child_key x) of None \<Rightarrow> Some fmempty | Some data \<Rightarrow> config_tokens data)"

definition token_of :: "cluster \<Rightarrow> RunnerInfo \<Rightarrow> GitlabRegInfo \<Rightarrow> string" where
  "token_of c x g = unit_token c (GetNamespace x) (recovered c x) g"

definition tokens_at :: "cluster \<Rightarrow> RunnerInfo \<Rightarrow> (string, string) fmap" where
  "tokens_at c x = put_tokens (map (\<lambda>g. (reg_Name g, token_of c x g)) (RegistrationConfig x)) fmempty"

text \<open>Every unit is served, by the token that the cluster holds for it.\<close>

definition settled_units :: "env \<Rightarrow> cluster \<Rightarrow> RunnerInfo \<Rightarrow> bool" where
  "settled_units E c x = (\<forall>g \<in> set (RegistrationConfig x). unit_served E c (GetNamespace x) g (token_of c x g))"

definition possible_units :: "env \<Rightarrow> cluster \<Rightarrow> RunnerInfo \<Rightarrow> bool" where
  "possible_units E c x =
     (distinct (map reg_Name (RegistrationConfig x)) \<and>
      (\<forall>g \<in> set (RegistrationConfig x). unit_possible c (GetNamespace x) g \<and>
         (unit_new g \<or> unit_served E c (GetNamespace x) g (token_of c x g))))"

lemma fmlookup_put_tokens: "n \<notin> fst ` set nts \<Longrightarrow> fmlookup (put_tokens nts f) n = fmlookup f n"
  by (induction nts arbitrary: f) (auto simp: put_tokens_def)

lemma fmlookup_put_token:
  "distinct (map fst nts) \<Longrightarrow> (n, t) \<in> set nts \<Longrightarrow> fmlookup (put_tokens nts f) n = Some t"
proof (induction nts arbitrary: f)
  case (Cons p nts)
  then show ?case by (cases p) (auto simp: fmlookup_put_tokens)
qed simp

context working_cluster
begin

lemma runs_existing:
  "runs (ExistingConfigTokens E (GetNamespace x) (ChildName x)) w
     (\<lambda>r es w'. (r = Inr (recovered (st w) x) \<and> obj w' = obj w) \<and> calm es)"
proof (cases "held_secret (st w) (child_key x)")
  case (Some data)
  then show ?thesis
    unfolding ExistingConfigTokens_def
    by (auto simp: recovered_def child_key_def intro!: runs_bind runs_source_read runs_return)
next
  case None
  with secret_missing obtain e where "api_GetSecret E (trace w) Cached (child_key x) = Inl e" "IsNotFound e" by blast
  with None show ?thesis
    unfolding ExistingConfigTokens_def cl_GetSecret_def
    by (auto simp: recovered_def child_key_def intro!: runs_bind runs_issue runs_return)
qed

lemma runs_resync: "runs (resyncAfter E s) w (\<lambda>r es w'. obj w' = obj w \<and> calm es)"
  unfolding resyncAfter_def Until_def Now_def by (intro runs_rules) auto

lemma ensure_units_calm:
  assumes "\<forall>g \<in> set regs. unit_possible (st w) (GetNamespace (obj w)) g \<and>
      unit_served E (st w) (GetNamespace (obj w)) g (unit_token (st w) (GetNamespace (obj w)) existing g)"
    and ca: "ca \<noteq> '''' \<longrightarrow> pem_has_certs E ca"
  shows "runs (ensure_units E None (GetNamespace (obj w)) existing ca regs tokens soonest) w
    (\<lambda>r es w'. ((\<exists>soon. r = Inr (put_tokens (map (\<lambda>g. (reg_Name g, unit_token (st w) (GetNamespace (obj w)) existing g)) regs) tokens, soon)) \<and>
       obj w' = obj w) \<and> calm es)"
  using assms
proof (induction regs arbitrary: w tokens soonest)
  case Nil
  then show ?case by (auto intro!: runs_return)
next
  case (Cons g regs)
  let ?ns = "GetNamespace (obj w)" let ?t = "unit_token (st w) (GetNamespace (obj w)) existing g"
  have "runs (ensure_unit E None ?ns existing ca g) w (\<lambda>r es w'. ((\<exists>e. r = Inr (?t, e)) \<and> obj w' = obj w) \<and> calm es)"
    by (rule runs_conseq [OF served_step [OF _ _ ca]]) (use Cons.prems(1) in \<open>auto simp: unit_token_def\<close>)
  from runs_calm [OF this] show ?case
    unfolding ensure_units.simps
  proof (rule runs_bind [OF runs_conseq], elim exE conjE)
    fix r :: "goerr + token_expiry" and es1 :: "event list" and e and w1 :: world
    assume 1: "r = Inr (?t, e)" "obj w1 = obj w" "st w1 = st w" "calm es1"
    have "\<forall>g \<in> set regs. unit_possible (st w1) (GetNamespace (obj w1)) g \<and>
        unit_served E (st w1) (GetNamespace (obj w1)) g (unit_token (st w1) (GetNamespace (obj w1)) existing g)"
      using Cons.prems(1) by (simp add: 1)
    from Cons.IH [OF this ca, of "fmupd (reg_Name g) ?t tokens" "sooner soonest e", unfolded 1(2,3)]
    show "runs (case r of Inl err \<Rightarrow> ret (Inl err)
        | Inr (token, expiry) \<Rightarrow> ensure_units E None ?ns existing ca regs (fmupd (reg_Name g) token tokens) (sooner soonest expiry)) w1
        (\<lambda>r es2 w2. ((\<exists>soon. r = Inr (put_tokens (map (\<lambda>g. (reg_Name g, unit_token (st w) ?ns existing g)) (g # regs)) tokens, soon)) \<and>
           obj w2 = obj w) \<and> calm (es1 @ es2))"
      unfolding 1(1) sum.case prod.case by (rule runs_conseq) (use 1(4) in auto)
  qed
qed

text \<open>The whole step, for units that may have to be created and for units that are all served.\<close>

lemma runners_step:
  assumes "possible_units E (st w) (obj w)" and "core (obj w) (held_object (st w))" and "ca \<noteq> '''' \<longrightarrow> pem_has_certs E ca"
  shows "runs (ensureRunners E None ca) w
    (\<lambda>r es w'. \<exists>ts d. r = Inr (Some (put_tokens (zip (map reg_Name (RegistrationConfig (obj w'))) ts) fmempty), d) \<and>
       list_all2 (unit_served E (st w') (GetNamespace (obj w'))) (RegistrationConfig (obj w')) ts \<and>
       auth_frame E (obj w) (st w) (obj w') (st w'))"
  unfolding ensureRunners_def Let_def
proof (rule runs_bind, rule runs_get_obj, rule runs_bind, rule runs_conseq [OF runs_calm [OF runs_existing]], elim conjE)
  fix r :: "goerr + string gomap" and es1 :: "event list" and w1 :: world
  assume 1: "r = Inr (recovered (st w) (obj w))" "obj w1 = obj w" "st w1 = st w"
  have "runs (ensure_units E None (GetNamespace (obj w1)) (recovered (st w) (obj w)) ca (RegistrationConfig (obj w)) fmempty None) w1
      (\<lambda>r es w'. \<exists>regs' ts soon. r = Inr (put_tokens (zip (map reg_Name regs') ts) fmempty, soon) \<and>
        RegistrationConfig (obj w') = [] @ regs' \<and> list_all2 (unit_served E (st w') (GetNamespace (obj w1))) regs' ts \<and>
        auth_frame E (obj w1) (st w1) (obj w') (st w'))"
    by (rule ensure_units_step) (use assms in \<open>simp_all add: 1 possible_units_def token_of_def\<close>)
  then show "runs (case r of Inl err \<Rightarrow> ret (Inl (err_wrap ''cannot read existing config secret'' err))
      | Inr existing \<Rightarrow>
          do { r \<leftarrow> ensure_units E None (GetNamespace (obj w)) existing ca (RegistrationConfig (obj w)) fmempty None;
               case r of Inl err \<Rightarrow> ret (Inl err)
               | Inr (tokens, soonest) \<Rightarrow> do { d \<leftarrow> resyncAfter E soonest; ret (Inr (Some tokens, d)) } }) w1
      (\<lambda>r es w'. \<exists>ts d. r = Inr (Some (put_tokens (zip (map reg_Name (RegistrationConfig (obj w'))) ts) fmempty), d) \<and>
        list_all2 (unit_served E (st w') (GetNamespace (obj w'))) (RegistrationConfig (obj w')) ts \<and>
        auth_frame E (obj w) (st w) (obj w') (st w'))"
    unfolding 1 sum.case
  proof (rule runs_bind [OF runs_conseq], elim exE conjE)
    fix r :: "goerr + (string, string) fmap \<times> time option" and es2 :: "event list" and regs' ts soon and w2 :: world
    assume 2: "r = Inr (put_tokens (zip (map reg_Name regs') ts) fmempty, soon)" "RegistrationConfig (obj w2) = [] @ regs'"
      "list_all2 (unit_served E (st w2) (GetNamespace (obj w))) regs' ts" "auth_frame E (obj w) (st w) (obj w2) (st w2)"
    then have ns: "GetNamespace (obj w2) = GetNamespace (obj w)" by (auto simp: auth_frame_def core_def)
    show "runs (case r of Inl err \<Rightarrow> ret (Inl err)
        | Inr (tokens, soonest) \<Rightarrow> do { d \<leftarrow> resyncAfter E soonest; ret (Inr (Some tokens, d)) }) w2
        (\<lambda>r es w'. \<exists>ts d. r = Inr (Some (put_tokens (zip (map reg_Name (RegistrationConfig (obj w'))) ts) fmempty), d) \<and>
          list_all2 (unit_served E (st w') (GetNamespace (obj w'))) (RegistrationConfig (obj w')) ts \<and>
          auth_frame E (obj w) (st w) (obj w') (st w'))"
      unfolding 2(1) sum.case prod.case
      by (rule runs_bind, rule runs_conseq [OF runs_calm [OF runs_resync]], rule runs_return)
         (use 2(2-4) ns in auto)
  qed
qed

lemma runners_calm:
  assumes "possible_units E (st w) (obj w)" and "settled_units E (st w) (obj w)" and "ca \<noteq> '''' \<longrightarrow> pem_has_certs E ca"
  shows "runs (ensureRunners E None ca) w
    (\<lambda>r es w'. ((\<exists>d. r = Inr (Some (tokens_at (st w) (obj w)), d)) \<and> obj w' = obj w) \<and> calm es)"
  unfolding ensureRunners_def Let_def
proof (rule runs_bind, rule runs_get_obj, rule runs_bind, rule runs_conseq [OF runs_calm [OF runs_existing]], elim conjE)
  fix r :: "goerr + string gomap" and es1 :: "event list" and w1 :: world
  assume 1: "r = Inr (recovered (st w) (obj w))" "obj w1 = obj w" "st w1 = st w" "calm es1"
  have "runs (ensure_units E None (GetNamespace (obj w1)) (recovered (st w) (obj w)) ca (RegistrationConfig (obj w)) fmempty None) w1
      (\<lambda>r es w'. ((\<exists>soon. r = Inr (put_tokens (map (\<lambda>g. (reg_Name g, unit_token (st w1) (GetNamespace (obj w1)) (recovered (st w) (obj w)) g))
          (RegistrationConfig (obj w))) fmempty, soon)) \<and> obj w' = obj w1) \<and> calm es)"
    by (rule ensure_units_calm) (use assms in \<open>simp_all add: 1 possible_units_def settled_units_def token_of_def\<close>)
  then show "runs (case r of Inl err \<Rightarrow> ret (Inl (err_wrap ''cannot read existing config secret'' err))
      | Inr existing \<Rightarrow>
          do { r \<leftarrow> ensure_units E None (GetNamespace (obj w)) existing ca (RegistrationConfig (obj w)) fmempty None;
               case r of Inl err \<Rightarrow> ret (Inl err)
               | Inr (tokens, soonest) \<Rightarrow> do { d \<leftarrow> resyncAfter E soonest; ret (Inr (Some tokens, d)) } }) w1
      (\<lambda>r es w'. ((\<exists>d. r = Inr (Some (tokens_at (st w) (obj w)), d)) \<and> obj w' = obj w) \<and> calm ([] @ es1 @ es))"
    unfolding 1 sum.case tokens_at_def token_of_def
    by (rule runs_bind [OF runs_conseq], elim exE conjE, simp only: sum.case prod.case)
       (rule runs_bind, rule runs_conseq [OF runs_resync], rule runs_return, use 1(4) in auto)
qed

end

text \<open>Once the tokens of a step are in the Secret, every unit is settled with the same tokens.\<close>

definition sources_apart :: "RunnerInfo \<Rightarrow> bool" where
  "sources_apart x =
     (ca_apart (ChildName x) (CACertificate x) \<and>
      (\<forall>g \<in> set (RegistrationConfig x). token_apart (ChildName x) (auth_Token (reg_Auth g)) \<and>
         token_apart (ChildName x) (auth_AccessToken (reg_Auth g))))"

lemma settled_by_secret:
  assumes served: "list_all2 (unit_served E c (GetNamespace x)) (RegistrationConfig x) ts"
    and names: "distinct (map reg_Name (RegistrationConfig x))" and "sources_apart x"
    and data: "held_secret c' (child_key x) =
      Some (desired_secret_data toml (Some (put_tokens (zip (map reg_Name (RegistrationConfig x)) ts) fmempty)) ca)"
    and same: "same_sources (child_key x) c c'" and "valid_tokens c \<subseteq> valid_tokens c'"
  shows "settled_units E c' x" and "tokens_at c' x = put_tokens (zip (map reg_Name (RegistrationConfig x)) ts) fmempty"
proof -
  let ?regs = "RegistrationConfig x" let ?names = "map reg_Name (RegistrationConfig x)"
  have len: "length ts = length ?regs" using served by (simp add: list_all2_lengthD)
  have known: "known_token c' (GetNamespace x) (auth_Token (reg_Auth g)) = known_token c (GetNamespace x) (auth_Token (reg_Auth g))"
    if "g \<in> set ?regs" for g
    using known_token_same [of "GetNamespace x" "ChildName x" c c'] that assms(3) same
    by (auto simp: sources_apart_def child_key_def)
  have tok: "token_of c' x (?regs ! i) = ts ! i" if i: "i < length ?regs" for i
  proof -
    have "unit_served E c (GetNamespace x) (?regs ! i) (ts ! i)"
      using served i by (simp add: list_all2_conv_all_nth)
    moreover have "map_get_or '''' (recovered c' x) (reg_Name (?regs ! i)) = ts ! i"
    proof -
      have "(reg_Name (?regs ! i), ts ! i) \<in> set (zip ?names ts)"
        using i len by (auto simp: set_zip intro!: exI [of _ i])
      then have "fmlookup (put_tokens (zip ?names ts) fmempty) (reg_Name (?regs ! i)) = Some (ts ! i)"
        using names len by (intro fmlookup_put_token) simp_all
      then show ?thesis
        by (simp add: recovered_def data map_get_or_def config_secret.tokens_render map_get_def [of "Some _"])
    qed
    ultimately show ?thesis
      using known [of "?regs ! i"] i by (auto simp: token_of_def unit_token_def unit_served_def)
  qed
  show "settled_units E c' x"
    unfolding settled_units_def
  proof
    fix g assume "g \<in> set ?regs"
    then obtain i where i: "i < length ?regs" "g = ?regs ! i" by (auto simp: in_set_conv_nth)
    have "unit_served E c (GetNamespace x) g (ts ! i)" using served i by (simp add: list_all2_conv_all_nth)
    then show "unit_served E c' (GetNamespace x) g (token_of c' x g)"
      using tok i known [of g] assms(6) \<open>g \<in> set ?regs\<close> by (auto simp: unit_served_def split: if_splits)
  qed
  have "map (\<lambda>g. (reg_Name g, token_of c' x g)) ?regs = zip ?names ts"
    by (rule nth_equalityI) (use tok len in auto)
  then show "tokens_at c' x = put_tokens (zip ?names ts) fmempty" by (simp add: tokens_at_def)
qed

end
