(* ===== verification/Workload_Steps.thy ===== *)
theory Workload_Steps
  imports Token_Supply
begin

text \<open>
  The rest of a pass in a working cluster: the Secret and the Deployment (\<open>internal/validate\<close>), the flag
  and the condition, and the deferred status write of the two reconcilers.
\<close>

section \<open>What an object of the cluster should have\<close>

text \<open>The pass's view of the object, and the object as a pass without an error leaves it.\<close>

definition cleared :: "RunnerInfo \<Rightarrow> RunnerInfo" where
  "cleared x = (let y = SetStatusReady False (SetStatusError '''' x) in SetObservedGeneration (GetGeneration y) y)"

definition made_ready :: "env \<Rightarrow> time \<Rightarrow> string \<Rightarrow> RunnerInfo \<Rightarrow> RunnerInfo" where
  "made_ready E t version x =
     SetReadyCondition E t True ''Reconciled'' ''runner is ready'' (SetStatusReady True (SetConfigMapVersion version x))"

definition toml_of :: "env \<Rightarrow> RunnerInfo \<Rightarrow> (string, string) fmap \<Rightarrow> string" where
  "toml_of E x tokens = (case toml_encode E (rendered_config E x (Some tokens)) of Inr text \<Rightarrow> text | Inl e \<Rightarrow> '''')"

definition version_of :: "env \<Rightarrow> RunnerInfo \<Rightarrow> (string, string) fmap \<Rightarrow> string \<Rightarrow> string" where
  "version_of E x tokens ca = StringToSHA1 (hash_input (toml_of E x tokens) ca)"

definition data_of :: "env \<Rightarrow> RunnerInfo \<Rightarrow> (string, string) fmap \<Rightarrow> string \<Rightarrow> string gomap" where
  "data_of E x tokens ca = desired_secret_data (toml_of E x tokens) (Some tokens) ca"

definition deployed :: "env \<Rightarrow> RunnerInfo \<Rightarrow> string \<Rightarrow> cluster \<Rightarrow> bool" where
  "deployed E x version c =
     (\<exists>d. held_deployment c (child_key x) = Some d \<and> \<not> deployment_changed E (SetConfigMapVersion version x) d)"

lemma core_cleared [simp]: "core (cleared x) x"
  unfolding cleared_def Let_def by (meson core_setters core_trans)

lemma core_made_ready [simp]: "core (made_ready E t v x) x"
  unfolding made_ready_def by (meson core_setters core_trans)

lemma regs_made_ready [simp]:
  "RegistrationConfig (made_ready E t v x) = RegistrationConfig x" "RegistrationConfig (cleared x) = RegistrationConfig x"
  by (simp_all add: made_ready_def cleared_def Let_def)

lemma is_ready_made_ready [simp]: "is_ready (made_ready E t v x)"
  by (simp add: made_ready_def)

lemma ready_status_made_ready [simp]: "ready_status (GetStatus (made_ready E t v x))"
  using is_ready_made_ready [of E t v x] by (simp only: is_ready_def)

lemma of_core:
  assumes "core x y"
  shows "toml_of E x = toml_of E y" "version_of E x = version_of E y" "data_of E x = data_of E y"
    "deployed E x = deployed E y"
proof -
  show toml: "toml_of E x = toml_of E y" by (intro ext) (simp add: toml_of_def core_rendered [OF assms])
  then show "version_of E x = version_of E y" "data_of E x = data_of E y"
    by (simp_all add: fun_eq_iff version_of_def data_of_def)
  have "deployment_changed E (SetConfigMapVersion v x) d = deployment_changed E (SetConfigMapVersion v y) d" for v d
    by (rule wanted_core(2) [OF core_trans [OF core_setters(3) core_trans [OF assms core_sym [OF core_setters(3)]]]]) simp
  then show "deployed E x = deployed E y"
    using core_keys(2) [OF assms] by (simp add: fun_eq_iff deployed_def)
qed

text \<open>A status depends on the status it was set from.\<close>

lemma status_setters:
  assumes "GetStatus x = GetStatus y" and "GetGeneration x = GetGeneration y"
  shows "GetStatus (SetConfigMapVersion v x) = GetStatus (SetConfigMapVersion v y)"
    "GetStatus (SetStatusReady b x) = GetStatus (SetStatusReady b y)"
    "GetStatus (SetStatusError e x) = GetStatus (SetStatusError e y)"
    "GetStatus (SetObservedGeneration n x) = GetStatus (SetObservedGeneration n y)"
    "GetStatus (SetReadyCondition E t b r m x) = GetStatus (SetReadyCondition E t b r m y)"
  using assms by (cases x; cases y; simp add: Runner_GetStatus_def MultiRunner_GetStatus_def status_setter_defs
    Runner_SetReadyCondition_def MultiRunner_SetReadyCondition_def GetGeneration_def)+

lemma generation_setters [simp]:
  "GetGeneration (SetConfigMapVersion v x) = GetGeneration x" "GetGeneration (SetStatusReady b x) = GetGeneration x"
  "GetGeneration (SetStatusError e x) = GetGeneration x" "GetGeneration (SetObservedGeneration n x) = GetGeneration x"
  "GetGeneration (SetReadyCondition E t b r m x) = GetGeneration x" "GetGeneration (fst (TomlConfig E x ts ca)) = GetGeneration x"
  by (simp_all add: GetGeneration_def TomlConfig_keeps)

text \<open>Clearing a ready status and making it ready again gives the status back.\<close>

lemma ready_again:
  assumes once: "\<And>t t' cs c. lib_SetStatusCondition E t' (lib_SetStatusCondition E t cs c) c = lib_SetStatusCondition E t cs c"
    and "core y x" and "GetStatus y = GetStatus (made_ready E t v (cleared x))"
  shows "GetStatus (made_ready E t' v (cleared y)) = GetStatus y"
  using assms(2,3) core_meta(4) [OF assms(2)]
  by (elim core_cases) (auto simp: made_ready_def cleared_def Let_def status_setter_defs Runner_SetReadyCondition_def
      MultiRunner_SetReadyCondition_def setReadyCondition_def once GetGeneration_def Runner_GetStatus_def MultiRunner_GetStatus_def)

lemma fetched_status:
  assumes "GetStatus y = GetStatus (made_ready E t v (cleared (with_status_maps x)))"
  shows "GetStatus (with_status_maps y) = GetStatus y"
proof (cases x)
  case (RunnerObj r)
  with assms show ?thesis
    by (cases y) (auto simp: made_ready_def cleared_def Let_def Runner_GetStatus_def MultiRunner_GetStatus_def)
next
  case (MultiRunnerObj r)
  have idem: "non_nil (non_nil m) = non_nil m" for m :: "'a gomap" by (simp add: non_nil_def split: option.split)
  from MultiRunnerObj assms show ?thesis
    by (cases y) (auto simp: made_ready_def cleared_def Let_def status_setter_defs Runner_GetStatus_def MultiRunner_GetStatus_def
      MultiRunner_SetReadyCondition_def init_status_maps_def idem)
qed

text \<open>An object with the parts of another that a pass keeps, up to the configuration hash and the flags.\<close>

definition like :: "RunnerInfo \<Rightarrow> RunnerInfo \<Rightarrow> bool" where
  "like y x = (\<exists>v. core v x \<and> RegistrationConfig v = RegistrationConfig x \<and> GetStatus y = GetStatus v \<and>
     GetName y = GetName x \<and> GetNamespace y = GetNamespace x \<and> is_multi y = is_multi x)"

context working_cluster
begin

lemma rendered_here: "snd (TomlConfig E x (Some tokens) ca) = Inr (toml_of E x tokens, version_of E x tokens ca)"
proof -
  obtain s where "toml_encode E (rendered_config E x (Some tokens)) = Inr s" using encodes by blast
  then show ?thesis by (simp add: TomlConfig_renders render_config_def toml_of_def version_of_def)
qed

text \<open>The Secret and the Deployment of an object with the key of \<open>x\<close>.\<close>

lemma secret_put:
  assumes "child_key (obj w) = child_key x"
  shows "runs (validate_Secret E toml tokens ca) w
    (\<lambda>r es w'. obj w' = obj w \<and> snd r = None \<and>
       (if held_secret (st w) (child_key x) = Some (desired_secret_data toml tokens ca)
        then fst r = None \<and> calm es
        else fst r = RequeueNow \<and>
             st w' = (st w)\<lparr>held_secret := (held_secret (st w))(child_key x := Some (desired_secret_data toml tokens ca))\<rparr>))"
proof (cases "held_secret (st w) (child_key x)")
  case None
  with secret_missing obtain e where e: "api_GetSecret E (trace w) Cached (child_key x) = Inl e" "IsNotFound e" by blast
  have k: "nsname (GetNamespace (obj w)) (ChildName (obj w)) = child_key x"
    using assms by (simp add: child_key_def)
  have "api_CreateSecret E (trace w @ [GetSecret Cached (child_key x) (Inl e)])
      \<lparr>sec_Meta = ObjectMeta_zero\<lparr>om_Name := ChildName (obj w), om_Namespace := GetNamespace (obj w),
         om_OwnerReferences := GenerateOwnerReference (obj w)\<rparr>, sec_Type = ''Opaque'',
       sec_Data = desired_secret_data toml tokens ca\<rparr> = None"
    by (rule secret_created) (simp add: None k meta_key_def)
  with None e k show ?thesis
    unfolding validate_Secret_def Let_def call_defs
    by (auto simp: meta_key_def RequeueNow_def intro!: runs_bind runs_get_obj runs_issue runs_return)
next
  case (Some data)
  with secret_found [of "trace w" "child_key x" data Cached] obtain s
    where s: "api_GetSecret E (trace w) Cached (child_key x) = Inr s" "sec_Data s = data" "meta_key (sec_Meta s) = child_key x" by blast
  have k: "nsname (GetNamespace (obj w)) (ChildName (obj w)) = child_key x"
    using assms by (simp add: child_key_def)
  have "api_UpdateSecret E (trace w @ [GetSecret Cached (child_key x) (Inr s)]) (s\<lparr>sec_Data := desired_secret_data toml tokens ca\<rparr>) = None"
    by (rule secret_updated) (simp add: Some s)
  with Some s k show ?thesis
    unfolding validate_Secret_def Let_def call_defs
    by (auto simp: RequeueNow_def intro!: runs_bind runs_get_obj runs_issue runs_return)
qed

lemma deployment_stored:
  assumes "stored_as E d live"
  shows "deployment_changed E x live = deployment_changed E x d"
  using assms by (simp add: deployment_changed_def stored_as_def map_get_or_def)

lemma wanted_unchanged: "\<not> deployment_changed E x (wantedDeployment x)"
  by (simp add: deployment_changed_def wantedDeployment_def wanted_template_def manager_annotations_def map_get_or_def map_get_def
    shapes_equal ConfigVersionAnnotationKey_def SystemIDAnnotationKey_def)

lemma deployment_put:
  "runs (validate_Deployment E z) w
    (\<lambda>r es w'. obj w' = obj w \<and> snd r = None \<and>
       (if \<exists>d. held_deployment (st w) (child_key z) = Some d \<and> \<not> deployment_changed E z d
        then fst r = None \<and> calm es
        else fst r = RequeueNow \<and>
             (\<exists>d. \<not> deployment_changed E z d \<and>
                st w' = (st w)\<lparr>held_deployment := (held_deployment (st w))(child_key z := Some d)\<rparr>)))"
proof (cases "held_deployment (st w) (child_key z)")
  case None
  with deployment_missing obtain e where e: "api_GetDeployment E (trace w) (child_key z) = Inl e" "IsNotFound e" by blast
  have k: "meta_key (dep_Meta (wantedDeployment z)) = child_key z"
    by (simp add: wantedDeployment_def meta_key_def child_key_def)
  have "api_CreateDeployment E (trace w @ [GetDeployment (child_key z) (Inl e)]) (wantedDeployment z) = None"
    by (rule deployment_created) (simp add: None k)
  with None e k wanted_unchanged [of z] show ?thesis
    unfolding validate_Deployment_def call_defs child_key_def [symmetric]
    by (auto simp: RequeueNow_def intro!: runs_bind runs_issue runs_return exI [of _ "wantedDeployment z"])
next
  case (Some d)
  with deployment_found [of "trace w" "child_key z" d] obtain live
    where live: "api_GetDeployment E (trace w) (child_key z) = Inr live" "stored_as E d live" by blast
  let ?wanted = "at_version (om_ResourceVersion (dep_Meta live)) (wantedDeployment z)"
  let ?tr = "trace w @ [GetDeployment (child_key z) (Inr live)]"
  have k: "meta_key (dep_Meta ?wanted) = child_key z"
    by (simp add: wantedDeployment_def meta_key_def child_key_def at_version_def)
  have "\<exists>live. api_UpdateDeployment E ?tr ?wanted = Inr live \<and> stored_as E ?wanted live"
    by (rule deployment_updated) (simp add: Some k)
  then obtain up where up: "api_UpdateDeployment E ?tr ?wanted = Inr up" "stored_as E ?wanted up" by blast
  have eq: "sem_eq_shape E (ManagerPodShape (dep_Template (wantedDeployment z))) (ManagerPodShape (dep_Template up))"
    using up(2) shapes_equal by (simp add: stored_as_def at_version_def)
  have un: "\<not> deployment_changed E z ?wanted"
    using wanted_unchanged [of z] by (simp add: deployment_changed_def at_version_def)
  show ?thesis
    unfolding validate_Deployment_def call_defs child_key_def [symmetric] Let_def at_version_def [symmetric]
    using Some live up k eq un deployment_stored [OF live(2)]
    by (auto simp: RequeueNow_def intro!: runs_bind runs_issue runs_return exI [of _ ?wanted])
qed

lemma runs_calm_state:
  assumes "runs m w Q"
  shows "runs m w (\<lambda>r es w'. Q r es w' \<and> (calm es \<longrightarrow> st w' = st w))"
  using assms by (simp add: runs_iff calm_state)

lemma runs_validate:
  assumes "runs step w (\<lambda>r es w1. snd r = None \<and> (if b then fst r = None \<and> R es w1 else fst r = RequeueNow \<and> N w1))"
    and "\<And>w1 res es. N w1 \<Longrightarrow> \<not> b \<Longrightarrow> ctrl_Requeue res \<Longrightarrow> Q (res, None) es w1"
    and "\<And>es w1. R es w1 \<Longrightarrow> b \<Longrightarrow> runs rest w1 (\<lambda>r fs w2. Q r (es @ fs) w2)"
  shows "runs (validate_step E reason step rest) w Q"
  unfolding validate_step_def
proof (rule runs_bind, rule runs_conseq [OF assms(1)], rule runs_case_prod, rule runs_if)
  fix r :: "Result option \<times> goerr option" and es res err and w1 :: world
  assume r: "snd r = None \<and> (if b then fst r = None \<and> R es w1 else fst r = RequeueNow \<and> N w1)" "r = (res, err)" "res \<noteq> None \<or> err \<noteq> None"
  then have "\<not> b" "N w1" "err = None" "\<exists>x. res = Some x \<and> ctrl_Requeue x"
    by (auto simp: RequeueNow_def split: if_splits)
  then show "runs (do { _ \<leftarrow> (case err of Some e \<Rightarrow> set_ready_condition E False reason (err_text e) | None \<Rightarrow> ret ());
      ret (deref_result res err) }) w1 (\<lambda>y fs w2. Q y (es @ fs) w2)"
    using assms(2) by (auto simp: deref_result_def intro!: runs_bind runs_return)
next
  fix r :: "Result option \<times> goerr option" and es res err and w1 :: world
  assume "snd r = None \<and> (if b then fst r = None \<and> R es w1 else fst r = RequeueNow \<and> N w1)" "r = (res, err)" "\<not> (res \<noteq> None \<or> err \<noteq> None)"
  then show "runs rest w1 (\<lambda>y fs w2. Q y (es @ fs) w2)" using assms(3) by (auto simp: RequeueNow_def split: if_splits)
qed

text \<open>
  From the rendering on: the Secret is put in place, or the Deployment, or both are there and the object
  is made ready.
\<close>

lemma converge_step:
  assumes x: "obj w = x"
  shows "runs (converge_workload E (Some tokens) d ca) w
    (\<lambda>r es w'. like (obj w') x \<and> snd r = None \<and>
       (if held_secret (st w) (child_key x) \<noteq> Some (data_of E x tokens ca)
        then ctrl_Requeue (fst r) \<and>
          st w' = (st w)\<lparr>held_secret := (held_secret (st w))(child_key x := Some (data_of E x tokens ca))\<rparr>
        else if \<not> deployed E x (version_of E x tokens ca) (st w)
        then ctrl_Requeue (fst r) \<and> (\<exists>dep. \<not> deployment_changed E (SetConfigMapVersion (version_of E x tokens ca) x) dep \<and>
               st w' = (st w)\<lparr>held_deployment := (held_deployment (st w))(child_key x := Some dep)\<rparr>)
        else calm es \<and> \<not> ctrl_Requeue (fst r) \<and>
             (\<exists>t. GetStatus (obj w') = GetStatus (made_ready E t (version_of E x tokens ca) x))))"
proof -
  let ?v = "version_of E x tokens ca" and ?data = "data_of E x tokens ca"
  let ?y = "fst (TomlConfig E x (Some tokens) ca)"
  let ?z = "SetConfigMapVersion ?v ?y"
  let ?secret = "held_secret (st w) (child_key x) = Some ?data"
  let ?dep = "\<exists>d. held_deployment (st w) (child_key ?z) = Some d \<and> \<not> deployment_changed E ?z d"
  let ?Q = "\<lambda>(r :: Result \<times> goerr option) es w'. like (obj w') x \<and> snd r = None \<and>
       (if \<not> ?secret then ctrl_Requeue (fst r) \<and> st w' = (st w)\<lparr>held_secret := (held_secret (st w))(child_key x := Some ?data)\<rparr>
        else if \<not> deployed E x ?v (st w)
        then ctrl_Requeue (fst r) \<and> (\<exists>dep. \<not> deployment_changed E (SetConfigMapVersion ?v x) dep \<and>
               st w' = (st w)\<lparr>held_deployment := (held_deployment (st w))(child_key x := Some dep)\<rparr>)
        else calm es \<and> \<not> ctrl_Requeue (fst r) \<and> (\<exists>t. GetStatus (obj w') = GetStatus (made_ready E t ?v x)))"
  have meta: "GetName ?z = GetName x" "GetNamespace ?z = GetNamespace x" "is_multi ?z = is_multi x"
    by (simp_all add: GetName_def GetNamespace_meta TomlConfig_keeps)
  then have key: "child_key ?z = child_key x" by (simp add: child_key_def ChildName_meta)
  have dep: "?dep = deployed E x ?v (st w)" by (simp add: deployed_def key rendered_object(2))
  have status: "GetStatus ?z = GetStatus (SetConfigMapVersion ?v x)"
    by (rule status_setters) (simp_all add: TomlConfig_keeps)
  have z: "like ?z x"
    unfolding like_def by (rule exI [of _ "SetConfigMapVersion ?v x"]) (simp add: status meta TomlConfig_keeps)
  have ready: "runs (mark_ready E d) w2 (\<lambda>r fs w3. ?Q r (es @ fs) w3)"
    if 2: "obj w2 = ?z" "st w2 = st w" "calm es" "?secret" "?dep" for es w2
  proof -
    have "GetStatus (SetReadyCondition E t True a b (SetStatusReady True ?z)) =
        GetStatus (SetReadyCondition E t True a b (SetStatusReady True (SetConfigMapVersion ?v x)))" for t a b
      by (intro status_setters) (simp_all add: TomlConfig_keeps)
    moreover have "like (SetReadyCondition E t True ''Reconciled'' ''runner is ready'' (SetStatusReady True ?z)) x" for t
      unfolding like_def
      by (rule exI [of _ "made_ready E t ?v x"])
         (simp add: calculation meta [unfolded GetName_def GetNamespace_meta] GetName_def GetNamespace_meta TomlConfig_keeps,
          simp add: made_ready_def calculation)
    ultimately show ?thesis
      unfolding mark_ready_def set_ready_condition_def
      using 2 dep
      by (auto simp: made_ready_def Result_zero_def DontRequeue_def deref_result_def
          intro!: runs_bind runs_modify_obj runs_observe runs_return)
  qed
  have rest: "runs (validate_step E ''DeploymentFailed'' (do { y \<leftarrow> get_obj; validate_Deployment E y }) (mark_ready E d)) w2
      (\<lambda>r fs w3. ?Q r (es @ fs) w3)" if 2: "obj w2 = ?z" "st w2 = st w" "calm es" "?secret" for es w2
  proof (rule runs_validate [where b = ?dep and R = "\<lambda>es w1. calm es \<and> obj w1 = ?z \<and> st w1 = st w" and
        N = "\<lambda>w1. obj w1 = ?z \<and> (\<exists>d. \<not> deployment_changed E ?z d \<and>
          st w1 = (st w)\<lparr>held_deployment := (held_deployment (st w))(child_key x := Some d)\<rparr>)"])
    show "runs (do { y \<leftarrow> get_obj; validate_Deployment E y }) w2 (\<lambda>r es w1. snd r = None \<and>
        (if ?dep then fst r = None \<and> calm es \<and> obj w1 = ?z \<and> st w1 = st w
         else fst r = RequeueNow \<and> obj w1 = ?z \<and> (\<exists>d. \<not> deployment_changed E ?z d \<and>
           st w1 = (st w)\<lparr>held_deployment := (held_deployment (st w))(child_key x := Some d)\<rparr>)))"
      by (rule runs_bind, rule runs_get_obj, rule runs_conseq [OF runs_calm_state [OF deployment_put]])
         (use 2(1,2) key in \<open>simp split: if_splits\<close>)
  next
    fix w1 and res :: Result and fs
    assume "obj w1 = ?z \<and> (\<exists>d. \<not> deployment_changed E ?z d \<and>
        st w1 = (st w)\<lparr>held_deployment := (held_deployment (st w))(child_key x := Some d)\<rparr>)" "\<not> ?dep" "ctrl_Requeue res"
    then show "?Q (res, None) (es @ fs) w1"
      using z 2(4) unfolding dep by (auto simp: rendered_object(2))
  next
    fix fs w1 assume 3: "calm fs \<and> obj w1 = ?z \<and> st w1 = st w" "?dep"
    have "runs (mark_ready E d) w1 (\<lambda>r gs w2. ?Q r ((es @ fs) @ gs) w2)"
      by (rule ready) (use 2(3,4) 3 in auto)
    then show "runs (mark_ready E d) w1 (\<lambda>r gs w2. ?Q r (es @ fs @ gs) w2)"
      unfolding append_assoc .
  qed
  have "runs (validate_step E ''ConfigSecretFailed'' (validate_Secret E (toml_of E x tokens) (Some tokens) ca)
      (validate_step E ''DeploymentFailed'' (do { y \<leftarrow> get_obj; validate_Deployment E y }) (mark_ready E d))) (w\<lparr>obj := ?z\<rparr>) ?Q"
  proof (rule runs_validate [where b = ?secret and R = "\<lambda>es w1. calm es \<and> obj w1 = ?z \<and> st w1 = st w" and
        N = "\<lambda>w1. obj w1 = ?z \<and> st w1 = (st w)\<lparr>held_secret := (held_secret (st w))(child_key x := Some ?data)\<rparr>"])
    show "runs (validate_Secret E (toml_of E x tokens) (Some tokens) ca) (w\<lparr>obj := ?z\<rparr>) (\<lambda>r es w1. snd r = None \<and>
        (if ?secret then fst r = None \<and> calm es \<and> obj w1 = ?z \<and> st w1 = st w
         else fst r = RequeueNow \<and> obj w1 = ?z \<and>
           st w1 = (st w)\<lparr>held_secret := (held_secret (st w))(child_key x := Some ?data)\<rparr>))"
      by (rule runs_conseq [OF runs_calm_state [OF secret_put [where x = x]]])
         (use key in \<open>simp_all add: data_of_def split: if_splits\<close>)
  next
    fix w1 and res :: Result and es
    assume "obj w1 = ?z \<and> st w1 = (st w)\<lparr>held_secret := (held_secret (st w))(child_key x := Some ?data)\<rparr>" "\<not> ?secret"
      "ctrl_Requeue res"
    then show "?Q (res, None) es w1" using z by simp
  next
    fix es w1 assume "calm es \<and> obj w1 = ?z \<and> st w1 = st w" "?secret"
    then show "runs (validate_step E ''DeploymentFailed'' (do { y \<leftarrow> get_obj; validate_Deployment E y }) (mark_ready E d)) w1
        (\<lambda>r fs w3. ?Q r (es @ fs) w3)" using rest by blast
  qed
  note body = this
  show ?thesis
    unfolding converge_workload_def
    by (rule runs_bind, rule runs_get_obj, unfold Let_def split_beta x rendered_here sum.case prod.case fst_conv snd_conv,
        rule runs_bind, rule runs_modify_obj, rule runs_bind, rule runs_modify_obj)
       (use body in \<open>simp cong: if_cong split del: if_split\<close>)
qed

end

section \<open>The ends of a pass: fetching the object and writing its status\<close>

definition fetch_of :: "env \<Rightarrow> bool \<Rightarrow> NSName \<Rightarrow> (goerr + RunnerInfo) go" where
  "fetch_of E multi = (if multi then MultiRunner_fetch E else SingleRunner E)"

lemma runs_retry:
  assumes "retry_laws E" and "runs m w (\<lambda>r es w'. r = None \<and> Q es w')"
  shows "runs (retry_on_conflict E m) w (\<lambda>r es w'. r = None \<and> Q es w')"
proof -
  obtain n where n: "\<And>m. retry_on_conflict E m = retry_attempts n m"
    using assms(1) by (auto simp: retry_laws_def)
  have "runs (retry_attempts n m) w (\<lambda>r es w'. r = None \<and> Q es w')"
  proof (cases n)
    case (Suc k)
    then show ?thesis
      by (simp, intro runs_bind, rule_tac runs_conseq [OF assms(2)]) (auto intro: runs_return)
  qed (simp add: assms(2))
  then show ?thesis by (simp add: n)
qed

lemma SetStatus_same_kind:
  assumes "core v y" and "GetStatus v = s"
  obtains z where "SetStatus s y = Some z" and "GetStatus z = s" and "core z y"
  using assms that
  by (elim core_cases) (auto simp: Runner_SetStatus_def MultiRunner_SetStatus_def Runner_GetStatus_def MultiRunner_GetStatus_def
      core_def spec_of_def GetName_def GetUID_def GetGeneration_def GetNamespace_meta Runner_IsBeingDeleted_def
      MultiRunner_IsBeingDeleted_def)

lemma status_view_view:
  assumes "GetStatus v = status_view u"
  shows "status_view v = GetStatus v"
proof -
  have idem: "non_nil (non_nil m) = non_nil m" for m :: "'a gomap" by (simp add: non_nil_def split: option.split)
  from assms show ?thesis
    by (cases u; cases v) (auto simp: status_view_def Runner_GetStatus_def MultiRunner_GetStatus_def init_status_maps_def idem)
qed

context working_cluster
begin

lemma fetch_step:
  assumes "object_key (held_object (st w)) = k" and "is_multi (held_object (st w)) = multi"
  shows "runs (fetch_of E multi k) w
    (\<lambda>r es w'. (r = Inr (with_status_maps (held_object (st w))) \<and> obj w' = obj w) \<and> calm es)"
proof (cases multi)
  case True
  with assms object_read [of "trace w"] show ?thesis
    by (cases "api_GetMultiRunner E (trace w) k")
       (auto simp: fetch_of_def ask_object_def MultiRunner_fetch_def cl_GetMultiRunner_def intro!: runs_bind runs_issue runs_return)
next
  case False
  then obtain r where r: "held_object (st w) = RunnerObj r"
    using assms(2) by (cases "held_object (st w)") (auto simp: is_multi_def)
  with assms object_read [of "trace w"] False show ?thesis
    by (cases "api_GetRunner E (trace w) k")
       (auto simp: fetch_of_def ask_object_def SingleRunner_def cl_GetRunner_def intro!: runs_issue)
qed

text \<open>The write stores the status of the pass's object, unless it is there already.\<close>

lemma write_step:
  assumes x: "like (obj w) x" and held: "core x (held_object (st w))"
  shows "runs (write_status E (fetch_of E (is_multi x))) w
    (\<lambda>r es w'. \<exists>h v. st w' = (st w)\<lparr>held_object := h\<rparr> \<and> core h (held_object (st w)) \<and>
       HasFinalizer E h = HasFinalizer E (held_object (st w)) \<and>
       core v x \<and> GetStatus v = GetStatus (obj w) \<and> status_view h = status_view v \<and>
       (GetStatus (obj w) = status_view (held_object (st w)) \<longrightarrow> calm es))"
proof -
  let ?h = "held_object (st w)" and ?y = "obj w"
  let ?Q = "\<lambda>es w'. \<exists>h v. st w' = (st w)\<lparr>held_object := h\<rparr> \<and> core h ?h \<and> HasFinalizer E h = HasFinalizer E ?h \<and>
       core v x \<and> GetStatus v = GetStatus ?y \<and> status_view h = status_view v \<and>
       (GetStatus ?y = status_view ?h \<longrightarrow> calm es)"
  obtain v where v: "core v x" "GetStatus ?y = GetStatus v" using x by (auto simp: like_def)
  have key: "object_key ?h = nsname (GetNamespace ?y) (GetName ?y)"
    using x core_keys(1) [OF held] by (auto simp: like_def object_key_def)
  have new: "core v (with_status_maps ?h)" using v(1) held by (meson core_fetched core_sym core_trans)
  obtain z where z: "SetStatus (GetStatus ?y) (with_status_maps ?h) = Some z" "GetStatus z = GetStatus ?y"
      "core z (with_status_maps ?h)"
    using SetStatus_same_kind [OF new v(2) [symmetric]] .
  have zx: "core z ?h" "core z x" using z(3) held by (meson core_fetched core_sym core_trans)+
  have once: "runs (write_status_once E (fetch_of E (is_multi x)) ?y) w (\<lambda>r es w'. r = None \<and> ?Q es w')"
    unfolding write_status_once_def key [symmetric] core_multi [OF held]
  proof (rule runs_bind, rule runs_conseq [OF runs_calm [OF fetch_step [OF refl refl]]])
    fix r :: "goerr + RunnerInfo" and es1 :: "event list" and w1 :: world
    assume 1: "(r = Inr (with_status_maps ?h) \<and> obj w1 = ?y) \<and> calm es1 \<and> st w1 = st w"
    show "runs (case r of Inl err \<Rightarrow> ret (Some err)
        | Inr new \<Rightarrow> (if GetStatus ?y = GetStatus new then ret None
            else case SetStatus (GetStatus ?y) new of None \<Rightarrow> ret (Some nil_status) | Some y \<Rightarrow> cl_UpdateStatusOf E y)) w1
        (\<lambda>r es2 w'. r = None \<and> ?Q (es1 @ es2) w')"
    proof (cases "GetStatus ?y = status_view ?h")
      case True
      have "status_view ?h = status_view v"
        using v(2) True status_view_view [of v ?h] by simp
      with 1 True v have "?Q (es1 @ []) w1"
        by (intro exI [of _ ?h] exI [of _ v]) simp
      with 1 True show ?thesis
        by (simp add: status_view_def runs_return)
    next
      case False
      from 1 status_updated [of z "trace w1"] zx(1) obtain h where h:
        "ask_update_status E z (trace w1) = Inr h" "core h ?h" "HasFinalizer E h = HasFinalizer E ?h" "status_view h = status_view z"
        by auto
      let ?ev = "UpdateObjectStatus z (Inr h)"
      have "?Q (es1 @ [?ev]) (w1\<lparr>trace := trace w1 @ [?ev]\<rparr>)"
        using 1 False h z zx by (intro exI [of _ h] exI [of _ z]) simp
      with 1 False h(1) z(1) show ?thesis
        by (auto simp: status_view_def cl_UpdateStatusOf_def intro!: runs_bind runs_issue runs_return)
    qed
  qed
  show ?thesis
    unfolding write_status_def
    by (rule runs_bind, rule runs_get_obj, rule runs_bind, rule runs_conseq [OF runs_retry [OF retries once]], rule runs_return) simp
qed

lemma enforce_step:
  assumes "all_allowed allowed (obj w)"
  shows "runs (enforceAllowedBuildNamespaces E rd allowed) w (\<lambda>r es w'. r = (True, None) \<and> es = [] \<and> w' = w)"
  unfolding enforceAllowedBuildNamespaces_def BuildNamespaces_def Let_def
proof (rule runs_bind, rule runs_get_obj, unfold append_Nil, rule runs_range_keys_bind, rule runs_case_prod)
  fix ys keep bad
  assume ys: "mset ys = mset (build_namespace_keys (obj w))"
    and split: "split_allowed (GetNamespace (obj w)) allowed ys [] '''' = (keep, bad)"
  have "bad = ''''"
    using split_allowed_bad [of "GetNamespace (obj w)" allowed ys "[]" "''''"] split assms mset_eq_setD [OF ys]
    by (simp add: all_allowed_def)
  then show "runs (if bad = '''' then ret (True, None)
      else do { _ \<leftarrow> modify_obj (SetStatusError (not_permitted_message bad (GetNamespace (obj w))));
                _ \<leftarrow> set_ready_condition E False ''ExecutorNamespaceNotAllowed'' (not_permitted_message bad (GetNamespace (obj w)));
                x' \<leftarrow> get_obj; err \<leftarrow> DeleteRBACExcept E rd x' (DesiredBindings x' keep); ret (False, err) }) w
      (\<lambda>r es w'. r = (True, None) \<and> es = [] \<and> w' = w)"
    by (auto intro: runs_return)
qed

end

end
