(* ===== verification/Bring_Up_Goal.thy ===== *)
theory Bring_Up_Goal
  imports Workload_Steps
begin

text \<open>
  What has to hold for an object to be deployed, how far it has come, and that a step of a pass which
  writes the Secret has brought it further.
\<close>

section \<open>What a deployment of an object needs, and how far it has come\<close>

definition ca_at :: "cluster \<Rightarrow> RunnerInfo \<Rightarrow> string" where
  "ca_at c x = (case known_ca c (GetNamespace x) (CACertificate x) of Some ca \<Rightarrow> ca | None \<Rightarrow> '''')"

text \<open>
  An object that can be deployed: it is not being deleted, its namespaces are allowed, its credentials and
  its CA are there, and none of them is the Secret that the operator writes.
\<close>

definition deployable :: "env \<Rightarrow> string list \<Rightarrow> cluster \<Rightarrow> RunnerInfo \<Rightarrow> bool" where
  "deployable E allowed c x =
     (\<not> IsBeingDeleted x \<and> all_allowed allowed x \<and> (\<forall>ns \<in> set (build_namespace_keys x). CHR ''/'' \<notin> set ns) \<and>
      sources_apart x \<and> possible_units E c x \<and> proper (set (held_bindings c)) \<and>
      known_ca c (GetNamespace x) (CACertificate x) = Some (ca_at c x) \<and> (ca_at c x \<noteq> '''' \<longrightarrow> pem_has_certs E (ca_at c x)))"

definition secret_done :: "env \<Rightarrow> cluster \<Rightarrow> RunnerInfo \<Rightarrow> bool" where
  "secret_done E c x =
     (settled_units E c x \<and> held_secret c (child_key x) = Some (data_of E x (tokens_at c x) (ca_at c x)))"

definition workload_done :: "env \<Rightarrow> cluster \<Rightarrow> RunnerInfo \<Rightarrow> bool" where
  "workload_done E c x = deployed E x (version_of E x (tokens_at c x) (ca_at c x)) c"

text \<open>The passes that write something for the object: its finalizer, its Secret, its Deployment.\<close>

definition passes_left :: "env \<Rightarrow> cluster \<Rightarrow> nat" where
  "passes_left E c =
     (let x = held_object c in
      if \<not> HasFinalizer E x then 3 else if \<not> secret_done E c x then 2 else if \<not> workload_done E c x then 1 else 0)"

text \<open>The runner is up: all that the object stands for is there, and its status says so.\<close>

definition runner_up :: "env \<Rightarrow> cluster \<Rightarrow> bool" where
  "runner_up E c =
     (let x = held_object c in
      HasFinalizer E x \<and> secret_done E c x \<and> workload_done E c x \<and> rbac_here E x c \<and> is_ready x)"

text \<open>Nothing is left to do: what the pass would write is there, the status included.\<close>

definition rested :: "env \<Rightarrow> cluster \<Rightarrow> bool" where
  "rested E c =
     (let x = held_object c in
      HasFinalizer E x \<and> secret_done E c x \<and> workload_done E c x \<and> rbac_here E x c \<and>
      (\<forall>t. GetStatus (made_ready E t (version_of E x (tokens_at c x) (ca_at c x)) (cleared (with_status_maps x))) = status_view x))"

section \<open>Objects that differ in what none of this reads\<close>

definition alike :: "RunnerInfo \<Rightarrow> RunnerInfo \<Rightarrow> bool" where
  "alike x y = (core x y \<and> RegistrationConfig x = RegistrationConfig y)"

lemma alike_refl [simp]: "alike x x"
  and alike_sym: "alike x y \<Longrightarrow> alike y x"
  and alike_trans: "alike x y \<Longrightarrow> alike y z \<Longrightarrow> alike x z"
  by (auto simp: alike_def intro: core_sym core_trans)

lemma alike_views [simp]: "alike (with_status_maps x) x" "alike (cleared x) x"
  by (simp_all add: alike_def)

text \<open>What is held, up to the object itself.\<close>

abbreviation with_object :: "RunnerInfo \<Rightarrow> cluster \<Rightarrow> cluster" where
  "with_object h c \<equiv> c\<lparr>held_object := h\<rparr>"

lemma known_frame [simp]:
  "known_token (with_object h c) = known_token c" "known_ca (with_object h c) = known_ca c"
  by (intro ext; simp add: known_token_def known_ca_def split: option.split)+

lemma unit_frame [simp]:
  "unit_possible (with_object h c) = unit_possible c" "unit_served E (with_object h c) = unit_served E c"
  "unit_token (with_object h c) = unit_token c"
  by (simp_all add: fun_eq_iff unit_possible_def unit_served_def unit_token_def)

lemma object_frame [simp]:
  "recovered (with_object h c) = recovered c" "token_of (with_object h c) = token_of c"
  "tokens_at (with_object h c) = tokens_at c" "settled_units E (with_object h c) = settled_units E c"
  "possible_units E (with_object h c) = possible_units E c" "ca_at (with_object h c) = ca_at c"
  "deployed E x v (with_object h c) = deployed E x v c" "rbac_here E x (with_object h c) = rbac_here E x c"
  by (simp_all add: fun_eq_iff recovered_def token_of_def tokens_at_def settled_units_def possible_units_def ca_at_def deployed_def
      rbac_here_def)

lemma goal_frame [simp]:
  "deployable E allowed (with_object h c) = deployable E allowed c" "secret_done E (with_object h c) = secret_done E c"
  "workload_done E (with_object h c) = workload_done E c"
  by (simp_all add: fun_eq_iff deployable_def secret_done_def workload_done_def)

lemma alike_units:
  assumes "alike x y"
  shows "recovered c x = recovered c y" "token_of c x = token_of c y" "tokens_at c x = tokens_at c y"
    "settled_units E c x = settled_units E c y" "possible_units E c x = possible_units E c y" "ca_at c x = ca_at c y"
proof -
  have c: "core x y" "RegistrationConfig x = RegistrationConfig y" using assms by (simp_all add: alike_def)
  note k = core_keys [OF c(1)]
  show r: "recovered c x = recovered c y" by (simp add: recovered_def k)
  then show t: "token_of c x = token_of c y" by (simp add: fun_eq_iff token_of_def k)
  show "tokens_at c x = tokens_at c y" "settled_units E c x = settled_units E c y"
    "possible_units E c x = possible_units E c y" "ca_at c x = ca_at c y"
    by (simp_all add: tokens_at_def settled_units_def possible_units_def ca_at_def t c(2) k)
qed

lemma core_rbac:
  assumes c: "core x y"
  shows "rbac_here E x c = rbac_here E y c"
proof -
  note u = core_same_unit [OF c]
  have "rbacLabels x = rbacLabels y" using c by (simp add: rbacLabels_def core_def)
  then show ?thesis
    by (simp add: rbac_here_def rbac_settled_def same_unit_keys [OF u] same_unit_DesiredBindings [OF u] core_keys(2) [OF c])
qed

lemma alike_goals:
  assumes "alike x y"
  shows "deployable E allowed c x = deployable E allowed c y" "secret_done E c x = secret_done E c y"
    "workload_done E c x = workload_done E c y" "rbac_here E x c = rbac_here E y c"
proof -
  have c: "core x y" "RegistrationConfig x = RegistrationConfig y" using assms by (simp_all add: alike_def)
  note facts = alike_units [OF assms] core_keys [OF c(1)] of_core [OF c(1)] core_same_unit [OF c(1)]
  show "rbac_here E x c = rbac_here E y c" by (rule core_rbac [OF c(1)])
  show "secret_done E c x = secret_done E c y" "workload_done E c x = workload_done E c y"
    by (simp_all add: secret_done_def workload_done_def facts)
  have "IsBeingDeleted x = IsBeingDeleted y" using c(1) by (simp add: core_def)
  then show "deployable E allowed c x = deployable E allowed c y"
    by (simp add: deployable_def facts same_unit_allowed [OF facts(16)] same_unit_keys [OF facts(16)] sources_apart_def c(2))
qed

section \<open>What the RBAC step leaves alone\<close>

definition inside :: "cluster \<Rightarrow> _" where
  "inside c = (held_object c, held_secret c, held_config_map c, held_deployment c, valid_tokens c)"

lemma rbac_call_inside: "rbac_call P e \<Longrightarrow> inside (change c e) = inside c"
  by (cases e) (simp_all add: inside_def split: sum.split)

lemma inside_state: "\<forall>e \<in> set es. rbac_call P e \<Longrightarrow> inside (cluster_after c es) = inside c"
  by (induction es arbitrary: c) (simp_all add: rbac_call_inside [of P])

section \<open>What a pass has achieved\<close>

definition brought :: "env \<Rightarrow> string list \<Rightarrow> cluster \<Rightarrow> RunnerInfo \<Rightarrow> cluster \<Rightarrow> bool" where
  "brought E allowed c x c' =
     (core x (held_object c) \<and> core x (held_object c') \<and> HasFinalizer E (held_object c') = HasFinalizer E (held_object c) \<and>
      deployable E allowed c' x \<and> secret_done E c' x \<and> rbac_here E x c')"

lemma unit_names:
  assumes "core x y"
  shows "map reg_Name (RegistrationConfig x) = map reg_Name (RegistrationConfig y)"
    "map reg_Auth (RegistrationConfig x) = map reg_Auth (RegistrationConfig y)"
proof -
  have "unit_view x = unit_view y" using core_same_unit [OF assms] by (simp add: same_unit_def)
  then have "map fst (unit_view x) = map fst (unit_view y)" "map snd (unit_view x) = map snd (unit_view y)" by simp_all
  then show "map reg_Name (RegistrationConfig x) = map reg_Name (RegistrationConfig y)"
    "map reg_Auth (RegistrationConfig x) = map reg_Auth (RegistrationConfig y)"
    by (simp_all add: unit_view_def o_def)
qed

lemma sources_apart_core: "core x y \<Longrightarrow> sources_apart x = sources_apart y"
proof -
  assume c: "core x y"
  have "sources_apart x = (ca_apart (ChildName x) (CACertificate x) \<and>
      (\<forall>a \<in> set (map reg_Auth (RegistrationConfig x)). token_apart (ChildName x) (auth_Token a) \<and> token_apart (ChildName x) (auth_AccessToken a)))" for x
    by (simp add: sources_apart_def)
  then show ?thesis by (simp only: unit_names(2) [OF c] core_keys [OF c])
qed

lemma advance:
  assumes dep: "deployable E allowed c x" and auth: "auth_frame E x c x2 c1"
    and served: "list_all2 (unit_served E c1 (GetNamespace x2)) (RegistrationConfig x2) ts"
    and tokens: "tokens = put_tokens (zip (map reg_Name (RegistrationConfig x2)) ts) fmempty"
    and same: "same_sources (child_key x2) c1 c3" and valid: "valid_tokens c1 \<subseteq> valid_tokens c3"
    and bindings: "proper (set (held_bindings c3))"
    and secret: "held_secret c3 (child_key x2) = Some (data_of E x2 tokens (ca_at c x))"
  shows "deployable E allowed c3 x2" "secret_done E c3 x2" "tokens_at c3 x2 = tokens" "ca_at c3 x2 = ca_at c x"
proof -
  have c: "core x2 x" using auth by (simp add: auth_frame_def)
  note k = core_keys [OF c] and u = core_same_unit [OF c]
  note n = unit_names [OF c]
  have dist: "distinct (map reg_Name (RegistrationConfig x2))"
    using dep by (simp add: n deployable_def possible_units_def)
  have apart: "sources_apart x2" using dep by (simp add: sources_apart_core [OF c] deployable_def)
  show toks: "tokens_at c3 x2 = tokens"
    using settled_by_secret(2) [OF served dist apart _ same valid] secret by (simp add: data_of_def tokens)
  have settled: "settled_units E c3 x2"
    using settled_by_secret(1) [OF served dist apart _ same valid] secret by (simp add: data_of_def tokens)
  have srcs: "same_sources (child_key x2) c c3"
    using same auth by (simp add: same_sources_def auth_frame_def outside_def)
  have known: "known_ca c3 (GetNamespace x2) (CACertificate x2) = known_ca c (GetNamespace x) (CACertificate x)"
    using known_ca_same [OF srcs [unfolded child_key_def]] apart by (simp add: sources_apart_def k)
  then show ca: "ca_at c3 x2 = ca_at c x" by (simp add: ca_at_def)
  show "secret_done E c3 x2" using settled secret by (simp add: secret_done_def toks ca)
  have "unit_possible c3 (GetNamespace x2) g" if "g \<in> set (RegistrationConfig x2)" for g
  proof -
    have "known_token c3 (GetNamespace x2) (auth_Token (reg_Auth g)) = known_token c (GetNamespace x2) (auth_Token (reg_Auth g))"
      "known_token c3 (GetNamespace x2) (auth_AccessToken (reg_Auth g)) = known_token c (GetNamespace x2) (auth_AccessToken (reg_Auth g))"
      using known_token_same [OF srcs [unfolded child_key_def]] apart that by (simp_all add: sources_apart_def)
    moreover have "reg_Auth g \<in> set (map reg_Auth (RegistrationConfig x))" using that n(2) by (metis imageI set_map)
    then obtain g' where "g' \<in> set (RegistrationConfig x)" "reg_Auth g' = reg_Auth g" by auto
    moreover from this have "unit_possible c (GetNamespace x2) g'" using dep by (simp add: deployable_def possible_units_def k)
    ultimately show ?thesis by (auto simp: unit_possible_def split: if_splits)
  qed
  then have "possible_units E c3 x2" using dist settled by (auto simp: possible_units_def settled_units_def)
  moreover have "IsBeingDeleted x2 = IsBeingDeleted x" using c by (simp add: core_def)
  ultimately show "deployable E allowed c3 x2"
    using dep apart bindings known by (simp add: deployable_def ca same_unit_allowed [OF u] same_unit_keys [OF u])
qed

context working_cluster
begin

lemma rbac_frame:
  assumes "proper (set (held_bindings (st w)))" and "\<forall>ns \<in> set (build_namespace_keys x). CHR ''/'' \<notin> set ns"
  shows "runs (CreateRBACIfMissing E x) w (\<lambda>r es w'. r = None \<and> rbac_here E x (st w') \<and> proper (set (held_bindings (st w'))) \<and>
    inside (st w') = inside (st w) \<and> obj w' = obj w)"
proof -
  have "runs (CreateRBACIfMissing E x) w (\<lambda>r es w'. inside (st w') = inside (st w))"
    using emitsD [OF emits_CreateRBAC [of x E], of w] inside_state [of _ "wanted_binding x"] by (simp add: runs_iff)
  from runs_conj [OF rbac_step [OF assms] runs_keeps [OF keeps_CreateRBAC this]] show ?thesis
    by (rule runs_conseq) simp
qed

text \<open>The pass up to its three long steps.\<close>

lemma provision_runs:
  assumes dep: "deployable E (rec_AllowedBuildNamespaces R) (st w) (obj w)"
    and steps: "\<And>es w1. calm es \<Longrightarrow> obj w1 = cleared (obj w) \<Longrightarrow> st w1 = st w \<Longrightarrow>
      runs (do { rs \<leftarrow> ensureRunners E (rec_GitlabApiClient R) (ca_at (st w) (obj w));
                 case rs of Inl e \<Rightarrow> fail_pass E (err_text e) ''AuthFailed'' e
                 | Inr (tokens, d) \<Rightarrow>
                     do { y \<leftarrow> get_obj; rb \<leftarrow> CreateRBACIfMissing E y;
                          case rb of Some e \<Rightarrow> fail_pass E ''Cannot create the rbac objects'' ''RBACFailed'' e
                          | None \<Rightarrow> converge_workload E tokens d (ca_at (st w) (obj w)) } }) w1
        (\<lambda>r fs w'. Q r (es @ fs) w')"
  shows "runs (provision E R) w Q"
proof -
  let ?c = "cleared (obj w)" let ?w = "w\<lparr>obj := ?c\<rparr>"
  have c: "core ?c (obj w)" "alike ?c (obj w)" by simp_all
  have allowed: "all_allowed (rec_AllowedBuildNamespaces R) (obj ?w)"
    using dep same_unit_allowed [OF core_same_unit [OF c(1)]] by (simp add: deployable_def)
  have ca: "known_ca (st ?w) (GetNamespace (obj ?w)) (CACertificate (obj ?w)) = Some (ca_at (st w) (obj w))"
    using dep by (simp add: deployable_def core_keys [OF c(1)])
  have body: "runs (do { (ok, err) \<leftarrow> enforceAllowedBuildNamespaces E Uncached (rec_AllowedBuildNamespaces R);
      case err of Some e \<Rightarrow> ret (resultRequeueAfterDefaultTimeout, Some e)
      | None \<Rightarrow>
          (if \<not> ok then ret (deref_result DontRequeue None)
           else do { x \<leftarrow> get_obj;
                     ca \<leftarrow> resolveCABundle E Uncached (GetNamespace x) (CACertificate x);
                     case ca of
                       Inl e \<Rightarrow> fail_pass E (err_text e) ''CAResolveFailed'' e
                     | Inr caPEM \<Rightarrow>
                         do { rs \<leftarrow> ensureRunners E (rec_GitlabApiClient R) caPEM;
                              case rs of Inl e \<Rightarrow> fail_pass E (err_text e) ''AuthFailed'' e
                              | Inr (tokens, d) \<Rightarrow>
                                  do { y \<leftarrow> get_obj; rb \<leftarrow> CreateRBACIfMissing E y;
                                       case rb of Some e \<Rightarrow> fail_pass E ''Cannot create the rbac objects'' ''RBACFailed'' e
                                       | None \<Rightarrow> converge_workload E tokens d caPEM } } }) }) ?w Q"
  proof (rule runs_bind, rule runs_conseq [OF enforce_step [OF allowed]], elim conjE, simp only: prod.case option.case simp_thms if_False,
      rule runs_bind, rule runs_get_obj, rule runs_bind, rule runs_conseq [OF runs_calm [OF runs_conseq [OF runs_known_ca [OF ca]]]])
    fix r :: "goerr + string" and es :: "event list" and w' :: world
    assume "r = Inr (ca_at (st w) (obj w)) \<and> calm es \<and> obj w' = obj ?w"
    then show "(r = Inr (ca_at (st w) (obj w)) \<and> obj w' = ?c) \<and> calm es" by simp
  qed (use steps in auto)
  have c: "?c = SetObservedGeneration (GetGeneration (SetStatusReady False (SetStatusError '''' (obj w))))
      (SetStatusReady False (SetStatusError '''' (obj w)))"
    by (simp add: cleared_def Let_def)
  show ?thesis
    unfolding provision_def
    by (rule runs_bind, rule runs_modify_obj, rule runs_bind, rule runs_modify_obj, rule runs_bind, rule runs_modify_obj)
       (use body in \<open>simp add: c\<close>)
qed

end

end
