(* ===== verification/Pass_Results.thy ===== *)
theory Pass_Results
  imports Cached_Reads
begin

text \<open>
  When a pass over an object that is not being deleted wants to run again, on every path that reports no
  error: at once, never, or, for a token that will end, after a time between one minute and one hour.
\<close>

definition no_rush :: "Result \<Rightarrow> bool" where
  "no_rush r = (\<not> ctrl_Requeue r \<and>
     (ctrl_RequeueAfter r = 0 \<or> (minute \<le> ctrl_RequeueAfter r \<and> ctrl_RequeueAfter r \<le> hour)))"

definition timed :: "Result \<times> goerr option \<Rightarrow> bool" where
  "timed r = (snd r = None \<longrightarrow> fst r = resultRequeueNow \<or> no_rush (fst r))"

definition always_timed :: "(Result \<times> goerr option) go \<Rightarrow> bool" where
  "always_timed m = (\<forall>w. runs m w (\<lambda>r es w'. timed r))"

lemma timed_return: "timed r \<Longrightarrow> always_timed (ret r)"
  by (auto simp: always_timed_def intro: runs_return)

lemma timed_bind_result:
  assumes "\<And>w. runs m w (\<lambda>r es w'. S r)" and "\<And>x. S x \<Longrightarrow> always_timed (f x)"
  shows "always_timed (State_Monad.bind m f)"
  unfolding always_timed_def
  by (intro allI runs_bind runs_conseq [OF assms(1)]) (use assms(2) in \<open>simp add: always_timed_def\<close>)

lemma timed_bind: "any_cache.agrees E m m' \<Longrightarrow> (\<And>x. always_timed (f x)) \<Longrightarrow> always_timed (State_Monad.bind m f)"
  by (rule timed_bind_result [OF any_cache.agrees_runs])

lemma timed_cases:
  "(c \<Longrightarrow> always_timed m) \<Longrightarrow> (\<not> c \<Longrightarrow> always_timed m') \<Longrightarrow> always_timed (if c then m else m')"
  "(\<And>e. x = Inl e \<Longrightarrow> always_timed (f e)) \<Longrightarrow> (\<And>v. x = Inr v \<Longrightarrow> always_timed (g v)) \<Longrightarrow>
     always_timed (case x of Inl e \<Rightarrow> f e | Inr v \<Rightarrow> g v)"
  "(y = None \<Longrightarrow> always_timed m) \<Longrightarrow> (\<And>z. y = Some z \<Longrightarrow> always_timed (h z)) \<Longrightarrow>
     always_timed (case y of None \<Rightarrow> m | Some z \<Rightarrow> h z)"
  "(\<And>i j. p = (i, j) \<Longrightarrow> always_timed (k i j)) \<Longrightarrow> always_timed (case p of (i, j) \<Rightarrow> k i j)"
  by (simp_all split: sum.split option.split prod.split)

lemma timed_fail: "always_timed (fail_pass E msg reason err)"
  unfolding fail_pass_def
  by (intro timed_bind [OF any_cache.agrees_modify_obj] timed_bind [OF any_cache.agrees_others(2)] timed_return)
     (simp add: timed_def)

text \<open>The two validation steps.\<close>

definition step_result :: "Result option \<times> goerr option \<Rightarrow> bool" where
  "step_result r = (snd r = None \<longrightarrow> fst r = None \<or> fst r = RequeueNow)"

lemma timed_step:
  assumes "\<And>w. runs m w (\<lambda>r es w'. step_result r)" and "always_timed rest"
  shows "always_timed (validate_step E reason m rest)"
  unfolding validate_step_def
  by (rule timed_bind_result [OF assms(1)])
     (auto intro!: timed_cases assms(2) timed_bind [OF any_cache.agrees_case_option] any_cache.agrees_return
        any_cache.agrees_others timed_return
      simp: step_result_def timed_def deref_result_def RequeueNow_def resultRequeueNow_def split: option.splits)

lemma step_results:
  "runs (validate_Secret E toml tokens ca) w (\<lambda>r es w'. step_result r)"
  "runs (do { y \<leftarrow> get_obj; validate_Deployment E y }) w (\<lambda>r es w'. step_result r)"
  unfolding validate_Secret_def validate_Deployment_def call_defs Let_def
  by (intro runs_rules; auto simp: step_result_def split: option.splits sum.splits)+

lemma timed_mark: "d = 0 \<or> minute \<le> d \<and> d \<le> hour \<Longrightarrow> always_timed (mark_ready E d)"
  unfolding mark_ready_def
  by (intro timed_bind [OF any_cache.agrees_modify_obj] timed_bind [OF any_cache.agrees_others(2)] timed_return)
     (auto simp: timed_def no_rush_def deref_result_def DontRequeue_def Result_zero_def)

lemma timed_converge: "d = 0 \<or> minute \<le> d \<and> d \<le> hour \<Longrightarrow> always_timed (converge_workload E tokens d ca)"
  unfolding converge_workload_def Let_def
  by (intro timed_bind [OF any_cache.agrees_get_obj] timed_bind [OF any_cache.agrees_modify_obj] timed_cases timed_fail
      timed_step [OF step_results(1)] timed_step [OF step_results(2)] timed_mark)

lemma timed_runners:
  assumes "\<And>e. always_timed (f (Inl e))" and "\<And>tokens d. d = 0 \<or> minute \<le> d \<and> d \<le> hour \<Longrightarrow> always_timed (f (Inr (tokens, d)))"
  shows "always_timed (State_Monad.bind (ensureRunners E None ca) f)"
proof (rule timed_bind_result)
  show "runs (ensureRunners E None ca) w (\<lambda>r es w'. \<forall>tokens d. r = Inr (tokens, d) \<longrightarrow> d = 0 \<or> minute \<le> d \<and> d \<le> hour)" for w
    by (rule runs_conseq [OF runs_ensureRunners_result]) blast
  show "always_timed (f r)" if "\<forall>tokens d. r = Inr (tokens, d) \<longrightarrow> d = 0 \<or> minute \<le> d \<and> d \<le> hour" for r
    using that assms by (cases r) auto
qed

lemma timed_provision:
  assumes "rec_GitlabApiClient R = None"
  shows "always_timed (provision E R)"
proof -
  have rbac: "always_timed (do { y \<leftarrow> get_obj; rb \<leftarrow> CreateRBACIfMissing E y;
      case rb of Some e \<Rightarrow> fail_pass E ''Cannot create the rbac objects'' ''RBACFailed'' e
        | None \<Rightarrow> converge_workload E tokens d ca })" if "d = 0 \<or> minute \<le> d \<and> d \<le> hour" for tokens d ca
    using that
    by (intro timed_bind [OF any_cache.agrees_get_obj] timed_bind [OF any_cache.agrees_CreateRBAC] timed_cases timed_fail
        timed_converge)
  have auth: "always_timed (do { rs \<leftarrow> ensureRunners E None ca;
      case rs of Inl e \<Rightarrow> fail_pass E (err_text e) ''AuthFailed'' e
        | Inr (tokens, d) \<Rightarrow> do { y \<leftarrow> get_obj; rb \<leftarrow> CreateRBACIfMissing E y;
            case rb of Some e \<Rightarrow> fail_pass E ''Cannot create the rbac objects'' ''RBACFailed'' e
              | None \<Rightarrow> converge_workload E tokens d ca } })" for ca
    by (rule timed_runners) (simp_all add: timed_fail rbac)
  show ?thesis
    unfolding provision_def assms
    by (intro timed_bind [OF any_cache.agrees_get_obj] timed_bind [OF any_cache.agrees_modify_obj] timed_cases timed_fail
        timed_bind [OF any_cache.agrees_enforce] timed_bind [OF any_cache.agrees_sources(2)] auth timed_return)
       (simp_all add: timed_def no_rush_def deref_result_def DontRequeue_def)
qed

lemma timed_live: "rec_GitlabApiClient R = None \<Longrightarrow> always_timed (reconcile_live E R)"
  unfolding reconcile_live_def
  by (intro timed_bind [OF any_cache.agrees_get_obj] timed_bind [OF any_cache.agrees_modify_obj] timed_cases
      timed_bind [OF any_cache.agrees_updates(2)] timed_provision timed_return; simp add: timed_def split: option.split)

lemma timed_pass:
  assumes "retry_laws E" and "rec_GitlabApiClient R = None" and "\<And>k. any_cache.agrees E (fetch k) (fetch' k)"
  shows "runs (do { res \<leftarrow> reconcile_live E R; _ \<leftarrow> write_status E fetch; ret res }) w (\<lambda>r es w'. timed r)"
proof -
  have "always_timed (do { _ \<leftarrow> write_status E fetch; ret res })" if "timed res" for res
    by (intro timed_bind [OF any_cache.agrees_write_status [OF assms(1,3)]] timed_return that)
  then have "always_timed (do { res \<leftarrow> reconcile_live E R; _ \<leftarrow> write_status E fetch; ret res })"
    by (intro timed_bind_result [OF timed_live [OF assms(2), unfolded always_timed_def, rule_format]])
  then show ?thesis by (simp add: always_timed_def)
qed

end
