(* ===== verification/Bring_Up.thy ===== *)
theory Bring_Up
  imports Bring_Up_Goal Pass_Results
begin

text \<open>
  Whole passes in a working cluster, one after the other: each asks for the next one at once until the
  runner is up; then it stays up, and after one more pass every pass only reads.
\<close>

context working_cluster
begin

lemma converge_brought:
  assumes dep: "deployable E allowed c x" and auth: "auth_frame E x c (obj w) c1"
    and served: "list_all2 (unit_served E c1 (GetNamespace (obj w))) (RegistrationConfig (obj w)) ts"
    and tokens: "tokens = put_tokens (zip (map reg_Name (RegistrationConfig (obj w))) ts) fmempty"
    and inside: "inside (st w) = inside c1" and bindings: "proper (set (held_bindings (st w)))"
    and ca: "ca = ca_at c x" and held: "core x (held_object c)" and rbac: "rbac_here E (obj w) (st w)"
  shows "runs (converge_workload E (Some tokens) d ca) w
    (\<lambda>r es w'. like (obj w') (obj w) \<and> snd r = None \<and> brought E allowed c (obj w) (st w') \<and>
       tokens_at (st w') (obj w) = tokens \<and> ca_at (st w') (obj w) = ca \<and>
       (ctrl_Requeue (fst r) \<or> workload_done E (st w') (obj w) \<and> is_ready (obj w')) \<and>
       (held_secret (st w) (child_key (obj w)) = Some (data_of E (obj w) tokens ca) \<longrightarrow>
          workload_done E (st w') (obj w) \<and>
          (deployed E (obj w) (version_of E (obj w) tokens ca) (st w) \<longrightarrow>
             calm es \<and> \<not> ctrl_Requeue (fst r) \<and>
             (\<exists>t. GetStatus (obj w') = GetStatus (made_ready E t (version_of E (obj w) tokens ca) (obj w))))))"
proof (rule runs_conseq [OF runs_calm_state [OF converge_step [OF refl]]], elim conjE)
  fix r :: "Result \<times> goerr option" and es and w' :: world
  let ?y = "obj w" let ?data = "data_of E ?y tokens ca" let ?v = "version_of E ?y tokens ca"
  assume like: "like (obj w') ?y" "snd r = None" and calm: "calm es \<longrightarrow> st w' = st w"
    and out: "if held_secret (st w) (child_key ?y) \<noteq> Some ?data
      then ctrl_Requeue (fst r) \<and> st w' = (st w)\<lparr>held_secret := (held_secret (st w))(child_key ?y := Some ?data)\<rparr>
      else if \<not> deployed E ?y ?v (st w)
      then ctrl_Requeue (fst r) \<and> (\<exists>dep. \<not> deployment_changed E (SetConfigMapVersion ?v ?y) dep \<and>
             st w' = (st w)\<lparr>held_deployment := (held_deployment (st w))(child_key ?y := Some dep)\<rparr>)
      else calm es \<and> \<not> ctrl_Requeue (fst r) \<and> (\<exists>t. GetStatus (obj w') = GetStatus (made_ready E t ?v ?y))"
  have same: "same_sources (child_key ?y) c1 (st w')" "valid_tokens c1 \<subseteq> valid_tokens (st w')"
    "proper (set (held_bindings (st w')))" "held_secret (st w') (child_key ?y) = Some ?data" "held_object (st w') = held_object c1"
    using out calm inside bindings by (auto simp: same_sources_def inside_def split: if_splits)
  note adv = advance [OF dep auth served tokens same(1-3) same(4) [unfolded ca]]
  have "core ?y (held_object c)"
    using auth held by (auto simp: auth_frame_def intro: core_trans)
  moreover have "rbac_here E ?y (st w')"
    using rbac out calm unfolding rbac_here_def by (auto split: if_splits)
  ultimately have b: "brought E allowed c ?y (st w')"
    using adv(1,2) auth same(5) by (simp add: brought_def auth_frame_def)
  have "workload_done E (st w') ?y" if "held_secret (st w) (child_key ?y) = Some ?data"
  proof (cases "deployed E ?y ?v (st w)")
    case True
    with out that calm show ?thesis unfolding workload_done_def adv(3,4) ca [symmetric] by simp
  next
    case False
    with out that obtain dep where "\<not> deployment_changed E (SetConfigMapVersion ?v ?y) dep"
      "st w' = (st w)\<lparr>held_deployment := (held_deployment (st w))(child_key ?y := Some dep)\<rparr>" by auto
    then show ?thesis unfolding workload_done_def adv(3,4) ca [symmetric] by (simp add: deployed_def)
  qed
  moreover have "ca_at (st w') ?y = ca" using adv(4) by (simp add: ca)
  moreover have "ctrl_Requeue (fst r) \<or> workload_done E (st w') ?y \<and> is_ready (obj w')"
    using out calculation(1) by (auto simp: is_ready_def split: if_splits)
  ultimately show "like (obj w') ?y \<and> snd r = None \<and> brought E allowed c ?y (st w') \<and>
      tokens_at (st w') ?y = tokens \<and> ca_at (st w') ?y = ca \<and>
      (ctrl_Requeue (fst r) \<or> workload_done E (st w') ?y \<and> is_ready (obj w')) \<and>
      (held_secret (st w) (child_key ?y) = Some ?data \<longrightarrow> workload_done E (st w') ?y \<and>
        (deployed E ?y ?v (st w) \<longrightarrow> calm es \<and> \<not> ctrl_Requeue (fst r) \<and>
          (\<exists>t. GetStatus (obj w') = GetStatus (made_ready E t ?v ?y))))"
    using like b out adv(3) by simp
qed

text \<open>A pass over an object with the finalizer puts the Secret in place, whatever was there.\<close>

lemma provision_step:
  assumes dep: "deployable E (rec_AllowedBuildNamespaces R) (st w) (obj w)" and held: "core (obj w) (held_object (st w))"
    and client: "rec_GitlabApiClient R = None"
  shows "runs (provision E R) w
    (\<lambda>r es w'. snd r = None \<and> (\<exists>y. like (obj w') y \<and> brought E (rec_AllowedBuildNamespaces R) (st w) y (st w') \<and>
       (ctrl_Requeue (fst r) \<or> workload_done E (st w') y \<and> is_ready (obj w'))))"
proof (rule provision_runs [OF dep])
  fix es :: "event list" and w1 :: world
  let ?c = "st w" and ?allowed = "rec_AllowedBuildNamespaces R"
  assume w1: "obj w1 = cleared (obj w)" "st w1 = ?c"
  have al: "alike (obj w1) (obj w)" by (simp add: w1)
  then have core: "core (obj w1) (held_object ?c)" using held by (auto simp: alike_def intro: core_trans)
  have dep1: "deployable E ?allowed (st w1) (obj w1)" using dep by (simp add: w1(2) alike_goals(1) [OF al])
  have ca: "ca_at ?c (obj w) = ca_at (st w1) (obj w1)" by (simp add: w1(2) alike_units(6) [OF al])
  have runners: "runs (ensureRunners E None (ca_at ?c (obj w))) w1
    (\<lambda>r es w'. \<exists>ts d. r = Inr (Some (put_tokens (zip (map reg_Name (RegistrationConfig (obj w'))) ts) fmempty), d) \<and>
       list_all2 (unit_served E (st w') (GetNamespace (obj w'))) (RegistrationConfig (obj w')) ts \<and>
       auth_frame E (obj w1) (st w1) (obj w') (st w'))"
    by (rule runners_step) (use dep1 core in \<open>simp_all add: deployable_def ca w1(2)\<close>)
  show "runs (do { rs \<leftarrow> ensureRunners E (rec_GitlabApiClient R) (ca_at ?c (obj w));
      case rs of Inl e \<Rightarrow> fail_pass E (err_text e) ''AuthFailed'' e
      | Inr (tokens, d) \<Rightarrow> do { y \<leftarrow> get_obj; rb \<leftarrow> CreateRBACIfMissing E y;
          case rb of Some e \<Rightarrow> fail_pass E ''Cannot create the rbac objects'' ''RBACFailed'' e
          | None \<Rightarrow> converge_workload E tokens d (ca_at ?c (obj w)) } }) w1
      (\<lambda>r fs w'. snd r = None \<and> (\<exists>y. like (obj w') y \<and> brought E ?allowed ?c y (st w') \<and>
        (ctrl_Requeue (fst r) \<or> workload_done E (st w') y \<and> is_ready (obj w'))))"
    unfolding client
  proof (rule runs_bind, rule runs_conseq [OF runners], elim exE conjE)
    fix rs :: "goerr + string gomap \<times> duration" and es2 :: "event list" and w2 :: world and ts d
    assume 2: "rs = Inr (Some (put_tokens (zip (map reg_Name (RegistrationConfig (obj w2))) ts) fmempty), d)"
      "list_all2 (unit_served E (st w2) (GetNamespace (obj w2))) (RegistrationConfig (obj w2)) ts"
      "auth_frame E (obj w1) (st w1) (obj w2) (st w2)"
    have u: "same_unit (obj w2) (obj w1)" using 2(3) by (simp add: auth_frame_def core_same_unit)
    have p: "proper (set (held_bindings (st w2)))" "\<forall>ns \<in> set (build_namespace_keys (obj w2)). CHR ''/'' \<notin> set ns"
      using 2(3) dep1 by (simp_all add: auth_frame_def outside_def deployable_def same_unit_keys [OF u])
    show "runs (case rs of Inl e \<Rightarrow> fail_pass E (err_text e) ''AuthFailed'' e
      | Inr (tokens, d) \<Rightarrow> do { y \<leftarrow> get_obj; rb \<leftarrow> CreateRBACIfMissing E y;
          case rb of Some e \<Rightarrow> fail_pass E ''Cannot create the rbac objects'' ''RBACFailed'' e
          | None \<Rightarrow> converge_workload E tokens d (ca_at ?c (obj w)) }) w2
      (\<lambda>r fs w'. snd r = None \<and> (\<exists>y. like (obj w') y \<and> brought E ?allowed ?c y (st w') \<and>
        (ctrl_Requeue (fst r) \<or> workload_done E (st w') y \<and> is_ready (obj w'))))"
      unfolding 2(1) sum.case prod.case
    proof (rule runs_bind, rule runs_get_obj, rule runs_bind, rule runs_conseq [OF rbac_frame [OF p]], elim conjE)
      fix rb :: "goerr option" and es3 :: "event list" and w3 :: world
      assume 3: "rb = None" "proper (set (held_bindings (st w3)))" "inside (st w3) = inside (st w2)" "obj w3 = obj w2"
        "rbac_here E (obj w2) (st w3)"
      show "runs (case rb of Some e \<Rightarrow> fail_pass E ''Cannot create the rbac objects'' ''RBACFailed'' e
          | None \<Rightarrow> converge_workload E (Some (put_tokens (zip (map reg_Name (RegistrationConfig (obj w2))) ts) fmempty)) d
              (ca_at ?c (obj w))) w3
          (\<lambda>r fs w'. snd r = None \<and> (\<exists>y. like (obj w') y \<and> brought E ?allowed ?c y (st w') \<and>
        (ctrl_Requeue (fst r) \<or> workload_done E (st w') y \<and> is_ready (obj w'))))"
        unfolding 3(1) option.case
        by (rule runs_conseq [OF converge_brought [OF dep1 _ _ refl 3(3,2) ca, unfolded 3(4), OF 2(3,2)]])
           (use core 3(5) in \<open>auto simp: w1(2)\<close>)
    qed
  qed
qed

text \<open>With the Secret in place the pass puts the Deployment in place, and with both it makes the object ready.\<close>

lemma rbac_quiet:
  assumes "proper (set (held_bindings (st w)))" and "\<forall>ns \<in> set (build_namespace_keys x). CHR ''/'' \<notin> set ns"
  shows "runs (CreateRBACIfMissing E x) w (\<lambda>r es w'. r = None \<and> rbac_here E x (st w') \<and> proper (set (held_bindings (st w'))) \<and>
    inside (st w') = inside (st w) \<and> obj w' = obj w \<and> (rbac_here E x (st w) \<longrightarrow> calm es))"
proof (cases "rbac_here E x (st w)")
  case True
  from rbac_still [OF this assms(1), unfolded still_def, rule_format, OF refl]
  have "runs (CreateRBACIfMissing E x) w (\<lambda>r es w'. calm es)" by (rule runs_conseq) simp
  from runs_conj [OF rbac_frame [OF assms] this] show ?thesis by (rule runs_conseq) simp
next
  case False
  then show ?thesis by (intro runs_conseq [OF rbac_frame [OF assms]]) simp
qed

lemma provision_settled:
  assumes dep: "deployable E (rec_AllowedBuildNamespaces R) (st w) (obj w)" and held: "core (obj w) (held_object (st w))"
    and client: "rec_GitlabApiClient R = None" and secret: "secret_done E (st w) (obj w)"
  shows "runs (provision E R) w
    (\<lambda>r es w'. snd r = None \<and> like (obj w') (cleared (obj w)) \<and>
       brought E (rec_AllowedBuildNamespaces R) (st w) (cleared (obj w)) (st w') \<and> workload_done E (st w') (cleared (obj w)) \<and>
       (ctrl_Requeue (fst r) \<or> is_ready (obj w')) \<and>
       (workload_done E (st w) (obj w) \<longrightarrow>
          \<not> ctrl_Requeue (fst r) \<and> (rbac_here E (obj w) (st w) \<longrightarrow> calm es) \<and>
          (\<exists>t. GetStatus (obj w') = GetStatus (made_ready E t
             (version_of E (obj w) (tokens_at (st w') (obj w)) (ca_at (st w') (obj w))) (cleared (obj w))))))"
proof (rule provision_runs [OF dep])
  fix es :: "event list" and w1 :: world
  let ?c = "st w" and ?allowed = "rec_AllowedBuildNamespaces R" and ?y = "cleared (obj w)"
  assume w1: "calm es" "obj w1 = cleared (obj w)" "st w1 = ?c"
  have al: "alike ?y (obj w)" and core0: "core ?y (obj w)" by simp_all
  note core = core_trans [OF core0 held]
  note eqs = alike_goals [OF al] alike_units [OF al] of_core [OF core0]
  have dep1: "deployable E ?allowed ?c ?y" "secret_done E ?c ?y" using dep secret by (simp_all add: eqs)
  have possible: "possible_units E (st w1) (obj w1)" "settled_units E (st w1) (obj w1)"
    "ca_at ?c (obj w) \<noteq> '''' \<longrightarrow> pem_has_certs E (ca_at ?c (obj w))"
    using dep1 by (simp_all add: w1 deployable_def secret_done_def eqs)
  let ?regs = "RegistrationConfig ?y" and ?tokens = "tokens_at ?c ?y" and ?ca = "ca_at ?c (obj w)"
  let ?ts = "map (token_of ?c ?y) ?regs"
  have served: "list_all2 (unit_served E ?c (GetNamespace ?y)) ?regs ?ts"
    using dep1(2) by (simp add: secret_done_def settled_units_def list_all2_conv_all_nth)
  have toks: "?tokens = put_tokens (zip (map reg_Name ?regs) ?ts) fmempty"
    by (simp add: tokens_at_def zip_map_map zip_same_conv_map o_def)
  have p: "\<forall>ns \<in> set (build_namespace_keys ?y). CHR ''/'' \<notin> set ns" "proper (set (held_bindings ?c))"
    using dep1 by (simp_all add: deployable_def)
  let ?P = "\<lambda>r es (w' :: world). snd r = None \<and> like (obj w') ?y \<and> brought E ?allowed ?c ?y (st w') \<and> workload_done E (st w') ?y \<and>
       (ctrl_Requeue (fst r) \<or> is_ready (obj w')) \<and>
       (workload_done E ?c (obj w) \<longrightarrow>
          \<not> ctrl_Requeue (fst r) \<and> (rbac_here E (obj w) ?c \<longrightarrow> calm es) \<and>
          (\<exists>t. GetStatus (obj w') = GetStatus (made_ready E t
             (version_of E (obj w) (tokens_at (st w') (obj w)) (ca_at (st w') (obj w))) ?y)))"
  show "runs (do { rs \<leftarrow> ensureRunners E (rec_GitlabApiClient R) ?ca;
      case rs of Inl e \<Rightarrow> fail_pass E (err_text e) ''AuthFailed'' e
      | Inr (tokens, d) \<Rightarrow> do { y \<leftarrow> get_obj; rb \<leftarrow> CreateRBACIfMissing E y;
          case rb of Some e \<Rightarrow> fail_pass E ''Cannot create the rbac objects'' ''RBACFailed'' e
          | None \<Rightarrow> converge_workload E tokens d ?ca } }) w1 (\<lambda>r fs w'. ?P r (es @ fs) w')"
    unfolding client
  proof (rule runs_bind, rule runs_conseq [OF runs_calm [OF runners_calm [OF possible]]], unfold w1(2,3), elim exE conjE)
    fix rs :: "goerr + string gomap \<times> duration" and es2 :: "event list" and w2 :: world and d
    assume 2: "rs = Inr (Some ?tokens, d)" "calm es2" "obj w2 = ?y" "st w2 = ?c"
    show "runs (case rs of Inl e \<Rightarrow> fail_pass E (err_text e) ''AuthFailed'' e
      | Inr (tokens, d) \<Rightarrow> do { y \<leftarrow> get_obj; rb \<leftarrow> CreateRBACIfMissing E y;
          case rb of Some e \<Rightarrow> fail_pass E ''Cannot create the rbac objects'' ''RBACFailed'' e
          | None \<Rightarrow> converge_workload E tokens d ?ca }) w2 (\<lambda>r fs w'. ?P r (es @ es2 @ fs) w')"
      unfolding 2(1) sum.case prod.case
    proof (rule runs_bind, rule runs_get_obj, unfold append_Nil 2(3), rule runs_bind,
        rule runs_conseq [OF rbac_quiet [OF p(2) [folded 2(4)] p(1)]], unfold 2(3,4), elim conjE)
      fix rb :: "goerr option" and es3 :: "event list" and w3 :: world
      assume 3: "rb = None" "rbac_here E ?y (st w3)" "proper (set (held_bindings (st w3)))" "inside (st w3) = inside ?c"
        "obj w3 = ?y" "rbac_here E ?y ?c \<longrightarrow> calm es3"
      have secret3: "held_secret (st w3) (child_key ?y) = Some (data_of E ?y ?tokens ?ca)"
        using dep1(2) 3(4) by (simp add: secret_done_def inside_def eqs)
      have dep3: "deployed E (obj w) v (st w3) = deployed E (obj w) v ?c" for v
        using 3(4) by (simp add: deployed_def inside_def)
      have ca: "?ca = ca_at ?c ?y" by (simp add: eqs)
      note conv = converge_brought [where w = w3 and c = ?c and x = ?y and ?c1.0 = ?c and ca = ?ca, unfolded 3(5),
          OF dep1(1) auth_frame_refl [OF core] served toks 3(4,3) ca core 3(2)]
      show "runs (case rb of Some e \<Rightarrow> fail_pass E ''Cannot create the rbac objects'' ''RBACFailed'' e
          | None \<Rightarrow> converge_workload E (Some ?tokens) d ?ca) w3 (\<lambda>r fs w'. ?P r (es @ es2 @ es3 @ fs) w')"
        unfolding 3(1) option.case
      proof (rule runs_conseq [OF runs_calm_state [OF conv]], elim conjE)
        fix r :: "Result \<times> goerr option" and es4 :: "event list" and w4 :: world
        assume 4: "like (obj w4) ?y" "snd r = None" "brought E ?allowed ?c ?y (st w4)" "tokens_at (st w4) ?y = ?tokens"
          "ca_at (st w4) ?y = ?ca" "calm es4 \<longrightarrow> st w4 = st w3"
          "ctrl_Requeue (fst r) \<or> workload_done E (st w4) ?y \<and> is_ready (obj w4)"
          and out: "held_secret (st w3) (child_key ?y) = Some (data_of E ?y ?tokens ?ca) \<longrightarrow> workload_done E (st w4) ?y \<and>
            (deployed E ?y (version_of E ?y ?tokens ?ca) (st w3) \<longrightarrow> calm es4 \<and> \<not> ctrl_Requeue (fst r) \<and>
              (\<exists>t. GetStatus (obj w4) = GetStatus (made_ready E t (version_of E ?y ?tokens ?ca) ?y)))"
        have "workload_done E ?c (obj w) = deployed E ?y (version_of E ?y ?tokens ?ca) (st w3)"
          by (simp add: workload_done_def dep3 eqs)
        with out secret3 4 3(2,6) w1(1) 2(2) show "?P r (es @ es2 @ es3 @ es4) w4"
          by (auto simp: eqs)
      qed
    qed
  qed
qed

end

lemma HasFinalizer_added: "finalizer_laws L \<Longrightarrow> HasFinalizer L (AddFinalizer L x)"
  by (cases x) (simp_all add: finalizer_laws_def Runner_HasFinalizer_def MultiRunner_HasFinalizer_def Runner_AddFinalizer_def
    MultiRunner_AddFinalizer_def)

lemma HasFinalizer_fetched [simp]: "HasFinalizer L (with_status_maps x) = HasFinalizer L x"
  by (cases x) (simp_all add: MultiRunner_HasFinalizer_def)

lemma is_ready_view: "is_ready x = ready_status (status_view x)"
  by (cases x) (simp_all add: status_view_def Runner_GetStatus_def MultiRunner_GetStatus_def init_status_maps_def)

text \<open>
  One pass over an object that can be deployed: no error, the object can still be deployed, and there is
  less left to do, or nothing was left and the object is made ready. When all is at rest it only reads.
\<close>

definition pass_outcome :: "env \<Rightarrow> string list \<Rightarrow> cluster \<Rightarrow> Result \<times> goerr option \<Rightarrow> event list \<Rightarrow> cluster \<Rightarrow> bool" where
  "pass_outcome E allowed c r es c' =
     (snd r = None \<and> core (held_object c') (held_object c) \<and> deployable E allowed c' (held_object c') \<and>
      (if ctrl_Requeue (fst r) then passes_left E c' < passes_left E c else runner_up E c') \<and>
      (passes_left E c = 0 \<longrightarrow> \<not> ctrl_Requeue (fst r) \<and> rested E c') \<and>
      (rested E c \<longrightarrow> calm es))"

context working_cluster
begin

lemma write_alike:
  assumes x: "like (obj w) x" and held: "core x (held_object (st w))" and multi: "is_multi x = multi"
  shows "runs (write_status E (fetch_of E multi)) w
    (\<lambda>r es w'. \<exists>h v. st w' = with_object h (st w) \<and> alike h x \<and> HasFinalizer E h = HasFinalizer E (held_object (st w)) \<and>
       core v x \<and> GetStatus v = GetStatus (obj w) \<and> status_view h = status_view v \<and>
       (GetStatus (obj w) = status_view (held_object (st w)) \<longrightarrow> calm es))"
  unfolding multi [symmetric]
proof (rule runs_conseq [OF write_step [OF x held]], elim exE conjE)
  fix r es w' h v
  assume h: "st w' = with_object h (st w)" "core h (held_object (st w))" "HasFinalizer E h = HasFinalizer E (held_object (st w))"
    "core v x" "GetStatus v = GetStatus (obj w)" "status_view h = status_view v"
    "GetStatus (obj w) = status_view (held_object (st w)) \<longrightarrow> calm es"
  obtain u where u: "core u x" "RegistrationConfig u = RegistrationConfig x" "GetStatus (obj w) = GetStatus u"
    using x by (auto simp: like_def)
  have "core h x" using h(2) held by (meson core_sym core_trans)
  moreover have "core v u" using h(4) u(1) by (meson core_sym core_trans)
  with u h(5) have "RegistrationConfig v = RegistrationConfig x" using regs_status [of v u] by simp
  moreover have "core h v" using \<open>core h x\<close> h(4) by (meson core_sym core_trans)
  with h(6) have "RegistrationConfig h = RegistrationConfig v" by (intro regs_view)
  ultimately have "alike h x" by (simp add: alike_def)
  with h show "\<exists>h v. st w' = with_object h (st w) \<and> alike h x \<and> HasFinalizer E h = HasFinalizer E (held_object (st w)) \<and>
      core v x \<and> GetStatus v = GetStatus (obj w) \<and> status_view h = status_view v \<and>
      (GetStatus (obj w) = status_view (held_object (st w)) \<longrightarrow> calm es)" by blast
qed

lemma like_refl: "like x x"
  unfolding like_def by (intro exI [of _ x]) simp

text \<open>The pass that adds the finalizer.\<close>

lemma finalizer_step:
  assumes no: "\<not> HasFinalizer E (obj w)" and c: "alike (obj w) (held_object (st w))"
  shows "runs (reconcile_live E R) w (\<lambda>r es w'. snd r = None \<and> ctrl_Requeue (fst r) \<and> (\<exists>z. obj w' = z \<and> st w' = with_object z (st w) \<and>
    alike z (held_object (st w)) \<and> HasFinalizer E z))"
proof -
  let ?y = "AddFinalizer E (obj w)"
  have y: "core ?y (held_object (st w))" using c core_setters(6) core_trans unfolding alike_def by blast
  from object_updated [OF y] obtain z where z: "ask_update E ?y (trace w) = Inr z" "core z ?y"
    "HasFinalizer E z = HasFinalizer E ?y" "status_view z = status_view (held_object (st w))" by blast
  have zh: "core z (held_object (st w))" using z(2) y by (rule core_trans)
  have "alike z (held_object (st w))" using zh regs_view [OF zh z(4)] by (simp add: alike_def)
  moreover have "HasFinalizer E z" using z(3) HasFinalizer_added [OF finalizers] by simp
  ultimately show ?thesis
    unfolding reconcile_live_def UpdateObj_def
    using no z(1)
    by (auto simp: resultRequeueNow_def intro!: runs_bind runs_get_obj runs_modify_obj runs_issue runs_return)
qed

lemma live_step:
  assumes dep: "deployable E (rec_AllowedBuildNamespaces R) (st w) (held_object (st w))"
    and client: "rec_GitlabApiClient R = None" and multi: "is_multi (held_object (st w)) = multi"
    and obj: "obj w = with_status_maps (held_object (st w))"
  shows "runs (do { res \<leftarrow> reconcile_live E R; _ \<leftarrow> write_status E (fetch_of E multi); ret res }) w
    (\<lambda>r es w'. pass_outcome E (rec_AllowedBuildNamespaces R) (st w) r es (st w'))"
proof -
  let ?c = "st w" let ?x = "held_object ?c" and ?allowed = "rec_AllowedBuildNamespaces R"
  let ?w = "write_status E (fetch_of E multi)"
  have al: "alike (obj w) ?x" by (simp add: obj)
  have held: "core (obj w) ?x" using al by (simp add: alike_def)
  have depx: "deployable E ?allowed ?c (obj w)" using dep by (simp add: alike_goals(1) [OF al])
  show ?thesis
  proof (cases "HasFinalizer E ?x")
    case False
    then have no: "\<not> HasFinalizer E (obj w)" by (simp add: obj)
    show ?thesis
    proof (rule runs_bind, rule runs_conseq [OF finalizer_step [OF no al]], elim exE conjE)
      fix r :: "Result \<times> goerr option" and es1 :: "event list" and w1 :: world and z
      assume 0: "ctrl_Requeue (fst r)" and 1: "snd r = None" "obj w1 = z" "st w1 = with_object z ?c" "alike z ?x" "HasFinalizer E z"
      have z: "is_multi z = multi" "like (obj w1) z" "core z (held_object (st w1))"
        using 1 multi core_multi by (auto simp: alike_def like_refl)
      show "runs (do { _ \<leftarrow> ?w; ret r }) w1 (\<lambda>r es w'. pass_outcome E ?allowed ?c r (es1 @ es) (st w'))"
      proof (rule runs_bind, rule runs_conseq [OF write_alike [OF z(2,3,1)]], elim exE conjE)
        fix u es2 h v and w2 :: world
        assume 2: "st w2 = with_object h (st w1)" "alike h z" "HasFinalizer E h = HasFinalizer E (held_object (st w1))"
        have "alike h ?x" using 2(2) 1(4) by (rule alike_trans)
        moreover from this have "core h ?x" by (simp add: alike_def)
        moreover have "deployable E ?allowed ?c h" using dep by (simp add: alike_goals(1) [OF calculation(1)])
        ultimately show "runs (ret r) w2 (\<lambda>r es w'. pass_outcome E ?allowed ?c r (es1 @ es2 @ es) (st w'))"
          using 0 1 2 False by (intro runs_return) (simp add: pass_outcome_def passes_left_def rested_def Let_def)
      qed
    qed
  next
    case True
    have fin: "HasFinalizer E (obj w)" using True by (simp add: obj)
    have live: "runs (provision E R) w Q \<Longrightarrow> runs (reconcile_live E R) w Q" for Q
      unfolding reconcile_live_def by (rule runs_bind, rule runs_get_obj) (simp add: fin)
    have tail: "runs (do { _ \<leftarrow> ?w; ret r }) w1 (\<lambda>r' es w'. r' = r \<and> (\<exists>h v. st w' = with_object h (st w1) \<and> alike h y \<and>
        core h ?x \<and> HasFinalizer E h \<and> deployable E ?allowed (st w') h \<and> secret_done E (st w') h \<and>
        rbac_here E h (st w') \<and> workload_done E (st w') h = workload_done E (st w1) y \<and> is_ready h = is_ready (obj w1) \<and>
        core v y \<and> GetStatus v = GetStatus (obj w1) \<and> status_view h = status_view v \<and>
        (GetStatus (obj w1) = status_view (held_object (st w1)) \<longrightarrow> calm es)))"
      if 1: "like (obj w1) y" "brought E ?allowed ?c y (st w1)" for w1 y and r :: "Result \<times> goerr option"
    proof (rule runs_bind, rule runs_conseq [OF write_alike [OF 1(1)]], goal_cases)
      case 1
      show ?case using that(2) by (simp add: brought_def)
    next
      case 2
      show ?case using that(2) core_multi multi by (auto simp: brought_def)
    next
      case (3 u es w2)
      then obtain h v where h: "st w2 = with_object h (st w1)" "alike h y" "HasFinalizer E h = HasFinalizer E (held_object (st w1))"
        "core v y" "GetStatus v = GetStatus (obj w1)" "status_view h = status_view v"
        "GetStatus (obj w1) = status_view (held_object (st w1)) \<longrightarrow> calm es" by blast
      have "core h ?x" using h(2) that(2) by (auto simp: alike_def brought_def intro: core_trans)
      moreover have "deployable E ?allowed (st w2) h" "secret_done E (st w2) h" "rbac_here E h (st w2)"
        "workload_done E (st w2) h = workload_done E (st w1) y"
        using that(2) by (simp_all add: h(1) alike_goals [OF h(2)] brought_def)
      moreover have "HasFinalizer E h" using True that(2) h(3) by (simp add: brought_def)
      moreover have "is_ready h = is_ready (obj w1)"
        using is_ready_view [of h] is_ready_view [of v] by (simp only: h(6) is_ready_def [of v] is_ready_def [of "obj w1"] h(5))
      ultimately show ?case using h by (intro runs_return) auto
    qed
    show ?thesis
    proof (cases "secret_done E ?c ?x")
      case False
      show ?thesis
      proof (rule runs_bind, rule live, rule runs_conseq [OF provision_step [OF depx held client]], elim exE conjE)
        fix r :: "Result \<times> goerr option" and es1 :: "event list" and w1 :: world and y
        assume 1: "snd r = None" "like (obj w1) y" "brought E ?allowed ?c y (st w1)"
          "ctrl_Requeue (fst r) \<or> workload_done E (st w1) y \<and> is_ready (obj w1)"
        show "runs (do { _ \<leftarrow> ?w; ret r }) w1 (\<lambda>r es w'. pass_outcome E ?allowed ?c r (es1 @ es) (st w'))"
          by (rule runs_conseq [OF tail [OF 1(2,3)]])
             (use 1(1,4) True False in \<open>auto simp: pass_outcome_def passes_left_def rested_def runner_up_def Let_def\<close>)
      qed
    next
      case secret: True
      then have sec: "secret_done E ?c (obj w)" by (simp add: alike_goals(2) [OF al])
      let ?y = "cleared (obj w)"
      show ?thesis
      proof (rule runs_bind, rule live, rule runs_conseq [OF runs_calm_state [OF provision_settled [OF depx held client sec]]], elim conjE)
        fix r :: "Result \<times> goerr option" and es1 :: "event list" and w1 :: world
        assume calm: "calm es1 \<longrightarrow> st w1 = ?c"
          and 1: "snd r = None" "like (obj w1) ?y" "brought E ?allowed ?c ?y (st w1)" "workload_done E (st w1) ?y"
            "ctrl_Requeue (fst r) \<or> is_ready (obj w1)"
          and ends: "workload_done E ?c (obj w) \<longrightarrow> \<not> ctrl_Requeue (fst r) \<and>
            (rbac_here E (obj w) ?c \<longrightarrow> calm es1) \<and> (\<exists>t. GetStatus (obj w1) = GetStatus (made_ready E t
              (version_of E (obj w) (tokens_at (st w1) (obj w)) (ca_at (st w1) (obj w))) ?y))"
        show "runs (do { _ \<leftarrow> ?w; ret r }) w1 (\<lambda>r es w'. pass_outcome E ?allowed ?c r (es1 @ es) (st w'))"
        proof (rule runs_conseq [OF tail [OF 1(2,3)]], elim exE conjE)
          fix r' and es2 :: "event list" and h v and w2 :: world
          assume 2: "r' = r" "st w2 = with_object h (st w1)" "alike h ?y" "core h ?x" "HasFinalizer E h"
            "deployable E ?allowed (st w2) h" "secret_done E (st w2) h" "core v ?y" "GetStatus v = GetStatus (obj w1)"
            "status_view h = status_view v" "GetStatus (obj w1) = status_view (held_object (st w1)) \<longrightarrow> calm es2"
            and up: "is_ready h = is_ready (obj w1)" "rbac_here E h (st w2)"
          have work: "workload_done E (st w2) h" using 1(4) by (simp add: 2(2) alike_goals(3) [OF 2(3)])
          show "pass_outcome E ?allowed ?c r' (es1 @ es2) (st w2)"
          proof (cases "workload_done E ?c ?x")
            case False
            with True secret 1(1,5) 2 work up show ?thesis
              by (auto simp: pass_outcome_def passes_left_def rested_def runner_up_def Let_def)
          next
            case work0: True
            then have "workload_done E ?c (obj w)" by (simp add: alike_goals(3) [OF al])
            with ends obtain t where nreq: "\<not> ctrl_Requeue (fst r)"
              and calm1: "rbac_here E (obj w) ?c \<longrightarrow> calm es1"
              and t: "GetStatus (obj w1) = GetStatus (made_ready E t
                (version_of E (obj w) (tokens_at (st w1) (obj w)) (ca_at (st w1) (obj w))) ?y)" by blast
            let ?ver = "version_of E (obj w) (tokens_at (st w1) (obj w)) (ca_at (st w1) (obj w))"
            have v: "GetStatus v = GetStatus (made_ready E t ?ver (cleared (with_status_maps ?x)))" using 2(9) t obj by simp
            have h: "status_view h = GetStatus (made_ready E t ?ver ?y)"
              using 2(9,10) t fetched_status [OF v] by (simp add: status_view_def)
            then have ready: "is_ready h"
              using is_ready_made_ready [of E t ?ver ?y] by (simp only: is_ready_view [of h] is_ready_def [of "made_ready E t ?ver ?y"])
            have al2: "alike h (obj w)" using 2(3) by (rule alike_trans) simp
            have ver: "version_of E h (tokens_at (st w2) h) (ca_at (st w2) h) = ?ver"
              using al2 of_core(2) [of h "obj w"] by (simp add: 2(2) alike_units [OF al2] alike_def)
            have "GetStatus (made_ready E t' ?ver (cleared (with_status_maps h))) = status_view h" for t'
              unfolding status_view_def
              by (rule ready_again [OF condition_set_once, of "with_status_maps h" "obj w" t])
                 (use al2 h core_trans [OF core_fetched, of h "obj w"] in \<open>simp_all add: alike_def status_view_def\<close>)
            with 2 work up(2) ver have rested: "rested E (st w2)" by (simp add: rested_def)
            have "calm (es1 @ es2)" if r: "rested E ?c"
            proof -
              have "rbac_here E (obj w) ?c" using r by (simp add: rested_def Let_def alike_goals(4) [OF al])
              with calm1 have 3: "calm es1" "st w1 = ?c" using calm by auto
              have "?ver = version_of E ?x (tokens_at ?c ?x) (ca_at ?c ?x)"
                using held of_core(2) [of "obj w" ?x] by (simp add: 3 alike_units [OF al])
              with r t have "GetStatus (obj w1) = status_view (held_object (st w1))"
                by (simp add: rested_def Let_def 3 obj)
              with 2(11) 3 show ?thesis by auto
            qed
            with True secret work0 work 1(1) 2 nreq ready rested up(2) show ?thesis
              by (simp add: pass_outcome_def passes_left_def runner_up_def Let_def)
          qed
        qed
      qed
    qed
  qed
qed

lemma pass_step:
  assumes dep: "deployable E (rec_AllowedBuildNamespaces R) (st w) (held_object (st w))"
    and client: "rec_GitlabApiClient R = None" and multi: "is_multi (held_object (st w)) = multi"
    and req: "object_key (held_object (st w)) = req"
  shows "runs (reconcile_with E R (fetch_of E multi) req) w
    (\<lambda>r es w'. pass_outcome E (rec_AllowedBuildNamespaces R) (st w) r es (st w') \<and> timed r)"
  unfolding reconcile_with_def
proof (rule runs_bind, rule runs_conseq [OF runs_calm [OF fetch_step [OF req multi]]], elim conjE)
  let ?x = "with_status_maps (held_object (st w))" and ?allowed = "rec_AllowedBuildNamespaces R"
  fix r :: "goerr + RunnerInfo" and es1 :: "event list" and w1 :: world
  assume 1: "r = Inr ?x" "obj w1 = obj w" "calm es1" "st w1 = st w"
  have 2: "st (w1\<lparr>obj := ?x\<rparr>) = st w" "obj (w1\<lparr>obj := ?x\<rparr>) = ?x" using 1 by simp_all
  have "\<not> IsBeingDeleted ?x" using dep core_fetched [of "held_object (st w)"] by (simp add: deployable_def core_def)
  then show "runs (case r of Inl err \<Rightarrow> ret (deref_result DontRequeue (IgnoreNotFound err))
      | Inr x \<Rightarrow> reconcile_object E R (fetch_of E multi) x) w1
      (\<lambda>r es2 w'. pass_outcome E ?allowed (st w) r (es1 @ es2) (st w') \<and> timed r)"
    unfolding 1(1) sum.case reconcile_object_def
  proof (intro runs_bind [OF runs_modify_obj], simp only: if_False append_Nil)
    have fetch: "any_cache.agrees E (fetch_of E multi k) (fetch_of (with_cache E undefined) multi k)" for k
      using any_cache.agrees_fetch by (simp add: fetch_of_def)
    show "runs (do { res \<leftarrow> reconcile_live E R; _ \<leftarrow> write_status E (fetch_of E multi); ret res }) (w1\<lparr>obj := ?x\<rparr>)
        (\<lambda>r es2 w'. pass_outcome E ?allowed (st w) r (es1 @ es2) (st w') \<and> timed r)"
      by (rule runs_conseq [OF runs_conj [OF live_step [of R "w1\<lparr>obj := ?x\<rparr>", unfolded 2, OF dep client multi refl]
            timed_pass [OF retries client fetch]]])
         (use 1(3) in \<open>auto simp: pass_outcome_def\<close>)
  qed
qed

end

section \<open>Passes in a row\<close>

text \<open>The world in which the next pass starts after \<open>n\<close> of them.\<close>

fun passes :: "'a go \<Rightarrow> nat \<Rightarrow> world \<Rightarrow> world" where
  "passes m 0 w = w"
| "passes m (Suc n) w = passes m n (after m w)"

lemma passes_last: "passes m (Suc n) w = after m (passes m n w)"
  by (induction n arbitrary: w) simp_all

lemma passes_add: "passes m (a + b) w = passes m b (passes m a w)"
  by (induction a arbitrary: w) simp_all

lemma up_passes_left: "runner_up E c \<Longrightarrow> passes_left E c = 0"
  by (simp add: runner_up_def passes_left_def Let_def)

text \<open>An object that can be deployed, at the key that the passes are for.\<close>

definition underway :: "env \<Rightarrow> string list \<Rightarrow> bool \<Rightarrow> NSName \<Rightarrow> cluster \<Rightarrow> bool" where
  "underway E allowed multi req c =
     (deployable E allowed c (held_object c) \<and> is_multi (held_object c) = multi \<and> object_key (held_object c) = req)"

context working_cluster
begin

lemma one_pass:
  assumes "underway E (rec_AllowedBuildNamespaces R) multi req (st w)" and "rec_GitlabApiClient R = None"
    and m: "m = reconcile_with E R (fetch_of E multi) req"
  shows "pass_outcome E (rec_AllowedBuildNamespaces R) (st w) (result m w) (new_events m w) (st (after m w))"
    and "underway E (rec_AllowedBuildNamespaces R) multi req (st (after m w))"
    and "trace (after m w) = trace w @ new_events m w" and "timed (result m w)"
proof -
  show out: "pass_outcome E (rec_AllowedBuildNamespaces R) (st w) (result m w) (new_events m w) (st (after m w))"
    and "trace (after m w) = trace w @ new_events m w" and "timed (result m w)"
    using pass_step [of R w multi req] assms(1,2) unfolding m runs_iff underway_def by blast+
  then have c: "core (held_object (st (after m w))) (held_object (st w))" by (simp add: pass_outcome_def)
  show "underway E (rec_AllowedBuildNamespaces R) multi req (st (after m w))"
    using out assms(1) core_multi [OF c] core_keys(1) [OF c] by (simp add: underway_def pass_outcome_def)
qed

text \<open>Every pass asks for the next one at once, until one leaves the runner up.\<close>

lemma passes_converge:
  assumes "underway E (rec_AllowedBuildNamespaces R) multi req (st w)" and client: "rec_GitlabApiClient R = None"
    and m: "m = reconcile_with E R (fetch_of E multi) req"
  shows "\<exists>n \<le> passes_left E (st w).
    (\<forall>k < n. result m (passes m k w) = (resultRequeueNow, None)) \<and>
    snd (result m (passes m n w)) = None \<and> no_rush (fst (result m (passes m n w))) \<and>
    runner_up E (st (passes m (Suc n) w)) \<and>
    underway E (rec_AllowedBuildNamespaces R) multi req (st (passes m (Suc n) w)) \<and>
    core (held_object (st (passes m (Suc n) w))) (held_object (st w))"
  using assms(1)
proof (induction "passes_left E (st w)" arbitrary: w rule: less_induct)
  case less
  let ?v = "after m w"
  note out = one_pass(1) [OF less.prems client m] and under = one_pass(2) [OF less.prems client m]
  have res: "if ctrl_Requeue (fst (result m w)) then result m w = (resultRequeueNow, None) else no_rush (fst (result m w))"
    using out one_pass(4) [OF less.prems client m]
    by (auto simp: pass_outcome_def timed_def no_rush_def resultRequeueNow_def prod_eq_iff)
  show ?case
  proof (cases "ctrl_Requeue (fst (result m w))")
    case False
    with out under res show ?thesis by (intro exI [of _ 0]) (simp add: pass_outcome_def)
  next
    case True
    with out have left: "passes_left E (st ?v) < passes_left E (st w)" by (simp add: pass_outcome_def)
    from less.hyps [OF left under] obtain n where n: "n \<le> passes_left E (st ?v)"
      "\<forall>k < n. result m (passes m k ?v) = (resultRequeueNow, None)"
      "snd (result m (passes m n ?v)) = None" "no_rush (fst (result m (passes m n ?v)))"
      "runner_up E (st (passes m (Suc n) ?v))"
      "underway E (rec_AllowedBuildNamespaces R) multi req (st (passes m (Suc n) ?v))"
      "core (held_object (st (passes m (Suc n) ?v))) (held_object (st ?v))" by blast
    have "result m (passes m k w) = (resultRequeueNow, None)" if "k < Suc n" for k
      using n(2) that True res by (cases k) simp_all
    moreover have "core (held_object (st (passes m (Suc n) ?v))) (held_object (st w))"
      using n(7) out by (auto simp: pass_outcome_def intro: core_trans)
    ultimately show ?thesis using n left by (intro exI [of _ "Suc n"]) simp
  qed
qed

text \<open>A runner that is up stays up, and after one more pass every pass only reads.\<close>

lemma passes_stay_up:
  assumes "underway E (rec_AllowedBuildNamespaces R) multi req (st w)" and "rec_GitlabApiClient R = None"
    and m: "m = reconcile_with E R (fetch_of E multi) req" and "runner_up E (st w)"
  shows "underway E (rec_AllowedBuildNamespaces R) multi req (st (passes m k w)) \<and> runner_up E (st (passes m k w)) \<and>
    core (held_object (st (passes m k w))) (held_object (st w)) \<and>
    snd (result m (passes m k w)) = None \<and> no_rush (fst (result m (passes m k w))) \<and>
    rested E (st (passes m (Suc k) w))"
proof (induction k)
  have step: "snd (result m v) = None \<and> no_rush (fst (result m v)) \<and> rested E (st (after m v)) \<and>
      runner_up E (st (after m v)) \<and> underway E (rec_AllowedBuildNamespaces R) multi req (st (after m v)) \<and>
      core (held_object (st (after m v))) (held_object (st v))"
    if "underway E (rec_AllowedBuildNamespaces R) multi req (st v)" "runner_up E (st v)" for v
    using one_pass [OF that(1) assms(2) m] up_passes_left [OF that(2)]
    by (auto simp: pass_outcome_def timed_def resultRequeueNow_def)
  {
    case 0
    from step [OF assms(1,4)] assms(1,4) show ?case by simp
  next
    case (Suc k)
    from step [of "passes m k w"] step [of "passes m (Suc k) w"] Suc show ?case
      by (auto simp: passes_last simp del: passes.simps intro: core_trans)
  }
qed

lemma passes_rest:
  assumes "underway E (rec_AllowedBuildNamespaces R) multi req (st w)" and "rec_GitlabApiClient R = None"
    and m: "m = reconcile_with E R (fetch_of E multi) req" and "rested E (st w)"
  shows "st (passes m k w) = st w \<and> calm (new_events m (passes m k w))"
proof (induction k)
  have step: "calm (new_events m v) \<and> st (after m v) = st w" if v: "st v = st w" for v
  proof -
    note pass = one_pass(1,3) [OF assms(1) [folded v] assms(2) m]
    have "calm (new_events m v)" using pass(1) assms(4) by (simp add: v pass_outcome_def)
    with v show ?thesis using calm_state by (simp add: pass(2))
  qed
  {
    case 0
    from step [of w] show ?case by simp
  next
    case (Suc k)
    then have "st (after m (passes m k w)) = st w" using step by blast
    with step [OF this] show ?case by (simp add: passes_last del: passes.simps)
  }
qed

end

end
