(* ===== verification/Acting_Cluster.thy ===== *)
theory Acting_Cluster
  imports Bring_Up
begin

text \<open>
  A cluster that acts: it answers every call by what it holds. It obeys the laws of
  \<open>working_server\<close>, and with a cache that never lags those of
  \<open>working_cluster\<close>, whatever it holds at first. The sample is a \<open>MultiRunner\<close> that was just applied.
\<close>

section \<open>Answers by what is held\<close>

text \<open>\<open>meta.SetStatusCondition\<close>: the time of a condition changes with its status.\<close>

fun set_condition :: "time \<Rightarrow> Condition list \<Rightarrow> Condition \<Rightarrow> Condition list" where
  "set_condition t [] c = [c\<lparr>cond_LastTransitionTime := t\<rparr>]"
| "set_condition t (d # ds) c =
     (if cond_Type d = cond_Type c
      then c\<lparr>cond_LastTransitionTime := (if cond_Status d = cond_Status c then cond_LastTransitionTime d else t)\<rparr> # ds
      else d # set_condition t ds c)"

lemma set_condition_once: "set_condition t' (set_condition t cs c) c = set_condition t cs c"
  by (induction cs) simp_all

definition meta_at :: "NSName \<Rightarrow> ObjectMeta" where
  "meta_at k = ObjectMeta_zero\<lparr>om_Name := nn_Name k, om_Namespace := nn_Namespace k\<rparr>"

lemma meta_at_fields [simp]: "meta_key (meta_at k) = k" "om_Name (meta_at k) = nn_Name k"
  by (simp_all add: meta_at_def meta_key_def)

definition found :: "'a option \<Rightarrow> goerr + 'a" where
  "found x = (case x of None \<Rightarrow> Inl not_found | Some y \<Rightarrow> Inr y)"

definition refuse :: "bool \<Rightarrow> goerr option" where
  "refuse b = (if b then Some not_found else None)"

definition held_runner :: "cluster \<Rightarrow> NSName \<Rightarrow> Runner option" where
  "held_runner c k =
     (case held_object c of RunnerObj r \<Rightarrow> if object_key (RunnerObj r) = k then Some r else None | MultiRunnerObj m \<Rightarrow> None)"

definition held_multi :: "cluster \<Rightarrow> NSName \<Rightarrow> MultiRunner option" where
  "held_multi c k =
     (case held_object c of RunnerObj r \<Rightarrow> None | MultiRunnerObj m \<Rightarrow> if object_key (MultiRunnerObj m) = k then Some m else None)"

text \<open>An update keeps the stored status, and a status update everything else.\<close>

definition acting :: "cluster \<Rightarrow> env" where
  "acting c0 = serving (sample_env\<lparr>
     lib_SetStatusCondition := set_condition,
     api_GetSecret := \<lambda>tr rd k. found (map_option (\<lambda>data. \<lparr>sec_Meta = meta_at k, sec_Type = ''Opaque'', sec_Data = data\<rparr>)
       (held_secret (cluster_after c0 tr) k)),
     api_CreateSecret := \<lambda>tr s. refuse (held_secret (cluster_after c0 tr) (meta_key (sec_Meta s)) \<noteq> None),
     api_UpdateSecret := \<lambda>tr s. refuse (held_secret (cluster_after c0 tr) (meta_key (sec_Meta s)) = None),
     api_GetConfigMap := \<lambda>tr rd k. found (held_config_map (cluster_after c0 tr) k),
     api_GetDeployment := \<lambda>tr k. found (held_deployment (cluster_after c0 tr) k),
     api_CreateDeployment := \<lambda>tr d. refuse (held_deployment (cluster_after c0 tr) (meta_key (dep_Meta d)) \<noteq> None),
     api_UpdateDeployment := \<lambda>tr d. if held_deployment (cluster_after c0 tr) (meta_key (dep_Meta d)) = None then Inl not_found else Inr d,
     api_GetServiceAccount := \<lambda>tr k. found (if held_account (cluster_after c0 tr) k then Some \<lparr>sa_Meta = meta_at k\<rparr> else None),
     api_CreateServiceAccount := \<lambda>tr a. refuse (held_account (cluster_after c0 tr) (meta_key (sa_Meta a))),
     api_GetClusterRole := \<lambda>tr rd n. found (map_option (\<lambda>rules. \<lparr>cr_Meta = meta_at (nsname '''' n), cr_Rules = rules\<rparr>)
       (held_role (cluster_after c0 tr) n)),
     api_CreateClusterRole := \<lambda>tr r. refuse (held_role (cluster_after c0 tr) (om_Name (cr_Meta r)) \<noteq> None),
     api_UpdateClusterRole := \<lambda>tr r. refuse (held_role (cluster_after c0 tr) (om_Name (cr_Meta r)) = None),
     api_GetRunner := \<lambda>tr k. found (held_runner (cluster_after c0 tr) k),
     api_GetMultiRunner := \<lambda>tr k. found (held_multi (cluster_after c0 tr) k),
     api_UpdateRunner := \<lambda>tr y. (case held_object (cluster_after c0 tr) of
       RunnerObj r \<Rightarrow> Inr (y\<lparr>res_Status := res_Status r\<rparr>) | MultiRunnerObj m \<Rightarrow> Inl not_found),
     api_UpdateMultiRunner := \<lambda>tr y. (case held_object (cluster_after c0 tr) of
       RunnerObj r \<Rightarrow> Inl not_found | MultiRunnerObj m \<Rightarrow> Inr (y\<lparr>res_Status := res_Status m\<rparr>)),
     api_UpdateRunnerStatus := \<lambda>tr y. (case held_object (cluster_after c0 tr) of
       RunnerObj r \<Rightarrow> Inr (r\<lparr>res_Status := res_Status y\<rparr>) | MultiRunnerObj m \<Rightarrow> Inl not_found),
     api_UpdateMultiRunnerStatus := \<lambda>tr y. (case held_object (cluster_after c0 tr) of
       RunnerObj r \<Rightarrow> Inl not_found | MultiRunnerObj m \<Rightarrow> Inr (m\<lparr>res_Status := res_Status y\<rparr>)),
     sdk_VerifyRegisteredRunner := \<lambda>tr g t. if t \<in> valid_tokens (cluster_after c0 tr) then (Some 200, None)
       else (Some 403, Some (err_new ''forbidden''))\<rparr>) (held_bindings c0)"

lemma stored_refl: "(\<And>s. sem_eq_shape E s s) \<Longrightarrow> stored_as E d d"
  by (simp add: stored_as_def)

lemma is_not_found [simp]: "IsNotFound not_found"
  by (simp add: not_found_def IsNotFound_def)

lemma acting_bindings: "binding_laws (acting c0) (held_bindings c0)"
  unfolding acting_def by (rule serving_laws)

lemmas acting_defs = acting_def serving_def sample_env_def sample_cluster_def found_def refuse_def

text \<open>What a read of a binding, a change of one and a listing answer.\<close>

lemma acting_binding_answers:
  "api_GetRoleBinding (acting c0) tr k = Inl e \<Longrightarrow> IsNotFound e"
  "api_CreateRoleBinding (acting c0) tr b = Some e \<Longrightarrow> IsAlreadyExists e"
  "api_DeleteRoleBinding (acting c0) tr k = Some e \<Longrightarrow> IsNotFound e"
  "\<exists>items. api_ListRoleBindings (acting c0) tr Uncached sel = Inr items"
  by (auto simp: acting_def serving_answers IsAlreadyExists_def split: list.splits if_splits)

lemma acting_object_read:
  "is_multi (held_object (cluster_after c0 tr)) = multi \<Longrightarrow> object_key (held_object (cluster_after c0 tr)) = k \<Longrightarrow>
     ask_object (acting c0) multi tr k = Inr (held_object (cluster_after c0 tr))"
  by (cases "held_object (cluster_after c0 tr)") (auto simp: ask_object_def is_multi_def acting_defs held_runner_def held_multi_def)

lemma acting_updates:
  assumes "core y (held_object (cluster_after c0 tr))"
  shows "\<exists>z. ask_update (acting c0) y tr = Inr z \<and> core z y \<and> HasFinalizer (acting c0) z = HasFinalizer (acting c0) y \<and>
      status_view z = status_view (held_object (cluster_after c0 tr))"
    and "\<exists>z. ask_update_status (acting c0) y tr = Inr z \<and> core z (held_object (cluster_after c0 tr)) \<and>
      HasFinalizer (acting c0) z = HasFinalizer (acting c0) (held_object (cluster_after c0 tr)) \<and> status_view z = status_view y"
  using assms
  by (cases rule: core_cases; simp add: acting_defs core_def spec_of_def GetName_def GetUID_def GetGeneration_def GetNamespace_meta
    Runner_IsBeingDeleted_def MultiRunner_IsBeingDeleted_def Runner_HasFinalizer_def MultiRunner_HasFinalizer_def status_view_def
    Runner_GetStatus_def MultiRunner_GetStatus_def)+

lemma acting_laws: "finalizer_laws (acting c0)" "retry_laws (acting c0)"
  by (auto simp: finalizer_laws_def retry_laws_def acting_defs)

interpretation acting_server: working_server "acting c0" c0 for c0
  by unfold_locales
     (rule acting_bindings acting_laws acting_binding_answers(4) | erule acting_updates acting_binding_answers(2,3)
      | (auto simp: acting_defs stored_as_def lasting_def set_condition_once split: option.splits; fail))+

text \<open>Its cache never lags.\<close>

lemma acting_binding_read:
  "fresh_read (acting c0) (cluster_after c0 tr) (GetRoleBinding k (api_GetRoleBinding (acting c0) tr k))"
proof (cases "api_GetRoleBinding (acting c0) tr k")
  case (Inl e)
  then show ?thesis
    using serving_finds(2) acting_binding_answers(1) [OF Inl] by (simp add: held_bindings_state) (auto simp: acting_def)
next
  case (Inr b)
  then show ?thesis using serving_finds(1) by (simp add: held_bindings_state) (auto simp: acting_def)
qed

interpretation acting: working_cluster "acting c0" c0 for c0
  by unfold_locales
     (rule acting_binding_read | (simp add: acting_object_read; fail)
      | (auto simp: acting_defs stored_as_def split: option.splits; fail))+

section \<open>Two runners, one of them managed\<close>

text \<open>A \<open>MultiRunner\<close> that was just applied, in an empty cluster: one entry has a token, the other create options.\<close>

definition fresh_pool :: RunnerInfo where
  "fresh_pool = MultiRunnerObj ((sample_multi [sample_entry ''own'' own_token '''', sample_entry ''kept'' managed_auth ''builds''])
     \<lparr>res_Meta := (sample_meta ''pool'')\<lparr>om_Finalizers := []\<rparr>\<rparr>)"

definition empty_cluster :: cluster where
  "empty_cluster = \<lparr>held_object = fresh_pool, held_secret = \<lambda>k. None, held_config_map = \<lambda>k. None,
     held_deployment = \<lambda>k. None, held_account = \<lambda>k. False, held_role = \<lambda>n. None, held_bindings = [], valid_tokens = {}\<rparr>"

lemma fresh_units:
  "RegistrationConfig fresh_pool =
     [\<lparr>reg_Name = ''own'', reg_Auth = own_token, reg_GitlabUrl = ''https://gitlab.example/'', reg_CACertificate = None,
       reg_RunnerID = 0, reg_AuthToken = '''', reg_TokenExpiresAt = None, reg_RegistrationHash = ''''\<rparr>,
      \<lparr>reg_Name = ''kept'', reg_Auth = managed_auth, reg_GitlabUrl = ''https://gitlab.example/'', reg_CACertificate = None,
       reg_RunnerID = 0, reg_AuthToken = '''', reg_TokenExpiresAt = None, reg_RegistrationHash = ''''\<rparr>]"
  by (simp add: fresh_pool_def sample_multi_def MultiRunner_RegistrationConfig_def sample_entry_def sample_manager_def
    ManagerSpec.defs MultiRunnerSpec.defs map_get_or_def map_get_def)

lemma fresh_parts:
  "GetNamespace fresh_pool = ''ci''" "build_namespace_keys fresh_pool = [''ci'', ''builds'']" "CACertificate fresh_pool = None"
  "\<not> IsBeingDeleted fresh_pool" "is_multi fresh_pool" "object_key fresh_pool = nsname ''ci'' ''pool''"
  by (simp_all add: fresh_pool_def sample_multi_def sample_meta_def sample_entry_def sample_manager_def ManagerSpec.defs
    MultiRunnerSpec.defs GetNamespace_meta ObjectMeta_zero_def build_namespace_keys_def entry_namespace_def
    MultiRunner_ExecutorConfigs_def KubernetesConfig_zero_def MultiRunner_CACertificate_def MultiRunner_IsBeingDeleted_def
    is_multi_def object_key_def GetName_def EffectiveNamespace_def is_zero_def)

lemma fresh_deployable: "deployable (acting empty_cluster) [''builds''] empty_cluster fresh_pool"
proof -
  have "possible_units (acting empty_cluster) empty_cluster fresh_pool"
    by (simp add: possible_units_def fresh_units unit_possible_def unit_served_def unit_new_def token_of_def unit_token_def
      known_token_def own_token_def managed_auth_def)
  moreover have "sources_apart fresh_pool"
    by (simp add: sources_apart_def fresh_units fresh_parts ca_apart_def token_apart_def own_token_def managed_auth_def)
  moreover have "known_ca empty_cluster ''ci'' None = Some ''''" by (simp add: known_ca_def)
  ultimately show ?thesis
    by (simp add: deployable_def fresh_parts all_allowed_def BuildNamespaceAllowed_iff ca_at_def empty_cluster_def proper_def)
qed

end
