(* ===== verification/Kept_Up.thy ===== *)
theory Kept_Up
  imports Acting_Cluster
begin

text \<open>
  From the cache that never lags to one that lags: a pass all of whose cached reads were up to date is, call
  by call, the pass on the ideal cache. So what the theory Bring_Up shows of the ideal holds of every row
  of passes in which the cache kept up with the server, whatever it would have answered otherwise.
\<close>

section \<open>The ideal cache\<close>

text \<open>An answer that is up to date is kept; any other is replaced by what is held.\<close>

definition kept_up :: "env \<Rightarrow> cluster \<Rightarrow> cache" where
  "kept_up E c0 =
     (let fresh = (\<lambda>tr. fresh_read E (cluster_after c0 tr)); c = cluster_after c0 in
      \<lparr>in_secrets = \<lambda>tr k.
         (if fresh tr (GetSecret Cached k (api_GetSecret E tr Cached k)) then api_GetSecret E tr Cached k
          else found (map_option (\<lambda>data. \<lparr>sec_Meta = meta_at k, sec_Type = ''Opaque'', sec_Data = data\<rparr>) (held_secret (c tr) k))),
       in_deployments = \<lambda>tr k.
         (if fresh tr (GetDeployment k (api_GetDeployment E tr k)) then api_GetDeployment E tr k
          else found (held_deployment (c tr) k)),
       in_accounts = \<lambda>tr k.
         (if fresh tr (GetServiceAccount k (api_GetServiceAccount E tr k)) then api_GetServiceAccount E tr k
          else found (if held_account (c tr) k then Some \<lparr>sa_Meta = meta_at k\<rparr> else None)),
       in_bindings = \<lambda>tr k.
         (if fresh tr (GetRoleBinding k (api_GetRoleBinding E tr k)) then api_GetRoleBinding E tr k
          else api_GetRoleBinding (serving E (held_bindings c0)) tr k),
       in_runners = \<lambda>tr k.
         (if fresh tr (GetObject False k (ask_object E False tr k)) then api_GetRunner E tr k
          else found (held_runner (c tr) k)),
       in_multi_runners = \<lambda>tr k.
         (if fresh tr (GetObject True k (ask_object E True tr k)) then api_GetMultiRunner E tr k
          else found (held_multi (c tr) k))\<rparr>)"

lemmas kept_up_fields = kept_up_def Let_def cache.select_convs

interpretation kept_up: cache_swap E "kept_up E c0" "\<lambda>tr. fresh_read E (cluster_after c0 tr)" for E c0
  by unfold_locales (simp_all only: kept_up_fields if_True)

abbreviation ideal :: "env \<Rightarrow> cluster \<Rightarrow> env" where
  "ideal E c0 \<equiv> with_cache E (kept_up E c0)"

section \<open>What the cache does not change\<close>

lemma with_cache_config [simp]: "rendered_config (with_cache E C) x tokens = rendered_config E x tokens"
  by (cases x) (simp_all add: single_root_config_def multi_root_config_def)

lemma with_cache_views [simp]:
  "stored_as (with_cache E C) = stored_as E" "lasting (with_cache E C) = lasting E"
  "finalizer_laws (with_cache E C) = finalizer_laws E" "retry_laws (with_cache E C) = retry_laws E"
  "rbac_here (with_cache E C) x c = rbac_here E x c" "toml_of (with_cache E C) x tokens = toml_of E x tokens"
  "version_of (with_cache E C) x tokens ca = version_of E x tokens ca"
  "data_of (with_cache E C) x tokens ca = data_of E x tokens ca"
  "deployed (with_cache E C) x v c = deployed E x v c"
  by (simp_all add: fun_eq_iff stored_as_def lasting_def finalizer_laws_def retry_laws_def rbac_here_def toml_of_def version_of_def
    data_of_def deployed_def)

lemma with_cache_fresh [simp]: "fresh_read (with_cache E C) c e = fresh_read E c e"
  by (cases e) (simp_all split: option.split sum.split)

lemma with_cache_units [simp]:
  "unit_served (with_cache E C) c ns g t = unit_served E c ns g t"
  "settled_units (with_cache E C) c x = settled_units E c x" "possible_units (with_cache E C) c x = possible_units E c x"
  by (simp_all add: unit_served_def settled_units_def possible_units_def)

lemma with_cache_goals [simp]:
  "deployable (with_cache E C) allowed c x = deployable E allowed c x" "secret_done (with_cache E C) c x = secret_done E c x"
  "workload_done (with_cache E C) c x = workload_done E c x" "runner_up (with_cache E C) c = runner_up E c"
  "underway (with_cache E C) allowed multi req c = underway E allowed multi req c"
  by (simp_all add: deployable_def secret_done_def workload_done_def runner_up_def underway_def Let_def)

text \<open>With the ideal cache, a server that works is a cluster that works.\<close>

lemma ideal_binding_read:
  "fresh_read E (cluster_after c0 tr) (GetRoleBinding k (api_GetRoleBinding (ideal E c0) tr k))"
proof (cases "fresh_read E (cluster_after c0 tr) (GetRoleBinding k (api_GetRoleBinding E tr k))")
  case True
  then show ?thesis by (simp only: with_cache_reads kept_up_fields if_True)
next
  case False
  then have eq: "api_GetRoleBinding (ideal E c0) tr k = api_GetRoleBinding (serving E (held_bindings c0)) tr k"
    by (simp only: with_cache_reads kept_up_fields if_False)
  show ?thesis
  proof (cases "api_GetRoleBinding (serving E (held_bindings c0)) tr k")
    case (Inl e)
    then have "IsNotFound e" by (simp add: serving_answers split: list.splits)
    with serving_finds(2) [OF Inl] show ?thesis unfolding eq Inl by (simp add: held_bindings_state)
  next
    case (Inr b)
    with serving_finds(1) [OF Inr] show ?thesis unfolding eq Inr by (simp add: held_bindings_state)
  qed
qed

lemma ideal_reads:
  "fresh_read E (cluster_after c0 tr) (GetSecret Cached k (api_GetSecret (ideal E c0) tr Cached k))"
  "fresh_read E (cluster_after c0 tr) (GetDeployment k (api_GetDeployment (ideal E c0) tr k))"
  "fresh_read E (cluster_after c0 tr) (GetServiceAccount k (api_GetServiceAccount (ideal E c0) tr k))"
  "fresh_read E (cluster_after c0 tr) (GetObject multi k (ask_object (ideal E c0) multi tr k))"
proof -
  let ?c = "cluster_after c0 tr"
  show "fresh_read E ?c (GetSecret Cached k (api_GetSecret (ideal E c0) tr Cached k))"
    by (cases "fresh_read E ?c (GetSecret Cached k (api_GetSecret E tr Cached k))")
       (simp_all only: with_cache_reads kept_up_fields if_True if_False simp_thms, simp add: found_def split: option.split)
  show "fresh_read E ?c (GetDeployment k (api_GetDeployment (ideal E c0) tr k))"
    by (cases "fresh_read E ?c (GetDeployment k (api_GetDeployment E tr k))")
       (simp_all only: with_cache_reads kept_up_fields if_True if_False, simp add: found_def stored_as_def split: option.split)
  show "fresh_read E ?c (GetServiceAccount k (api_GetServiceAccount (ideal E c0) tr k))"
    by (cases "fresh_read E ?c (GetServiceAccount k (api_GetServiceAccount E tr k))")
       (simp_all only: with_cache_reads kept_up_fields if_True if_False, simp add: found_def)
  show "fresh_read E ?c (GetObject multi k (ask_object (ideal E c0) multi tr k))"
  proof (cases "fresh_read E ?c (GetObject multi k (ask_object E multi tr k))")
    case True
    then have "ask_object (ideal E c0) multi tr k = ask_object E multi tr k"
      by (cases multi) (simp_all only: ask_object_def with_cache_reads kept_up_fields if_True if_False simp_thms)
    with True show ?thesis by (simp only:)
  next
    case False
    then have "ask_object (ideal E c0) multi tr k =
        (if multi then map_sum id MultiRunnerObj (found (held_multi ?c k)) else map_sum id RunnerObj (found (held_runner ?c k)))"
      by (cases multi) (simp_all only: ask_object_def with_cache_reads kept_up_fields if_True if_False simp_thms)
    then show ?thesis
      by (cases "held_object ?c") (auto simp: is_multi_def found_def held_runner_def held_multi_def)
  qed
qed

context working_server
begin

lemma ideal_bindings: "binding_laws (ideal E c0) (held_bindings c0)"
proof -
  have "rb_key b = k" if "api_GetRoleBinding (ideal E c0) tr k = Inr b" for tr k b
  proof (cases "fresh_read E (cluster_after c0 tr) (GetRoleBinding k (api_GetRoleBinding E tr k))")
    case True
    with that have "api_GetRoleBinding E tr k = Inr b" by (simp only: with_cache_reads kept_up_fields if_True)
    then show ?thesis by (rule binding_answers(1) [OF bindings])
  next
    case False
    with that have "api_GetRoleBinding (serving E (held_bindings c0)) tr k = Inr b"
      by (simp only: with_cache_reads kept_up_fields if_False)
    then show ?thesis using serving_finds(1) by blast
  qed
  with bindings show ?thesis by (simp add: binding_laws_def)
qed

lemma ideal_works: "working_cluster (ideal E c0) c0"
proof -
  have "working_server (ideal E c0) c0"
    by unfold_locales
       ((rule ideal_bindings
         | (simp only: with_cache_fields with_cache_views with_cache_updates with_cache_object with_cache_reads
              Reader.distinct if_False)?,
           (rule live_secret_found live_secret_missing secret_created secret_updated config_map_found
              deployment_created deployment_updated shapes_equal account_created role_found role_missing role_created role_updated
              rules_equal binding_created binding_deleted bindings_listed object_updated status_updated client_made
              runner_created token_verified finalizers condition_set_once retries encodes; assumption)); fail)+
  then show ?thesis
    using ideal_reads ideal_binding_read
    by (simp add: working_cluster_def working_cluster_axioms_def del: fresh_read.simps with_cache_reads)
qed

end

section \<open>Passes in a row\<close>

text \<open>A row of passes in which the cache kept up is the row of the same passes on the ideal cache.\<close>

lemma agrees_reconcile:
  assumes "retry_laws E" and "rec_GitlabApiClient R = None"
  shows "kept_up.agrees E c0 (reconcile_with E R (fetch_of E multi) req)
    (reconcile_with (ideal E c0) R (fetch_of (ideal E c0) multi) req)"
  using kept_up.agrees_fetch by (intro kept_up.agrees_pass assms) (simp add: fetch_of_def)

lemma same_passes:
  assumes laws: "retry_laws E" "rec_GitlabApiClient R = None"
    and m: "m = reconcile_with E R (fetch_of E multi) req"
    and m': "m' = reconcile_with (ideal E c0) R (fetch_of (ideal E c0) multi) req"
    and fresh: "\<forall>k. up_to_date E c0 (trace (passes m k w)) (new_events m (passes m k w))"
  shows "passes m' k w = passes m k w" "result m' (passes m k w) = result m (passes m k w)"
    "new_events m' (passes m k w) = new_events m (passes m k w)"
proof -
  have run: "run_state m' (passes m k w) = run_state m (passes m k w)" for k
    using kept_up.agreesD(3) [OF agrees_reconcile [OF laws]] fresh unfolding m m' up_to_date_def by blast
  show "passes m' k w = passes m k w"
  proof (induction k)
    case (Suc k)
    then show ?case by (simp only: passes_last) (simp only: after_def run)
  qed simp
  show "result m' (passes m k w) = result m (passes m k w)"
    "new_events m' (passes m k w) = new_events m (passes m k w)"
    by (simp_all add: result_def new_events_def after_def run)
qed

text \<open>On the ideal cache every row of passes is one in which the cache kept up.\<close>

lemma ideal_kept_up:
  assumes "working_cluster E c0" and "rec_GitlabApiClient R = None" and m: "m = reconcile_with E R (fetch_of E multi) req"
  shows "up_to_date E c0 (trace v) (new_events m v)"
  unfolding m
  by (rule working_cluster.told_up_to_date [OF assms(1)],
      rule kept_up.agreesD(2) [OF agrees_reconcile [OF working_server.retries assms(2)]])
     (rule working_cluster.axioms(1) [OF assms(1)])

section \<open>Coming up\<close>

text \<open>
  What a row of passes has done: every pass before some \<open>n \<le> 3\<close> asks for the next at once, from the \<open>n\<close>-th
  on the runner is up, and from two passes later on nothing changes any more.
\<close>

definition comes_up :: "env \<Rightarrow> cluster \<Rightarrow> (Result \<times> goerr option) go \<Rightarrow> world \<Rightarrow> nat \<Rightarrow> bool" where
  "comes_up E c0 m w n =
     (let start = (\<lambda>k. passes m k w); held = (\<lambda>k. cluster_after c0 (trace (start k))) in
      (\<forall>k < n. result m (start k) = (resultRequeueNow, None)) \<and>
      (\<forall>k \<ge> n. snd (result m (start k)) = None \<and> no_rush (fst (result m (start k))) \<and>
         runner_up E (held (Suc k)) \<and> core (held_object (held (Suc k))) (held_object (held 0))) \<and>
      (\<forall>k \<ge> n + 2. held k = held (n + 2) \<and> list_all quiet_call (new_events m (start k))))"

lemma ideal_comes_up:
  assumes "working_cluster E c0" and "rec_GitlabApiClient R = None"
    and "underway E (rec_AllowedBuildNamespaces R) multi req (cluster_after c0 (trace w))"
    and m: "m = reconcile_with E R (fetch_of E multi) req"
  shows "\<exists>n \<le> 3. comes_up E c0 m w n"
proof -
  let ?c = "\<lambda>v. cluster_after c0 (trace v)" and ?allowed = "rec_AllowedBuildNamespaces R"
  from working_cluster.passes_converge [OF assms(1,3,2) m] obtain n where left: "n \<le> passes_left E (?c w)"
    and before: "\<forall>k < n. result m (passes m k w) = (resultRequeueNow, None)"
    and at: "snd (result m (passes m n w)) = None" "no_rush (fst (result m (passes m n w)))"
    and up: "runner_up E (?c (passes m (Suc n) w))" "underway E ?allowed multi req (?c (passes m (Suc n) w))"
      "core (held_object (?c (passes m (Suc n) w))) (held_object (?c w))" by blast
  note stays = working_cluster.passes_stay_up [OF assms(1) up(2) assms(2) m up(1)]
  have later: "passes m (Suc n + j) w = passes m j (passes m (Suc n) w)" for j by (rule passes_add)
  have up_at: "runner_up E (?c (passes m (Suc k) w)) \<and> core (held_object (?c (passes m (Suc k) w))) (held_object (?c w))" if "n \<le> k" for k
    using stays [of "k - n"] later [of "k - n"] that up(3) by (auto simp del: passes.simps intro: core_trans)
  have result_at: "snd (result m (passes m k w)) = None \<and> no_rush (fst (result m (passes m k w)))" if k: "n \<le> k" for k
  proof (cases "k = n")
    case False
    with k stays [of "k - Suc n"] later [of "k - Suc n"] show ?thesis by (simp del: passes.simps)
  qed (use at in simp)
  have rested: "rested E (?c (passes m (n + 2) w))" "underway E ?allowed multi req (?c (passes m (n + 2) w))"
    using stays [of 0] stays [of 1] later [of 1] by (simp_all del: passes.simps)
  have quiet: "?c (passes m k w) = ?c (passes m (n + 2) w) \<and> list_all quiet_call (new_events m (passes m k w))" if le: "n + 2 \<le> k" for k
  proof -
    obtain j where k: "k = (n + 2) + j" using le_Suc_ex [OF le] by blast
    show ?thesis
      using working_cluster.passes_rest [OF assms(1) rested(2) assms(2) m rested(1), of j]
      unfolding k passes_add list_all_iff by blast
  qed
  have "n \<le> 3" using left by (simp add: passes_left_def Let_def split: if_splits)
  then show ?thesis
    using before up_at result_at quiet by (intro exI [of _ n]) (simp add: comes_up_def Let_def)
qed

lemma comes_up_same:
  assumes "\<And>k. passes m' k w = passes m k w" "\<And>k. result m' (passes m k w) = result m (passes m k w)"
    "\<And>k. new_events m' (passes m k w) = new_events m (passes m k w)"
  shows "comes_up (with_cache E C) c0 m' w n = comes_up E c0 m w n"
  unfolding comes_up_def Let_def assms with_cache_goals ..

lemma kept_up_comes_up:
  assumes server: "working_server E c0" and client: "rec_GitlabApiClient R = None"
    and start: "underway E (rec_AllowedBuildNamespaces R) multi req (cluster_after c0 (trace w))"
    and m: "m = reconcile_with E R (fetch_of E multi) req"
    and fresh: "\<forall>k. up_to_date E c0 (trace (passes m k w)) (new_events m (passes m k w))"
  shows "\<exists>n \<le> 3. comes_up E c0 m w n"
proof -
  let ?m = "reconcile_with (ideal E c0) R (fetch_of (ideal E c0) multi) req"
  note same = same_passes [OF working_server.retries [OF server] client m refl fresh]
  have "underway (ideal E c0) (rec_AllowedBuildNamespaces R) multi req (cluster_after c0 (trace w))"
    using start by simp
  from ideal_comes_up [OF working_server.ideal_works [OF server] client this refl]
  obtain n where "n \<le> 3" "comes_up (ideal E c0) c0 ?m w n" by blast
  then show ?thesis by (auto simp only: comes_up_same [OF same])
qed

end
