(* ===== verification/Go_Memory.thy ===== *)
theory Go_Memory
  imports "HOL-Library.Monad_Syntax"
begin

text \<open>
  Go values in memory, for the code whose subject is sharing: the generated deep copies. A value is a
  scalar, nil, a struct, or a reference to a cell of the heap; what a value means is a tree, and
  \<open>owns h b v t\<close> says that \<open>v\<close> means \<open>t\<close> in the heap \<open>h\<close> and reaches no cell below \<open>b\<close>. On top of it the
  statements that \<open>controller-gen\<close> emits, one operation per form, each with its law: a copy means the
  same tree and reaches only new cells.
\<close>

section \<open>Values, cells and what they mean\<close>

datatype scalar = BoolS bool | IntS int | StringS string

text \<open>A slice is a window of an array: its cell, the offset and the length.\<close>

datatype gval =
    ScalarV scalar
  | NilV
  | PtrV nat
  | SliceV nat nat nat
  | MapV nat
  | StructV "(string \<times> gval) list"

text \<open>The entries of a map stand in the order in which \<open>range\<close> visits them.\<close>

datatype cell = Pointee gval | Backing "gval list" | Table "(string \<times> gval) list"

type_synonym heap = "cell list"

datatype tree =
    ScalarT scalar
  | NilT
  | PtrT tree
  | SliceT "tree list"
  | MapT "(string \<times> tree) list"
  | StructT "(string \<times> tree) list"

inductive owns :: "heap \<Rightarrow> nat \<Rightarrow> gval \<Rightarrow> tree \<Rightarrow> bool" for h :: heap and b :: nat where
  scalar: "owns h b (ScalarV s) (ScalarT s)"
| nil: "owns h b NilV NilT"
| ptr: "b \<le> a \<Longrightarrow> a < length h \<Longrightarrow> h ! a = Pointee v \<Longrightarrow> owns h b v t \<Longrightarrow> owns h b (PtrV a) (PtrT t)"
| slice: "b \<le> a \<Longrightarrow> a < length h \<Longrightarrow> h ! a = Backing vs \<Longrightarrow> off + n \<le> length vs \<Longrightarrow>
    list_all2 (owns h b) (take n (drop off vs)) ts \<Longrightarrow> owns h b (SliceV a off n) (SliceT ts)"
| map: "b \<le> a \<Longrightarrow> a < length h \<Longrightarrow> h ! a = Table es \<Longrightarrow>
    list_all2 (rel_prod (=) (owns h b)) es ts \<Longrightarrow> owns h b (MapV a) (MapT ts)"
| struct: "list_all2 (rel_prod (=) (owns h b)) fs ts \<Longrightarrow> owns h b (StructV fs) (StructT ts)"
monos list.rel_mono_strong prod.rel_mono_strong

inductive_cases owns_ptrE: "owns h b v (PtrT t)"
inductive_cases owns_sliceE: "owns h b v (SliceT ts)"
inductive_cases owns_mapE: "owns h b v (MapT ts)"
inductive_cases owns_structE: "owns h b v (StructT ts)"
inductive_cases owns_scalarE: "owns h b v (ScalarT s)"
inductive_cases owns_nilE: "owns h b v NilT"

abbreviation means :: "heap \<Rightarrow> gval \<Rightarrow> tree \<Rightarrow> bool" where
  "means h v t \<equiv> owns h 0 v t"

text \<open>What a value means depends on the cells it owns only.\<close>

definition same_from :: "nat \<Rightarrow> heap \<Rightarrow> heap \<Rightarrow> bool" where
  "same_from b h h' = (\<forall>a. b \<le> a \<longrightarrow> a < length h \<longrightarrow> a < length h' \<and> h' ! a = h ! a)"

lemma owns_same: "owns h b v t \<Longrightarrow> same_from b' h h' \<Longrightarrow> b' \<le> b \<Longrightarrow> owns h' b' v t"
proof (induction rule: owns.induct)
  case (ptr a v t)
  then show ?case by (intro owns.ptr) (auto simp: same_from_def)
next
  case (slice a vs off n ts)
  then show ?case by (intro owns.slice [where vs = vs]) (auto simp: same_from_def elim!: list.rel_mono_strong)
next
  case (map a es ts)
  then show ?case
    by (intro owns.map [where es = es]) (auto simp: same_from_def elim!: list.rel_mono_strong prod.rel_mono_strong)
next
  case (struct fs ts)
  then show ?case by (intro owns.struct) (auto elim!: list.rel_mono_strong prod.rel_mono_strong)
qed (auto intro: owns.intros)

definition extends :: "heap \<Rightarrow> heap \<Rightarrow> bool" where
  "extends h h' = (\<exists>cs. h' = h @ cs)"

lemma extends_refl [simp]: "extends h h"
  by (simp add: extends_def)

lemma extends_trans: "extends h h' \<Longrightarrow> extends h' h'' \<Longrightarrow> extends h h''"
  by (auto simp: extends_def)

lemma extends_append [simp]: "extends h (h @ cs)"
  by (simp add: extends_def)

lemma extends_length: "extends h h' \<Longrightarrow> length h \<le> length h'"
  by (auto simp: extends_def)

lemma owns_extends: "owns h b v t \<Longrightarrow> extends h h' \<Longrightarrow> b' \<le> b \<Longrightarrow> owns h' b' v t"
  by (erule owns_same) (auto simp: same_from_def extends_def nth_append)

section \<open>The copying statements\<close>

text \<open>
  A copier takes the value of \<open>*in\<close> and the heap to the value of \<open>*out\<close> and the heap afterwards;
  \<open>None\<close> is a panic. The cell of \<open>out\<close> itself belongs to the caller, so it is not part of this.
\<close>

type_synonym copier = "gval \<Rightarrow> heap \<Rightarrow> (gval \<times> heap) option"

fun deref :: "heap \<Rightarrow> gval \<Rightarrow> gval option" where
  "deref h (PtrV a) =
     (if a < length h then (case h ! a of Pointee v \<Rightarrow> Some v | _ \<Rightarrow> None) else None)"
| "deref h v = None"

fun elements :: "heap \<Rightarrow> gval \<Rightarrow> gval list option" where
  "elements h (SliceV a off n) =
     (if a < length h
      then (case h ! a of
              Backing vs \<Rightarrow> if off + n \<le> length vs then Some (take n (drop off vs)) else None
            | _ \<Rightarrow> None)
      else None)"
| "elements h v = None"

fun entries :: "heap \<Rightarrow> gval \<Rightarrow> (string \<times> gval) list option" where
  "entries h (MapV a) =
     (if a < length h then (case h ! a of Table es \<Rightarrow> Some es | _ \<Rightarrow> None) else None)"
| "entries h v = None"

text \<open>\<open>*out = *in\<close>, for one value.\<close>

definition assign :: copier where
  "assign v h = Some (v, h)"

text \<open>\<open>if in != nil { *out = new(T); ... }\<close>, with what is done to the new \<open>T\<close>.\<close>

definition pointer :: "copier \<Rightarrow> copier" where
  "pointer cp v h =
     (if v = NilV then Some (NilV, h)
      else do { x \<leftarrow> deref h v;
                (x', h1) \<leftarrow> cp x h;
                Some (PtrV (length h1), h1 @ [Pointee x']) })"

fun copy_all :: "copier \<Rightarrow> gval list \<Rightarrow> heap \<Rightarrow> (gval list \<times> heap) option" where
  "copy_all cp [] h = Some ([], h)"
| "copy_all cp (x # xs) h =
     do { (x', h1) \<leftarrow> cp x h;
          (xs', h2) \<leftarrow> copy_all cp xs h1;
          Some (x' # xs', h2) }"

text \<open>\<open>if in != nil { *out = make([]T, len(*in)); ... }\<close>, element by element.\<close>

definition slice_of :: "copier \<Rightarrow> copier" where
  "slice_of cp v h =
     (if v = NilV then Some (NilV, h)
      else do { xs \<leftarrow> elements h v;
                (xs', h1) \<leftarrow> copy_all cp xs h;
                Some (SliceV (length h1) 0 (length xs'), h1 @ [Backing xs']) })"

text \<open>\<open>if in != nil { *out = make(map[K]V, len(*in)); ... }\<close>, entry by entry.\<close>

definition map_of_copies :: "copier \<Rightarrow> copier" where
  "map_of_copies cp v h =
     (if v = NilV then Some (NilV, h)
      else do { es \<leftarrow> entries h v;
                (xs', h1) \<leftarrow> copy_all cp (map snd es) h;
                Some (MapV (length h1), h1 @ [Table (zip (map fst es) xs')]) })"

text \<open>\<open>*val.DeepCopy()\<close>: the copy is made behind a pointer to the loop variable.\<close>

definition through_pointer :: "copier \<Rightarrow> copier" where
  "through_pointer dc v h =
     do { (p, h1) \<leftarrow> dc (PtrV (length h)) (h @ [Pointee v]);
          x \<leftarrow> deref h1 p;
          Some (x, h1) }"

text \<open>\<open>if in != nil { *out = (*in).DeepCopy() }\<close>.\<close>

definition when_set :: "copier \<Rightarrow> copier" where
  "when_set dc v h = (if v = NilV then Some (NilV, h) else dc v h)"

text \<open>\<open>*out = *in\<close> of a struct, and then one statement per field of a reference type.\<close>

definition set_field :: "string \<Rightarrow> gval \<Rightarrow> (string \<times> gval) list \<Rightarrow> (string \<times> gval) list" where
  "set_field F x fs = map (\<lambda>(G, y). (G, if G = F then x else y)) fs"

fun copy_fields ::
  "(string \<times> copier) list \<Rightarrow> (string \<times> gval) list \<Rightarrow> (string \<times> gval) list \<Rightarrow> heap \<Rightarrow>
   ((string \<times> gval) list \<times> heap) option" where
  "copy_fields [] inn out h = Some (out, h)"
| "copy_fields ((F, cp) # cps) inn out h =
     do { x \<leftarrow> map_of inn F;
          (x', h1) \<leftarrow> cp x h;
          copy_fields cps inn (set_field F x' out) h1 }"

definition struct_with :: "(string \<times> copier) list \<Rightarrow> copier" where
  "struct_with cps v h =
     (case v of
        StructV fs \<Rightarrow> do { (out, h') \<leftarrow> copy_fields cps fs fs h; Some (StructV out, h') }
      | _ \<Rightarrow> None)"

section \<open>The types\<close>

text \<open>
  The type of a value, as far as sharing goes: without references, declared elsewhere (\<open>Foreign\<close>, by
  name), or built from others.
\<close>

datatype shape =
    Plain
  | Foreign string
  | Pointer shape
  | SliceOf shape
  | MapOf shape
  | Struct "(string \<times> shape) list"

primrec flat_shape :: "shape \<Rightarrow> bool" where
  "flat_shape Plain = True"
| "flat_shape (Foreign T) = False"
| "flat_shape (Pointer S) = False"
| "flat_shape (SliceOf S) = False"
| "flat_shape (MapOf S) = False"
| "flat_shape (Struct ss) = list_all snd (map (map_prod id flat_shape) ss)"

primrec flat :: "tree \<Rightarrow> bool" where
  "flat (ScalarT s) = True"
| "flat NilT = False"
| "flat (PtrT t) = False"
| "flat (SliceT ts) = False"
| "flat (MapT ts) = False"
| "flat (StructT ts) = list_all snd (map (map_prod id flat) ts)"

text \<open>The library with the foreign types: their values, and their two copying methods.\<close>

record library =
  lib_values :: "string \<Rightarrow> tree \<Rightarrow> bool"
  lib_DeepCopyInto :: "string \<Rightarrow> copier"
  lib_DeepCopy :: "string \<Rightarrow> copier"

primrec has_shape :: "library \<Rightarrow> shape \<Rightarrow> tree \<Rightarrow> bool" where
  "has_shape L Plain = flat"
| "has_shape L (Foreign T) = lib_values L T"
| "has_shape L (Pointer S) = (\<lambda>t. case t of NilT \<Rightarrow> True | PtrT t \<Rightarrow> has_shape L S t | _ \<Rightarrow> False)"
| "has_shape L (SliceOf S) = (\<lambda>t. case t of NilT \<Rightarrow> True | SliceT ts \<Rightarrow> list_all (has_shape L S) ts | _ \<Rightarrow> False)"
| "has_shape L (MapOf S) =
     (\<lambda>t. case t of NilT \<Rightarrow> True | MapT ts \<Rightarrow> list_all (\<lambda>(k, t). has_shape L S t) ts | _ \<Rightarrow> False)"
| "has_shape L (Struct ss) =
     (\<lambda>t. case t of
        StructT ts \<Rightarrow> list_all2 (\<lambda>(F, p) (G, t). F = G \<and> p t) (map (map_prod id (has_shape L)) ss) ts
      | _ \<Rightarrow> False)"

text \<open>What a copier of the type \<open>S\<close> owes: it does not panic, it changes no cell, and the copy means the same and is new throughout.\<close>

definition deep :: "library \<Rightarrow> shape \<Rightarrow> copier \<Rightarrow> bool" where
  "deep L S cp =
     (\<forall>h v t. means h v t \<longrightarrow> has_shape L S t \<longrightarrow>
        (\<exists>v' h'. cp v h = Some (v', h') \<and> extends h h' \<and> owns h' (length h) v' t))"

definition library_laws :: "library \<Rightarrow> bool" where
  "library_laws L =
     (\<forall>T. deep L (Foreign T) (lib_DeepCopyInto L T) \<and> deep L (Pointer (Foreign T)) (lib_DeepCopy L T))"

section \<open>The laws of the statements\<close>

named_theorems deep_rules "the copiers of the program are deep"

lemma deepD:
  assumes "deep L S cp" and "means h v t" and "has_shape L S t"
  obtains v' h' where "cp v h = Some (v', h')" and "extends h h'" and "owns h' (length h) v' t"
  using assms unfolding deep_def by blast

lemma owns_flat: "owns h b v t \<Longrightarrow> flat t \<Longrightarrow> owns h' b' v t"
proof (induction rule: owns.induct)
  case (struct fs ts)
  from struct(2) have "list_all (\<lambda>p. flat (snd p)) ts"
    by (simp add: list.pred_map comp_def map_prod_def case_prod_beta)
  with struct(1) show ?case
    by (intro owns.struct) (force simp: list_all2_conv_all_nth list_all_length rel_prod_sel)
qed (auto intro: owns.intros)

text \<open>A struct value and its type have the same fields, in the same order.\<close>

lemma has_shape_Struct:
  "has_shape L (Struct ss) t \<longleftrightarrow>
     (\<exists>ts. t = StructT ts \<and> list_all2 (rel_prod (=) (has_shape L)) ss ts)"
  by (cases t) (simp_all add: list.rel_map rel_prod_conv case_prod_unfold)

declare has_shape.simps(6) [simp del]

lemma list_all2_right:
  "list_all2 R xs ys \<Longrightarrow> y \<in> set ys \<Longrightarrow> \<exists>x \<in> set xs. R x y"
  by (induction rule: list_all2_induct) auto

lemma list_all2_left:
  "list_all2 R xs ys \<Longrightarrow> x \<in> set xs \<Longrightarrow> \<exists>y \<in> set ys. R x y"
  by (induction rule: list_all2_induct) auto

lemma flat_shape_flat: "flat_shape S \<Longrightarrow> has_shape L S t \<Longrightarrow> flat t"
proof (induction S arbitrary: t)
  case (Struct ss)
  from Struct.prems(2) obtain ts where t: "t = StructT ts"
    and fields: "list_all2 (rel_prod (=) (has_shape L)) ss ts"
    unfolding has_shape_Struct by blast
  have "flat (snd p)" if "p \<in> set ts" for p
  proof -
    obtain q where q: "q \<in> set ss" "has_shape L (snd q) (snd p)"
      using list_all2_right [OF fields \<open>p \<in> set ts\<close>] by (auto simp: rel_prod_sel)
    with Struct.prems(1) have "flat_shape (snd q)"
      by (simp add: list.pred_map list.pred_set)
    with q show ?thesis using Struct.IH [OF q(1) Basic_BNFs.snds.intros _ q(2)] by simp
  qed
  then show ?case by (simp add: t list.pred_map list.pred_set)
qed simp_all

lemma deep_assign [deep_rules]: "flat_shape S \<Longrightarrow> deep L S assign"
  unfolding deep_def assign_def by (auto dest: flat_shape_flat intro: owns_flat)

lemma extends_snoc: "extends h h1 \<Longrightarrow> extends h (h1 @ cs)"
  by (auto simp: extends_def)

lemma owns_new_cell: "owns h b v t \<Longrightarrow> owns (h @ cs) b v t"
  by (erule owns_extends) simp_all

lemma deep_pointer [deep_rules]:
  assumes "deep L S cp"
  shows "deep L (Pointer S) (pointer cp)"
  unfolding deep_def
proof (intro allI impI)
  fix h v t
  assume v: "means h v t" and t: "has_shape L (Pointer S) t"
  show "\<exists>v' h'. pointer cp v h = Some (v', h') \<and> extends h h' \<and> owns h' (length h) v' t"
  proof (cases "v = NilV")
    case True
    with v t show ?thesis by (auto simp: pointer_def elim: owns.cases intro: owns.nil)
  next
    case False
    with v t obtain a x u where a: "v = PtrV a" "a < length h" "h ! a = Pointee x" "means h x u" "t = PtrT u" "has_shape L S u"
      by (auto split: tree.splits elim: owns.cases)
    obtain x' h1 where c: "cp x h = Some (x', h1)" "extends h h1" "owns h1 (length h) x' u"
      using deepD [OF assms a(4,6)] .
    have "owns (h1 @ [Pointee x']) (length h) (PtrV (length h1)) t"
      unfolding a by (rule owns.ptr) (use c in \<open>auto simp: extends_length intro: owns_new_cell\<close>)
    with False a c show ?thesis by (auto simp: pointer_def intro: extends_snoc)
  qed
qed

lemma deep_copy_all:
  assumes "deep L S cp"
  shows "list_all2 (owns h 0) vs ts \<Longrightarrow> list_all (has_shape L S) ts \<Longrightarrow>
    \<exists>vs' h'. copy_all cp vs h = Some (vs', h') \<and> extends h h' \<and> list_all2 (owns h' (length h)) vs' ts"
proof (induction vs arbitrary: ts h)
  case (Cons v vs)
  then obtain t us where ts: "ts = t # us" "means h v t" "list_all2 (owns h 0) vs us"
    "has_shape L S t" "list_all (has_shape L S) us"
    by (cases ts) auto
  obtain v' h1 where 1: "cp v h = Some (v', h1)" "extends h h1" "owns h1 (length h) v' t"
    using deepD [OF assms ts(2,4)] .
  have "list_all2 (owns h1 0) vs us"
    using ts(3) by (rule list.rel_mono_strong) (auto intro: owns_extends [OF _ 1(2)])
  from Cons.IH [OF this ts(5)] obtain vs' h' where 2: "copy_all cp vs h1 = Some (vs', h')" "extends h1 h'"
    "list_all2 (owns h' (length h1)) vs' us" by blast
  have "list_all2 (owns h' (length h)) vs' us"
    using 2(3) by (rule list.rel_mono_strong) (auto intro: owns_extends extends_length [OF 1(2)])
  moreover have "owns h' (length h) v' t" using 1(3) 2(2) by (rule owns_extends) simp
  ultimately show ?case using 1 2 ts by (auto intro: extends_trans)
qed simp

lemma deep_slice [deep_rules]:
  assumes "deep L S cp"
  shows "deep L (SliceOf S) (slice_of cp)"
  unfolding deep_def
proof (intro allI impI)
  fix h v t
  assume v: "means h v t" and t: "has_shape L (SliceOf S) t"
  show "\<exists>v' h'. slice_of cp v h = Some (v', h') \<and> extends h h' \<and> owns h' (length h) v' t"
  proof (cases "v = NilV")
    case True
    with v t show ?thesis by (auto simp: slice_of_def elim: owns.cases intro: owns.nil)
  next
    case False
    with v t obtain a vs off n us where a: "v = SliceV a off n" "a < length h" "h ! a = Backing vs" "off + n \<le> length vs"
      "list_all2 (owns h 0) (take n (drop off vs)) us" "t = SliceT us" "list_all (has_shape L S) us"
      by (auto split: tree.splits elim: owns.cases)
    obtain vs' h1 where c: "copy_all cp (take n (drop off vs)) h = Some (vs', h1)" "extends h h1" "list_all2 (owns h1 (length h)) vs' us"
      using deep_copy_all [OF assms a(5,7)] by blast
    have "list_all2 (owns (h1 @ [Backing vs']) (length h)) vs' us"
      using c(3) by (rule list.rel_mono_strong) (rule owns_new_cell)
    then have "owns (h1 @ [Backing vs']) (length h) (SliceV (length h1) 0 (length vs')) t"
      unfolding a by (intro owns.slice [where vs = vs']) (use c in \<open>auto simp: extends_length\<close>)
    with False a c show ?thesis by (auto simp: slice_of_def intro: extends_snoc)
  qed
qed

lemma deep_map [deep_rules]:
  assumes "deep L S cp"
  shows "deep L (MapOf S) (map_of_copies cp)"
  unfolding deep_def
proof (intro allI impI)
  fix h v t
  assume v: "means h v t" and t: "has_shape L (MapOf S) t"
  show "\<exists>v' h'. map_of_copies cp v h = Some (v', h') \<and> extends h h' \<and> owns h' (length h) v' t"
  proof (cases "v = NilV")
    case True
    with v t show ?thesis by (auto simp: map_of_copies_def elim: owns.cases intro: owns.nil)
  next
    case False
    with v t obtain a es us where a: "v = MapV a" "a < length h" "h ! a = Table es"
      "list_all2 (rel_prod (=) (owns h 0)) es us" "t = MapT us" "list_all (\<lambda>(k, t). has_shape L S t) us"
      by (auto split: tree.splits elim: owns.cases)
    have "list_all2 (owns h 0) (map snd es) (map snd us)" "list_all (has_shape L S) (map snd us)"
      using a(4,6) by (auto simp: list.rel_map list.pred_map rel_prod_sel comp_def case_prod_unfold elim: list.rel_mono_strong)
    from deep_copy_all [OF assms this] obtain vs' h1 where c: "copy_all cp (map snd es) h = Some (vs', h1)" "extends h h1"
      "list_all2 (owns h1 (length h)) vs' (map snd us)" by blast
    let ?es = "zip (map fst es) vs'"
    have "list_all2 (rel_prod (=) (owns (h1 @ [Table ?es]) (length h))) ?es us"
      using a(4) c(3) by (auto simp: list_all2_conv_all_nth rel_prod_sel intro: owns_new_cell)
    then have "owns (h1 @ [Table ?es]) (length h) (MapV (length h1)) t"
      unfolding a by (intro owns.map [where es = ?es]) (use c in \<open>auto simp: extends_length\<close>)
    with False a c show ?thesis by (auto simp: map_of_copies_def intro: extends_snoc)
  qed
qed

lemma deep_through_pointer [deep_rules]:
  assumes "deep L (Pointer S) dc"
  shows "deep L S (through_pointer dc)"
  unfolding deep_def
proof (intro allI impI)
  fix h v t
  assume v: "means h v t" and t: "has_shape L S t"
  have "means (h @ [Pointee v]) (PtrV (length h)) (PtrT t)"
    by (rule owns.ptr) (use v in \<open>auto intro: owns_new_cell\<close>)
  moreover have "has_shape L (Pointer S) (PtrT t)" using t by simp
  ultimately obtain p h1 where c: "dc (PtrV (length h)) (h @ [Pointee v]) = Some (p, h1)" "extends (h @ [Pointee v]) h1"
    "owns h1 (length (h @ [Pointee v])) p (PtrT t)" using deepD [OF assms] by metis
  from c(3) obtain a x where "p = PtrV a" "a < length h1" "h1 ! a = Pointee x" "owns h1 (length (h @ [Pointee v])) x t"
    by (auto elim: owns.cases)
  moreover have "owns h1 (length h) x t" using calculation(4) by (rule owns_extends) simp_all
  moreover have "extends h h1" using extends_append c(2) by (rule extends_trans)
  ultimately show "\<exists>v' h'. through_pointer dc v h = Some (v', h') \<and> extends h h' \<and> owns h' (length h) v' t"
    using c(1) by (simp add: through_pointer_def)
qed

lemma deep_when_set [deep_rules]:
  assumes "deep L (Pointer S) dc"
  shows "deep L (Pointer S) (when_set dc)"
  unfolding deep_def when_set_def
proof (intro allI impI)
  fix h v t
  assume v: "means h v t" and t: "has_shape L (Pointer S) t"
  show "\<exists>v' h'. (if v = NilV then Some (NilV, h) else dc v h) = Some (v', h') \<and> extends h h' \<and> owns h' (length h) v' t"
  proof (cases "v = NilV")
    case True
    with v t show ?thesis by (auto elim: owns.cases intro: owns.nil)
  next
    case False
    with assms v t show ?thesis by (simp add: deep_def)
  qed
qed

lemma deep_library [deep_rules]:
  "library_laws L \<Longrightarrow> deep L (Foreign T) (lib_DeepCopyInto L T)"
  "library_laws L \<Longrightarrow> deep L (Pointer (Foreign T)) (lib_DeepCopy L T)"
  by (simp_all add: library_laws_def)

section \<open>Structs\<close>

text \<open>
  After the statements for the fields \<open>D\<close>: those fields of \<open>out\<close> are copies, the others still equal
  those of \<open>in\<close>.
\<close>

definition copied ::
  "nat \<Rightarrow> string set \<Rightarrow> (string \<times> gval) list \<Rightarrow> (string \<times> gval) list \<Rightarrow> (string \<times> tree) list \<Rightarrow> heap \<Rightarrow> bool" where
  "copied b D inn out ts h =
     (map fst out = map fst inn \<and>
      (\<forall>i < length inn. if fst (inn ! i) \<in> D then owns h b (snd (out ! i)) (snd (ts ! i))
                        else snd (out ! i) = snd (inn ! i)))"

lemma same_names: "list_all2 (rel_prod (=) R) xs ys \<Longrightarrow> map fst xs = map fst ys"
  by (induction rule: list_all2_induct) (auto simp: rel_prod_sel)

lemma map_of_fields:
  "list_all2 (rel_prod (=) R) inn ts \<Longrightarrow> map_of ts F = Some t \<Longrightarrow> \<exists>x. map_of inn F = Some x \<and> R x t"
  by (induction rule: list_all2_induct) (auto simp: rel_prod_sel split: if_splits)

lemma copied_step:
  assumes "copied b D inn out ts h" and "extends h h'" and "owns h' b x t" and "map_of ts F = Some t"
    and "distinct (map fst ts)" and "map fst inn = map fst ts"
  shows "copied b (insert F D) inn (set_field F x out) ts h'"
proof -
  have names: "map fst out = map fst inn" and len: "length inn = length ts" "length out = length ts"
    using assms(1,6) by (auto simp: copied_def dest: map_eq_imp_length_eq)
  have field: "set_field F x out ! i = (fst (inn ! i), if fst (inn ! i) = F then x else snd (out ! i))" if "i < length inn" for i
  proof -
    have "fst (out ! i) = fst (inn ! i)" using that names len by (metis nth_map)
    with that len show ?thesis by (simp add: set_field_def case_prod_unfold)
  qed
  have this_field: "snd (ts ! i) = t" if "i < length inn" "fst (inn ! i) = F" for i
  proof -
    have "ts ! i = (F, snd (ts ! i))" using that len arg_cong [OF assms(6), of "\<lambda>xs. xs ! i"] by (simp add: prod_eq_iff)
    then have "(F, snd (ts ! i)) \<in> set ts" using that len nth_mem by metis
    with assms(4,5) show ?thesis by (auto dest: map_of_is_SomeI)
  qed
  have "map fst (set_field F x out) = map fst inn"
    using names by (simp add: set_field_def comp_def case_prod_unfold)
  moreover have "owns h' b (snd (out ! i)) (snd (ts ! i))" if "i < length inn" "fst (inn ! i) \<in> D" for i
  proof -
    have "owns h b (snd (out ! i)) (snd (ts ! i))" using assms(1) that by (simp add: copied_def)
    then show ?thesis using assms(2) by (rule owns_extends) simp
  qed
  ultimately show ?thesis
    using assms(1,3) this_field by (simp add: copied_def field)
qed

lemma copy_fields_copied:
  assumes "list_all2 (rel_prod (=) (owns h 0)) inn ts" and "distinct (map fst ts)"
    and "copied b D inn out ts h" and "b \<le> length h"
    and "\<forall>(F, cp) \<in> set cps. \<exists>S t. deep L S cp \<and> map_of ts F = Some t \<and> has_shape L S t"
  shows "\<exists>out' h'. copy_fields cps inn out h = Some (out', h') \<and> extends h h' \<and>
    copied b (D \<union> fst ` set cps) inn out' ts h'"
  using assms
proof (induction cps arbitrary: out h D)
  case (Cons fc cps)
  obtain F cp where fc: "fc = (F, cp)" by (cases fc)
  with Cons.prems(5) obtain S t where S: "deep L S cp" "map_of ts F = Some t" "has_shape L S t" by auto
  obtain x where x: "map_of inn F = Some x" "means h x t" using map_of_fields [OF Cons.prems(1) S(2)] by blast
  obtain x' h1 where c: "cp x h = Some (x', h1)" "extends h h1" "owns h1 (length h) x' t"
    using deepD [OF S(1) x(2) S(3)] .
  have names: "map fst inn = map fst ts"
    using Cons.prems(1) by (rule same_names)
  have "owns h1 b x' t" using c(3) Cons.prems(4) by (auto intro: owns_extends)
  with Cons.prems(3) c(2) have "copied b (insert F D) inn (set_field F x' out) ts h1"
    using S(2) Cons.prems(2) names by (rule copied_step)
  moreover have "list_all2 (rel_prod (=) (owns h1 0)) inn ts"
    using Cons.prems(1) by (rule list.rel_mono_strong) (auto simp: rel_prod_sel intro: owns_extends [OF _ c(2)])
  moreover have "b \<le> length h1" using Cons.prems(4) extends_length [OF c(2)] by simp
  ultimately obtain out' h' where 2: "copy_fields cps inn (set_field F x' out) h1 = Some (out', h')" "extends h1 h'"
    "copied b (insert F D \<union> fst ` set cps) inn out' ts h'"
    using Cons.IH Cons.prems(2,5) by fastforce
  with fc x c show ?case by (auto intro: extends_trans)
qed simp

text \<open>
  The statements \<open>cps\<close> cover a struct of the type \<open>ss\<close>: in the order of the fields, each field has a
  statement whose copier is deep, or is without references.
\<close>

fun covers :: "library \<Rightarrow> (string \<times> shape) list \<Rightarrow> (string \<times> copier) list \<Rightarrow> bool" where
  "covers L [] cps = (cps = [])"
| "covers L ((F, S) # ss) [] = (flat_shape S \<and> covers L ss [])"
| "covers L ((F, S) # ss) ((G, cp) # cps) =
     (if F = G then deep L S cp \<and> covers L ss cps else flat_shape S \<and> covers L ss ((G, cp) # cps))"

lemma covers_cases:
  assumes "covers L ss cps"
  shows "\<forall>(F, cp) \<in> set cps. \<exists>S. (F, S) \<in> set ss \<and> deep L S cp"
    and "\<forall>(F, S) \<in> set ss. F \<in> fst ` set cps \<or> flat_shape S"
  using assms by (induction L ss cps rule: covers.induct) (auto split: if_splits)

lemma deep_struct:
  assumes "distinct (map fst ss)" and "covers L ss cps"
  shows "deep L (Struct ss) (struct_with cps)"
  unfolding deep_def
proof (intro allI impI)
  fix h v t
  assume v: "means h v t" and "has_shape L (Struct ss) t"
  then obtain ts where t: "t = StructT ts" and shapes: "list_all2 (rel_prod (=) (has_shape L)) ss ts"
    unfolding has_shape_Struct by blast
  from v t obtain fs where fs: "v = StructV fs" "list_all2 (rel_prod (=) (owns h 0)) fs ts"
    by (auto elim: owns.cases)
  have names: "map fst ss = map fst ts" "map fst fs = map fst ts"
    using same_names [OF shapes] same_names [OF fs(2)] .
  then have len: "length ss = length ts" "length fs = length ts" by (auto dest: map_eq_imp_length_eq)
  note names = names len(2,1)
  have "\<exists>S t. deep L S cp \<and> map_of ts F = Some t \<and> has_shape L S t" if cp: "(F, cp) \<in> set cps" for F cp
  proof -
    obtain S where S: "(F, S) \<in> set ss" "deep L S cp" using bspec [OF covers_cases(1) [OF assms(2)] cp] by auto
    obtain q where "q \<in> set ts" "rel_prod (=) (has_shape L) (F, S) q"
      using list_all2_left [OF shapes S(1)] by blast
    then have "(F, snd q) \<in> set ts" "has_shape L S (snd q)" by (simp_all add: rel_prod_sel)
    moreover have "distinct (map fst ts)" using assms(1) names(1) by simp
    ultimately show ?thesis using S(2) by (intro exI [of _ S] exI [of _ "snd q"]) (simp add: map_of_is_SomeI)
  qed
  then have ok: "\<forall>(F, cp) \<in> set cps. \<exists>S t. deep L S cp \<and> map_of ts F = Some t \<and> has_shape L S t" by auto
  have "copied (length h) {} fs fs ts h" by (simp add: copied_def)
  from copy_fields_copied [OF fs(2) _ this le_refl ok] assms(1) names(1)
  obtain out h' where c: "copy_fields cps fs fs h = Some (out, h')" "extends h h'"
    "copied (length h) (fst ` set cps) fs out ts h'" by auto
  have "owns h' (length h) (snd (out ! i)) (snd (ts ! i))" if "i < length ts" for i
  proof (cases "fst (fs ! i) \<in> fst ` set cps")
    case True
    with c(3) that names show ?thesis by (simp add: copied_def)
  next
    case False
    have name: "fst (fs ! i) = fst (ss ! i)" using that names by (metis nth_map)
    have "flat_shape (snd (ss ! i))"
      using covers_cases(2) [OF assms(2)] False name that names(4) nth_mem [of i ss] by (auto simp: case_prod_unfold)
    moreover have "has_shape L (snd (ss ! i)) (snd (ts ! i))" "means h (snd (fs ! i)) (snd (ts ! i))"
      using shapes fs(2) that by (auto simp: list_all2_conv_all_nth rel_prod_sel)
    ultimately have "owns h' (length h) (snd (fs ! i)) (snd (ts ! i))"
      by (meson flat_shape_flat owns_flat)
    moreover have "snd (out ! i) = snd (fs ! i)" using c(3) False that names by (simp add: copied_def)
    ultimately show ?thesis by simp
  qed
  moreover have "map fst out = map fst ts" "length out = length ts"
    using c(3) names by (auto simp: copied_def dest: map_eq_imp_length_eq)
  ultimately have "list_all2 (rel_prod (=) (owns h' (length h))) out ts"
    by (auto simp: list_all2_conv_all_nth rel_prod_sel) (metis nth_map)
  then have "owns h' (length h) (StructV out) t" unfolding t by (rule owns.struct)
  with c fs show "\<exists>v' h'. struct_with cps v h = Some (v', h') \<and> extends h h' \<and> owns h' (length h) v' t"
    by (simp add: struct_with_def)
qed

section \<open>Separation\<close>

text \<open>Writes to any of the old cells do not show in a deep copy, and writes to any of the new ones not in the original.\<close>

definition same_below :: "nat \<Rightarrow> heap \<Rightarrow> heap \<Rightarrow> bool" where
  "same_below b h h' = (\<forall>a < b. a < length h \<longrightarrow> a < length h' \<and> h' ! a = h ! a)"

definition separate :: "heap \<Rightarrow> heap \<Rightarrow> gval \<Rightarrow> gval \<Rightarrow> tree \<Rightarrow> bool" where
  "separate h h' v v' t =
     ((\<forall>m. same_from (length h) h' m \<longrightarrow> means m v' t) \<and> (\<forall>m. same_below (length h) h' m \<longrightarrow> means m v t))"

lemma deep_separate:
  assumes "deep L S cp" and "means h v t" and "has_shape L S t"
  shows "\<exists>v' h'. cp v h = Some (v', h') \<and> separate h h' v v' t"
proof -
  obtain v' h' where c: "cp v h = Some (v', h')" "extends h h'" "owns h' (length h) v' t"
    using deepD [OF assms] .
  have "means m v' t" if "same_from (length h) h' m" for m
    using owns_same [OF c(3) that le_refl] by (rule owns_same [of m _ _ _ 0 m]) (simp_all add: same_from_def)
  moreover have "means m v t" if m: "same_below (length h) h' m" for m
    using assms(2)
  proof (rule owns_same)
    show "same_from 0 h m" using m c(2) by (auto simp: same_below_def same_from_def extends_def nth_append)
  qed simp
  ultimately show ?thesis using c(1) by (auto simp: separate_def)
qed

end
