(* ===== verification/Deep_Copies.thy ===== *)
theory Deep_Copies
  imports Go_Memory
begin

text \<open>
  \<open>api/v1beta2/zz_generated.deepcopy.go\<close>: the deep copies that \<open>controller-gen\<close> emits for the API
  types, function by function, over the memory model of Go_Memory; and beside each the type it copies, as
  the source declares it. \<open>DeepCopyInto_T\<close> is \<open>(*T).DeepCopyInto\<close>, from the value of \<open>*in\<close> to that of
  \<open>*out\<close>; \<open>DeepCopy_T\<close> is \<open>(*T).DeepCopy\<close>. Types of other modules are \<open>Foreign\<close>, with their copying
  methods from the record \<open>library\<close>; \<open>TypeMeta\<close>, \<open>PullPolicy\<close> and \<open>Capability\<close> are strings and structs of
  strings.
\<close>

section \<open>Types and functions\<close>

definition shape_SecretKeySelector :: shape where
  "shape_SecretKeySelector = Struct
     [(''Name'', Plain), (''Key'', Plain), (''Optional'', Pointer Plain)]"

definition DeepCopyInto_SecretKeySelector :: "copier" where
  "DeepCopyInto_SecretKeySelector = struct_with
     [(''Optional'', pointer assign)]"

definition DeepCopy_SecretKeySelector :: "copier" where
  "DeepCopy_SecretKeySelector = pointer DeepCopyInto_SecretKeySelector"

lemma deep_SecretKeySelector [deep_rules]:
  "deep L shape_SecretKeySelector DeepCopyInto_SecretKeySelector"
  unfolding shape_SecretKeySelector_def DeepCopyInto_SecretKeySelector_def
  by (rule deep_struct) (simp_all add: deep_rules)

definition shape_TokenSource :: shape where
  "shape_TokenSource = Struct
     [(''Value'', Plain), (''SecretKeyRef'', Pointer shape_SecretKeySelector)]"

definition DeepCopyInto_TokenSource :: "copier" where
  "DeepCopyInto_TokenSource = struct_with
     [(''SecretKeyRef'', pointer DeepCopyInto_SecretKeySelector)]"

definition DeepCopy_TokenSource :: "copier" where
  "DeepCopy_TokenSource = pointer DeepCopyInto_TokenSource"

lemma deep_TokenSource [deep_rules]:
  "deep L shape_TokenSource DeepCopyInto_TokenSource"
  unfolding shape_TokenSource_def DeepCopyInto_TokenSource_def
  by (rule deep_struct) (simp_all add: deep_rules)

definition shape_RunnerCreateOptions :: shape where
  "shape_RunnerCreateOptions = Struct
     [(''RunnerType'', Plain), (''GroupID'', Pointer Plain), (''ProjectID'', Pointer Plain),
      (''Description'', Plain), (''Paused'', Pointer Plain), (''Locked'', Pointer Plain),
      (''RunUntagged'', Pointer Plain), (''TagList'', SliceOf Plain), (''AccessLevel'', Plain),
      (''MaximumTimeout'', Pointer Plain), (''MaintenanceNote'', Plain)]"

definition DeepCopyInto_RunnerCreateOptions :: "copier" where
  "DeepCopyInto_RunnerCreateOptions = struct_with
     [(''GroupID'', pointer assign), (''ProjectID'', pointer assign), (''Paused'', pointer assign),
      (''Locked'', pointer assign), (''RunUntagged'', pointer assign), (''TagList'', slice_of assign),
      (''MaximumTimeout'', pointer assign)]"

definition DeepCopy_RunnerCreateOptions :: "copier" where
  "DeepCopy_RunnerCreateOptions = pointer DeepCopyInto_RunnerCreateOptions"

lemma deep_RunnerCreateOptions [deep_rules]:
  "deep L shape_RunnerCreateOptions DeepCopyInto_RunnerCreateOptions"
  unfolding shape_RunnerCreateOptions_def DeepCopyInto_RunnerCreateOptions_def
  by (rule deep_struct) (simp_all add: deep_rules)

definition shape_GitlabAuth :: shape where
  "shape_GitlabAuth = Struct
     [(''Token'', Pointer shape_TokenSource), (''AccessToken'', Pointer shape_TokenSource),
      (''CreateOptions'', Pointer shape_RunnerCreateOptions)]"

definition DeepCopyInto_GitlabAuth :: "copier" where
  "DeepCopyInto_GitlabAuth = struct_with
     [(''Token'', pointer DeepCopyInto_TokenSource), (''AccessToken'', pointer DeepCopyInto_TokenSource),
      (''CreateOptions'', pointer DeepCopyInto_RunnerCreateOptions)]"

definition DeepCopy_GitlabAuth :: "copier" where
  "DeepCopy_GitlabAuth = pointer DeepCopyInto_GitlabAuth"

lemma deep_GitlabAuth [deep_rules]:
  "deep L shape_GitlabAuth DeepCopyInto_GitlabAuth"
  unfolding shape_GitlabAuth_def DeepCopyInto_GitlabAuth_def
  by (rule deep_struct) (simp_all add: deep_rules)

definition shape_CAKeyRef :: shape where
  "shape_CAKeyRef = Struct
     [(''Name'', Plain), (''Key'', Plain)]"

definition DeepCopyInto_CAKeyRef :: "copier" where
  "DeepCopyInto_CAKeyRef = struct_with
     []"

definition DeepCopy_CAKeyRef :: "copier" where
  "DeepCopy_CAKeyRef = pointer DeepCopyInto_CAKeyRef"

lemma flat_CAKeyRef [deep_rules]: "flat_shape shape_CAKeyRef"
  by (simp add: shape_CAKeyRef_def deep_rules)

lemma deep_CAKeyRef [deep_rules]:
  "deep L shape_CAKeyRef DeepCopyInto_CAKeyRef"
  unfolding shape_CAKeyRef_def DeepCopyInto_CAKeyRef_def
  by (rule deep_struct) (simp_all add: deep_rules)

definition shape_CASource :: shape where
  "shape_CASource = Struct
     [(''Value'', Plain), (''SecretKeyRef'', Pointer shape_CAKeyRef),
      (''ConfigMapKeyRef'', Pointer shape_CAKeyRef)]"

definition DeepCopyInto_CASource :: "copier" where
  "DeepCopyInto_CASource = struct_with
     [(''SecretKeyRef'', pointer assign), (''ConfigMapKeyRef'', pointer assign)]"

definition DeepCopy_CASource :: "copier" where
  "DeepCopy_CASource = pointer DeepCopyInto_CASource"

lemma deep_CASource [deep_rules]:
  "deep L shape_CASource DeepCopyInto_CASource"
  unfolding shape_CASource_def DeepCopyInto_CASource_def
  by (rule deep_struct) (simp_all add: deep_rules)

definition shape_ConcurrencyLimits :: shape where
  "shape_ConcurrencyLimits = Struct
     [(''Limit'', Plain), (''RequestConcurrency'', Plain)]"

definition DeepCopyInto_ConcurrencyLimits :: "copier" where
  "DeepCopyInto_ConcurrencyLimits = struct_with
     []"

definition DeepCopy_ConcurrencyLimits :: "copier" where
  "DeepCopy_ConcurrencyLimits = pointer DeepCopyInto_ConcurrencyLimits"

lemma flat_ConcurrencyLimits [deep_rules]: "flat_shape shape_ConcurrencyLimits"
  by (simp add: shape_ConcurrencyLimits_def deep_rules)

lemma deep_ConcurrencyLimits [deep_rules]:
  "deep L shape_ConcurrencyLimits DeepCopyInto_ConcurrencyLimits"
  unfolding shape_ConcurrencyLimits_def DeepCopyInto_ConcurrencyLimits_def
  by (rule deep_struct) (simp_all add: deep_rules)

definition shape_KubernetesPodSpec :: shape where
  "shape_KubernetesPodSpec = Struct
     [(''Name'', Plain), (''PatchPath'', Plain), (''Patch'', Plain), (''PatchType'', Plain)]"

definition DeepCopyInto_KubernetesPodSpec :: "copier" where
  "DeepCopyInto_KubernetesPodSpec = struct_with
     []"

definition DeepCopy_KubernetesPodSpec :: "copier" where
  "DeepCopy_KubernetesPodSpec = pointer DeepCopyInto_KubernetesPodSpec"

lemma flat_KubernetesPodSpec [deep_rules]: "flat_shape shape_KubernetesPodSpec"
  by (simp add: shape_KubernetesPodSpec_def deep_rules)

lemma deep_KubernetesPodSpec [deep_rules]:
  "deep L shape_KubernetesPodSpec DeepCopyInto_KubernetesPodSpec"
  unfolding shape_KubernetesPodSpec_def DeepCopyInto_KubernetesPodSpec_def
  by (rule deep_struct) (simp_all add: deep_rules)

definition shape_KubernetesDNSConfigOption :: shape where
  "shape_KubernetesDNSConfigOption = Struct
     [(''Name'', Plain), (''Value'', Pointer Plain)]"

definition DeepCopyInto_KubernetesDNSConfigOption :: "copier" where
  "DeepCopyInto_KubernetesDNSConfigOption = struct_with
     [(''Value'', pointer assign)]"

definition DeepCopy_KubernetesDNSConfigOption :: "copier" where
  "DeepCopy_KubernetesDNSConfigOption = pointer DeepCopyInto_KubernetesDNSConfigOption"

lemma deep_KubernetesDNSConfigOption [deep_rules]:
  "deep L shape_KubernetesDNSConfigOption DeepCopyInto_KubernetesDNSConfigOption"
  unfolding shape_KubernetesDNSConfigOption_def DeepCopyInto_KubernetesDNSConfigOption_def
  by (rule deep_struct) (simp_all add: deep_rules)

definition shape_KubernetesDNSConfig :: shape where
  "shape_KubernetesDNSConfig = Struct
     [(''Nameservers'', SliceOf Plain), (''Options'', SliceOf shape_KubernetesDNSConfigOption),
      (''Searches'', SliceOf Plain)]"

definition DeepCopyInto_KubernetesDNSConfig :: "copier" where
  "DeepCopyInto_KubernetesDNSConfig = struct_with
     [(''Nameservers'', slice_of assign), (''Options'', slice_of DeepCopyInto_KubernetesDNSConfigOption),
      (''Searches'', slice_of assign)]"

definition DeepCopy_KubernetesDNSConfig :: "copier" where
  "DeepCopy_KubernetesDNSConfig = pointer DeepCopyInto_KubernetesDNSConfig"

lemma deep_KubernetesDNSConfig [deep_rules]:
  "deep L shape_KubernetesDNSConfig DeepCopyInto_KubernetesDNSConfig"
  unfolding shape_KubernetesDNSConfig_def DeepCopyInto_KubernetesDNSConfig_def
  by (rule deep_struct) (simp_all add: deep_rules)

definition shape_KubernetesConfigMap :: shape where
  "shape_KubernetesConfigMap = Struct
     [(''Name'', Plain), (''MountPath'', Plain), (''SubPath'', Plain), (''ReadOnly'', Plain),
      (''Items'', MapOf Plain)]"

definition DeepCopyInto_KubernetesConfigMap :: "copier" where
  "DeepCopyInto_KubernetesConfigMap = struct_with
     [(''Items'', map_of_copies assign)]"

definition DeepCopy_KubernetesConfigMap :: "copier" where
  "DeepCopy_KubernetesConfigMap = pointer DeepCopyInto_KubernetesConfigMap"

lemma deep_KubernetesConfigMap [deep_rules]:
  "deep L shape_KubernetesConfigMap DeepCopyInto_KubernetesConfigMap"
  unfolding shape_KubernetesConfigMap_def DeepCopyInto_KubernetesConfigMap_def
  by (rule deep_struct) (simp_all add: deep_rules)

definition shape_KubernetesHostPath :: shape where
  "shape_KubernetesHostPath = Struct
     [(''Name'', Plain), (''MountPath'', Plain), (''SubPath'', Plain), (''ReadOnly'', Plain),
      (''HostPath'', Plain), (''MountPropagation'', Pointer Plain)]"

definition DeepCopyInto_KubernetesHostPath :: "copier" where
  "DeepCopyInto_KubernetesHostPath = struct_with
     [(''MountPropagation'', pointer assign)]"

definition DeepCopy_KubernetesHostPath :: "copier" where
  "DeepCopy_KubernetesHostPath = pointer DeepCopyInto_KubernetesHostPath"

lemma deep_KubernetesHostPath [deep_rules]:
  "deep L shape_KubernetesHostPath DeepCopyInto_KubernetesHostPath"
  unfolding shape_KubernetesHostPath_def DeepCopyInto_KubernetesHostPath_def
  by (rule deep_struct) (simp_all add: deep_rules)

definition shape_KubernetesPVC :: shape where
  "shape_KubernetesPVC = Struct
     [(''Name'', Plain), (''MountPath'', Plain), (''SubPath'', Plain), (''ReadOnly'', Plain),
      (''MountPropagation'', Pointer Plain)]"

definition DeepCopyInto_KubernetesPVC :: "copier" where
  "DeepCopyInto_KubernetesPVC = struct_with
     [(''MountPropagation'', pointer assign)]"

definition DeepCopy_KubernetesPVC :: "copier" where
  "DeepCopy_KubernetesPVC = pointer DeepCopyInto_KubernetesPVC"

lemma deep_KubernetesPVC [deep_rules]:
  "deep L shape_KubernetesPVC DeepCopyInto_KubernetesPVC"
  unfolding shape_KubernetesPVC_def DeepCopyInto_KubernetesPVC_def
  by (rule deep_struct) (simp_all add: deep_rules)

definition shape_KubernetesSecret :: shape where
  "shape_KubernetesSecret = Struct
     [(''Name'', Plain), (''MountPath'', Plain), (''SubPath'', Plain), (''ReadOnly'', Plain),
      (''Items'', MapOf Plain)]"

definition DeepCopyInto_KubernetesSecret :: "copier" where
  "DeepCopyInto_KubernetesSecret = struct_with
     [(''Items'', map_of_copies assign)]"

definition DeepCopy_KubernetesSecret :: "copier" where
  "DeepCopy_KubernetesSecret = pointer DeepCopyInto_KubernetesSecret"

lemma deep_KubernetesSecret [deep_rules]:
  "deep L shape_KubernetesSecret DeepCopyInto_KubernetesSecret"
  unfolding shape_KubernetesSecret_def DeepCopyInto_KubernetesSecret_def
  by (rule deep_struct) (simp_all add: deep_rules)

definition shape_KubernetesEmptyDir :: shape where
  "shape_KubernetesEmptyDir = Struct
     [(''Name'', Plain), (''MountPath'', Plain), (''SubPath'', Plain), (''Medium'', Plain),
      (''SizeLimit'', Plain), (''MountPropagation'', Pointer Plain)]"

definition DeepCopyInto_KubernetesEmptyDir :: "copier" where
  "DeepCopyInto_KubernetesEmptyDir = struct_with
     [(''MountPropagation'', pointer assign)]"

definition DeepCopy_KubernetesEmptyDir :: "copier" where
  "DeepCopy_KubernetesEmptyDir = pointer DeepCopyInto_KubernetesEmptyDir"

lemma deep_KubernetesEmptyDir [deep_rules]:
  "deep L shape_KubernetesEmptyDir DeepCopyInto_KubernetesEmptyDir"
  unfolding shape_KubernetesEmptyDir_def DeepCopyInto_KubernetesEmptyDir_def
  by (rule deep_struct) (simp_all add: deep_rules)

definition shape_KubernetesCSI :: shape where
  "shape_KubernetesCSI = Struct
     [(''Name'', Plain), (''MountPath'', Plain), (''SubPath'', Plain), (''Driver'', Plain),
      (''FSType'', Plain), (''ReadOnly'', Plain), (''VolumeAttributes'', MapOf Plain)]"

definition DeepCopyInto_KubernetesCSI :: "copier" where
  "DeepCopyInto_KubernetesCSI = struct_with
     [(''VolumeAttributes'', map_of_copies assign)]"

definition DeepCopy_KubernetesCSI :: "copier" where
  "DeepCopy_KubernetesCSI = pointer DeepCopyInto_KubernetesCSI"

lemma deep_KubernetesCSI [deep_rules]:
  "deep L shape_KubernetesCSI DeepCopyInto_KubernetesCSI"
  unfolding shape_KubernetesCSI_def DeepCopyInto_KubernetesCSI_def
  by (rule deep_struct) (simp_all add: deep_rules)

definition shape_KubernetesNFS :: shape where
  "shape_KubernetesNFS = Struct
     [(''Name'', Plain), (''MountPath'', Plain), (''SubPath'', Plain), (''Server'', Plain),
      (''Path'', Plain), (''ReadOnly'', Plain)]"

definition DeepCopyInto_KubernetesNFS :: "copier" where
  "DeepCopyInto_KubernetesNFS = struct_with
     []"

definition DeepCopy_KubernetesNFS :: "copier" where
  "DeepCopy_KubernetesNFS = pointer DeepCopyInto_KubernetesNFS"

lemma flat_KubernetesNFS [deep_rules]: "flat_shape shape_KubernetesNFS"
  by (simp add: shape_KubernetesNFS_def deep_rules)

lemma deep_KubernetesNFS [deep_rules]:
  "deep L shape_KubernetesNFS DeepCopyInto_KubernetesNFS"
  unfolding shape_KubernetesNFS_def DeepCopyInto_KubernetesNFS_def
  by (rule deep_struct) (simp_all add: deep_rules)

definition shape_KubernetesVolumes :: shape where
  "shape_KubernetesVolumes = Struct
     [(''HostPaths'', SliceOf shape_KubernetesHostPath), (''PVCs'', SliceOf shape_KubernetesPVC),
      (''ConfigMaps'', SliceOf shape_KubernetesConfigMap), (''Secrets'', SliceOf shape_KubernetesSecret),
      (''EmptyDirs'', SliceOf shape_KubernetesEmptyDir), (''CSIs'', SliceOf shape_KubernetesCSI),
      (''NFSVolumes'', SliceOf shape_KubernetesNFS)]"

definition DeepCopyInto_KubernetesVolumes :: "copier" where
  "DeepCopyInto_KubernetesVolumes = struct_with
     [(''HostPaths'', slice_of DeepCopyInto_KubernetesHostPath),
      (''PVCs'', slice_of DeepCopyInto_KubernetesPVC),
      (''ConfigMaps'', slice_of DeepCopyInto_KubernetesConfigMap),
      (''Secrets'', slice_of DeepCopyInto_KubernetesSecret),
      (''EmptyDirs'', slice_of DeepCopyInto_KubernetesEmptyDir),
      (''CSIs'', slice_of DeepCopyInto_KubernetesCSI), (''NFSVolumes'', slice_of assign)]"

definition DeepCopy_KubernetesVolumes :: "copier" where
  "DeepCopy_KubernetesVolumes = pointer DeepCopyInto_KubernetesVolumes"

lemma deep_KubernetesVolumes [deep_rules]:
  "deep L shape_KubernetesVolumes DeepCopyInto_KubernetesVolumes"
  unfolding shape_KubernetesVolumes_def DeepCopyInto_KubernetesVolumes_def
  by (rule deep_struct) (simp_all add: deep_rules)

definition shape_KubernetesAppArmorProfile :: shape where
  "shape_KubernetesAppArmorProfile = Struct
     [(''Type'', Plain), (''LocalhostProfile'', Plain)]"

definition DeepCopyInto_KubernetesAppArmorProfile :: "copier" where
  "DeepCopyInto_KubernetesAppArmorProfile = struct_with
     []"

definition DeepCopy_KubernetesAppArmorProfile :: "copier" where
  "DeepCopy_KubernetesAppArmorProfile = pointer DeepCopyInto_KubernetesAppArmorProfile"

lemma flat_KubernetesAppArmorProfile [deep_rules]: "flat_shape shape_KubernetesAppArmorProfile"
  by (simp add: shape_KubernetesAppArmorProfile_def deep_rules)

lemma deep_KubernetesAppArmorProfile [deep_rules]:
  "deep L shape_KubernetesAppArmorProfile DeepCopyInto_KubernetesAppArmorProfile"
  unfolding shape_KubernetesAppArmorProfile_def DeepCopyInto_KubernetesAppArmorProfile_def
  by (rule deep_struct) (simp_all add: deep_rules)

definition shape_KubernetesSeccompProfile :: shape where
  "shape_KubernetesSeccompProfile = Struct
     [(''Type'', Plain), (''LocalhostProfile'', Plain)]"

definition DeepCopyInto_KubernetesSeccompProfile :: "copier" where
  "DeepCopyInto_KubernetesSeccompProfile = struct_with
     []"

definition DeepCopy_KubernetesSeccompProfile :: "copier" where
  "DeepCopy_KubernetesSeccompProfile = pointer DeepCopyInto_KubernetesSeccompProfile"

lemma flat_KubernetesSeccompProfile [deep_rules]: "flat_shape shape_KubernetesSeccompProfile"
  by (simp add: shape_KubernetesSeccompProfile_def deep_rules)

lemma deep_KubernetesSeccompProfile [deep_rules]:
  "deep L shape_KubernetesSeccompProfile DeepCopyInto_KubernetesSeccompProfile"
  unfolding shape_KubernetesSeccompProfile_def DeepCopyInto_KubernetesSeccompProfile_def
  by (rule deep_struct) (simp_all add: deep_rules)

definition shape_KubernetesPodSecurityContext :: shape where
  "shape_KubernetesPodSecurityContext = Struct
     [(''FSGroup'', Pointer Plain), (''RunAsGroup'', Pointer Plain), (''RunAsNonRoot'', Pointer Plain),
      (''RunAsUser'', Pointer Plain), (''SupplementalGroups'', SliceOf Plain), (''SELinuxType'', Plain),
      (''AppArmorProfile'', Pointer shape_KubernetesAppArmorProfile),
      (''SeccompProfile'', Pointer shape_KubernetesSeccompProfile)]"

definition DeepCopyInto_KubernetesPodSecurityContext :: "copier" where
  "DeepCopyInto_KubernetesPodSecurityContext = struct_with
     [(''FSGroup'', pointer assign), (''RunAsGroup'', pointer assign), (''RunAsNonRoot'', pointer assign),
      (''RunAsUser'', pointer assign), (''SupplementalGroups'', slice_of assign),
      (''AppArmorProfile'', pointer assign), (''SeccompProfile'', pointer assign)]"

definition DeepCopy_KubernetesPodSecurityContext :: "copier" where
  "DeepCopy_KubernetesPodSecurityContext = pointer DeepCopyInto_KubernetesPodSecurityContext"

lemma deep_KubernetesPodSecurityContext [deep_rules]:
  "deep L shape_KubernetesPodSecurityContext DeepCopyInto_KubernetesPodSecurityContext"
  unfolding shape_KubernetesPodSecurityContext_def DeepCopyInto_KubernetesPodSecurityContext_def
  by (rule deep_struct) (simp_all add: deep_rules)

definition shape_KubernetesContainerCapabilities :: shape where
  "shape_KubernetesContainerCapabilities = Struct
     [(''Add'', SliceOf Plain), (''Drop'', SliceOf Plain)]"

definition DeepCopyInto_KubernetesContainerCapabilities :: "copier" where
  "DeepCopyInto_KubernetesContainerCapabilities = struct_with
     [(''Add'', slice_of assign), (''Drop'', slice_of assign)]"

definition DeepCopy_KubernetesContainerCapabilities :: "copier" where
  "DeepCopy_KubernetesContainerCapabilities = pointer DeepCopyInto_KubernetesContainerCapabilities"

lemma deep_KubernetesContainerCapabilities [deep_rules]:
  "deep L shape_KubernetesContainerCapabilities DeepCopyInto_KubernetesContainerCapabilities"
  unfolding shape_KubernetesContainerCapabilities_def DeepCopyInto_KubernetesContainerCapabilities_def
  by (rule deep_struct) (simp_all add: deep_rules)

definition shape_KubernetesContainerSecurityContext :: shape where
  "shape_KubernetesContainerSecurityContext = Struct
     [(''Capabilities'', Pointer shape_KubernetesContainerCapabilities), (''Privileged'', Pointer Plain),
      (''RunAsUser'', Pointer Plain), (''RunAsGroup'', Pointer Plain), (''RunAsNonRoot'', Pointer Plain),
      (''ReadOnlyRootFilesystem'', Pointer Plain), (''AllowPrivilegeEscalation'', Pointer Plain),
      (''ProcMount'', Plain), (''SELinuxType'', Plain),
      (''SeccompProfile'', Pointer shape_KubernetesSeccompProfile),
      (''AppArmorProfile'', Pointer shape_KubernetesAppArmorProfile)]"

definition DeepCopyInto_KubernetesContainerSecurityContext :: "copier" where
  "DeepCopyInto_KubernetesContainerSecurityContext = struct_with
     [(''Capabilities'', pointer DeepCopyInto_KubernetesContainerCapabilities),
      (''Privileged'', pointer assign), (''RunAsUser'', pointer assign), (''RunAsGroup'', pointer assign),
      (''RunAsNonRoot'', pointer assign), (''ReadOnlyRootFilesystem'', pointer assign),
      (''AllowPrivilegeEscalation'', pointer assign), (''SeccompProfile'', pointer assign),
      (''AppArmorProfile'', pointer assign)]"

definition DeepCopy_KubernetesContainerSecurityContext :: "copier" where
  "DeepCopy_KubernetesContainerSecurityContext = pointer DeepCopyInto_KubernetesContainerSecurityContext"

lemma deep_KubernetesContainerSecurityContext [deep_rules]:
  "deep L shape_KubernetesContainerSecurityContext DeepCopyInto_KubernetesContainerSecurityContext"
  unfolding shape_KubernetesContainerSecurityContext_def DeepCopyInto_KubernetesContainerSecurityContext_def
  by (rule deep_struct) (simp_all add: deep_rules)

definition shape_NodeSelectorRequirement :: shape where
  "shape_NodeSelectorRequirement = Struct
     [(''Key'', Plain), (''Operator'', Plain), (''Values'', SliceOf Plain)]"

definition DeepCopyInto_NodeSelectorRequirement :: "copier" where
  "DeepCopyInto_NodeSelectorRequirement = struct_with
     [(''Values'', slice_of assign)]"

definition DeepCopy_NodeSelectorRequirement :: "copier" where
  "DeepCopy_NodeSelectorRequirement = pointer DeepCopyInto_NodeSelectorRequirement"

lemma deep_NodeSelectorRequirement [deep_rules]:
  "deep L shape_NodeSelectorRequirement DeepCopyInto_NodeSelectorRequirement"
  unfolding shape_NodeSelectorRequirement_def DeepCopyInto_NodeSelectorRequirement_def
  by (rule deep_struct) (simp_all add: deep_rules)

definition shape_NodeSelectorTerm :: shape where
  "shape_NodeSelectorTerm = Struct
     [(''MatchExpressions'', SliceOf shape_NodeSelectorRequirement),
      (''MatchFields'', SliceOf shape_NodeSelectorRequirement)]"

definition DeepCopyInto_NodeSelectorTerm :: "copier" where
  "DeepCopyInto_NodeSelectorTerm = struct_with
     [(''MatchExpressions'', slice_of DeepCopyInto_NodeSelectorRequirement),
      (''MatchFields'', slice_of DeepCopyInto_NodeSelectorRequirement)]"

definition DeepCopy_NodeSelectorTerm :: "copier" where
  "DeepCopy_NodeSelectorTerm = pointer DeepCopyInto_NodeSelectorTerm"

lemma deep_NodeSelectorTerm [deep_rules]:
  "deep L shape_NodeSelectorTerm DeepCopyInto_NodeSelectorTerm"
  unfolding shape_NodeSelectorTerm_def DeepCopyInto_NodeSelectorTerm_def
  by (rule deep_struct) (simp_all add: deep_rules)

definition shape_NodeSelector :: shape where
  "shape_NodeSelector = Struct
     [(''NodeSelectorTerms'', SliceOf shape_NodeSelectorTerm)]"

definition DeepCopyInto_NodeSelector :: "copier" where
  "DeepCopyInto_NodeSelector = struct_with
     [(''NodeSelectorTerms'', slice_of DeepCopyInto_NodeSelectorTerm)]"

definition DeepCopy_NodeSelector :: "copier" where
  "DeepCopy_NodeSelector = pointer DeepCopyInto_NodeSelector"

lemma deep_NodeSelector [deep_rules]:
  "deep L shape_NodeSelector DeepCopyInto_NodeSelector"
  unfolding shape_NodeSelector_def DeepCopyInto_NodeSelector_def
  by (rule deep_struct) (simp_all add: deep_rules)

definition shape_PreferredSchedulingTerm :: shape where
  "shape_PreferredSchedulingTerm = Struct
     [(''Weight'', Plain), (''Preference'', shape_NodeSelectorTerm)]"

definition DeepCopyInto_PreferredSchedulingTerm :: "copier" where
  "DeepCopyInto_PreferredSchedulingTerm = struct_with
     [(''Preference'', DeepCopyInto_NodeSelectorTerm)]"

definition DeepCopy_PreferredSchedulingTerm :: "copier" where
  "DeepCopy_PreferredSchedulingTerm = pointer DeepCopyInto_PreferredSchedulingTerm"

lemma deep_PreferredSchedulingTerm [deep_rules]:
  "deep L shape_PreferredSchedulingTerm DeepCopyInto_PreferredSchedulingTerm"
  unfolding shape_PreferredSchedulingTerm_def DeepCopyInto_PreferredSchedulingTerm_def
  by (rule deep_struct) (simp_all add: deep_rules)

definition shape_KubernetesNodeAffinity :: shape where
  "shape_KubernetesNodeAffinity = Struct
     [(''RequiredDuringSchedulingIgnoredDuringExecution'', Pointer shape_NodeSelector),
      (''PreferredDuringSchedulingIgnoredDuringExecution'', SliceOf shape_PreferredSchedulingTerm)]"

definition DeepCopyInto_KubernetesNodeAffinity :: "copier" where
  "DeepCopyInto_KubernetesNodeAffinity = struct_with
     [(''RequiredDuringSchedulingIgnoredDuringExecution'', pointer DeepCopyInto_NodeSelector),
      (''PreferredDuringSchedulingIgnoredDuringExecution'', slice_of DeepCopyInto_PreferredSchedulingTerm)]"

definition DeepCopy_KubernetesNodeAffinity :: "copier" where
  "DeepCopy_KubernetesNodeAffinity = pointer DeepCopyInto_KubernetesNodeAffinity"

lemma deep_KubernetesNodeAffinity [deep_rules]:
  "deep L shape_KubernetesNodeAffinity DeepCopyInto_KubernetesNodeAffinity"
  unfolding shape_KubernetesNodeAffinity_def DeepCopyInto_KubernetesNodeAffinity_def
  by (rule deep_struct) (simp_all add: deep_rules)

definition shape_LabelSelector :: shape where
  "shape_LabelSelector = Struct
     [(''MatchLabels'', MapOf Plain), (''MatchExpressions'', SliceOf shape_NodeSelectorRequirement)]"

definition DeepCopyInto_LabelSelector :: "copier" where
  "DeepCopyInto_LabelSelector = struct_with
     [(''MatchLabels'', map_of_copies assign),
      (''MatchExpressions'', slice_of DeepCopyInto_NodeSelectorRequirement)]"

definition DeepCopy_LabelSelector :: "copier" where
  "DeepCopy_LabelSelector = pointer DeepCopyInto_LabelSelector"

lemma deep_LabelSelector [deep_rules]:
  "deep L shape_LabelSelector DeepCopyInto_LabelSelector"
  unfolding shape_LabelSelector_def DeepCopyInto_LabelSelector_def
  by (rule deep_struct) (simp_all add: deep_rules)

definition shape_PodAffinityTerm :: shape where
  "shape_PodAffinityTerm = Struct
     [(''LabelSelector'', Pointer shape_LabelSelector), (''Namespaces'', SliceOf Plain),
      (''TopologyKey'', Plain), (''NamespaceSelector'', Pointer shape_LabelSelector),
      (''MatchLabelKeys'', SliceOf Plain), (''MismatchLabelKeys'', SliceOf Plain)]"

definition DeepCopyInto_PodAffinityTerm :: "copier" where
  "DeepCopyInto_PodAffinityTerm = struct_with
     [(''LabelSelector'', pointer DeepCopyInto_LabelSelector), (''Namespaces'', slice_of assign),
      (''NamespaceSelector'', pointer DeepCopyInto_LabelSelector), (''MatchLabelKeys'', slice_of assign),
      (''MismatchLabelKeys'', slice_of assign)]"

definition DeepCopy_PodAffinityTerm :: "copier" where
  "DeepCopy_PodAffinityTerm = pointer DeepCopyInto_PodAffinityTerm"

lemma deep_PodAffinityTerm [deep_rules]:
  "deep L shape_PodAffinityTerm DeepCopyInto_PodAffinityTerm"
  unfolding shape_PodAffinityTerm_def DeepCopyInto_PodAffinityTerm_def
  by (rule deep_struct) (simp_all add: deep_rules)

definition shape_WeightedPodAffinityTerm :: shape where
  "shape_WeightedPodAffinityTerm = Struct
     [(''Weight'', Plain), (''PodAffinityTerm'', shape_PodAffinityTerm)]"

definition DeepCopyInto_WeightedPodAffinityTerm :: "copier" where
  "DeepCopyInto_WeightedPodAffinityTerm = struct_with
     [(''PodAffinityTerm'', DeepCopyInto_PodAffinityTerm)]"

definition DeepCopy_WeightedPodAffinityTerm :: "copier" where
  "DeepCopy_WeightedPodAffinityTerm = pointer DeepCopyInto_WeightedPodAffinityTerm"

lemma deep_WeightedPodAffinityTerm [deep_rules]:
  "deep L shape_WeightedPodAffinityTerm DeepCopyInto_WeightedPodAffinityTerm"
  unfolding shape_WeightedPodAffinityTerm_def DeepCopyInto_WeightedPodAffinityTerm_def
  by (rule deep_struct) (simp_all add: deep_rules)

definition shape_KubernetesPodAffinity :: shape where
  "shape_KubernetesPodAffinity = Struct
     [(''RequiredDuringSchedulingIgnoredDuringExecution'', SliceOf shape_PodAffinityTerm),
      (''PreferredDuringSchedulingIgnoredDuringExecution'', SliceOf shape_WeightedPodAffinityTerm)]"

definition DeepCopyInto_KubernetesPodAffinity :: "copier" where
  "DeepCopyInto_KubernetesPodAffinity = struct_with
     [(''RequiredDuringSchedulingIgnoredDuringExecution'', slice_of DeepCopyInto_PodAffinityTerm),
      (''PreferredDuringSchedulingIgnoredDuringExecution'', slice_of DeepCopyInto_WeightedPodAffinityTerm)]"

definition DeepCopy_KubernetesPodAffinity :: "copier" where
  "DeepCopy_KubernetesPodAffinity = pointer DeepCopyInto_KubernetesPodAffinity"

lemma deep_KubernetesPodAffinity [deep_rules]:
  "deep L shape_KubernetesPodAffinity DeepCopyInto_KubernetesPodAffinity"
  unfolding shape_KubernetesPodAffinity_def DeepCopyInto_KubernetesPodAffinity_def
  by (rule deep_struct) (simp_all add: deep_rules)

definition shape_KubernetesPodAntiAffinity :: shape where
  "shape_KubernetesPodAntiAffinity = Struct
     [(''RequiredDuringSchedulingIgnoredDuringExecution'', SliceOf shape_PodAffinityTerm),
      (''PreferredDuringSchedulingIgnoredDuringExecution'', SliceOf shape_WeightedPodAffinityTerm)]"

definition DeepCopyInto_KubernetesPodAntiAffinity :: "copier" where
  "DeepCopyInto_KubernetesPodAntiAffinity = struct_with
     [(''RequiredDuringSchedulingIgnoredDuringExecution'', slice_of DeepCopyInto_PodAffinityTerm),
      (''PreferredDuringSchedulingIgnoredDuringExecution'', slice_of DeepCopyInto_WeightedPodAffinityTerm)]"

definition DeepCopy_KubernetesPodAntiAffinity :: "copier" where
  "DeepCopy_KubernetesPodAntiAffinity = pointer DeepCopyInto_KubernetesPodAntiAffinity"

lemma deep_KubernetesPodAntiAffinity [deep_rules]:
  "deep L shape_KubernetesPodAntiAffinity DeepCopyInto_KubernetesPodAntiAffinity"
  unfolding shape_KubernetesPodAntiAffinity_def DeepCopyInto_KubernetesPodAntiAffinity_def
  by (rule deep_struct) (simp_all add: deep_rules)

definition shape_KubernetesAffinity :: shape where
  "shape_KubernetesAffinity = Struct
     [(''NodeAffinity'', Pointer shape_KubernetesNodeAffinity),
      (''PodAffinity'', Pointer shape_KubernetesPodAffinity),
      (''PodAntiAffinity'', Pointer shape_KubernetesPodAntiAffinity)]"

definition DeepCopyInto_KubernetesAffinity :: "copier" where
  "DeepCopyInto_KubernetesAffinity = struct_with
     [(''NodeAffinity'', pointer DeepCopyInto_KubernetesNodeAffinity),
      (''PodAffinity'', pointer DeepCopyInto_KubernetesPodAffinity),
      (''PodAntiAffinity'', pointer DeepCopyInto_KubernetesPodAntiAffinity)]"

definition DeepCopy_KubernetesAffinity :: "copier" where
  "DeepCopy_KubernetesAffinity = pointer DeepCopyInto_KubernetesAffinity"

lemma deep_KubernetesAffinity [deep_rules]:
  "deep L shape_KubernetesAffinity DeepCopyInto_KubernetesAffinity"
  unfolding shape_KubernetesAffinity_def DeepCopyInto_KubernetesAffinity_def
  by (rule deep_struct) (simp_all add: deep_rules)

definition shape_KubernetesHostAliases :: shape where
  "shape_KubernetesHostAliases = Struct
     [(''IP'', Plain), (''Hostnames'', SliceOf Plain)]"

definition DeepCopyInto_KubernetesHostAliases :: "copier" where
  "DeepCopyInto_KubernetesHostAliases = struct_with
     [(''Hostnames'', slice_of assign)]"

definition DeepCopy_KubernetesHostAliases :: "copier" where
  "DeepCopy_KubernetesHostAliases = pointer DeepCopyInto_KubernetesHostAliases"

lemma deep_KubernetesHostAliases [deep_rules]:
  "deep L shape_KubernetesHostAliases DeepCopyInto_KubernetesHostAliases"
  unfolding shape_KubernetesHostAliases_def DeepCopyInto_KubernetesHostAliases_def
  by (rule deep_struct) (simp_all add: deep_rules)

definition shape_KubernetesLifecycleExecAction :: shape where
  "shape_KubernetesLifecycleExecAction = Struct
     [(''Command'', SliceOf Plain)]"

definition DeepCopyInto_KubernetesLifecycleExecAction :: "copier" where
  "DeepCopyInto_KubernetesLifecycleExecAction = struct_with
     [(''Command'', slice_of assign)]"

definition DeepCopy_KubernetesLifecycleExecAction :: "copier" where
  "DeepCopy_KubernetesLifecycleExecAction = pointer DeepCopyInto_KubernetesLifecycleExecAction"

lemma deep_KubernetesLifecycleExecAction [deep_rules]:
  "deep L shape_KubernetesLifecycleExecAction DeepCopyInto_KubernetesLifecycleExecAction"
  unfolding shape_KubernetesLifecycleExecAction_def DeepCopyInto_KubernetesLifecycleExecAction_def
  by (rule deep_struct) (simp_all add: deep_rules)

definition shape_KubernetesLifecycleHTTPGetHeader :: shape where
  "shape_KubernetesLifecycleHTTPGetHeader = Struct
     [(''Name'', Plain), (''Value'', Plain)]"

definition DeepCopyInto_KubernetesLifecycleHTTPGetHeader :: "copier" where
  "DeepCopyInto_KubernetesLifecycleHTTPGetHeader = struct_with
     []"

definition DeepCopy_KubernetesLifecycleHTTPGetHeader :: "copier" where
  "DeepCopy_KubernetesLifecycleHTTPGetHeader = pointer DeepCopyInto_KubernetesLifecycleHTTPGetHeader"

lemma flat_KubernetesLifecycleHTTPGetHeader [deep_rules]: "flat_shape shape_KubernetesLifecycleHTTPGetHeader"
  by (simp add: shape_KubernetesLifecycleHTTPGetHeader_def deep_rules)

lemma deep_KubernetesLifecycleHTTPGetHeader [deep_rules]:
  "deep L shape_KubernetesLifecycleHTTPGetHeader DeepCopyInto_KubernetesLifecycleHTTPGetHeader"
  unfolding shape_KubernetesLifecycleHTTPGetHeader_def DeepCopyInto_KubernetesLifecycleHTTPGetHeader_def
  by (rule deep_struct) (simp_all add: deep_rules)

definition shape_KubernetesLifecycleHTTPGet :: shape where
  "shape_KubernetesLifecycleHTTPGet = Struct
     [(''Host'', Plain), (''HTTPHeaders'', SliceOf shape_KubernetesLifecycleHTTPGetHeader),
      (''Path'', Plain), (''Port'', Plain), (''Scheme'', Plain)]"

definition DeepCopyInto_KubernetesLifecycleHTTPGet :: "copier" where
  "DeepCopyInto_KubernetesLifecycleHTTPGet = struct_with
     [(''HTTPHeaders'', slice_of assign)]"

definition DeepCopy_KubernetesLifecycleHTTPGet :: "copier" where
  "DeepCopy_KubernetesLifecycleHTTPGet = pointer DeepCopyInto_KubernetesLifecycleHTTPGet"

lemma deep_KubernetesLifecycleHTTPGet [deep_rules]:
  "deep L shape_KubernetesLifecycleHTTPGet DeepCopyInto_KubernetesLifecycleHTTPGet"
  unfolding shape_KubernetesLifecycleHTTPGet_def DeepCopyInto_KubernetesLifecycleHTTPGet_def
  by (rule deep_struct) (simp_all add: deep_rules)

definition shape_KubernetesLifecycleTCPSocket :: shape where
  "shape_KubernetesLifecycleTCPSocket = Struct
     [(''Host'', Plain), (''Port'', Plain)]"

definition DeepCopyInto_KubernetesLifecycleTCPSocket :: "copier" where
  "DeepCopyInto_KubernetesLifecycleTCPSocket = struct_with
     []"

definition DeepCopy_KubernetesLifecycleTCPSocket :: "copier" where
  "DeepCopy_KubernetesLifecycleTCPSocket = pointer DeepCopyInto_KubernetesLifecycleTCPSocket"

lemma flat_KubernetesLifecycleTCPSocket [deep_rules]: "flat_shape shape_KubernetesLifecycleTCPSocket"
  by (simp add: shape_KubernetesLifecycleTCPSocket_def deep_rules)

lemma deep_KubernetesLifecycleTCPSocket [deep_rules]:
  "deep L shape_KubernetesLifecycleTCPSocket DeepCopyInto_KubernetesLifecycleTCPSocket"
  unfolding shape_KubernetesLifecycleTCPSocket_def DeepCopyInto_KubernetesLifecycleTCPSocket_def
  by (rule deep_struct) (simp_all add: deep_rules)

definition shape_KubernetesLifecycleHandler :: shape where
  "shape_KubernetesLifecycleHandler = Struct
     [(''Exec'', Pointer shape_KubernetesLifecycleExecAction),
      (''HTTPGet'', Pointer shape_KubernetesLifecycleHTTPGet),
      (''TCPSocket'', Pointer shape_KubernetesLifecycleTCPSocket)]"

definition DeepCopyInto_KubernetesLifecycleHandler :: "copier" where
  "DeepCopyInto_KubernetesLifecycleHandler = struct_with
     [(''Exec'', pointer DeepCopyInto_KubernetesLifecycleExecAction),
      (''HTTPGet'', pointer DeepCopyInto_KubernetesLifecycleHTTPGet), (''TCPSocket'', pointer assign)]"

definition DeepCopy_KubernetesLifecycleHandler :: "copier" where
  "DeepCopy_KubernetesLifecycleHandler = pointer DeepCopyInto_KubernetesLifecycleHandler"

lemma deep_KubernetesLifecycleHandler [deep_rules]:
  "deep L shape_KubernetesLifecycleHandler DeepCopyInto_KubernetesLifecycleHandler"
  unfolding shape_KubernetesLifecycleHandler_def DeepCopyInto_KubernetesLifecycleHandler_def
  by (rule deep_struct) (simp_all add: deep_rules)

definition shape_KubernetesContainerLifecyle :: shape where
  "shape_KubernetesContainerLifecyle = Struct
     [(''PostStart'', Pointer shape_KubernetesLifecycleHandler),
      (''PreStop'', Pointer shape_KubernetesLifecycleHandler)]"

definition DeepCopyInto_KubernetesContainerLifecyle :: "copier" where
  "DeepCopyInto_KubernetesContainerLifecyle = struct_with
     [(''PostStart'', pointer DeepCopyInto_KubernetesLifecycleHandler),
      (''PreStop'', pointer DeepCopyInto_KubernetesLifecycleHandler)]"

definition DeepCopy_KubernetesContainerLifecyle :: "copier" where
  "DeepCopy_KubernetesContainerLifecyle = pointer DeepCopyInto_KubernetesContainerLifecyle"

lemma deep_KubernetesContainerLifecyle [deep_rules]:
  "deep L shape_KubernetesContainerLifecyle DeepCopyInto_KubernetesContainerLifecyle"
  unfolding shape_KubernetesContainerLifecyle_def DeepCopyInto_KubernetesContainerLifecyle_def
  by (rule deep_struct) (simp_all add: deep_rules)

definition shape_Service :: shape where
  "shape_Service = Struct
     [(''Name'', Plain), (''Alias'', Plain), (''Command'', SliceOf Plain), (''Entrypoint'', SliceOf Plain),
      (''Environment'', SliceOf Plain)]"

definition DeepCopyInto_Service :: "copier" where
  "DeepCopyInto_Service = struct_with
     [(''Command'', slice_of assign), (''Entrypoint'', slice_of assign), (''Environment'', slice_of assign)]"

definition DeepCopy_Service :: "copier" where
  "DeepCopy_Service = pointer DeepCopyInto_Service"

lemma deep_Service [deep_rules]:
  "deep L shape_Service DeepCopyInto_Service"
  unfolding shape_Service_def DeepCopyInto_Service_def
  by (rule deep_struct) (simp_all add: deep_rules)

definition shape_KubernetesConfig :: shape where
  "shape_KubernetesConfig = Struct
     [(''Host'', Plain), (''CertFile'', Plain), (''KeyFile'', Plain), (''CAFile'', Plain),
      (''BearerTokenOverwriteAllowed'', Pointer Plain), (''BearerToken'', Plain), (''Image'', Plain),
      (''Namespace'', Plain), (''NamespaceOverwriteAllowed'', Plain), (''Privileged'', Pointer Plain),
      (''RuntimeClassName'', Pointer Plain), (''AllowPrivilegeEscalation'', Pointer Plain),
      (''CPULimit'', Plain), (''CPULimitOverwriteMaxAllowed'', Plain), (''CPURequest'', Plain),
      (''CPURequestOverwriteMaxAllowed'', Plain), (''MemoryLimit'', Plain),
      (''MemoryLimitOverwriteMaxAllowed'', Plain), (''MemoryRequest'', Plain),
      (''MemoryRequestOverwriteMaxAllowed'', Plain), (''EphemeralStorageLimit'', Plain),
      (''EphemeralStorageLimitOverwriteMaxAllowed'', Plain), (''EphemeralStorageRequest'', Plain),
      (''EphemeralStorageRequestOverwriteMaxAllowed'', Plain), (''ServiceCPULimit'', Plain),
      (''ServiceCPULimitOverwriteMaxAllowed'', Plain), (''ServiceCPURequest'', Plain),
      (''ServiceCPURequestOverwriteMaxAllowed'', Plain), (''ServiceMemoryLimit'', Plain),
      (''ServiceMemoryLimitOverwriteMaxAllowed'', Plain), (''ServiceMemoryRequest'', Plain),
      (''ServiceMemoryRequestOverwriteMaxAllowed'', Plain), (''ServiceEphemeralStorageLimit'', Plain),
      (''ServiceEphemeralStorageLimitOverwriteMaxAllowed'', Plain),
      (''ServiceEphemeralStorageRequest'', Plain),
      (''ServiceEphemeralStorageRequestOverwriteMaxAllowed'', Plain), (''HelperCPULimit'', Plain),
      (''HelperCPULimitOverwriteMaxAllowed'', Plain), (''HelperCPURequest'', Plain),
      (''HelperCPURequestOverwriteMaxAllowed'', Plain), (''HelperMemoryLimit'', Plain),
      (''HelperMemoryLimitOverwriteMaxAllowed'', Plain), (''HelperMemoryRequest'', Plain),
      (''HelperMemoryRequestOverwriteMaxAllowed'', Plain), (''HelperEphemeralStorageLimit'', Plain),
      (''HelperEphemeralStorageLimitOverwriteMaxAllowed'', Plain),
      (''HelperEphemeralStorageRequest'', Plain),
      (''HelperEphemeralStorageRequestOverwriteMaxAllowed'', Plain), (''AllowedImages'', SliceOf Plain),
      (''AllowedPullPolicies'', SliceOf Plain), (''AllowedServices'', SliceOf Plain),
      (''PullPolicy'', SliceOf Plain), (''NodeSelector'', MapOf Plain),
      (''NodeSelectorOverwriteAllowed'', Plain), (''NodeTolerations'', MapOf Plain),
      (''Affinity'', Pointer shape_KubernetesAffinity), (''ImagePullSecrets'', SliceOf Plain),
      (''HelperImage'', Plain), (''HelperImageFlavor'', Plain),
      (''PodTerminationGracePeriodSeconds'', Pointer Plain), (''CleanupGracePeriodSeconds'', Pointer Plain),
      (''PollInterval'', Plain), (''PollTimeout'', Plain),
      (''ResourceAvailabilityCheckMaxAttempts'', Plain), (''PodLabels'', MapOf Plain),
      (''PodLabelsOverwriteAllowed'', Plain), (''SchedulerName'', Plain), (''ServiceAccount'', Plain),
      (''ServiceAccountOverwriteAllowed'', Plain), (''PodAnnotations'', MapOf Plain),
      (''PodAnnotationsOverwriteAllowed'', Plain),
      (''PodSecurityContext'', Pointer shape_KubernetesPodSecurityContext),
      (''InitPermissionsContainerSecurityContext'', Pointer shape_KubernetesContainerSecurityContext),
      (''BuildContainerSecurityContext'', Pointer shape_KubernetesContainerSecurityContext),
      (''HelperContainerSecurityContext'', Pointer shape_KubernetesContainerSecurityContext),
      (''ServiceContainerSecurityContext'', Pointer shape_KubernetesContainerSecurityContext),
      (''Volumes'', Pointer shape_KubernetesVolumes),
      (''HostAliases'', SliceOf shape_KubernetesHostAliases), (''Services'', SliceOf shape_Service),
      (''CapAdd'', SliceOf Plain), (''CapDrop'', SliceOf Plain), (''DNSPolicy'', Plain),
      (''DNSConfig'', Pointer shape_KubernetesDNSConfig),
      (''ContainerLifecycle'', Pointer shape_KubernetesContainerLifecyle), (''PriorityClassName'', Plain),
      (''Context'', Plain), (''NamespacePerJob'', Plain), (''PodCPULimit'', Plain),
      (''PodCPULimitOverwriteMaxAllowed'', Plain), (''PodCPURequest'', Plain),
      (''PodCPURequestOverwriteMaxAllowed'', Plain), (''PodMemoryLimit'', Plain),
      (''PodMemoryLimitOverwriteMaxAllowed'', Plain), (''PodMemoryRequest'', Plain),
      (''PodMemoryRequestOverwriteMaxAllowed'', Plain), (''NodeTolerationsOverwriteAllowed'', Plain),
      (''HelperImageAutosetArchAndOS'', Plain), (''LogsBaseDir'', Plain), (''ScriptsBaseDir'', Plain),
      (''PodSpec'', SliceOf shape_KubernetesPodSpec), (''AllowedUsers'', SliceOf Plain),
      (''AllowedGroups'', SliceOf Plain), (''AutomountServiceAccountToken'', Pointer Plain),
      (''PodDisruptionBudget'', Pointer Plain), (''PrintPodWarningEvents'', Pointer Plain),
      (''UseServiceAccountImagePullSecrets'', Plain), (''EnableServiceLinks'', Pointer Plain),
      (''CleanupResourcesTimeout'', Plain), (''RequestRetryLimit'', Pointer Plain),
      (''RequestRetryLimits'', MapOf Plain), (''RequestRetryBackoffMax'', Pointer Plain)]"

definition DeepCopyInto_KubernetesConfig :: "copier" where
  "DeepCopyInto_KubernetesConfig = struct_with
     [(''BearerTokenOverwriteAllowed'', pointer assign), (''Privileged'', pointer assign),
      (''RuntimeClassName'', pointer assign), (''AllowPrivilegeEscalation'', pointer assign),
      (''AllowedImages'', slice_of assign), (''AllowedPullPolicies'', slice_of assign),
      (''AllowedServices'', slice_of assign), (''PullPolicy'', slice_of assign),
      (''NodeSelector'', map_of_copies assign), (''NodeTolerations'', map_of_copies assign),
      (''Affinity'', pointer DeepCopyInto_KubernetesAffinity), (''ImagePullSecrets'', slice_of assign),
      (''PodTerminationGracePeriodSeconds'', pointer assign),
      (''CleanupGracePeriodSeconds'', pointer assign), (''PodLabels'', map_of_copies assign),
      (''PodAnnotations'', map_of_copies assign),
      (''PodSecurityContext'', pointer DeepCopyInto_KubernetesPodSecurityContext),
      (''InitPermissionsContainerSecurityContext'', pointer DeepCopyInto_KubernetesContainerSecurityContext),
      (''BuildContainerSecurityContext'', pointer DeepCopyInto_KubernetesContainerSecurityContext),
      (''HelperContainerSecurityContext'', pointer DeepCopyInto_KubernetesContainerSecurityContext),
      (''ServiceContainerSecurityContext'', pointer DeepCopyInto_KubernetesContainerSecurityContext),
      (''Volumes'', pointer DeepCopyInto_KubernetesVolumes),
      (''HostAliases'', slice_of DeepCopyInto_KubernetesHostAliases),
      (''Services'', slice_of DeepCopyInto_Service), (''CapAdd'', slice_of assign),
      (''CapDrop'', slice_of assign), (''DNSConfig'', pointer DeepCopyInto_KubernetesDNSConfig),
      (''ContainerLifecycle'', pointer DeepCopyInto_KubernetesContainerLifecyle),
      (''PodSpec'', slice_of assign), (''AllowedUsers'', slice_of assign),
      (''AllowedGroups'', slice_of assign), (''AutomountServiceAccountToken'', pointer assign),
      (''PodDisruptionBudget'', pointer assign), (''PrintPodWarningEvents'', pointer assign),
      (''EnableServiceLinks'', pointer assign), (''RequestRetryLimit'', pointer assign),
      (''RequestRetryLimits'', map_of_copies assign), (''RequestRetryBackoffMax'', pointer assign)]"

definition DeepCopy_KubernetesConfig :: "copier" where
  "DeepCopy_KubernetesConfig = pointer DeepCopyInto_KubernetesConfig"

lemma deep_KubernetesConfig [deep_rules]:
  "deep L shape_KubernetesConfig DeepCopyInto_KubernetesConfig"
  unfolding shape_KubernetesConfig_def DeepCopyInto_KubernetesConfig_def
  by (rule deep_struct) (simp_all add: deep_rules)

definition shape_MultiRunnerEntry :: shape where
  "shape_MultiRunnerEntry = Struct
     [(''Name'', Plain), (''Authentication'', shape_GitlabAuth),
      (''ExecutorConfig'', shape_KubernetesConfig), (''Environment'', SliceOf Plain),
      (''ConcurrencyLimits'', shape_ConcurrencyLimits)]"

definition DeepCopyInto_MultiRunnerEntry :: "copier" where
  "DeepCopyInto_MultiRunnerEntry = struct_with
     [(''Authentication'', DeepCopyInto_GitlabAuth), (''ExecutorConfig'', DeepCopyInto_KubernetesConfig),
      (''Environment'', slice_of assign), (''ConcurrencyLimits'', assign)]"

definition DeepCopy_MultiRunnerEntry :: "copier" where
  "DeepCopy_MultiRunnerEntry = pointer DeepCopyInto_MultiRunnerEntry"

lemma deep_MultiRunnerEntry [deep_rules]:
  "deep L shape_MultiRunnerEntry DeepCopyInto_MultiRunnerEntry"
  unfolding shape_MultiRunnerEntry_def DeepCopyInto_MultiRunnerEntry_def
  by (rule deep_struct) (simp_all add: deep_rules)

definition shape_MultiRunnerSpec :: shape where
  "shape_MultiRunnerSpec = Struct
     [(''Concurrent'', Plain), (''LogLevel'', Plain), (''LogFormat'', Plain), (''CheckInterval'', Plain),
      (''SentryDsn'', Plain), (''GitlabInstanceURL'', Plain), (''RunnerImage'', Plain),
      (''RunnerResources'', Pointer (Foreign ''corev1.ResourceRequirements'')),
      (''RunnerImagePullPolicy'', Plain),
      (''RunnerSecurityContext'', Pointer (Foreign ''corev1.SecurityContext'')),
      (''RunnerEnv'', SliceOf (Foreign ''corev1.EnvVar'')), (''RunnerNodeSelector'', MapOf Plain),
      (''RunnerTolerations'', SliceOf (Foreign ''corev1.Toleration'')),
      (''RunnerAffinity'', Pointer (Foreign ''corev1.Affinity'')), (''RunnerPriorityClassName'', Plain),
      (''RunnerTerminationGracePeriodSeconds'', Pointer Plain), (''CACertificate'', Pointer shape_CASource),
      (''Entries'', SliceOf shape_MultiRunnerEntry)]"

definition DeepCopyInto_MultiRunnerSpec :: "library \<Rightarrow> copier" where
  "DeepCopyInto_MultiRunnerSpec L = struct_with
     [(''RunnerResources'', pointer (lib_DeepCopyInto L ''corev1.ResourceRequirements'')),
      (''RunnerSecurityContext'', pointer (lib_DeepCopyInto L ''corev1.SecurityContext'')),
      (''RunnerEnv'', slice_of (lib_DeepCopyInto L ''corev1.EnvVar'')),
      (''RunnerNodeSelector'', map_of_copies assign),
      (''RunnerTolerations'', slice_of (lib_DeepCopyInto L ''corev1.Toleration'')),
      (''RunnerAffinity'', pointer (lib_DeepCopyInto L ''corev1.Affinity'')),
      (''RunnerTerminationGracePeriodSeconds'', pointer assign),
      (''CACertificate'', pointer DeepCopyInto_CASource),
      (''Entries'', slice_of DeepCopyInto_MultiRunnerEntry)]"

definition DeepCopy_MultiRunnerSpec :: "library \<Rightarrow> copier" where
  "DeepCopy_MultiRunnerSpec L = pointer (DeepCopyInto_MultiRunnerSpec L)"

lemma deep_MultiRunnerSpec [deep_rules]:
  "library_laws L \<Longrightarrow> deep L shape_MultiRunnerSpec (DeepCopyInto_MultiRunnerSpec L)"
  unfolding shape_MultiRunnerSpec_def DeepCopyInto_MultiRunnerSpec_def
  by (rule deep_struct) (simp_all add: deep_rules)

definition shape_MultiRunnerStatus :: shape where
  "shape_MultiRunnerStatus = Struct
     [(''Error'', Plain), (''RunnerIDs'', MapOf Plain), (''RegistrationHashes'', MapOf Plain),
      (''TokenExpiresAt'', MapOf (Foreign ''metav1.Time'')), (''ObservedGeneration'', Plain),
      (''Conditions'', SliceOf (Foreign ''metav1.Condition'')), (''Ready'', Plain),
      (''ConfigMapVersion'', Plain)]"

definition DeepCopyInto_MultiRunnerStatus :: "library \<Rightarrow> copier" where
  "DeepCopyInto_MultiRunnerStatus L = struct_with
     [(''RunnerIDs'', map_of_copies assign), (''RegistrationHashes'', map_of_copies assign),
      (''TokenExpiresAt'', map_of_copies (through_pointer (lib_DeepCopy L ''metav1.Time''))),
      (''Conditions'', slice_of (lib_DeepCopyInto L ''metav1.Condition''))]"

definition DeepCopy_MultiRunnerStatus :: "library \<Rightarrow> copier" where
  "DeepCopy_MultiRunnerStatus L = pointer (DeepCopyInto_MultiRunnerStatus L)"

lemma deep_MultiRunnerStatus [deep_rules]:
  "library_laws L \<Longrightarrow> deep L shape_MultiRunnerStatus (DeepCopyInto_MultiRunnerStatus L)"
  unfolding shape_MultiRunnerStatus_def DeepCopyInto_MultiRunnerStatus_def
  by (rule deep_struct) (simp_all add: deep_rules)

definition shape_MultiRunner :: shape where
  "shape_MultiRunner = Struct
     [(''TypeMeta'', Plain), (''ObjectMeta'', Foreign ''metav1.ObjectMeta''),
      (''Spec'', shape_MultiRunnerSpec), (''Status'', shape_MultiRunnerStatus)]"

definition DeepCopyInto_MultiRunner :: "library \<Rightarrow> copier" where
  "DeepCopyInto_MultiRunner L = struct_with
     [(''TypeMeta'', assign), (''ObjectMeta'', lib_DeepCopyInto L ''metav1.ObjectMeta''),
      (''Spec'', DeepCopyInto_MultiRunnerSpec L), (''Status'', DeepCopyInto_MultiRunnerStatus L)]"

definition DeepCopy_MultiRunner :: "library \<Rightarrow> copier" where
  "DeepCopy_MultiRunner L = pointer (DeepCopyInto_MultiRunner L)"

definition DeepCopyObject_MultiRunner :: "library \<Rightarrow> copier" where
  "DeepCopyObject_MultiRunner L v h =
     do { (c, h1) \<leftarrow> DeepCopy_MultiRunner L v h;
          Some (if c \<noteq> NilV then c else NilV, h1) }"

lemma deep_MultiRunner [deep_rules]:
  "library_laws L \<Longrightarrow> deep L shape_MultiRunner (DeepCopyInto_MultiRunner L)"
  unfolding shape_MultiRunner_def DeepCopyInto_MultiRunner_def
  by (rule deep_struct) (simp_all add: deep_rules)

definition shape_MultiRunnerList :: shape where
  "shape_MultiRunnerList = Struct
     [(''TypeMeta'', Plain), (''ListMeta'', Foreign ''metav1.ListMeta''),
      (''Items'', SliceOf shape_MultiRunner)]"

definition DeepCopyInto_MultiRunnerList :: "library \<Rightarrow> copier" where
  "DeepCopyInto_MultiRunnerList L = struct_with
     [(''TypeMeta'', assign), (''ListMeta'', lib_DeepCopyInto L ''metav1.ListMeta''),
      (''Items'', slice_of (DeepCopyInto_MultiRunner L))]"

definition DeepCopy_MultiRunnerList :: "library \<Rightarrow> copier" where
  "DeepCopy_MultiRunnerList L = pointer (DeepCopyInto_MultiRunnerList L)"

definition DeepCopyObject_MultiRunnerList :: "library \<Rightarrow> copier" where
  "DeepCopyObject_MultiRunnerList L v h =
     do { (c, h1) \<leftarrow> DeepCopy_MultiRunnerList L v h;
          Some (if c \<noteq> NilV then c else NilV, h1) }"

lemma deep_MultiRunnerList [deep_rules]:
  "library_laws L \<Longrightarrow> deep L shape_MultiRunnerList (DeepCopyInto_MultiRunnerList L)"
  unfolding shape_MultiRunnerList_def DeepCopyInto_MultiRunnerList_def
  by (rule deep_struct) (simp_all add: deep_rules)

definition shape_GitlabRegInfo :: shape where
  "shape_GitlabRegInfo = Struct
     [(''Name'', Plain), (''Auth'', shape_GitlabAuth), (''GitlabUrl'', Plain),
      (''CACertificate'', Pointer shape_CASource), (''RunnerID'', Plain), (''AuthToken'', Plain),
      (''TokenExpiresAt'', Pointer (Foreign ''metav1.Time'')), (''RegistrationHash'', Plain)]"

definition DeepCopyInto_GitlabRegInfo :: "library \<Rightarrow> copier" where
  "DeepCopyInto_GitlabRegInfo L = struct_with
     [(''Auth'', DeepCopyInto_GitlabAuth), (''CACertificate'', pointer DeepCopyInto_CASource),
      (''TokenExpiresAt'', when_set (lib_DeepCopy L ''metav1.Time''))]"

definition DeepCopy_GitlabRegInfo :: "library \<Rightarrow> copier" where
  "DeepCopy_GitlabRegInfo L = pointer (DeepCopyInto_GitlabRegInfo L)"

lemma deep_GitlabRegInfo [deep_rules]:
  "library_laws L \<Longrightarrow> deep L shape_GitlabRegInfo (DeepCopyInto_GitlabRegInfo L)"
  unfolding shape_GitlabRegInfo_def DeepCopyInto_GitlabRegInfo_def
  by (rule deep_struct) (simp_all add: deep_rules)

definition shape_RunnerSpec :: shape where
  "shape_RunnerSpec = Struct
     [(''Authentication'', shape_GitlabAuth), (''GitlabInstanceURL'', Plain), (''LogLevel'', Plain),
      (''Concurrent'', Plain), (''ConcurrencyLimits'', shape_ConcurrencyLimits), (''CheckInterval'', Plain),
      (''LogFormat'', Plain), (''ExecutorConfig'', shape_KubernetesConfig),
      (''Environment'', SliceOf Plain), (''RunnerImage'', Plain),
      (''RunnerResources'', Pointer (Foreign ''corev1.ResourceRequirements'')),
      (''RunnerImagePullPolicy'', Plain),
      (''RunnerSecurityContext'', Pointer (Foreign ''corev1.SecurityContext'')),
      (''RunnerEnv'', SliceOf (Foreign ''corev1.EnvVar'')), (''RunnerNodeSelector'', MapOf Plain),
      (''RunnerTolerations'', SliceOf (Foreign ''corev1.Toleration'')),
      (''RunnerAffinity'', Pointer (Foreign ''corev1.Affinity'')), (''RunnerPriorityClassName'', Plain),
      (''RunnerTerminationGracePeriodSeconds'', Pointer Plain), (''CACertificate'', Pointer shape_CASource)]"

definition DeepCopyInto_RunnerSpec :: "library \<Rightarrow> copier" where
  "DeepCopyInto_RunnerSpec L = struct_with
     [(''Authentication'', DeepCopyInto_GitlabAuth), (''ConcurrencyLimits'', assign),
      (''ExecutorConfig'', DeepCopyInto_KubernetesConfig), (''Environment'', slice_of assign),
      (''RunnerResources'', pointer (lib_DeepCopyInto L ''corev1.ResourceRequirements'')),
      (''RunnerSecurityContext'', pointer (lib_DeepCopyInto L ''corev1.SecurityContext'')),
      (''RunnerEnv'', slice_of (lib_DeepCopyInto L ''corev1.EnvVar'')),
      (''RunnerNodeSelector'', map_of_copies assign),
      (''RunnerTolerations'', slice_of (lib_DeepCopyInto L ''corev1.Toleration'')),
      (''RunnerAffinity'', pointer (lib_DeepCopyInto L ''corev1.Affinity'')),
      (''RunnerTerminationGracePeriodSeconds'', pointer assign),
      (''CACertificate'', pointer DeepCopyInto_CASource)]"

definition DeepCopy_RunnerSpec :: "library \<Rightarrow> copier" where
  "DeepCopy_RunnerSpec L = pointer (DeepCopyInto_RunnerSpec L)"

lemma deep_RunnerSpec [deep_rules]:
  "library_laws L \<Longrightarrow> deep L shape_RunnerSpec (DeepCopyInto_RunnerSpec L)"
  unfolding shape_RunnerSpec_def DeepCopyInto_RunnerSpec_def
  by (rule deep_struct) (simp_all add: deep_rules)

definition shape_RunnerStatus :: shape where
  "shape_RunnerStatus = Struct
     [(''Error'', Plain), (''RunnerID'', Plain), (''TokenExpiresAt'', Pointer (Foreign ''metav1.Time'')),
      (''RegistrationHash'', Plain), (''ConfigMapVersion'', Plain), (''ObservedGeneration'', Plain),
      (''Conditions'', SliceOf (Foreign ''metav1.Condition'')), (''Ready'', Plain)]"

definition DeepCopyInto_RunnerStatus :: "library \<Rightarrow> copier" where
  "DeepCopyInto_RunnerStatus L = struct_with
     [(''TokenExpiresAt'', when_set (lib_DeepCopy L ''metav1.Time'')),
      (''Conditions'', slice_of (lib_DeepCopyInto L ''metav1.Condition''))]"

definition DeepCopy_RunnerStatus :: "library \<Rightarrow> copier" where
  "DeepCopy_RunnerStatus L = pointer (DeepCopyInto_RunnerStatus L)"

lemma deep_RunnerStatus [deep_rules]:
  "library_laws L \<Longrightarrow> deep L shape_RunnerStatus (DeepCopyInto_RunnerStatus L)"
  unfolding shape_RunnerStatus_def DeepCopyInto_RunnerStatus_def
  by (rule deep_struct) (simp_all add: deep_rules)

definition shape_Runner :: shape where
  "shape_Runner = Struct
     [(''TypeMeta'', Plain), (''ObjectMeta'', Foreign ''metav1.ObjectMeta''), (''Spec'', shape_RunnerSpec),
      (''Status'', shape_RunnerStatus)]"

definition DeepCopyInto_Runner :: "library \<Rightarrow> copier" where
  "DeepCopyInto_Runner L = struct_with
     [(''TypeMeta'', assign), (''ObjectMeta'', lib_DeepCopyInto L ''metav1.ObjectMeta''),
      (''Spec'', DeepCopyInto_RunnerSpec L), (''Status'', DeepCopyInto_RunnerStatus L)]"

definition DeepCopy_Runner :: "library \<Rightarrow> copier" where
  "DeepCopy_Runner L = pointer (DeepCopyInto_Runner L)"

definition DeepCopyObject_Runner :: "library \<Rightarrow> copier" where
  "DeepCopyObject_Runner L v h =
     do { (c, h1) \<leftarrow> DeepCopy_Runner L v h;
          Some (if c \<noteq> NilV then c else NilV, h1) }"

lemma deep_Runner [deep_rules]:
  "library_laws L \<Longrightarrow> deep L shape_Runner (DeepCopyInto_Runner L)"
  unfolding shape_Runner_def DeepCopyInto_Runner_def
  by (rule deep_struct) (simp_all add: deep_rules)

definition shape_RunnerList :: shape where
  "shape_RunnerList = Struct
     [(''TypeMeta'', Plain), (''ListMeta'', Foreign ''metav1.ListMeta''), (''Items'', SliceOf shape_Runner)]"

definition DeepCopyInto_RunnerList :: "library \<Rightarrow> copier" where
  "DeepCopyInto_RunnerList L = struct_with
     [(''TypeMeta'', assign), (''ListMeta'', lib_DeepCopyInto L ''metav1.ListMeta''),
      (''Items'', slice_of (DeepCopyInto_Runner L))]"

definition DeepCopy_RunnerList :: "library \<Rightarrow> copier" where
  "DeepCopy_RunnerList L = pointer (DeepCopyInto_RunnerList L)"

definition DeepCopyObject_RunnerList :: "library \<Rightarrow> copier" where
  "DeepCopyObject_RunnerList L v h =
     do { (c, h1) \<leftarrow> DeepCopy_RunnerList L v h;
          Some (if c \<noteq> NilV then c else NilV, h1) }"

lemma deep_RunnerList [deep_rules]:
  "library_laws L \<Longrightarrow> deep L shape_RunnerList (DeepCopyInto_RunnerList L)"
  unfolding shape_RunnerList_def DeepCopyInto_RunnerList_def
  by (rule deep_struct) (simp_all add: deep_rules)

section \<open>The whole file\<close>

text \<open>Every function of the generated file, with the type of its argument.\<close>

definition generated :: "library \<Rightarrow> (shape \<times> copier) list" where
  "generated L =
     [(shape_SecretKeySelector, DeepCopyInto_SecretKeySelector),
      (Pointer shape_SecretKeySelector, DeepCopy_SecretKeySelector),
      (shape_TokenSource, DeepCopyInto_TokenSource), (Pointer shape_TokenSource, DeepCopy_TokenSource),
      (shape_RunnerCreateOptions, DeepCopyInto_RunnerCreateOptions),
      (Pointer shape_RunnerCreateOptions, DeepCopy_RunnerCreateOptions),
      (shape_GitlabAuth, DeepCopyInto_GitlabAuth), (Pointer shape_GitlabAuth, DeepCopy_GitlabAuth),
      (shape_CAKeyRef, DeepCopyInto_CAKeyRef), (Pointer shape_CAKeyRef, DeepCopy_CAKeyRef),
      (shape_CASource, DeepCopyInto_CASource), (Pointer shape_CASource, DeepCopy_CASource),
      (shape_ConcurrencyLimits, DeepCopyInto_ConcurrencyLimits),
      (Pointer shape_ConcurrencyLimits, DeepCopy_ConcurrencyLimits),
      (shape_KubernetesPodSpec, DeepCopyInto_KubernetesPodSpec),
      (Pointer shape_KubernetesPodSpec, DeepCopy_KubernetesPodSpec),
      (shape_KubernetesDNSConfigOption, DeepCopyInto_KubernetesDNSConfigOption),
      (Pointer shape_KubernetesDNSConfigOption, DeepCopy_KubernetesDNSConfigOption),
      (shape_KubernetesDNSConfig, DeepCopyInto_KubernetesDNSConfig),
      (Pointer shape_KubernetesDNSConfig, DeepCopy_KubernetesDNSConfig),
      (shape_KubernetesConfigMap, DeepCopyInto_KubernetesConfigMap),
      (Pointer shape_KubernetesConfigMap, DeepCopy_KubernetesConfigMap),
      (shape_KubernetesHostPath, DeepCopyInto_KubernetesHostPath),
      (Pointer shape_KubernetesHostPath, DeepCopy_KubernetesHostPath),
      (shape_KubernetesPVC, DeepCopyInto_KubernetesPVC),
      (Pointer shape_KubernetesPVC, DeepCopy_KubernetesPVC),
      (shape_KubernetesSecret, DeepCopyInto_KubernetesSecret),
      (Pointer shape_KubernetesSecret, DeepCopy_KubernetesSecret),
      (shape_KubernetesEmptyDir, DeepCopyInto_KubernetesEmptyDir),
      (Pointer shape_KubernetesEmptyDir, DeepCopy_KubernetesEmptyDir),
      (shape_KubernetesCSI, DeepCopyInto_KubernetesCSI),
      (Pointer shape_KubernetesCSI, DeepCopy_KubernetesCSI),
      (shape_KubernetesNFS, DeepCopyInto_KubernetesNFS),
      (Pointer shape_KubernetesNFS, DeepCopy_KubernetesNFS),
      (shape_KubernetesVolumes, DeepCopyInto_KubernetesVolumes),
      (Pointer shape_KubernetesVolumes, DeepCopy_KubernetesVolumes),
      (shape_KubernetesAppArmorProfile, DeepCopyInto_KubernetesAppArmorProfile),
      (Pointer shape_KubernetesAppArmorProfile, DeepCopy_KubernetesAppArmorProfile),
      (shape_KubernetesSeccompProfile, DeepCopyInto_KubernetesSeccompProfile),
      (Pointer shape_KubernetesSeccompProfile, DeepCopy_KubernetesSeccompProfile),
      (shape_KubernetesPodSecurityContext, DeepCopyInto_KubernetesPodSecurityContext),
      (Pointer shape_KubernetesPodSecurityContext, DeepCopy_KubernetesPodSecurityContext),
      (shape_KubernetesContainerCapabilities, DeepCopyInto_KubernetesContainerCapabilities),
      (Pointer shape_KubernetesContainerCapabilities, DeepCopy_KubernetesContainerCapabilities),
      (shape_KubernetesContainerSecurityContext, DeepCopyInto_KubernetesContainerSecurityContext),
      (Pointer shape_KubernetesContainerSecurityContext, DeepCopy_KubernetesContainerSecurityContext),
      (shape_NodeSelectorRequirement, DeepCopyInto_NodeSelectorRequirement),
      (Pointer shape_NodeSelectorRequirement, DeepCopy_NodeSelectorRequirement),
      (shape_NodeSelectorTerm, DeepCopyInto_NodeSelectorTerm),
      (Pointer shape_NodeSelectorTerm, DeepCopy_NodeSelectorTerm),
      (shape_NodeSelector, DeepCopyInto_NodeSelector), (Pointer shape_NodeSelector, DeepCopy_NodeSelector),
      (shape_PreferredSchedulingTerm, DeepCopyInto_PreferredSchedulingTerm),
      (Pointer shape_PreferredSchedulingTerm, DeepCopy_PreferredSchedulingTerm),
      (shape_KubernetesNodeAffinity, DeepCopyInto_KubernetesNodeAffinity),
      (Pointer shape_KubernetesNodeAffinity, DeepCopy_KubernetesNodeAffinity),
      (shape_LabelSelector, DeepCopyInto_LabelSelector),
      (Pointer shape_LabelSelector, DeepCopy_LabelSelector),
      (shape_PodAffinityTerm, DeepCopyInto_PodAffinityTerm),
      (Pointer shape_PodAffinityTerm, DeepCopy_PodAffinityTerm),
      (shape_WeightedPodAffinityTerm, DeepCopyInto_WeightedPodAffinityTerm),
      (Pointer shape_WeightedPodAffinityTerm, DeepCopy_WeightedPodAffinityTerm),
      (shape_KubernetesPodAffinity, DeepCopyInto_KubernetesPodAffinity),
      (Pointer shape_KubernetesPodAffinity, DeepCopy_KubernetesPodAffinity),
      (shape_KubernetesPodAntiAffinity, DeepCopyInto_KubernetesPodAntiAffinity),
      (Pointer shape_KubernetesPodAntiAffinity, DeepCopy_KubernetesPodAntiAffinity),
      (shape_KubernetesAffinity, DeepCopyInto_KubernetesAffinity),
      (Pointer shape_KubernetesAffinity, DeepCopy_KubernetesAffinity),
      (shape_KubernetesHostAliases, DeepCopyInto_KubernetesHostAliases),
      (Pointer shape_KubernetesHostAliases, DeepCopy_KubernetesHostAliases),
      (shape_KubernetesLifecycleExecAction, DeepCopyInto_KubernetesLifecycleExecAction),
      (Pointer shape_KubernetesLifecycleExecAction, DeepCopy_KubernetesLifecycleExecAction),
      (shape_KubernetesLifecycleHTTPGetHeader, DeepCopyInto_KubernetesLifecycleHTTPGetHeader),
      (Pointer shape_KubernetesLifecycleHTTPGetHeader, DeepCopy_KubernetesLifecycleHTTPGetHeader),
      (shape_KubernetesLifecycleHTTPGet, DeepCopyInto_KubernetesLifecycleHTTPGet),
      (Pointer shape_KubernetesLifecycleHTTPGet, DeepCopy_KubernetesLifecycleHTTPGet),
      (shape_KubernetesLifecycleTCPSocket, DeepCopyInto_KubernetesLifecycleTCPSocket),
      (Pointer shape_KubernetesLifecycleTCPSocket, DeepCopy_KubernetesLifecycleTCPSocket),
      (shape_KubernetesLifecycleHandler, DeepCopyInto_KubernetesLifecycleHandler),
      (Pointer shape_KubernetesLifecycleHandler, DeepCopy_KubernetesLifecycleHandler),
      (shape_KubernetesContainerLifecyle, DeepCopyInto_KubernetesContainerLifecyle),
      (Pointer shape_KubernetesContainerLifecyle, DeepCopy_KubernetesContainerLifecyle),
      (shape_Service, DeepCopyInto_Service), (Pointer shape_Service, DeepCopy_Service),
      (shape_KubernetesConfig, DeepCopyInto_KubernetesConfig),
      (Pointer shape_KubernetesConfig, DeepCopy_KubernetesConfig),
      (shape_MultiRunnerEntry, DeepCopyInto_MultiRunnerEntry),
      (Pointer shape_MultiRunnerEntry, DeepCopy_MultiRunnerEntry),
      (shape_MultiRunnerSpec, DeepCopyInto_MultiRunnerSpec L),
      (Pointer shape_MultiRunnerSpec, DeepCopy_MultiRunnerSpec L),
      (shape_MultiRunnerStatus, DeepCopyInto_MultiRunnerStatus L),
      (Pointer shape_MultiRunnerStatus, DeepCopy_MultiRunnerStatus L),
      (shape_MultiRunner, DeepCopyInto_MultiRunner L), (Pointer shape_MultiRunner, DeepCopy_MultiRunner L),
      (Pointer shape_MultiRunner, DeepCopyObject_MultiRunner L),
      (shape_MultiRunnerList, DeepCopyInto_MultiRunnerList L),
      (Pointer shape_MultiRunnerList, DeepCopy_MultiRunnerList L),
      (Pointer shape_MultiRunnerList, DeepCopyObject_MultiRunnerList L),
      (shape_GitlabRegInfo, DeepCopyInto_GitlabRegInfo L),
      (Pointer shape_GitlabRegInfo, DeepCopy_GitlabRegInfo L),
      (shape_RunnerSpec, DeepCopyInto_RunnerSpec L), (Pointer shape_RunnerSpec, DeepCopy_RunnerSpec L),
      (shape_RunnerStatus, DeepCopyInto_RunnerStatus L),
      (Pointer shape_RunnerStatus, DeepCopy_RunnerStatus L), (shape_Runner, DeepCopyInto_Runner L),
      (Pointer shape_Runner, DeepCopy_Runner L), (Pointer shape_Runner, DeepCopyObject_Runner L),
      (shape_RunnerList, DeepCopyInto_RunnerList L), (Pointer shape_RunnerList, DeepCopy_RunnerList L),
      (Pointer shape_RunnerList, DeepCopyObject_RunnerList L)]"

lemmas DeepCopy_defs =
  DeepCopy_SecretKeySelector_def DeepCopy_TokenSource_def DeepCopy_RunnerCreateOptions_def
  DeepCopy_GitlabAuth_def DeepCopy_CAKeyRef_def DeepCopy_CASource_def DeepCopy_ConcurrencyLimits_def
  DeepCopy_KubernetesPodSpec_def DeepCopy_KubernetesDNSConfigOption_def DeepCopy_KubernetesDNSConfig_def
  DeepCopy_KubernetesConfigMap_def DeepCopy_KubernetesHostPath_def DeepCopy_KubernetesPVC_def
  DeepCopy_KubernetesSecret_def DeepCopy_KubernetesEmptyDir_def DeepCopy_KubernetesCSI_def
  DeepCopy_KubernetesNFS_def DeepCopy_KubernetesVolumes_def DeepCopy_KubernetesAppArmorProfile_def
  DeepCopy_KubernetesSeccompProfile_def DeepCopy_KubernetesPodSecurityContext_def
  DeepCopy_KubernetesContainerCapabilities_def DeepCopy_KubernetesContainerSecurityContext_def
  DeepCopy_NodeSelectorRequirement_def DeepCopy_NodeSelectorTerm_def DeepCopy_NodeSelector_def
  DeepCopy_PreferredSchedulingTerm_def DeepCopy_KubernetesNodeAffinity_def DeepCopy_LabelSelector_def
  DeepCopy_PodAffinityTerm_def DeepCopy_WeightedPodAffinityTerm_def DeepCopy_KubernetesPodAffinity_def
  DeepCopy_KubernetesPodAntiAffinity_def DeepCopy_KubernetesAffinity_def
  DeepCopy_KubernetesHostAliases_def DeepCopy_KubernetesLifecycleExecAction_def
  DeepCopy_KubernetesLifecycleHTTPGetHeader_def DeepCopy_KubernetesLifecycleHTTPGet_def
  DeepCopy_KubernetesLifecycleTCPSocket_def DeepCopy_KubernetesLifecycleHandler_def
  DeepCopy_KubernetesContainerLifecyle_def DeepCopy_Service_def DeepCopy_KubernetesConfig_def
  DeepCopy_MultiRunnerEntry_def DeepCopy_MultiRunnerSpec_def DeepCopy_MultiRunnerStatus_def
  DeepCopy_MultiRunner_def DeepCopy_MultiRunnerList_def DeepCopy_GitlabRegInfo_def
  DeepCopy_RunnerSpec_def DeepCopy_RunnerStatus_def DeepCopy_Runner_def DeepCopy_RunnerList_def

lemma DeepCopyObject_eq:
  "DeepCopyObject_MultiRunner L = DeepCopy_MultiRunner L"
  "DeepCopyObject_MultiRunnerList L = DeepCopy_MultiRunnerList L"
  "DeepCopyObject_Runner L = DeepCopy_Runner L"
  "DeepCopyObject_RunnerList L = DeepCopy_RunnerList L"
  by (simp_all add: fun_eq_iff DeepCopyObject_MultiRunner_def DeepCopyObject_MultiRunnerList_def DeepCopyObject_Runner_def DeepCopyObject_RunnerList_def bind_eq_Some_conv
    split: Option.bind_split)

lemma DeepCopy_deep: "deep L S cp \<Longrightarrow> dc = pointer cp \<Longrightarrow> deep L (Pointer S) dc"
  by (simp add: deep_pointer)

lemma generated_deep:
  assumes "library_laws L"
  shows "list_all (\<lambda>(S, cp). deep L S cp) (generated L)"
  using assms by (simp add: generated_def DeepCopyObject_eq DeepCopy_defs deep_rules)

text \<open>
  C39: the generated deep copies share nothing. For every function of \<open>zz_generated.deepcopy.go\<close>
  and every value of its type, as the type is declared: the function does not panic, the copy has the
  same content, and from then on writes to memory that existed before never show in the copy, nor writes
  to the copy's memory in the original. So no field of a declared type is forgotten or copied by reference.
\<close>

theorem deep_copies_share_nothing:
  assumes "library_laws L" and "(S, cp) \<in> set (generated L)"
    and "means h v t" and "has_shape L S t"
  shows "\<exists>v' h'. cp v h = Some (v', h') \<and> separate h h' v v' t"
proof -
  have "deep L S cp" using generated_deep [OF assms(1)] assms(2) by (auto simp: list_all_iff)
  then show ?thesis using assms(3,4) by (rule deep_separate)
qed

text \<open>A library whose types have no references, and a managed runner's credentials with one token.\<close>

definition plain_library :: library where
  "plain_library = \<lparr>lib_values = (\<lambda>T. flat), lib_DeepCopyInto = (\<lambda>T. assign), lib_DeepCopy = (\<lambda>T. pointer assign)\<rparr>"

lemma plain_library_laws: "library_laws plain_library"
proof -
  have "deep plain_library (Foreign T) assign" for T
    unfolding deep_def assign_def by (auto simp: plain_library_def intro: owns_flat)
  then show ?thesis by (simp add: library_laws_def deep_pointer) (simp add: plain_library_def deep_pointer)
qed

definition token_heap :: heap where
  "token_heap = [Pointee (StructV [(''Value'', ScalarV (StringS ''glrt-1'')), (''SecretKeyRef'', NilV)])]"

definition token_auth :: gval where
  "token_auth = StructV [(''Token'', PtrV 0), (''AccessToken'', NilV), (''CreateOptions'', NilV)]"

definition token_tree :: tree where
  "token_tree = StructT [(''Token'', PtrT (StructT [(''Value'', ScalarT (StringS ''glrt-1'')), (''SecretKeyRef'', NilT)])),
     (''AccessToken'', NilT), (''CreateOptions'', NilT)]"

theorem deep_copies_share_nothing_witness:
  "\<exists>v' h'. DeepCopyInto_GitlabAuth token_auth token_heap = Some (v', h') \<and>
     separate token_heap h' token_auth v' token_tree"
proof (rule deep_copies_share_nothing [OF plain_library_laws])
  show "(shape_GitlabAuth, DeepCopyInto_GitlabAuth) \<in> set (generated plain_library)"
    by (simp add: generated_def)
  show "means token_heap token_auth token_tree"
    unfolding token_auth_def token_tree_def
    by (rule owns.struct) (auto simp: token_heap_def intro!: owns.intros)
  show "has_shape plain_library shape_GitlabAuth token_tree"
    by (simp add: token_tree_def shape_GitlabAuth_def shape_TokenSource_def has_shape_Struct)
qed

end
