(* ===== verification/Spec2Isabelle.thy ===== *)
theory Spec2Isabelle
  imports Rbac_Properties Grants Auth_Properties Render_Properties Deletion_Progress Type_Properties Manager Helpers Readiness Kept_Up Deep_Copies
begin

text \<open>
  The GitLab Runner operator: a Kubernetes operator that turns the custom resources \<open>Runner\<close> and
  \<open>MultiRunner\<close> into a registered runner on GitLab, a \<open>config.toml\<close> in a Secret, RBAC in the namespaces
  the builds run in, and a Deployment of the runner manager; and that undoes all of it on deletion.

  \<^bold>\<open>How a pass is modelled.\<close> The controllers talk to an API server, a GitLab instance and a clock.
  Everything such a call can answer is a field of the record \<open>env\<close> (theory Effects), a function of the
  calls made so far, so an answer may depend on the whole history and may be an error at any time. An
  operation is a value of type \<open>'a go\<close>, a state transformer over \<open>world\<close>: the object in memory and
  the list of calls made, each an \<open>event\<close> with its answer. Theorems speak about \<open>result\<close> (what the
  operation returns), \<open>after\<close> (the world it leaves) and \<open>new_events\<close> (the calls it made), for
  every environment; so they hold for every answer, fault and interleaving with other actors that the
  API server can report. The manager's client reads from a cache that may lag behind the server
  (\<open>cl.Get\<close> in the code; the client of a pass is the manager's, \<open>cmd/main.go\<close>); an answer of it is a field of
  \<open>env\<close> like any other, and no law ties it to the writes before it. Go errors are values of \<open>goerr\<close>; a nil dereference is the error \<open>Panic\<close>.
  Every loop of the program runs over a finite list, so every operation is a total function; the retry
  loop of \<open>retry.RetryOnConflict\<close> is a field of \<open>env\<close> under the named law \<open>retry_laws\<close>.

  \<^bold>\<open>The theories\<close>, in the order of the code's layers:

  \<^item> Prelude: Go's maps, slices, integers at 64 bits, \<open>strconv\<close>, \<open>%q\<close>, durations, errors.
    Hashes: SHA-1 and SHA-256 on 32-bit words (\<open>internal/crypto\<close>, \<open>internal/generate/system_id.go\<close>).
  \<^item> Kube_Types, Auth_Types, Cluster_Types, Config_Types, Names, Runner_Types: the data of \<open>api/v1beta2\<close>,
    \<open>config\<close> and \<open>internal/types\<close>, field by field, with the accessors of \<open>Runner\<close> and \<open>MultiRunner\<close>.
    The interface \<open>RunnerInfo\<close> is a datatype of the two; its contract is the locale \<open>runner_object\<close> of
    Runner_Contract, interpreted for both kinds.
  \<^item> Effects: the environment, the events and one operation per client call. Logic: the rules to reason
    about operations (\<open>runs\<close>, \<open>emits\<close>, \<open>traces\<close>, \<open>safe\<close>) that carry the proofs. Identity: what an
    answer to an update must keep of the object (\<open>update_laws\<close>).
  \<^item> Gitlab_Api (\<open>internal/api\<close>): the client over the SDK; its contract is the locale \<open>gitlab_client\<close>.
  \<^item> Crud and Rbac_Facts (\<open>internal/crud\<close>): reads, the service account, cluster roles and bindings.
  \<^item> Generate (\<open>internal/generate\<close>): the configuration document. Validate (\<open>internal/validate\<close>): the
    Secret and the Deployment; the contract between writer and readers of the Secret is the locale
    \<open>runner_store\<close>.
  \<^item> Auth_Flow and Auth_Facts (\<open>internal/controller/shared.go\<close>, first half): tokens, CA bundles, the
    namespace allow-list, managed runners. The life-cycle steps share the locale \<open>auth_steps\<close>.
  \<^item> Finalize and Finalize_Facts (\<open>shared.go\<close>, second half): draining, deletion, the attempt counter.
  \<^item> Reconcile and Reconcile_Facts (\<open>runner_controller.go\<close>, \<open>multirunner_controller.go\<close>): the passes.
    The two \<open>Reconcile\<close> methods have the same body over different fetch functions, and are modelled so.
    The locale \<open>pass_property\<close> lifts a property of call sequences from the steps to a whole pass.
  \<^item> Operator_Flags (\<open>cmd/main.go\<close>, \<open>internal/discovery\<close>): the allow-list flag, the operator's namespace.
  \<^item> Manager (\<open>main\<close> and \<open>init\<close> of \<open>cmd/main.go\<close>, the two \<open>SetupWithManager\<close>, \<open>addKnownTypes\<close>): the process as a
    sequence of calls into controller-runtime, each answered with or without an error; what each controller
    watches, the reconciler it runs, and how the process ends.
  \<^item> Helpers (\<open>internal/errors\<close>, \<open>internal/file\<close>, \<open>internal/generate/random.go\<close>): three functions that no program
    code calls.
  \<^item> Sample: one concrete environment that satisfies all the laws, to which the theorems are applied.
  \<^item> Rbac_Properties, Auth_Properties, Render_Properties, Finalize_Properties, Type_Properties and this
    theory: the properties. This theory holds those of whole passes.
  \<^item> Rbac_Server: an abstract specification of the RBAC step on the set of bindings a server holds, the
    refinement, and idempotence, for the runs in which the cached reads had caught up (\<open>current_reads\<close>), and what is
    left of it when they lag. Grants: what a whole pass leaves in that set. Deletion_Progress: a
    deletion as a sequence of passes, and that it ends. Readiness: what a pass has established before it
    sets \<open>Ready\<close>.
  \<^item> Cached_Reads: a pass on one cache compared with the same pass on another, call by call; the locale
    \<open>cache_swap\<close>. Pass_Results: what a pass can return.
  \<^item> Cluster_Model: what a cluster and a GitLab hold after the calls made so far, the locale \<open>working_server\<close> of the
    environments whose writes and uncached reads are answered by it, its extension \<open>working_cluster\<close> by a cache that
    never lags, and the RBAC step there. Object_Core, Token_Supply, Workload_Steps: the other steps of a pass in it.
    Bring_Up_Goal, Bring_Up: what is left to do for an object, and that passes in a row do it. Acting_Cluster: an
    environment that answers by what it holds, for any initial content; the interpretation of both locales.
    Kept_Up: the same for a cache that lags, in the passes in which it had caught up (\<open>up_to_date\<close>).
  \<^item> Go_Memory: values that share memory, and the laws of the copying statements. Deep_Copies
    (\<open>api/v1beta2/zz_generated.deepcopy.go\<close>): the API types as declared and their deep copies.

  \<^bold>\<open>What the theorems show.\<close> Containment: bindings are only created where the operator allows it, and
  a forbidden namespace stops the pass. No orphans: a created GitLab runner is recorded by the very
  next call, a stale one is deleted before its replacement exists, nothing is registered before the
  finalizer is stored, and the finalizer goes only after every managed runner is confirmed deleted or
  after the fifth failure. Drain: running builds are never cut short by the deletion. Progress: an object
  under deletion is gone after at most five passes that find its pods drained, whatever fails. Coming up: on a
  working server that nobody else changes, a runner whose namespaces and credentials are in order is up
  after at most four passes in which the cache kept up, each of which but the last asks for the next at once, and is
  left alone from then on. Readiness:
  \<open>Ready\<close> is only written by a pass that has a token for every unit, and found or put in place the RBAC, the
  Secret and the Deployment. Convergence: RBAC,
  Secret and Deployment steps write what is wanted, and nothing once it is there. Data: round trips
  between spec and status, Secret and readers, counter and annotation; formats and bounds.
  Start: the operator is only started with both controllers registered for kinds the scheme knows, stops at
  the first error, and its allow-list flag bounds the bindings of every pass it ever runs.
  Memory: the deep copies of the API types have the content of the original and share nothing with it.

  \<^bold>\<open>Laws assumed of code that is not under src/\<close>, each a named predicate with an instance in
  Sample, Acting_Cluster or Deep_Copies:
  \<open>finalizer_laws\<close> and \<open>condition_laws\<close> (controller-runtime's and apimachinery's slices helpers),
  \<open>status_laws\<close> (a status write is answered with the status that was sent),
  \<open>working_server\<close> (the API server and GitLab answer writes and uncached reads by what they hold; only for coming up),
  \<open>binding_laws\<close> (a server is honest about the bindings it holds in its uncached list and its answers to writes; a
  cached read of a binding returns one of the name asked for, stale or not),
  \<open>library_laws\<close> (the copying methods of types of other modules are deep),
  \<open>retry_laws\<close> (\<open>RetryOnConflict\<close> only repeats the function it is given), \<open>update_laws\<close> (the API server
  answers an update with an object of the same name, spec and deletion state).

  \<^bold>\<open>Not modelled\<close>: log lines; the TOML text (a parameter; the document is modelled); HTTP below the
  SDK; PEM parsing (a parameter); the parsing of the command line and what controller-runtime does
  with a registered controller, an index or a check.
\<close>

section \<open>The two reconcilers\<close>

text \<open>One pass of the Runner reconciler (\<open>False\<close>) or of the MultiRunner reconciler (\<open>True\<close>).\<close>

definition Reconcile :: "bool \<Rightarrow> env \<Rightarrow> RunnerReconciler \<Rightarrow> NSName \<Rightarrow> (Result \<times> goerr option) go" where
  "Reconcile multi E R req =
     (if multi then MultiRunnerReconciler_Reconcile E R req else RunnerReconciler_Reconcile E R req)"

lemma Reconcile_fetch:
  obtains fetch where "fetch_spec multi fetch" and "Reconcile multi E R req = reconcile_with E R fetch req"
  using fetch_spec_SingleRunner fetch_spec_MultiRunner
  by (cases multi) (auto simp: Reconcile_def RunnerReconciler_Reconcile_def MultiRunnerReconciler_Reconcile_def)

lemma Reconcile_calls:
  assumes "update_laws E" and "retry_laws E" and "client_ok (rec_GitlabApiClient R)"
    and "new_events (Reconcile multi E R req) w = GetObject multi req (Inr x) # rest"
  shows "pass_calls E (rec_AllowedBuildNamespaces R) x rest"
proof -
  obtain fetch where f: "fetch_spec multi fetch" and R: "Reconcile multi E R req = reconcile_with E R fetch req"
    by (rule Reconcile_fetch)
  have "fetches fetch" using f by (simp add: fetch_spec_def)
  note spec = runs_pass [OF f runs_reconcile_object [OF assms(1-3) this]]
  show ?thesis using spec [of req w] assms(4) by (auto simp: runs_iff R)
qed

section \<open>What a pass may do\<close>

lemma pass_calls_binding:
  assumes "pass_calls E allowed x rest" and "CreateRoleBinding b r \<in> set rest"
  shows "\<not> IsBeingDeleted x \<and> HasFinalizer E x" and "wanted_binding x b"
    and "om_Namespace (rb_Meta b) \<in> set (build_namespace_keys x)"
    and "BuildNamespaceAllowed (om_Namespace (rb_Meta b)) (GetNamespace x) allowed"
proof -
  have x: "\<not> IsBeingDeleted x" "HasFinalizer E x" and b: "wanted_binding x b" and al: "all_allowed allowed x"
    using assms by (fastforce simp: pass_calls_def split: if_splits)+
  show "\<not> IsBeingDeleted x \<and> HasFinalizer E x" using x by simp
  show "wanted_binding x b" by (rule b)
  from b show "om_Namespace (rb_Meta b) \<in> set (build_namespace_keys x)"
    using pdbNamespaces_subset [of x]
    by (auto simp: wanted_binding_def DesiredBindings_iff base_binding_def grant_binding_def)
  with al show "BuildNamespaceAllowed (om_Namespace (rb_Meta b)) (GetNamespace x) allowed"
    by (simp add: all_allowed_def)
qed

text \<open>
  C1: containment. Every RoleBinding a pass creates is one the fetched object should have, in a
  namespace that is the object's own or on the operator's allow-list, and only for an object that has the
  finalizer and is not being deleted; whatever GitLab answers, and whatever the API server answers within
  \<open>update_laws\<close> (an updated object keeps its name, spec and deletion state).
\<close>

theorem pass_grants_only_permitted:
  assumes "update_laws E" and "retry_laws E" and "client_ok (rec_GitlabApiClient R)"
    and "new_events (Reconcile multi E R req) w = GetObject multi req (Inr x) # rest"
    and "CreateRoleBinding b r \<in> set rest"
  shows "\<not> IsBeingDeleted x \<and> HasFinalizer E x \<and> wanted_binding x b \<and>
    BuildNamespaceAllowed (om_Namespace (rb_Meta b)) (GetNamespace x) (rec_AllowedBuildNamespaces R)"
  using pass_calls_binding [OF Reconcile_calls [OF assms(1-4)] assms(5)] by simp

abbreviation builder_req :: NSName where
  "builder_req \<equiv> nsname ''ci'' ''builder''"

theorem pass_grants_only_permitted_witness:
  "BuildNamespaceAllowed ''builds'' ''ci'' [''builds''] \<and>
   wanted_binding (RunnerObj (sample_runner own_token ''builds''))
     (desiredRoleBinding (RunnerObj (sample_runner own_token ''builds'')) ''builds'' ''gitlab-runner-builder'' executorClusterRoleName)"
proof -
  let ?r = "sample_runner own_token ''builds''" and ?x = "RunnerObj (sample_runner own_token ''builds'')"
  let ?b = "desiredRoleBinding ?x ''builds'' ''gitlab-runner-builder'' executorClusterRoleName"
  let ?m = "Reconcile False (no_toml ?r) sample_reconciler builder_req" and ?w = "sample_world ?x"
  have es: "new_events ?m ?w = GetObject False builder_req (Inr ?x) # tl (new_events ?m ?w)"
    and b: "CreateRoleBinding ?b None \<in> set (tl (new_events ?m ?w))"
    and n: "om_Namespace (rb_Meta ?b) = ''builds''" "GetNamespace ?x = ''ci''"
      "rec_AllowedBuildNamespaces sample_reconciler = [''builds'']" by code_simp+
  have "update_laws (no_toml ?r)" "retry_laws (no_toml ?r)" by (simp_all add: sample_defs)
  from pass_grants_only_permitted [OF this _ es b, unfolded n] show ?thesis by simp
qed





text \<open>
  C18: no registration without a finalizer. The only calls of a pass over an object that does not have
  the finalizer yet are the update that stores it and those of the status write; nothing is registered,
  written or granted in such a pass, so no GitLab runner comes into being for an object that could vanish
  without a clean-up.
\<close>

theorem finalizer_before_anything_else:
  assumes "update_laws E" and "retry_laws E" and "client_ok (rec_GitlabApiClient R)"
    and "new_events (Reconcile multi E R req) w = GetObject multi req (Inr x) # rest"
    and "\<not> IsBeingDeleted x" and "\<not> HasFinalizer E x" and "e \<in> set rest"
  shows "adds_finalizer E x e \<or> status_call e"
  using Reconcile_calls [OF assms(1-4)] assms(5-7) by (simp add: pass_calls_def)

definition bare_runner :: Runner where
  "bare_runner = (sample_runner managed_auth '''')\<lparr>res_Meta := (sample_meta ''builder'')\<lparr>om_Finalizers := []\<rparr>\<rparr>"

theorem finalizer_before_anything_else_witness:
  "adds_finalizer (no_toml bare_runner) (RunnerObj bare_runner)
     (UpdateObject (AddFinalizer (no_toml bare_runner) (RunnerObj bare_runner))
        (Inr (AddFinalizer (no_toml bare_runner) (RunnerObj bare_runner))))
   \<or> status_call (ReadClock 0)"
proof -
  let ?x = "RunnerObj bare_runner" and ?E = "no_toml bare_runner"
  let ?m = "Reconcile False ?E sample_reconciler builder_req" and ?w = "sample_world ?x"
  have es: "new_events ?m ?w = GetObject False builder_req (Inr ?x) # tl (new_events ?m ?w)"
    and d: "\<not> IsBeingDeleted ?x" "\<not> HasFinalizer ?E ?x"
    and e: "UpdateObject (AddFinalizer ?E ?x) (Inr (AddFinalizer ?E ?x)) \<in> set (tl (new_events ?m ?w))" by code_simp+
  have "update_laws ?E" "retry_laws ?E" by (simp_all add: sample_defs)
  from finalizer_before_anything_else [OF this _ es d e] show ?thesis by simp
qed

lemma gitlab_call_managed:
  "gitlab_call e \<Longrightarrow> pass_call allowed x e \<or> adds_finalizer E x e \<or> status_call e \<Longrightarrow> has_managed x"
  by (cases e) simp_all

text \<open>
  C22: a runner with a token of its own needs no GitLab access. When no unit of the object is managed,
  neither a provisioning pass nor a deletion pass makes a single call to GitLab.
\<close>

theorem provided_runner_needs_no_gitlab:
  assumes "update_laws E" and "retry_laws E" and "client_ok (rec_GitlabApiClient R)"
    and "new_events (Reconcile multi E R req) w = GetObject multi req (Inr x) # rest"
    and "\<forall>g \<in> set (RegistrationConfig x). \<not> IsManaged (Some (reg_Auth g))"
  shows "\<not> (\<exists>e \<in> set rest. gitlab_call e)"
proof -
  have "\<not> has_managed x" using assms(5) by (simp add: has_managed_def)
  moreover have "gitlab_call e \<longrightarrow> has_managed x" if "e \<in> set rest" for e
    using Reconcile_calls [OF assms(1-4)] that gitlab_call_managed [of e]
    by (auto simp: pass_calls_def split: if_splits)
  ultimately show ?thesis by blast
qed

theorem provided_runner_needs_no_gitlab_witness:
  "\<not> (\<exists>e \<in> set (tl (new_events (Reconcile False (no_toml (sample_runner own_token '''')) sample_reconciler builder_req)
       (sample_world own_runner))). gitlab_call e)"
proof -
  let ?r = "sample_runner own_token ''''"
  let ?m = "Reconcile False (no_toml ?r) sample_reconciler builder_req" and ?w = "sample_world own_runner"
  have es: "new_events ?m ?w = GetObject False builder_req (Inr own_runner) # tl (new_events ?m ?w)"
    and "list_all (\<lambda>g. \<not> IsManaged (Some (reg_Auth g))) (RegistrationConfig own_runner)" by code_simp+
  then have p: "\<forall>g \<in> set (RegistrationConfig own_runner). \<not> IsManaged (Some (reg_Auth g))"
    by (simp only: list_all_iff)
  have "update_laws (no_toml ?r)" "retry_laws (no_toml ?r)" by (simp_all add: sample_defs)
  from provided_runner_needs_no_gitlab [OF this _ es p] show ?thesis by simp
qed

section \<open>Order within a pass\<close>

text \<open>
  C2: a created GitLab runner is never lost. In every pass of either reconciler, the call right after
  a successful creation of a GitLab runner writes a status that records that runner's id, whatever
  happens later in the pass. Stated for the production client.
\<close>

theorem created_runner_recorded_at_once:
  assumes "retry_laws E" and "rec_GitlabApiClient R = None"
    and "new_events (Reconcile multi E R req) w = pre @ SdkCreateUserRunner g opts (Inr s) # post"
  shows "\<exists>y r rest name. post = UpdateObjectStatus y r # rest \<and> records y name (sdkr_ID s)"
proof -
  obtain fetch where f: "fetch_spec multi fetch" and R: "Reconcile multi E R req = reconcile_with E R fetch req"
    by (rule Reconcile_fetch)
  have "fetches fetch" using f by (simp add: fetch_spec_def)
  from persisted_pass.pass [OF assms(2,1) this, of req]
  have "persisted (new_events (Reconcile multi E R req) w)"
    unfolding R by (rule traces_new_events)
  then have "write_follows s post"
    unfolding assms(3) by (rule persisted_split)
  then show ?thesis
    by (auto simp: write_follows_def split: list.splits event.splits)
qed

definition managed_events :: "event list" where
  "managed_events = new_events (Reconcile False (no_toml (sample_runner managed_auth '''')) sample_reconciler builder_req)
     (sample_world own_runner)"

text \<open>The create options are hashed; the evaluation leaves the hash as it stands.\<close>

declare RunnerCreateOptions_Hash_def [code del]

lemma managed_creation:
  "2 < length managed_events \<and>
   managed_events ! 2 = SdkCreateUserRunner
     \<lparr>gc_Token = ''glpat-1'', gc_BaseURL = ''https://gitlab.example/'', gc_CA = ''''\<rparr>
     (sdk_create_options sample_options) (Inr \<lparr>sdkr_ID = 7, sdkr_Token = ''glrt-7'', sdkr_TokenExpiresAt = None\<rparr>)"
  by code_simp

declare RunnerCreateOptions_Hash_def [code]

theorem created_runner_recorded_at_once_witness:
  "\<exists>y r rest name. drop 3 managed_events = UpdateObjectStatus y r # rest \<and> records y name 7"
proof -
  let ?s = "\<lparr>sdkr_ID = 7, sdkr_Token = ''glrt-7'', sdkr_TokenExpiresAt = None\<rparr> :: SdkRunner"
  let ?e = "SdkCreateUserRunner \<lparr>gc_Token = ''glpat-1'', gc_BaseURL = ''https://gitlab.example/'', gc_CA = ''''\<rparr>
      (sdk_create_options sample_options) (Inr ?s)"
  have "managed_events = take 2 managed_events @ ?e # drop 3 managed_events"
    using id_take_nth_drop [of 2 managed_events] managed_creation by (simp add: eval_nat_numeral)
  then have es: "new_events (Reconcile False (no_toml (sample_runner managed_auth '''')) sample_reconciler builder_req)
      (sample_world own_runner) = take 2 managed_events @ ?e # drop 3 managed_events"
    unfolding managed_events_def .
  have "retry_laws (no_toml (sample_runner managed_auth ''''))" by (simp add: sample_defs)
  from created_runner_recorded_at_once [OF this sample_client es] show ?thesis by simp
qed

text \<open>
  C19: roles before bindings. In every pass, a RoleBinding is created only after the pass has seen, or
  made, the ClusterRole it refers to.
\<close>

theorem role_exists_before_binding:
  assumes "retry_laws E" and "rec_GitlabApiClient R = None"
    and "new_events (Reconcile multi E R req) w = pre @ CreateRoleBinding b r # post"
  shows "\<exists>e \<in> set pre. role_present (rr_Name (rb_RoleRef b)) e"
proof -
  obtain fetch where f: "fetch_spec multi fetch" and R: "Reconcile multi E R req = reconcile_with E R fetch req"
    by (rule Reconcile_fetch)
  have "fetches fetch" using f by (simp add: fetch_spec_def)
  from roles_pass.pass [OF assms(2,1) this, of req]
  have "roles_first (new_events (Reconcile multi E R req) w)"
    unfolding R by (rule traces_new_events)
  with assms(3) show ?thesis by (simp add: roles_first_def)
qed

definition granting_events :: "event list" where
  "granting_events = new_events (Reconcile False (no_toml (sample_runner own_token '''')) sample_reconciler builder_req)
     (sample_world own_runner)"

theorem role_exists_before_binding_witness:
  "\<exists>e \<in> set (take 9 granting_events). role_present executorClusterRoleName e"
proof -
  let ?b = "desiredRoleBinding own_runner ''ci'' ''gitlab-runner-builder'' executorClusterRoleName"
  have "9 < length granting_events" "granting_events ! 9 = CreateRoleBinding ?b None" by code_simp+
  then have "granting_events = take 9 granting_events @ CreateRoleBinding ?b None # drop (Suc 9) granting_events"
    using id_take_nth_drop [of 9 granting_events] by simp
  then have es: "new_events (Reconcile False (no_toml (sample_runner own_token '''')) sample_reconciler builder_req)
      (sample_world own_runner) = take 9 granting_events @ CreateRoleBinding ?b None # drop (Suc 9) granting_events"
    unfolding granting_events_def .
  have "retry_laws (no_toml (sample_runner own_token ''''))" by (simp add: sample_defs)
  from role_exists_before_binding [OF this sample_client es] show ?thesis by simp
qed

text \<open>
  C3: no grant outlives its permission. After a pass that reports no error over a live object with the
  finalizer, every RoleBinding on the server that carries the object's labels is in the object's own namespace or
  in one on the allow-list: the pass either provisions and prunes what is no longer wanted, or stops at a
  forbidden namespace and revokes the bindings in it. The server keeps state and answers its uncached list and the
  writes by it; the reads through the manager's cache may be as stale as they like.
\<close>

theorem no_grant_outlives_permission:
  assumes "binding_laws E s0" and "update_laws E" and "retry_laws E" and "client_ok (rec_GitlabApiClient R)"
    and "proper (held s0 w)" and "\<forall>ns \<in> set (build_namespace_keys x). CHR ''/'' \<notin> set ns"
    and "new_events (Reconcile multi E R req) w = GetObject multi req (Inr x) # rest"
    and "\<not> IsBeingDeleted x" and "HasFinalizer E x" and "snd (result (Reconcile multi E R req) w) = None"
  shows "granted_permitted (rec_AllowedBuildNamespaces R) x (held s0 (after (Reconcile multi E R req) w))"
proof -
  obtain fetch where f: "fetch_spec multi fetch" and R: "Reconcile multi E R req = reconcile_with E R fetch req"
    by (rule Reconcile_fetch)
  show ?thesis
    using pass_granted [OF assms(1-4) f assms(5), of req] assms(6-10)
    by (simp add: runs_iff R granted_after_def)
qed

text \<open>A runner whose entry names \<open>kube-system\<close>, with a binding there from before the policy was tightened.\<close>

definition intruder :: RunnerInfo where
  "intruder = RunnerObj (sample_runner own_token ''kube-system'')"

definition old_grants :: "RoleBinding list" where
  "old_grants = [desiredRoleBinding intruder ''kube-system'' ''gitlab-runner-builder'' executorClusterRoleName]"

definition tightened :: env where
  "tightened = serving (no_toml (sample_runner own_token ''kube-system'')) old_grants"

theorem no_grant_outlives_permission_witness:
  "granted_permitted [''builds''] intruder
     (held old_grants (after (Reconcile False tightened sample_reconciler builder_req) (sample_world intruder)))"
proof -
  let ?m = "Reconcile False tightened sample_reconciler builder_req" and ?w = "sample_world intruder"
  have es: "new_events ?m ?w = GetObject False builder_req (Inr intruder) # tl (new_events ?m ?w)"
    and r: "snd (result ?m ?w) = None" and d: "\<not> IsBeingDeleted intruder" "HasFinalizer tightened intruder"
    and n: "\<forall>ns \<in> set (build_namespace_keys intruder). CHR ''/'' \<notin> set ns"
    and p: "proper (held old_grants ?w)" and al: "rec_AllowedBuildNamespaces sample_reconciler = [''builds'']" by code_simp+
  have laws: "binding_laws tightened old_grants" "update_laws tightened" "retry_laws tightened"
    unfolding tightened_def by (simp_all add: serving_laws serving_keeps_laws sample_defs)
  from no_grant_outlives_permission [OF laws _ p n es d r, unfolded al] show ?thesis by simp
qed

section \<open>What Ready means\<close>



declare StringToSHA1_def [code del]
declare SystemID_def [code del]


declare StringToSHA1_def [code]
declare SystemID_def [code]


section \<open>From the flag to the grants\<close>

text \<open>
  C8: the flag bounds the grants. In a process started with \<open>--allowed-build-namespaces\<close>, whatever
  manager it runs on, no pass of either controller creates a RoleBinding outside the object's own namespace
  and the namespaces the flag lists, unless the flag lists \<open>*\<close>; with the empty flag none outside the
  object's own namespace.
\<close>

theorem flag_bounds_grants:
  assumes "CompleteController c R \<in> set (snd (run_state (operator_process M g fl) []))"
    and "update_laws E" and "retry_laws E"
    and "new_events (Reconcile (ctl_For c = ''MultiRunner'') E R req) w = GetObject (ctl_For c = ''MultiRunner'') req (Inr x) # rest"
    and "CreateRoleBinding b r \<in> set rest"
  shows "(om_Namespace (rb_Meta b) = GetNamespace x \<or>
      om_Namespace (rb_Meta b) \<in> set (splitAndTrim (fl_AllowedBuildNamespaces fl)) \<or>
      ''*'' \<in> set (splitAndTrim (fl_AllowedBuildNamespaces fl))) \<and>
    (fl_AllowedBuildNamespaces fl = '''' \<longrightarrow> om_Namespace (rb_Meta b) = GetNamespace x)"
proof -
  have R: "R = new_reconciler fl" by (rule controller_made [OF assms(1)])
  have "client_ok (rec_GitlabApiClient R)" by (simp add: R new_reconciler_def client_ok_def)
  note pass = pass_calls_binding [OF Reconcile_calls [OF assms(2,3) this assms(4)] assms(5)]
  have "om_Namespace (rb_Meta b) = GetNamespace x" if "om_Namespace (rb_Meta b) = ''''"
    using pass(3) that by (auto simp: build_namespace_keys_set entry_namespace_def EffectiveNamespace_eq split: if_splits)
  with pass(4) have "om_Namespace (rb_Meta b) = GetNamespace x \<or>
      om_Namespace (rb_Meta b) \<in> set (splitAndTrim (fl_AllowedBuildNamespaces fl)) \<or>
      ''*'' \<in> set (splitAndTrim (fl_AllowedBuildNamespaces fl))"
    by (auto simp: R new_reconciler_def BuildNamespaceAllowed_iff)
  moreover have "splitAndTrim '''' = []" by code_simp
  ultimately show ?thesis by auto
qed

theorem flag_bounds_grants_witness:
  "''builds'' = ''ci'' \<or> ''builds'' \<in> set (splitAndTrim ''builds'') \<or> ''*'' \<in> set (splitAndTrim ''builds'')"
proof -
  let ?fl = "default_flags\<lparr>fl_AllowedBuildNamespaces := ''builds''\<rparr>" and ?g = "\<lambda>os. None"
  let ?r = "sample_runner own_token ''builds''" and ?x = "RunnerObj (sample_runner own_token ''builds'')"
  let ?b = "desiredRoleBinding ?x ''builds'' ''gitlab-runner-builder'' executorClusterRoleName"
  let ?m = "Reconcile False (no_toml ?r) sample_reconciler builder_req" and ?w = "sample_world ?x"
  have "splitAndTrim ''builds'' = [''builds'']" by code_simp
  then have R: "new_reconciler ?fl = sample_reconciler"
    by (simp add: new_reconciler_def sample_reconciler_def)
  have c: "CompleteController runner_controller sample_reconciler \<in> set (snd (run_state (operator_process deposed ?g ?fl) []))"
    unfolding R [symmetric] by (simp add: operator_steps boot_sequence_def deposed_def)
  have k: "(ctl_For runner_controller = ''MultiRunner'') = False" by (simp add: runner_controller_def)
  have es: "new_events ?m ?w = GetObject False builder_req (Inr ?x) # tl (new_events ?m ?w)"
    and b: "CreateRoleBinding ?b None \<in> set (tl (new_events ?m ?w))"
    and n: "om_Namespace (rb_Meta ?b) = ''builds''" "GetNamespace ?x = ''ci''" by code_simp+
  have "update_laws (no_toml ?r)" "retry_laws (no_toml ?r)" by (simp_all add: sample_defs)
  from flag_bounds_grants [OF c this, unfolded k, OF es b, unfolded n] show ?thesis by simp
qed

section \<open>Coming up\<close>



section \<open>Passes that end early\<close>

text \<open>
  C35: an object that cannot be read is not touched. A pass whose read fails makes no further call;
  it reports success when the object does not exist any more and the error otherwise.
\<close>

theorem failed_read_ends_pass:
  assumes "if multi then api_GetMultiRunner E (trace w) req = Inl err else api_GetRunner E (trace w) req = Inl err"
  shows "new_events (Reconcile multi E R req) w = [GetObject multi req (Inl err)] \<and>
    result (Reconcile multi E R req) w = (Result_zero, if IsNotFound err then None else Some err)"
  using assms
  by (auto simp: Reconcile_def RunnerReconciler_Reconcile_def MultiRunnerReconciler_Reconcile_def reconcile_with_def
    SingleRunner_def MultiRunner_fetch_def call_defs new_events_def result_def after_def deref_result_def DontRequeue_def
    Result_zero_def IgnoreNotFound_def split: if_splits)

theorem failed_read_ends_pass_witness:
  "result (Reconcile True (sample_env\<lparr>api_GetMultiRunner := \<lambda>tr k. Inl not_found\<rparr>) sample_reconciler builder_req)
     (sample_world own_runner) = (Result_zero, None)"
proof -
  let ?E = "sample_env\<lparr>api_GetMultiRunner := \<lambda>tr k. Inl not_found\<rparr>"
  have "if True then api_GetMultiRunner ?E (trace (sample_world own_runner)) builder_req = Inl not_found
      else api_GetRunner ?E (trace (sample_world own_runner)) builder_req = Inl not_found" by simp
  from failed_read_ends_pass [OF this, of sample_reconciler] show ?thesis
    by (simp add: not_found_def IsNotFound_def)
qed

end
